(* ===== verification/Prelude.thy ===== *)
theory Prelude
  imports Main "HOL-Library.Word" "HOL-Library.Sublist"
begin

text \<open>
  Shared vocabulary of the ProntoChat development: the types of bytes and C strings, the
  lemma collections the component theories feed and use, and generic facts on lists,
  options and words.

  A C string is modelled by the list of its characters before the terminating zero byte,
  so a \<^typ>\<open>string\<close> that stands for one contains no zero character; where the source
  copies raw bytes into a buffer and terminates it, the model applies \<open>cstr\<close> of theory
  \<open>Libc\<close>. Binary buffers are lists of \<^typ>\<open>8 word\<close>.
\<close>

type_synonym byte = "8 word"
type_synonym bytes = "8 word list"

named_theorems libc_simps \<open>executable characterisations of the C library functions\<close>
named_theorems json_simps \<open>field extraction from the JSON texts the program emits\<close>
named_theorems wire_simps \<open>byte-level encoders and decoders\<close>
named_theorems reg_simps \<open>laws of the server's user registry\<close>
named_theorems srv_simps \<open>handlers of the control server\<close>
named_theorems ring_simps \<open>the ICE receive ring\<close>

section \<open>Lists\<close>

lemma takeWhile_id: "(\<And>x. x \<in> set xs \<Longrightarrow> P x) \<Longrightarrow> takeWhile P xs = xs"
  by (induction xs) auto

lemma dropWhile_none: "(\<And>x. x \<in> set xs \<Longrightarrow> \<not> P x) \<Longrightarrow> dropWhile P xs = xs"
  by (cases xs) auto

lemma takeWhile_stop:
  "(\<And>x. x \<in> set xs \<Longrightarrow> P x) \<Longrightarrow> \<not> P y \<Longrightarrow> takeWhile P (xs @ y # ys) = xs"
  by (induction xs) auto

lemma dropWhile_stop:
  "(\<And>x. x \<in> set xs \<Longrightarrow> P x) \<Longrightarrow> \<not> P y \<Longrightarrow> dropWhile P (xs @ y # ys) = y # ys"
  by (induction xs) auto

lemma nth_list_update_if:
  "i < length xs \<Longrightarrow> xs[i := v] ! j = (if i = j then v else xs ! j)"
  by (auto simp: nth_list_update)

lemma find_append:
  "List.find P (xs @ ys) = (case List.find P xs of None \<Rightarrow> List.find P ys | Some x \<Rightarrow> Some x)"
  by (induction xs) auto

lemma find_map:
  "List.find P (map f xs) = map_option f (List.find (P \<circ> f) xs)"
  by (induction xs) auto

section \<open>Words\<close>

lemma unat_byte_less: "unat (b :: byte) < 256"
  using unsigned_less [of b, where ?'a = nat] by simp

end
