(* ===== verification/Libc.thy ===== *)
theory Libc
  imports Prelude
begin

text \<open>
  The functions of the C standard library the program calls on strings, as the C standard
  describes them in the C locale: \<open>strstr\<close>, \<open>strchr\<close>, \<open>isalnum\<close>, \<open>isspace\<close>,
  the conversions of \<open>sscanf\<close> that occur in the program, \<open>fgets\<close> on a text file and
  \<open>snprintf\<close> into a bounded buffer.
\<close>

section \<open>Characters\<close>

definition char_code :: "char \<Rightarrow> nat" where
  "char_code c = of_char c"

definition byte_of_char :: "char \<Rightarrow> byte" where
  "byte_of_char c = word_of_nat (of_char c)"

definition char_of_byte :: "byte \<Rightarrow> char" where
  "char_of_byte b = char_of (unat b)"

definition nul :: char where
  "nul = CHR 0x00"

definition newline :: char where
  "newline = CHR 0x0A"

definition is_alnum :: "char \<Rightarrow> bool" where
  "is_alnum c \<longleftrightarrow> (let n = char_code c in
     (48 \<le> n \<and> n \<le> 57) \<or> (65 \<le> n \<and> n \<le> 90) \<or> (97 \<le> n \<and> n \<le> 122))"

definition is_space :: "char \<Rightarrow> bool" where
  "is_space c \<longleftrightarrow> (let n = char_code c in n = 32 \<or> (9 \<le> n \<and> n \<le> 13))"

lemma char_code_less: "char_code c < 256"
  by (simp add: char_code_def)

lemma char_of_byte_of_char [simp]: "char_of_byte (byte_of_char c) = c"
proof -
  have "unat (word_of_nat (of_char c) :: byte) = of_char c"
    using char_code_less [of c] by (simp add: char_code_def unat_of_nat)
  then show ?thesis by (simp add: char_of_byte_def byte_of_char_def)
qed

lemma byte_of_char_of_byte [simp]: "byte_of_char (char_of_byte b) = b"
  using unat_byte_less [of b] by (simp add: char_of_byte_def byte_of_char_def)

section \<open>Strings\<close>

text \<open>The C string held by a buffer: everything before its first zero byte.\<close>

definition cstr :: "string \<Rightarrow> string" where
  "cstr buf = takeWhile (\<lambda>c. c \<noteq> nul) buf"

text \<open>\<open>strstr\<close> returns the suffix that starts at the first occurrence of the pattern.\<close>

fun strstr :: "string \<Rightarrow> string \<Rightarrow> string option" where
  "strstr s pat =
     (if prefix pat s then Some s
      else case s of [] \<Rightarrow> None | _ # cs \<Rightarrow> strstr cs pat)"

declare strstr.simps [simp del]

text \<open>
  \<open>snprintf (buf, size, fmt, ...)\<close> stores at most \<open>size - 1\<close> characters of the formatted
  text and returns the length of the whole text. Every call of the program tests the
  returned length against the size: \<open>snprintf_fits\<close> is the test that it passes.
\<close>

definition snprintf_store :: "nat \<Rightarrow> string \<Rightarrow> string" where
  "snprintf_store sz text = take (sz - 1) text"

definition snprintf_fits :: "nat \<Rightarrow> string \<Rightarrow> bool" where
  "snprintf_fits sz text \<longleftrightarrow> length text < sz"

lemma snprintf_store_fits: "snprintf_fits sz text \<Longrightarrow> snprintf_store sz text = text"
  by (simp add: snprintf_store_def snprintf_fits_def)

lemma cstr_id: "nul \<notin> set s \<Longrightarrow> cstr s = s"
  unfolding cstr_def by (rule takeWhile_id) auto

lemma strstr_Nil [libc_simps]: "strstr [] pat = (if pat = [] then Some [] else None)"
  by (subst strstr.simps) auto

lemma strstr_Cons [libc_simps]:
  "strstr (c # cs) pat = (if prefix pat (c # cs) then Some (c # cs) else strstr cs pat)"
  by (subst strstr.simps) simp

text \<open>The result of \<open>strstr\<close> is a suffix of the text that starts with the pattern, and there
  is no earlier one.\<close>

lemma strstr_SomeD:
  "strstr s pat = Some t \<Longrightarrow> \<exists>u. s = u @ t \<and> prefix pat t \<and>
     (\<forall>v w. s = v @ w \<longrightarrow> length v < length u \<longrightarrow> \<not> prefix pat w)"
proof (induction s)
  case Nil
  then show ?case by (auto simp: strstr_Nil split: if_splits)
next
  case (Cons c cs)
  show ?case
  proof (cases "prefix pat (c # cs)")
    case True
    with Cons.prems show ?thesis by (auto simp: strstr_Cons)
  next
    case False
    with Cons.prems have "strstr cs pat = Some t" by (simp add: strstr_Cons)
    then obtain u where u: "cs = u @ t" "prefix pat t"
      "\<forall>v w. cs = v @ w \<longrightarrow> length v < length u \<longrightarrow> \<not> prefix pat w"
      using Cons.IH by blast
    have "\<not> prefix pat w" if "c # cs = v @ w" "length v < length (c # u)" for v w
      using that False u(3) by (cases v) auto
    with u(1,2) show ?thesis by (intro exI [of _ "c # u"]) auto
  qed
qed

lemma strstr_NoneD: "strstr (u @ t) pat = None \<Longrightarrow> \<not> prefix pat t"
proof (induction u)
  case Nil
  then show ?case by (auto simp: strstr.simps [of t] split: if_splits)
next
  case (Cons a u)
  then show ?case by (simp add: strstr_Cons split: if_splits)
qed

section \<open>Formatted input\<close>

text \<open>\<open>%Ns\<close> skips white space and reads up to \<open>N\<close> characters other than white space; it
  fails when there is none.\<close>

definition scan_ws :: "string \<Rightarrow> string" where
  "scan_ws s = dropWhile is_space s"

definition scan_word :: "nat \<Rightarrow> string \<Rightarrow> (string \<times> string) option" where
  "scan_word n s =
     (let t = scan_ws s; w = take n (takeWhile (\<lambda>c. \<not> is_space c) t)
      in if w = [] then None else Some (w, drop (length w) t))"

section \<open>Text files\<close>

text \<open>\<open>fgets (buf, size, file)\<close> returns the next at most \<open>size - 1\<close> characters, up to and
  including a newline. The file is the text that remains to be read.\<close>

definition fgets :: "nat \<Rightarrow> string \<Rightarrow> (string \<times> string) option" where
  "fgets sz file =
     (if file = [] then None
      else let l = takeWhile (\<lambda>c. c \<noteq> CHR 0x0A) file;
               whole = (if length l < length file then l @ [CHR 0x0A] else l);
               buf = take (sz - 1) whole
           in Some (buf, drop (length buf) file))"

lemma fgets_progress: "1 < sz \<Longrightarrow> fgets sz file = Some (buf, rest) \<Longrightarrow> length rest < length file"
  by (cases "file") (auto simp: fgets_def Let_def split: if_splits)

section \<open>Numbers\<close>

definition is_digit :: "char \<Rightarrow> bool" where
  "is_digit c \<longleftrightarrow> 48 \<le> char_code c \<and> char_code c \<le> 57"

definition digits_value :: "string \<Rightarrow> nat" where
  "digits_value ds = foldl (\<lambda>n c. 10 * n + (char_code c - 48)) 0 ds"

text \<open>The subject sequence of \<open>strtol\<close> and \<open>strtoul\<close> in base ten: white space, an optional
  sign, digits. The result is the sign, the digits and the text after them.\<close>

definition scan_number :: "string \<Rightarrow> bool \<times> string \<times> string" where
  "scan_number s =
     (let t = scan_ws s;
          neg = (t \<noteq> [] \<and> hd t = CHR ''-'');
          t' = (if t \<noteq> [] \<and> (hd t = CHR ''-'' \<or> hd t = CHR ''+'') then tl t else t);
          ds = takeWhile is_digit t'
      in (neg, ds, drop (length ds) t'))"

text \<open>\<open>strtol\<close> saturates at the ends of a 64-bit \<open>long\<close>; \<open>atoi\<close> converts the result to a
  32-bit \<open>int\<close>, as the C library of the target systems does.\<close>

definition strtol10 :: "string \<Rightarrow> int" where
  "strtol10 s =
     (let (neg, ds, rest) = scan_number s; v = int (digits_value ds)
      in max (- (2 ^ 63)) (min (2 ^ 63 - 1) (if neg then - v else v)))"

definition atoi :: "string \<Rightarrow> int" where
  "atoi s = sint (word_of_int (strtol10 s) :: 32 word)"

text \<open>\<open>strtoul\<close> with an end pointer: the value, whether it was out of range, and the rest of
  the text, which is the whole text when there is no digit. A minus sign negates in the
  64-bit range.\<close>

definition strtoul10 :: "string \<Rightarrow> nat \<times> bool \<times> string" where
  "strtoul10 s =
     (let (neg, ds, rest) = scan_number s; v = digits_value ds
      in if ds = [] then (0, False, s)
         else if v \<ge> 2 ^ 64 then (2 ^ 64 - 1, True, rest)
         else (if neg then (2 ^ 64 - v) mod 2 ^ 64 else v, False, rest))"

end
