(* ===== verification/Protocole.thy ===== *)
theory Protocole
  imports Libc
begin

text \<open>
  \<open>common/protocole.h\<close> and \<open>common/protocole.c\<close>: usernames, and the six-byte header of the
  packets two daemons exchange over ICE. A C enumeration value that the code casts from and
  to an integer (the packet type) is kept as a word; pointers the code tests against
  \<open>NULL\<close> are options.
\<close>

unbundle bit_operations_syntax

section \<open>Constants and types\<close>

definition CHAT_PROTOCOL_VERSION :: byte where "CHAT_PROTOCOL_VERSION = 1"
definition CHAT_PACKET_HEADER_SIZE :: nat where "CHAT_PACKET_HEADER_SIZE = 6"
definition CHAT_MAX_MESSAGE_SIZE :: nat where "CHAT_MAX_MESSAGE_SIZE = 64 * 1024"
definition CHAT_USERNAME_MIN_LEN :: nat where "CHAT_USERNAME_MIN_LEN = 3"
definition CHAT_USERNAME_MAX_LEN :: nat where "CHAT_USERNAME_MAX_LEN = 32"

type_synonym chat_packet_type_t = "32 word"

definition CHAT_PKT_HANDSHAKE :: chat_packet_type_t where "CHAT_PKT_HANDSHAKE = 1"
definition CHAT_PKT_STREAM_HEADER :: chat_packet_type_t where "CHAT_PKT_STREAM_HEADER = 2"
definition CHAT_PKT_MESSAGE :: chat_packet_type_t where "CHAT_PKT_MESSAGE = 3"
definition CHAT_PKT_CLOSE :: chat_packet_type_t where "CHAT_PKT_CLOSE = 4"
definition CHAT_PKT_PING :: chat_packet_type_t where "CHAT_PKT_PING = 5"
definition CHAT_PKT_PONG :: chat_packet_type_t where "CHAT_PKT_PONG = 6"

datatype chat_exit_code_t =
    CHAT_EXIT_SUCCESS
  | CHAT_EXIT_GENERIC_ERROR
  | CHAT_EXIT_USER_OFFLINE
  | CHAT_EXIT_CONNECTION_FAILED
  | CHAT_EXIT_IDENTITY_MISMATCH
  | CHAT_EXIT_DAEMON_UNAVAILABLE
  | CHAT_EXIT_AUTHENTICATION_FAILED

datatype chat_protocol_result_t =
    CHAT_PROTOCOL_OK
  | CHAT_PROTOCOL_ERR_NULL
  | CHAT_PROTOCOL_ERR_SHORT_BUFFER
  | CHAT_PROTOCOL_ERR_BAD_VERSION
  | CHAT_PROTOCOL_ERR_BAD_TYPE
  | CHAT_PROTOCOL_ERR_TOO_LARGE
  | CHAT_PROTOCOL_ERR_TRUNCATED

record chat_packet_header_t =
  hdr_version :: byte
  hdr_type :: chat_packet_type_t
  hdr_length :: "32 word"

lemmas protocole_consts [simp] =
  CHAT_PROTOCOL_VERSION_def CHAT_PACKET_HEADER_SIZE_def CHAT_MAX_MESSAGE_SIZE_def
  CHAT_USERNAME_MIN_LEN_def CHAT_USERNAME_MAX_LEN_def

lemmas packet_types =
  CHAT_PKT_HANDSHAKE_def CHAT_PKT_STREAM_HEADER_def CHAT_PKT_MESSAGE_def
  CHAT_PKT_CLOSE_def CHAT_PKT_PING_def CHAT_PKT_PONG_def

section \<open>Operations\<close>

definition chat_packet_type_is_valid :: "byte \<Rightarrow> bool" where
  "chat_packet_type_is_valid ty \<longleftrightarrow>
     ty \<ge> ucast CHAT_PKT_HANDSHAKE \<and> ty \<le> ucast CHAT_PKT_PONG"

definition chat_write_u32_be :: "32 word \<Rightarrow> bytes" where
  "chat_write_u32_be v =
     [ucast (drop_bit 24 v AND 0xFF), ucast (drop_bit 16 v AND 0xFF),
      ucast (drop_bit 8 v AND 0xFF), ucast (v AND 0xFF)]"

definition chat_read_u32_be :: "bytes \<Rightarrow> 32 word" where
  "chat_read_u32_be b =
     push_bit 24 (ucast (b ! 0)) OR push_bit 16 (ucast (b ! 1))
       OR push_bit 8 (ucast (b ! 2)) OR ucast (b ! 3)"

definition username_char_ok :: "char \<Rightarrow> bool" where
  "username_char_ok ch \<longleftrightarrow> is_alnum ch \<or> ch = CHR ''_'' \<or> ch = CHR ''-''"

definition chat_username_is_valid :: "string option \<Rightarrow> bool" where
  "chat_username_is_valid username =
     (case username of
        None \<Rightarrow> False
      | Some u \<Rightarrow>
          (let len = length u in
           if len < CHAT_USERNAME_MIN_LEN \<or> len > CHAT_USERNAME_MAX_LEN then False
           else list_all username_char_ok u))"

abbreviation valid_username :: "string \<Rightarrow> bool" where
  "valid_username u \<equiv> chat_username_is_valid (Some u)"

fun chat_protocol_result_name :: "chat_protocol_result_t \<Rightarrow> string" where
  "chat_protocol_result_name CHAT_PROTOCOL_OK = ''ok''"
| "chat_protocol_result_name CHAT_PROTOCOL_ERR_NULL = ''null pointer''"
| "chat_protocol_result_name CHAT_PROTOCOL_ERR_SHORT_BUFFER = ''short buffer''"
| "chat_protocol_result_name CHAT_PROTOCOL_ERR_BAD_VERSION = ''bad version''"
| "chat_protocol_result_name CHAT_PROTOCOL_ERR_BAD_TYPE = ''bad packet type''"
| "chat_protocol_result_name CHAT_PROTOCOL_ERR_TOO_LARGE = ''payload too large''"
| "chat_protocol_result_name CHAT_PROTOCOL_ERR_TRUNCATED = ''truncated packet''"

text \<open>The out buffer is passed in and returned; the header overwrites its first six bytes.\<close>

definition chat_packet_encode_header ::
  "chat_packet_type_t \<Rightarrow> 32 word \<Rightarrow> bytes option \<Rightarrow> chat_protocol_result_t \<times> bytes option" where
  "chat_packet_encode_header ty payload_len out =
     (case out of
        None \<Rightarrow> (CHAT_PROTOCOL_ERR_NULL, None)
      | Some buf \<Rightarrow>
          if \<not> chat_packet_type_is_valid (ucast ty) then (CHAT_PROTOCOL_ERR_BAD_TYPE, out)
          else if unat payload_len > CHAT_MAX_MESSAGE_SIZE then (CHAT_PROTOCOL_ERR_TOO_LARGE, out)
          else (CHAT_PROTOCOL_OK,
                Some (CHAT_PROTOCOL_VERSION # ucast ty # chat_write_u32_be payload_len
                      @ drop CHAT_PACKET_HEADER_SIZE buf)))"

text \<open>\<open>buffer\<close> holds exactly the \<open>buffer_len\<close> bytes the caller passes; the header is written
  to the out parameter in the last branch only.\<close>

definition chat_packet_decode_header ::
  "bytes option \<Rightarrow> chat_packet_header_t option \<Rightarrow>
     chat_protocol_result_t \<times> chat_packet_header_t option" where
  "chat_packet_decode_header buffer out =
     (case (buffer, out) of
        (Some buf, Some hdr) \<Rightarrow>
          (let buffer_len = length buf in
           if buffer_len < CHAT_PACKET_HEADER_SIZE then (CHAT_PROTOCOL_ERR_SHORT_BUFFER, out)
           else if buf ! 0 \<noteq> CHAT_PROTOCOL_VERSION then (CHAT_PROTOCOL_ERR_BAD_VERSION, out)
           else if \<not> chat_packet_type_is_valid (buf ! 1) then (CHAT_PROTOCOL_ERR_BAD_TYPE, out)
           else
             (let len = chat_read_u32_be (drop 2 buf) in
              if unat len > CHAT_MAX_MESSAGE_SIZE then (CHAT_PROTOCOL_ERR_TOO_LARGE, out)
              else if buffer_len > CHAT_PACKET_HEADER_SIZE
                      \<and> buffer_len < CHAT_PACKET_HEADER_SIZE + unat len
                then (CHAT_PROTOCOL_ERR_TRUNCATED, out)
              else (CHAT_PROTOCOL_OK,
                    Some (hdr\<lparr>hdr_version := buf ! 0, hdr_type := ucast (buf ! 1),
                              hdr_length := len\<rparr>))))
      | _ \<Rightarrow> (CHAT_PROTOCOL_ERR_NULL, out))"

section \<open>Big-endian lengths\<close>

lemma length_write_u32 [simp]: "length (chat_write_u32_be v) = 4"
  by (simp add: chat_write_u32_be_def)

lemma byte_mask: "(0xFF :: 32 word) = mask 8"
  by (simp add: mask_eq_exp_minus_1)

lemma bit_byte_high: "8 \<le> n \<Longrightarrow> \<not> bit (b :: byte) n"
  using bit_imp_le_length [of b n] by auto

lemma bit_shifted_byte:
  "bit (push_bit k (ucast (b :: byte)) :: 32 word) n \<longleftrightarrow> k \<le> n \<and> n < 32 \<and> n - k < 8 \<and> bit b (n - k)"
  using bit_byte_high [of "n - k" b] by (cases "n - k < 8") (auto simp: bit_simps)

lemma bit_low_byte_0:
  "bit (ucast (v AND 0xFF) :: byte) n \<longleftrightarrow> n < 8 \<and> bit (v :: 32 word) n"
  unfolding byte_mask by (auto simp: bit_simps)

lemma bit_read_u32:
  "bit (chat_read_u32_be (b0 # b1 # b2 # b3 # r)) n \<longleftrightarrow>
     (if n < 8 then bit b3 n else if n < 16 then bit b2 (n - 8)
      else if n < 24 then bit b1 (n - 16) else n < 32 \<and> bit b0 (n - 24))"
proof -
  have low: "bit (ucast b3 :: 32 word) n \<longleftrightarrow> n < 8 \<and> bit b3 n"
    using bit_shifted_byte [of 0 b3 n] by auto
  show ?thesis
    unfolding chat_read_u32_be_def
    by (simp add: bit_or_iff bit_shifted_byte low) (use bit_byte_high in auto)
qed

lemma read_write_u32 [wire_simps]: "chat_read_u32_be (chat_write_u32_be v @ rest) = v"
proof (rule bit_word_eqI)
  fix n assume "n < LENGTH(32)"
  then show "bit (chat_read_u32_be (chat_write_u32_be v @ rest)) n \<longleftrightarrow> bit v n"
    by (auto simp: chat_write_u32_be_def bit_read_u32 bit_low_byte_0 bit_drop_bit_eq)
qed

lemma write_read_u32 [wire_simps]:
  assumes "4 \<le> length b"
  shows "chat_write_u32_be (chat_read_u32_be b) = take 4 b"
proof -
  obtain b0 b1 b2 b3 r where b: "b = b0 # b1 # b2 # b3 # r"
    using assms by (auto simp: numeral_eq_Suc Suc_le_length_iff)
  show ?thesis
    unfolding chat_write_u32_be_def b
    by (auto simp: bit_low_byte_0 bit_drop_bit_eq bit_read_u32 intro!: bit_word_eqI)
qed

lemma packet_type_valid_iff: "chat_packet_type_is_valid b \<longleftrightarrow> 1 \<le> unat b \<and> unat b \<le> 6"
  by (simp add: chat_packet_type_is_valid_def packet_types word_le_nat_alt)

section \<open>Usernames\<close>

lemma valid_username_iff:
  "valid_username u \<longleftrightarrow> 3 \<le> length u \<and> length u \<le> 32 \<and> (\<forall>c \<in> set u. username_char_ok c)"
  by (auto simp: chat_username_is_valid_def Let_def list_all_iff)

lemma valid_username_chars: "valid_username u \<Longrightarrow> c \<in> set u \<Longrightarrow> username_char_ok c"
  by (simp add: valid_username_iff)

text \<open>A username contains none of the characters the line and JSON formats give a meaning.\<close>

lemma username_char_ok_plain:
  assumes "username_char_ok c"
  shows "c \<noteq> CHR 0x22 \<and> c \<noteq> CHR 0x5C \<and> c \<noteq> nul \<and> \<not> is_space c \<and> 32 \<le> char_code c"
  using assms
  by (auto simp: username_char_ok_def is_alnum_def is_space_def char_code_def nul_def Let_def)

section \<open>Packet headers\<close>

lemma ucast_ucast_byte: "ucast (ucast (b :: byte) :: 32 word) = b"
  using bit_byte_high by (auto simp: bit_simps intro!: bit_word_eqI)

lemma list6_cases:
  assumes "6 \<le> length b"
  obtains b0 b1 b2 b3 b4 b5 r where "b = b0 # b1 # b2 # b3 # b4 # b5 # r"
  using assms by (auto simp: numeral_eq_Suc Suc_le_length_iff)

lemma encode_header_OK:
  "chat_packet_encode_header ty len (Some buf) = (CHAT_PROTOCOL_OK, res) \<longleftrightarrow>
     chat_packet_type_is_valid (ucast ty) \<and> unat len \<le> 65536
     \<and> res = Some (1 # ucast ty # chat_write_u32_be len @ drop 6 buf)"
  by (auto simp: chat_packet_encode_header_def)

lemma decode_header_OK:
  "chat_packet_decode_header (Some b) (Some h) = (CHAT_PROTOCOL_OK, Some h') \<longleftrightarrow>
     6 \<le> length b \<and> b ! 0 = 1 \<and> chat_packet_type_is_valid (b ! 1)
     \<and> unat (chat_read_u32_be (drop 2 b)) \<le> 65536
     \<and> (length b = 6 \<or> 6 + unat (chat_read_u32_be (drop 2 b)) \<le> length b)
     \<and> h' = h\<lparr>hdr_version := 1, hdr_type := ucast (b ! 1),
                hdr_length := chat_read_u32_be (drop 2 b)\<rparr>"
  by (auto simp: chat_packet_decode_header_def Let_def)

text \<open>
  C27. Header round trip: whenever the encoder accepts a packet type and a payload length, a
  receiver that gets the six header bytes followed by a payload of that length decodes the
  protocol version, the type byte and the length that were encoded, whatever the out
  parameters held before.
\<close>

theorem packet_header_roundtrip:
  assumes "chat_packet_encode_header ty len (Some buf) = (CHAT_PROTOCOL_OK, Some pkt)"
    and "length payload = unat len"
  shows "chat_packet_decode_header (Some (take CHAT_PACKET_HEADER_SIZE pkt @ payload)) (Some h) =
           (CHAT_PROTOCOL_OK,
            Some (h\<lparr>hdr_version := CHAT_PROTOCOL_VERSION, hdr_type := ucast (ucast ty :: byte),
                     hdr_length := len\<rparr>))"
proof -
  have pkt: "take 6 pkt @ payload = 1 # ucast ty # chat_write_u32_be len @ payload"
    and "chat_packet_type_is_valid (ucast ty)" "unat len \<le> 65536"
    using assms(1) by (auto simp: encode_header_OK)
  then show ?thesis
    using assms(2) by (simp add: decode_header_OK read_write_u32)
qed

theorem packet_header_roundtrip_witness:
  "chat_packet_encode_header CHAT_PKT_MESSAGE 2 (Some [0, 0, 0, 0, 0, 0, 9]) =
     (CHAT_PROTOCOL_OK, Some [1, 3, 0, 0, 0, 2, 9]) \<and>
   chat_packet_decode_header (Some [1, 3, 0, 0, 0, 2, 65, 66])
     (Some \<lparr>hdr_version = 0, hdr_type = 0, hdr_length = 0\<rparr>) =
     (CHAT_PROTOCOL_OK, Some \<lparr>hdr_version = 1, hdr_type = 3, hdr_length = 2\<rparr>)"
proof -
  have e: "chat_packet_encode_header CHAT_PKT_MESSAGE 2 (Some [0, 0, 0, 0, 0, 0, 9]) =
     (CHAT_PROTOCOL_OK, Some [1, 3, 0, 0, 0, 2, 9])"
    by (simp add: chat_packet_encode_header_def chat_packet_type_is_valid_def packet_types
        chat_write_u32_be_def)
  show ?thesis
    using e packet_header_roundtrip [OF e, of "[65, 66]" "\<lparr>hdr_version = 0, hdr_type = 0, hdr_length = 0\<rparr>"]
    by (simp add: packet_types)
qed

text \<open>
  The decoder accepts exactly the well-formed buffers: version 1, a type from 1 to 6, a
  big-endian length of at most 64 KiB, and either a bare header or at least the announced
  payload.
\<close>

theorem decode_header_exact:
  "fst (chat_packet_decode_header (Some b) (Some h)) = CHAT_PROTOCOL_OK \<longleftrightarrow>
     6 \<le> length b \<and> b ! 0 = 1 \<and> 1 \<le> unat (b ! 1) \<and> unat (b ! 1) \<le> 6
     \<and> unat (chat_read_u32_be (drop 2 b)) \<le> 65536
     \<and> (length b = 6 \<or> 6 + unat (chat_read_u32_be (drop 2 b)) \<le> length b)"
  by (auto simp: chat_packet_decode_header_def Let_def packet_type_valid_iff)

text \<open>
  Headers are canonical: encoding the type and the length of an accepted packet gives
  its first six bytes back, so no two different headers decode to the same fields.
\<close>

theorem decode_header_canonical:
  assumes "chat_packet_decode_header (Some b) (Some h) = (CHAT_PROTOCOL_OK, Some h')"
  shows "chat_packet_encode_header (hdr_type h') (hdr_length h') (Some buf) =
           (CHAT_PROTOCOL_OK, Some (take 6 b @ drop 6 buf))"
proof -
  note c = assms [unfolded decode_header_OK]
  obtain b0 b1 b2 b3 b4 b5 r where b: "b = b0 # b1 # b2 # b3 # b4 # b5 # r"
    using c list6_cases by blast
  have w: "chat_write_u32_be (chat_read_u32_be (drop 2 b)) = [b2, b3, b4, b5]"
    using write_read_u32 [of "drop 2 b"] by (simp add: b)
  show ?thesis
    unfolding encode_header_OK using c w by (simp add: b ucast_ucast_byte)
qed

theorem decode_header_canonical_witness:
  "chat_packet_encode_header 4 17 (Some [0, 0, 0, 0, 0, 0]) =
     (CHAT_PROTOCOL_OK, Some [1, 4, 0, 0, 0, 17])"
proof -
  have "chat_packet_decode_header (Some [1, 4, 0, 0, 0, 17])
          (Some \<lparr>hdr_version = 0, hdr_type = 0, hdr_length = 0\<rparr>) =
        (CHAT_PROTOCOL_OK, Some \<lparr>hdr_version = 1, hdr_type = 4, hdr_length = 17\<rparr>)"
    by (simp add: chat_packet_decode_header_def chat_packet_type_is_valid_def packet_types
        chat_read_u32_be_def)
  from decode_header_canonical [OF this, of "[0, 0, 0, 0, 0, 0]"] show ?thesis by simp
qed

end
