(* ===== verification/Users.thy ===== *)
theory Users
  imports Protocole
begin

text \<open>
  \<open>server/users.h\<close> and \<open>server/users.c\<close>: the control server's registry. As in the source it
  is an array of \<open>CHAT_SERVER_MAX_USERS\<close> slots of which the first \<open>count\<close> are in use;
  slots past \<open>count\<close> hold whatever was there before. A pointer into the array is an index;
  a websocket or a session pointer is an address (a natural number) or \<open>None\<close> for
  \<open>NULL\<close>.
\<close>

section \<open>State\<close>

definition CHAT_SERVER_MAX_USERS :: nat where "CHAT_SERVER_MAX_USERS = 256"

datatype chat_server_users_result_t =
    CHAT_SERVER_USERS_OK
  | CHAT_SERVER_USERS_ERR_INVALID
  | CHAT_SERVER_USERS_ERR_FULL
  | CHAT_SERVER_USERS_ERR_EXISTS
  | CHAT_SERVER_USERS_ERR_NOT_FOUND

record chat_server_user_t =
  su_username :: string
  su_identity_pk :: bytes
  su_wsi :: "nat option"
  su_session :: "nat option"
  su_online :: bool

record chat_server_users_t =
  reg_users :: "chat_server_user_t list"
  reg_count :: nat

section \<open>Operations\<close>

definition chat_server_users_init :: "chat_server_users_t \<Rightarrow> chat_server_users_t" where
  "chat_server_users_init r = r\<lparr>reg_count := 0\<rparr>"

text \<open>The loop of \<open>chat_server_users_find\<close> and \<open>chat_server_users_find_mut\<close> from index \<open>i\<close>.\<close>

function users_find_loop :: "chat_server_users_t \<Rightarrow> string \<Rightarrow> nat \<Rightarrow> nat option" where
  "users_find_loop r username i =
     (if i < reg_count r then
        if su_username (reg_users r ! i) = username then Some i
        else users_find_loop r username (Suc i)
      else None)"
  by pat_completeness auto
termination
  by (relation "measure (\<lambda>(r, u, i). reg_count r - i)") auto

declare users_find_loop.simps [simp del]

definition chat_server_users_find_mut :: "chat_server_users_t \<Rightarrow> string option \<Rightarrow> nat option" where
  "chat_server_users_find_mut r username =
     (case username of None \<Rightarrow> None | Some u \<Rightarrow> users_find_loop r u 0)"

definition chat_server_users_find ::
  "chat_server_users_t \<Rightarrow> string option \<Rightarrow> chat_server_user_t option" where
  "chat_server_users_find r username =
     (case username of
        None \<Rightarrow> None
      | Some u \<Rightarrow> map_option (\<lambda>i. reg_users r ! i) (users_find_loop r u 0))"

text \<open>\<open>snprintf\<close> truncates the stored name to the 33-byte field.\<close>

definition chat_server_users_register ::
  "chat_server_users_t \<Rightarrow> string option \<Rightarrow> bytes option
     \<Rightarrow> chat_server_users_result_t \<times> chat_server_users_t" where
  "chat_server_users_register r username identity_pk =
     (case (username, identity_pk) of
        (Some u, Some pk) \<Rightarrow>
          if \<not> chat_username_is_valid username then (CHAT_SERVER_USERS_ERR_INVALID, r)
          else if reg_count r \<ge> CHAT_SERVER_MAX_USERS then (CHAT_SERVER_USERS_ERR_FULL, r)
          else if chat_server_users_find r username \<noteq> None then (CHAT_SERVER_USERS_ERR_EXISTS, r)
          else
            (let user = \<lparr>su_username = snprintf_store (CHAT_USERNAME_MAX_LEN + 1) u,
                         su_identity_pk = pk, su_wsi = None, su_session = None,
                         su_online = False\<rparr>
             in (CHAT_SERVER_USERS_OK,
                 r\<lparr>reg_users := (reg_users r)[reg_count r := user],
                   reg_count := Suc (reg_count r)\<rparr>))
      | _ \<Rightarrow> (CHAT_SERVER_USERS_ERR_INVALID, r))"

definition chat_server_users_set_online ::
  "chat_server_users_t \<Rightarrow> string option \<Rightarrow> nat option \<Rightarrow> nat option
     \<Rightarrow> chat_server_users_result_t \<times> chat_server_users_t" where
  "chat_server_users_set_online r username wsi session =
     (case chat_server_users_find_mut r username of
        None \<Rightarrow> (CHAT_SERVER_USERS_ERR_NOT_FOUND, r)
      | Some i \<Rightarrow>
          (CHAT_SERVER_USERS_OK,
           r\<lparr>reg_users := (reg_users r)
               [i := (reg_users r ! i)\<lparr>su_online := True, su_wsi := wsi, su_session := session\<rparr>]\<rparr>))"

function users_offline_loop :: "nat \<Rightarrow> nat \<Rightarrow> chat_server_users_t \<Rightarrow> chat_server_users_t" where
  "users_offline_loop wsi i r =
     (if i < reg_count r then
        users_offline_loop wsi (Suc i)
          (if su_wsi (reg_users r ! i) = Some wsi
           then r\<lparr>reg_users := (reg_users r)
                    [i := (reg_users r ! i)\<lparr>su_online := False, su_wsi := None, su_session := None\<rparr>]\<rparr>
           else r)
      else r)"
  by pat_completeness auto
termination
  by (relation "measure (\<lambda>(w, i, r). reg_count r - i)") auto

declare users_offline_loop.simps [simp del]

definition chat_server_users_set_offline_by_wsi ::
  "chat_server_users_t \<Rightarrow> nat option \<Rightarrow> chat_server_users_t" where
  "chat_server_users_set_offline_by_wsi r wsi =
     (case wsi of None \<Rightarrow> r | Some w \<Rightarrow> users_offline_loop w 0 r)"

fun chat_server_users_result_name :: "chat_server_users_result_t \<Rightarrow> string" where
  "chat_server_users_result_name CHAT_SERVER_USERS_OK = ''ok''"
| "chat_server_users_result_name CHAT_SERVER_USERS_ERR_INVALID = ''invalid user''"
| "chat_server_users_result_name CHAT_SERVER_USERS_ERR_FULL = ''user registry full''"
| "chat_server_users_result_name CHAT_SERVER_USERS_ERR_EXISTS = ''user already exists''"
| "chat_server_users_result_name CHAT_SERVER_USERS_ERR_NOT_FOUND = ''user not found''"

section \<open>Invariant and abstraction\<close>

text \<open>The entries in use, oldest first, and the directory they stand for.\<close>

definition reg_entries :: "chat_server_users_t \<Rightarrow> chat_server_user_t list" where
  "reg_entries r = take (reg_count r) (reg_users r)"

definition reg_invar :: "chat_server_users_t \<Rightarrow> bool" where
  "reg_invar r \<longleftrightarrow>
     length (reg_users r) = CHAT_SERVER_MAX_USERS \<and> reg_count r \<le> CHAT_SERVER_MAX_USERS
     \<and> distinct (map su_username (reg_entries r))
     \<and> (\<forall>x \<in> set (reg_entries r). valid_username (su_username x))"

abbreviation reg_lookup :: "chat_server_users_t \<Rightarrow> string \<Rightarrow> chat_server_user_t option" where
  "reg_lookup r u \<equiv> chat_server_users_find r (Some u)"

lemma length_reg_entries: "reg_invar r \<Longrightarrow> length (reg_entries r) = reg_count r"
  by (simp add: reg_invar_def reg_entries_def)

lemma nth_reg_entries: "i < reg_count r \<Longrightarrow> reg_entries r ! i = reg_users r ! i"
  by (simp add: reg_entries_def)

text \<open>The search loop is a search of the entries in use.\<close>

lemma users_find_loop_Some:
  "users_find_loop r u i = Some j \<Longrightarrow>
     i \<le> j \<and> j < reg_count r \<and> su_username (reg_users r ! j) = u"
proof (induction r u i rule: users_find_loop.induct)
  case (1 r u i)
  then show ?case
    by (subst (asm) (2) users_find_loop.simps) (auto split: if_splits)
qed

lemma users_find_loop_find:
  "reg_count r \<le> length (reg_users r) \<Longrightarrow>
   map_option (\<lambda>j. reg_users r ! j) (users_find_loop r u i) =
     List.find (\<lambda>x. su_username x = u) (drop i (reg_entries r))"
proof (induction r u i rule: users_find_loop.induct)
  case (1 r u i)
  show ?case
  proof (cases "i < reg_count r")
    case True
    with 1(2) have "drop i (reg_entries r) = reg_users r ! i # drop (Suc i) (reg_entries r)"
      by (simp add: reg_entries_def Cons_nth_drop_Suc [symmetric])
    then show ?thesis using True 1 by (subst users_find_loop.simps) simp
  next
    case False
    then show ?thesis by (subst users_find_loop.simps) (simp add: reg_entries_def)
  qed
qed

lemma reg_lookup_eq:
  "reg_invar r \<Longrightarrow> reg_lookup r u = List.find (\<lambda>x. su_username x = u) (reg_entries r)"
  using users_find_loop_find [of r u 0]
  by (simp add: chat_server_users_find_def reg_invar_def)

lemma reg_lookup_SomeD:
  "reg_lookup r u = Some x \<Longrightarrow>
     \<exists>i < reg_count r. reg_users r ! i = x \<and> su_username x = u
       \<and> chat_server_users_find_mut r (Some u) = Some i"
  using users_find_loop_Some [of r u 0]
  by (auto simp: chat_server_users_find_def chat_server_users_find_mut_def)

lemma find_name_map:
  "(\<And>x. su_username (f x) = su_username x) \<Longrightarrow>
   List.find (\<lambda>x. su_username x = u) (map f xs) = map_option f (List.find (\<lambda>x. su_username x = u) xs)"
  by (simp add: find_map comp_def)

lemma find_nameD: "List.find (\<lambda>x. su_username x = u) xs = Some x \<Longrightarrow> su_username x = u"
  by (auto simp: find_Some_iff)

section \<open>What the operations do to the directory\<close>

definition new_user :: "string \<Rightarrow> bytes \<Rightarrow> chat_server_user_t" where
  "new_user u pk = \<lparr>su_username = u, su_identity_pk = pk, su_wsi = None, su_session = None,
                     su_online = False\<rparr>"

definition go_online :: "nat option \<Rightarrow> nat option \<Rightarrow> chat_server_user_t \<Rightarrow> chat_server_user_t" where
  "go_online w s x = x\<lparr>su_online := True, su_wsi := w, su_session := s\<rparr>"

definition drop_wsi :: "nat \<Rightarrow> chat_server_user_t \<Rightarrow> chat_server_user_t" where
  "drop_wsi w x =
     (if su_wsi x = Some w then x\<lparr>su_online := False, su_wsi := None, su_session := None\<rparr> else x)"

lemma user_update_fields [simp]:
  "su_username (new_user u pk) = u" "su_identity_pk (new_user u pk) = pk"
  "\<not> su_online (new_user u pk)" "su_wsi (new_user u pk) = None" "su_session (new_user u pk) = None"
  "su_username (go_online w s x) = su_username x" "su_identity_pk (go_online w s x) = su_identity_pk x"
  "su_online (go_online w s x)" "su_wsi (go_online w s x) = w" "su_session (go_online w s x) = s"
  "su_username (drop_wsi v x) = su_username x" "su_identity_pk (drop_wsi v x) = su_identity_pk x"
  by (auto simp: new_user_def go_online_def drop_wsi_def)

subsection \<open>Registration\<close>

lemma register_result:
  "chat_server_users_register r (Some u) (Some pk) =
     (if \<not> valid_username u then (CHAT_SERVER_USERS_ERR_INVALID, r)
      else if reg_count r \<ge> 256 then (CHAT_SERVER_USERS_ERR_FULL, r)
      else if reg_lookup r u \<noteq> None then (CHAT_SERVER_USERS_ERR_EXISTS, r)
      else (CHAT_SERVER_USERS_OK,
            r\<lparr>reg_users := (reg_users r)[reg_count r := new_user u pk],
              reg_count := Suc (reg_count r)\<rparr>))"
  by (simp add: chat_server_users_register_def new_user_def snprintf_store_def
      CHAT_SERVER_MAX_USERS_def valid_username_iff)

lemma register_OK:
  assumes "reg_invar r" and "chat_server_users_register r (Some u) (Some pk) = (CHAT_SERVER_USERS_OK, r')"
  shows "reg_entries r' = reg_entries r @ [new_user u pk]" and "reg_invar r'"
proof -
  have new: "valid_username u" "reg_count r < 256" "reg_lookup r u = None"
    and r': "r' = r\<lparr>reg_users := (reg_users r)[reg_count r := new_user u pk],
              reg_count := Suc (reg_count r)\<rparr>"
    using assms(2) by (auto simp: register_result split: if_splits)
  have len: "length (reg_users r) = 256"
    using assms(1) by (simp add: reg_invar_def CHAT_SERVER_MAX_USERS_def)
  show e: "reg_entries r' = reg_entries r @ [new_user u pk]"
    unfolding r' reg_entries_def using new(2) len by (simp add: take_Suc_conv_app_nth)
  have "u \<notin> su_username ` set (reg_entries r)"
    using new(3) by (auto simp: reg_lookup_eq [OF assms(1)] find_None_iff)
  then show "reg_invar r'"
    using assms(1) new(1,2) e len by (auto simp: reg_invar_def CHAT_SERVER_MAX_USERS_def r')
qed

lemma register_OK_lookup:
  assumes "reg_invar r" and "chat_server_users_register r (Some u) (Some pk) = (CHAT_SERVER_USERS_OK, r')"
  shows "reg_lookup r' v = (if v = u then Some (new_user u pk) else reg_lookup r v)"
proof -
  have "reg_lookup r u = None"
    using assms(2) by (auto simp: register_result split: if_splits)
  then show ?thesis
    using register_OK [OF assms] assms(1)
    by (auto simp: reg_lookup_eq find_append split: option.splits)
qed

subsection \<open>Going online\<close>

lemma list_update_by_name:
  assumes "distinct (map su_username xs)" "i < length xs" "su_username (xs ! i) = u"
  shows "xs[i := f (xs ! i)] = map (\<lambda>x. if su_username x = u then f x else x) xs"
proof (rule nth_equalityI)
  fix j assume "j < length (xs[i := f (xs ! i)])"
  then show "xs[i := f (xs ! i)] ! j = map (\<lambda>x. if su_username x = u then f x else x) xs ! j"
    using assms by (auto simp: nth_list_update distinct_conv_nth)
qed simp

lemma set_online_result:
  "chat_server_users_set_online r (Some u) w s =
     (case users_find_loop r u 0 of
        None \<Rightarrow> (CHAT_SERVER_USERS_ERR_NOT_FOUND, r)
      | Some i \<Rightarrow> (CHAT_SERVER_USERS_OK,
           r\<lparr>reg_users := (reg_users r)[i := go_online w s (reg_users r ! i)]\<rparr>))"
  unfolding chat_server_users_set_online_def chat_server_users_find_mut_def go_online_def
  by (simp only: option.case)

lemma set_online_OK_iff:
  "fst (chat_server_users_set_online r (Some u) w s) = CHAT_SERVER_USERS_OK \<longleftrightarrow> reg_lookup r u \<noteq> None"
  by (auto simp: set_online_result chat_server_users_find_def split: option.splits)

lemma set_online_entries:
  assumes "reg_invar r"
  shows "reg_entries (snd (chat_server_users_set_online r (Some u) w s)) =
           map (\<lambda>x. if su_username x = u then go_online w s x else x) (reg_entries r)"
proof (cases "users_find_loop r u 0")
  case None
  then have "\<forall>x \<in> set (reg_entries r). su_username x \<noteq> u"
    using users_find_loop_find [of r u 0] assms
    by (simp add: reg_invar_def eq_commute [of None] find_None_iff)
  then show ?thesis using None by (simp add: set_online_result map_idI)
next
  case (Some i)
  then have i: "i < reg_count r" "su_username (reg_users r ! i) = u"
    using users_find_loop_Some by blast+
  have "reg_entries (snd (chat_server_users_set_online r (Some u) w s)) =
          (reg_entries r)[i := go_online w s (reg_entries r ! i)]"
    using Some i by (simp add: set_online_result reg_entries_def take_update_swap)
  also have "\<dots> = map (\<lambda>x. if su_username x = u then go_online w s x else x) (reg_entries r)"
    using assms i by (intro list_update_by_name)
      (auto simp: length_reg_entries nth_reg_entries, simp add: reg_invar_def)
  finally show ?thesis .
qed

lemma set_online_frame:
  "reg_count (snd (chat_server_users_set_online r u w s)) = reg_count r"
  "length (reg_users (snd (chat_server_users_set_online r u w s))) = length (reg_users r)"
  by (auto simp: chat_server_users_set_online_def split: option.splits)

lemma map_same_names:
  "(\<And>x. su_username (f x) = su_username x) \<Longrightarrow> map su_username (map f xs) = map su_username xs"
  by simp

lemma names_invar:
  "map su_username (reg_entries r') = map su_username (reg_entries r) \<Longrightarrow>
   reg_count r' = reg_count r \<Longrightarrow> length (reg_users r') = length (reg_users r) \<Longrightarrow>
   reg_invar r \<Longrightarrow> reg_invar r'"
  unfolding reg_invar_def by (metis (no_types, lifting) in_set_conv_nth length_map nth_map)

lemma set_online_invar:
  assumes "reg_invar r"
  shows "reg_invar (snd (chat_server_users_set_online r (Some u) w s))"
  by (rule names_invar [OF _ set_online_frame assms])
    (simp add: set_online_entries [OF assms])

lemma set_online_lookup:
  assumes "reg_invar r"
  shows "reg_lookup (snd (chat_server_users_set_online r (Some u) w s)) v =
           (if v = u then map_option (go_online w s) (reg_lookup r u) else reg_lookup r v)"
proof -
  let ?f = "\<lambda>x. if su_username x = u then go_online w s x else x"
  have "reg_lookup (snd (chat_server_users_set_online r (Some u) w s)) v =
          map_option ?f (List.find (\<lambda>x. su_username x = v) (reg_entries r))"
    unfolding reg_lookup_eq [OF set_online_invar [OF assms]] set_online_entries [OF assms]
    by (rule find_name_map) simp
  also have "\<dots> = (if v = u then map_option (go_online w s) (reg_lookup r u) else reg_lookup r v)"
    unfolding reg_lookup_eq [OF assms]
    by (cases "List.find (\<lambda>x. su_username x = v) (reg_entries r)") (auto dest: find_nameD)
  finally show ?thesis .
qed

subsection \<open>Going offline\<close>

lemma users_offline_loop_frame:
  "reg_count (users_offline_loop w i r) = reg_count r"
  "length (reg_users (users_offline_loop w i r)) = length (reg_users r)"
proof (induction w i r rule: users_offline_loop.induct)
  case (1 w i r)
  { case 1 show ?case using "1.IH"(1) by (subst users_offline_loop.simps) auto }
  { case 2 show ?case using "1.IH"(2) by (subst users_offline_loop.simps) auto }
qed

lemma users_offline_loop_entries:
  "reg_count r \<le> length (reg_users r) \<Longrightarrow>
   reg_entries (users_offline_loop w i r) = take i (reg_entries r) @ map (drop_wsi w) (drop i (reg_entries r))"
proof (induction w i r rule: users_offline_loop.induct)
  case (1 w i r)
  show ?case
  proof (cases "i < reg_count r")
    case True
    define r' where "r' = r\<lparr>reg_users := (reg_users r)[i := drop_wsi w (reg_users r ! i)]\<rparr>"
    have r': "(if su_wsi (reg_users r ! i) = Some w
           then r\<lparr>reg_users := (reg_users r)
                    [i := (reg_users r ! i)\<lparr>su_online := False, su_wsi := None, su_session := None\<rparr>]\<rparr>
           else r) = r'"
      by (simp add: r'_def drop_wsi_def)
    have step: "users_offline_loop w i r = users_offline_loop w (Suc i) r'"
      using True by (subst users_offline_loop.simps) (simp only: r' if_True)
    have len: "i < length (reg_entries r)" using True 1(2) by (simp add: reg_entries_def)
    have e': "reg_entries r' = (reg_entries r)[i := drop_wsi w (reg_entries r ! i)]"
      using True by (simp add: r'_def reg_entries_def take_update_swap)
    have "reg_entries (users_offline_loop w (Suc i) r') =
            take (Suc i) (reg_entries r') @ map (drop_wsi w) (drop (Suc i) (reg_entries r'))"
      using 1(1) [OF True, unfolded r'] 1(2) by (simp add: r'_def)
    then show ?thesis
      unfolding step e' using len
      by (simp add: take_Suc_conv_app_nth Cons_nth_drop_Suc [symmetric])
  next
    case False
    then show ?thesis using 1(2) by (subst users_offline_loop.simps) (simp add: reg_entries_def)
  qed
qed

lemma set_offline_entries:
  assumes "reg_invar r"
  shows "reg_entries (chat_server_users_set_offline_by_wsi r (Some w)) = map (drop_wsi w) (reg_entries r)"
  using assms users_offline_loop_entries [of r w 0]
  by (simp add: chat_server_users_set_offline_by_wsi_def reg_invar_def)

lemma set_offline_invar:
  assumes "reg_invar r"
  shows "reg_invar (chat_server_users_set_offline_by_wsi r (Some w))"
  by (rule names_invar [OF _ _ _ assms], simp add: set_offline_entries [OF assms])
    (simp_all add: chat_server_users_set_offline_by_wsi_def users_offline_loop_frame)

lemma set_offline_lookup:
  assumes "reg_invar r"
  shows "reg_lookup (chat_server_users_set_offline_by_wsi r (Some w)) v =
           map_option (drop_wsi w) (reg_lookup r v)"
  unfolding reg_lookup_eq [OF assms] reg_lookup_eq [OF set_offline_invar [OF assms]]
    set_offline_entries [OF assms]
  by (rule find_name_map) simp

section \<open>The directory interface\<close>

text \<open>
  What the control server relies on: a directory from names to user records in which
  registration adds a name once, and the presence operations change presence only.
\<close>

locale user_directory =
  fixes invar :: "'r \<Rightarrow> bool"
    and lookup :: "'r \<Rightarrow> string \<Rightarrow> chat_server_user_t option"
    and register :: "'r \<Rightarrow> string \<Rightarrow> bytes \<Rightarrow> chat_server_users_result_t \<times> 'r"
    and set_online :: "'r \<Rightarrow> string \<Rightarrow> nat option \<Rightarrow> nat option \<Rightarrow> chat_server_users_result_t \<times> 'r"
    and set_offline :: "'r \<Rightarrow> nat \<Rightarrow> 'r"
  assumes lookup_name: "invar r \<Longrightarrow> lookup r u = Some x \<Longrightarrow> su_username x = u \<and> valid_username u"
    and register_fresh: "register r u pk = (CHAT_SERVER_USERS_OK, r') \<Longrightarrow> lookup r u = None"
    and register_error: "register r u pk = (e, r') \<Longrightarrow> e \<noteq> CHAT_SERVER_USERS_OK \<Longrightarrow> r' = r"
    and register_lookup: "invar r \<Longrightarrow> register r u pk = (CHAT_SERVER_USERS_OK, r') \<Longrightarrow>
          lookup r' v = (if v = u then Some (new_user u pk) else lookup r v)"
    and register_invar: "invar r \<Longrightarrow> register r u pk = (CHAT_SERVER_USERS_OK, r') \<Longrightarrow> invar r'"
    and online_lookup: "invar r \<Longrightarrow> lookup (snd (set_online r u w s)) v =
          (if v = u then map_option (go_online w s) (lookup r u) else lookup r v)"
    and online_ok: "fst (set_online r u w s) = CHAT_SERVER_USERS_OK \<longleftrightarrow> lookup r u \<noteq> None"
    and online_invar: "invar r \<Longrightarrow> invar (snd (set_online r u w s))"
    and offline_lookup: "invar r \<Longrightarrow> lookup (set_offline r c) v = map_option (drop_wsi c) (lookup r v)"
    and offline_invar: "invar r \<Longrightarrow> invar (set_offline r c)"
begin

lemma register_any_invar: "invar r \<Longrightarrow> invar (snd (register r u pk))"
  using register_error register_invar
  by (metis (full_types) prod.collapse)

lemma register_keeps:
  assumes "invar r" "lookup r u = Some x"
  shows "lookup (snd (register r v pk)) u = Some x"
proof (cases "fst (register r v pk) = CHAT_SERVER_USERS_OK")
  case True
  then have r: "register r v pk = (CHAT_SERVER_USERS_OK, snd (register r v pk))"
    by (metis prod.collapse)
  with register_fresh [OF r] register_lookup [OF assms(1) r, of u] assms(2) show ?thesis
    by auto
next
  case False
  then have "snd (register r v pk) = r" using register_error by (metis prod.collapse)
  then show ?thesis using assms(2) by simp
qed

lemma online_keeps_key:
  "invar r \<Longrightarrow> lookup r u = Some x \<Longrightarrow>
   \<exists>y. lookup (snd (set_online r v w s)) u = Some y \<and> su_identity_pk y = su_identity_pk x"
  by (auto simp: online_lookup)

lemma offline_keeps_key:
  "invar r \<Longrightarrow> lookup r u = Some x \<Longrightarrow>
   \<exists>y. lookup (set_offline r w) u = Some y \<and> su_identity_pk y = su_identity_pk x"
  by (simp add: offline_lookup)

lemma offline_clears:
  "invar r \<Longrightarrow> lookup (set_offline r w) u = Some x \<Longrightarrow> su_wsi x \<noteq> Some w"
proof -
  assume "invar r" "lookup (set_offline r w) u = Some x"
  then obtain y where "x = drop_wsi w y" by (auto simp: offline_lookup)
  then show ?thesis by (simp add: drop_wsi_def)
qed

lemma lookup_none_stays:
  "invar r \<Longrightarrow> lookup r u = None \<Longrightarrow> lookup (set_offline r c) u = None
     \<and> lookup (snd (set_online r v w' s)) u = None"
  by (auto simp: offline_lookup online_lookup)

end

abbreviation reg_register where
  "reg_register r u pk \<equiv> chat_server_users_register r (Some u) (Some pk)"

abbreviation reg_set_online where
  "reg_set_online r u w s \<equiv> chat_server_users_set_online r (Some u) w s"

abbreviation reg_set_offline where
  "reg_set_offline r w \<equiv> chat_server_users_set_offline_by_wsi r (Some w)"

lemma reg_lookup_valid:
  "reg_invar r \<Longrightarrow> reg_lookup r u = Some x \<Longrightarrow> su_username x = u \<and> valid_username u"
  by (auto simp: reg_lookup_eq reg_invar_def find_Some_iff)

interpretation reg: user_directory reg_invar reg_lookup reg_register reg_set_online reg_set_offline
proof unfold_locales
  fix r :: chat_server_users_t and u pk r'
  assume "reg_register r u pk = (CHAT_SERVER_USERS_OK, r')"
  then show "reg_lookup r u = None" by (auto simp: register_result split: if_splits)
next
  fix r :: chat_server_users_t and u pk e r'
  assume "reg_register r u pk = (e, r')" "e \<noteq> CHAT_SERVER_USERS_OK"
  then show "r' = r" by (auto simp: register_result split: if_splits)
qed (simp_all add: reg_lookup_valid register_OK_lookup register_OK set_online_lookup set_online_OK_iff
    set_online_invar set_offline_lookup set_offline_invar)

section \<open>Properties\<close>

text \<open>The operations of the registry as a datatype, and a run of them.\<close>

datatype registry_op =
    Register string bytes
  | Set_online string "nat option" "nat option"
  | Set_offline nat

fun registry_step :: "chat_server_users_t \<Rightarrow> registry_op \<Rightarrow> chat_server_users_t" where
  "registry_step r (Register u pk) = snd (reg_register r u pk)"
| "registry_step r (Set_online u w s) = snd (reg_set_online r u w s)"
| "registry_step r (Set_offline w) = reg_set_offline r w"

lemma registry_step_invar: "reg_invar r \<Longrightarrow> reg_invar (registry_step r oper)"
  by (cases oper) (simp_all add: reg.register_any_invar reg.online_invar reg.offline_invar)

lemma registry_step_key:
  "reg_invar r \<Longrightarrow> reg_lookup r u = Some x \<Longrightarrow>
   \<exists>y. reg_lookup (registry_step r oper) u = Some y \<and> su_identity_pk y = su_identity_pk x"
  by (cases oper) (simp_all add: reg.register_keeps reg.online_keeps_key reg.offline_keeps_key)

text \<open>
  C32. Registration adds a name at most once. From a well-formed registry it succeeds exactly
  for a valid name that is not yet registered while a slot is free; then the new name maps to
  an offline record with the given key and every other lookup is unchanged. In every other
  case the registry is unchanged. Either way it stays well formed: at most 256 entries, valid
  and pairwise different names.
\<close>

theorem register_directory:
  assumes "reg_invar r"
    and "chat_server_users_register r (Some u) (Some pk) = (res, r')"
  shows "reg_invar r' \<and>
    (res = CHAT_SERVER_USERS_OK \<longleftrightarrow>
       valid_username u \<and> reg_count r < 256 \<and> chat_server_users_find r (Some u) = None) \<and>
    (if res = CHAT_SERVER_USERS_OK
     then chat_server_users_find r' (Some u) =
            Some \<lparr>su_username = u, su_identity_pk = pk, su_wsi = None, su_session = None,
                  su_online = False\<rparr>
          \<and> (\<forall>v. v = u \<or> chat_server_users_find r' (Some v) = chat_server_users_find r (Some v))
     else r' = r)"
proof -
  have "res = CHAT_SERVER_USERS_OK \<longleftrightarrow>
          valid_username u \<and> reg_count r < 256 \<and> reg_lookup r u = None"
    using assms(2) by (auto simp: register_result split: if_splits)
  moreover have "reg_invar r'"
    using reg.register_any_invar [OF assms(1), of u pk] assms(2) by simp
  ultimately show ?thesis
    using reg.register_lookup [OF assms(1)] reg.register_error [OF assms(2)] assms(2)
    by (auto simp: new_user_def split: if_splits)
qed

definition slot0 :: chat_server_user_t where
  "slot0 = \<lparr>su_username = [], su_identity_pk = [], su_wsi = None, su_session = None, su_online = False\<rparr>"

definition empty_registry :: chat_server_users_t where
  "empty_registry = chat_server_users_init \<lparr>reg_users = replicate 256 slot0, reg_count = 9\<rparr>"

lemma empty_registry_invar: "reg_invar empty_registry"
  by (simp add: empty_registry_def chat_server_users_init_def reg_invar_def reg_entries_def
      CHAT_SERVER_MAX_USERS_def)

lemma empty_registry_lookup: "chat_server_users_find empty_registry (Some u) = None"
  by (simp add: chat_server_users_find_def users_find_loop.simps empty_registry_def
      chat_server_users_init_def)

lemma empty_registry_count: "reg_count empty_registry = 0"
  by (simp add: empty_registry_def chat_server_users_init_def)

lemma valid_alice: "valid_username ''alice''" and valid_bob: "valid_username ''bob''"
  by code_simp+

lemma register_alice:
  "\<exists>r'. reg_register empty_registry ''alice'' [7] = (CHAT_SERVER_USERS_OK, r')"
  by (simp add: register_result valid_alice empty_registry_lookup empty_registry_count)

theorem register_directory_witness:
  "\<exists>r'. chat_server_users_register empty_registry (Some ''alice'') (Some [7]) = (CHAT_SERVER_USERS_OK, r')
     \<and> map_option su_identity_pk (chat_server_users_find r' (Some ''alice'')) = Some [7]"
proof -
  obtain r' where r': "reg_register empty_registry ''alice'' [7] = (CHAT_SERVER_USERS_OK, r')"
    using register_alice by blast
  from register_directory [OF empty_registry_invar r'] r' show ?thesis by auto
qed

text \<open>
  C24. Identity keys are immutable: once a name is registered, no sequence of registrations
  and presence changes removes it or alters the public key stored for it.
\<close>

theorem registered_key_immutable:
  assumes "reg_invar r" and "chat_server_users_find r (Some u) = Some x"
  shows "\<exists>y. chat_server_users_find (foldl registry_step r ops) (Some u) = Some y
              \<and> su_identity_pk y = su_identity_pk x"
  using assms
proof (induction ops arbitrary: r x)
  case Nil
  then show ?case by simp
next
  case (Cons oper ops)
  obtain y where y: "reg_lookup (registry_step r oper) u = Some y" "su_identity_pk y = su_identity_pk x"
    using registry_step_key [OF Cons.prems] by blast
  show ?case
    using Cons.IH [OF registry_step_invar [OF Cons.prems(1)] y(1)] y(2) by simp
qed

lemma alice_registered:
  "reg_lookup (registry_step empty_registry (Register ''alice'' [7])) ''alice'' = Some (new_user ''alice'' [7])"
proof -
  obtain r' where "reg_register empty_registry ''alice'' [7] = (CHAT_SERVER_USERS_OK, r')"
    using register_alice by blast
  then show ?thesis using register_OK_lookup [OF empty_registry_invar] by simp
qed

theorem registered_key_immutable_witness:
  "\<exists>y. chat_server_users_find
         (foldl registry_step (registry_step empty_registry (Register ''alice'' [7]))
            [Register ''alice'' [8], Set_online ''alice'' (Some 1) (Some 1), Set_offline 1])
         (Some ''alice'') = Some y
       \<and> su_identity_pk y = [7]"
  using registered_key_immutable
    [OF registry_step_invar [OF empty_registry_invar] alice_registered,
      of "[Register ''alice'' [8], Set_online ''alice'' (Some 1) (Some 1), Set_offline 1]"]
  by (simp del: registry_step.simps foldl_Cons)

text \<open>
  A closing connection takes exactly its own users offline: afterwards no registered
  user refers to the closed websocket, and users of other connections are unchanged.
\<close>

theorem offline_by_wsi_exact:
  assumes "reg_invar r"
    and "chat_server_users_find (chat_server_users_set_offline_by_wsi r (Some w)) (Some u) = Some y"
  shows "su_wsi y \<noteq> Some w \<and>
    (\<exists>x. chat_server_users_find r (Some u) = Some x \<and>
        y = (if su_wsi x = Some w then x\<lparr>su_online := False, su_wsi := None, su_session := None\<rparr> else x))"
  using reg.offline_clears [OF assms] assms
  by (auto simp: reg.offline_lookup drop_wsi_def)

theorem offline_by_wsi_exact_witness:
  "\<exists>y. chat_server_users_find
        (chat_server_users_set_offline_by_wsi
           (registry_step (registry_step empty_registry (Register ''alice'' [7]))
              (Set_online ''alice'' (Some 1) (Some 1))) (Some 1))
        (Some ''alice'') = Some y \<and> su_wsi y \<noteq> Some 1"
proof -
  let ?reg = "registry_step empty_registry (Register ''alice'' [7])"
  let ?r = "registry_step ?reg (Set_online ''alice'' (Some 1) (Some 1))"
  have inv0: "reg_invar ?reg" by (rule registry_step_invar [OF empty_registry_invar])
  have inv: "reg_invar ?r" using inv0 by (rule registry_step_invar)
  have "\<exists>y. reg_lookup (reg_set_offline ?r 1) ''alice'' = Some y"
    unfolding reg.offline_lookup [OF inv]
    unfolding registry_step.simps(2) [of ?reg] reg.online_lookup [OF inv0]
    unfolding alice_registered by simp
  then show ?thesis using offline_by_wsi_exact [OF inv] by blast
qed

end
