(* ===== verification/Sodium.thy ===== *)
theory Sodium
  imports Libc
begin

text \<open>
  libsodium is not part of the repository: the functions the program calls are the fields
  of a record that the definitions take as an argument, with \<open>None\<close> for a return value
  other than zero. Random bytes are explicit arguments. The constants are the sizes
  libsodium documents. The predicates at the end of the first section are the documented
  laws that theorems name as hypotheses; the last section gives one concrete instance for
  which they are proved, so that such theorems can be evaluated.
\<close>

section \<open>The functions the program calls\<close>

definition crypto_sign_PUBLICKEYBYTES :: nat where "crypto_sign_PUBLICKEYBYTES = 32"
definition crypto_sign_SECRETKEYBYTES :: nat where "crypto_sign_SECRETKEYBYTES = 64"
definition crypto_sign_BYTES :: nat where "crypto_sign_BYTES = 64"
definition crypto_kx_PUBLICKEYBYTES :: nat where "crypto_kx_PUBLICKEYBYTES = 32"
definition crypto_kx_SECRETKEYBYTES :: nat where "crypto_kx_SECRETKEYBYTES = 32"
definition crypto_kx_SESSIONKEYBYTES :: nat where "crypto_kx_SESSIONKEYBYTES = 32"
definition crypto_generichash_BYTES :: nat where "crypto_generichash_BYTES = 32"
definition secretstream_HEADERBYTES :: nat where "secretstream_HEADERBYTES = 24"
definition secretstream_ABYTES :: nat where "secretstream_ABYTES = 17"
definition secretstream_TAG_MESSAGE :: byte where "secretstream_TAG_MESSAGE = 0"
definition secretstream_TAG_FINAL :: byte where "secretstream_TAG_FINAL = 3"

lemmas sodium_consts [simp] =
  crypto_sign_PUBLICKEYBYTES_def crypto_sign_SECRETKEYBYTES_def crypto_sign_BYTES_def
  crypto_kx_PUBLICKEYBYTES_def crypto_kx_SECRETKEYBYTES_def crypto_kx_SESSIONKEYBYTES_def
  crypto_generichash_BYTES_def secretstream_HEADERBYTES_def secretstream_ABYTES_def

text \<open>The size of the base64 text of \<open>n\<close> bytes without padding, with its terminating zero.\<close>

definition base64_encoded_len :: "nat \<Rightarrow> nat" where
  "base64_encoded_len n = n div 3 * 4 + (if n mod 3 = 0 then 0 else n mod 3 + 1) + 1"

text \<open>
  \<open>'h\<close> is the state of a multi-part hash, \<open>'s\<close> that of one direction of a secret stream,
  with \<open>secretstream_zero\<close> for memory set to zero.
  \<open>sodium_hex2bin maxlen hex\<close> is the call without ignored characters and without an end
  pointer, as the program makes it; it yields the decoded bytes.
\<close>

record ('h, 's) sodium =
  sodium_init :: int
  sodium_bin2hex :: "bytes \<Rightarrow> string"
  sodium_hex2bin :: "nat \<Rightarrow> string \<Rightarrow> bytes option"
  sodium_bin2base64 :: "bytes \<Rightarrow> string"
  sodium_base642bin :: "nat \<Rightarrow> string \<Rightarrow> bytes option"
  crypto_sign_keypair :: "bytes \<Rightarrow> bytes \<times> bytes"
  crypto_sign_detached :: "bytes \<Rightarrow> bytes \<Rightarrow> bytes option"
  crypto_sign_verify_detached :: "bytes \<Rightarrow> bytes \<Rightarrow> bytes \<Rightarrow> bool"
  crypto_generichash_once :: "bytes \<Rightarrow> bytes option"
  crypto_generichash_init :: "'h option"
  crypto_generichash_update :: "'h \<Rightarrow> bytes \<Rightarrow> 'h option"
  crypto_generichash_final :: "'h \<Rightarrow> bytes option"
  crypto_kx_keypair :: "bytes \<Rightarrow> (bytes \<times> bytes) option"
  crypto_kx_client_session_keys :: "bytes \<Rightarrow> bytes \<Rightarrow> bytes \<Rightarrow> (bytes \<times> bytes) option"
  crypto_kx_server_session_keys :: "bytes \<Rightarrow> bytes \<Rightarrow> bytes \<Rightarrow> (bytes \<times> bytes) option"
  secretstream_zero :: 's
  secretstream_init_push :: "bytes \<Rightarrow> bytes \<Rightarrow> ('s \<times> bytes) option"
  secretstream_init_pull :: "bytes \<Rightarrow> bytes \<Rightarrow> 's option"
  secretstream_push :: "'s \<Rightarrow> bytes \<Rightarrow> byte \<Rightarrow> ('s \<times> bytes) option"
  secretstream_pull :: "'s \<Rightarrow> bytes \<Rightarrow> ('s \<times> bytes \<times> byte) option"

section \<open>Documented behaviour\<close>

definition hex_digits :: string where
  "hex_digits = ''0123456789abcdef''"

text \<open>Hexadecimal: two lower-case digits per byte, and decoding inverts encoding.\<close>

definition hex_laws :: "('h, 's, 'z) sodium_scheme \<Rightarrow> bool" where
  "hex_laws sod \<longleftrightarrow> (\<forall>bs.
     length (sodium_bin2hex sod bs) = 2 * length bs
     \<and> set (sodium_bin2hex sod bs) \<subseteq> set hex_digits
     \<and> (\<forall>n. length bs \<le> n \<longrightarrow> sodium_hex2bin sod n (sodium_bin2hex sod bs) = Some bs))"

text \<open>Base64 in the alphabet that is safe in addresses, without padding: the documented length, and
  decoding inverts encoding.\<close>

definition b64_digits :: string where
  "b64_digits = ''ABCDEFGHIJKLMNOPQRSTUVWXYZabcdefghijklmnopqrstuvwxyz0123456789-_''"

definition base64_laws :: "('h, 's, 'z) sodium_scheme \<Rightarrow> bool" where
  "base64_laws sod \<longleftrightarrow> (\<forall>bs.
     Suc (length (sodium_bin2base64 sod bs)) = base64_encoded_len (length bs)
     \<and> set (sodium_bin2base64 sod bs) \<subseteq> set b64_digits
     \<and> (\<forall>n. length bs \<le> n \<longrightarrow> sodium_base642bin sod n (sodium_bin2base64 sod bs) = Some bs))"

text \<open>Signatures: what a secret key signs verifies under its public key.\<close>

definition sign_laws :: "('h, 's, 'z) sodium_scheme \<Rightarrow> bool" where
  "sign_laws sod \<longleftrightarrow> (\<forall>seed pk sk msg. crypto_sign_keypair sod seed = (pk, sk) \<longrightarrow>
     length pk = crypto_sign_PUBLICKEYBYTES \<and> length sk = crypto_sign_SECRETKEYBYTES \<and>
     (\<exists>sig. crypto_sign_detached sod msg sk = Some sig \<and> length sig = crypto_sign_BYTES
            \<and> crypto_sign_verify_detached sod sig msg pk))"

text \<open>The multi-part hash never fails and gives a digest of the documented size.\<close>

definition hash_laws :: "('h, 's, 'z) sodium_scheme \<Rightarrow> bool" where
  "hash_laws sod \<longleftrightarrow>
     (\<exists>h. crypto_generichash_init sod = Some h)
     \<and> (\<forall>h m. \<exists>h'. crypto_generichash_update sod h m = Some h')
     \<and> (\<forall>h. \<exists>d. crypto_generichash_final sod h = Some d \<and> length d = crypto_generichash_BYTES)"

text \<open>Key exchange: the client's receive key is the server's transmit key, and conversely.\<close>

definition kx_laws :: "('h, 's, 'z) sodium_scheme \<Rightarrow> bool" where
  "kx_laws sod \<longleftrightarrow>
     (\<forall>seed. \<exists>pk sk. crypto_kx_keypair sod seed = Some (pk, sk)
        \<and> length pk = crypto_kx_PUBLICKEYBYTES \<and> length sk = crypto_kx_SECRETKEYBYTES)
     \<and> (\<forall>seed seed' cpk csk spk ssk. crypto_kx_keypair sod seed = Some (cpk, csk) \<longrightarrow>
          crypto_kx_keypair sod seed' = Some (spk, ssk) \<longrightarrow>
          (\<exists>rx tx. crypto_kx_client_session_keys sod cpk csk spk = Some (rx, tx)
                  \<and> crypto_kx_server_session_keys sod spk ssk cpk = Some (tx, rx)))"

text \<open>Secret streams: \<open>sync\<close> relates a sender and a receiver state that have processed the
  same messages. A receiver initialised with the sender's header and key is in sync, and in
  sync a pushed message is pulled with its tag and leaves both in sync.\<close>

definition stream_laws :: "('h, 's, 'z) sodium_scheme \<Rightarrow> ('s \<Rightarrow> 's \<Rightarrow> bool) \<Rightarrow> bool" where
  "stream_laws sod sync \<longleftrightarrow>
     (\<forall>rnd key. \<exists>st hdr st'. secretstream_init_push sod rnd key = Some (st, hdr)
        \<and> length hdr = secretstream_HEADERBYTES
        \<and> secretstream_init_pull sod hdr key = Some st' \<and> sync st st')
     \<and> (\<forall>st st' msg tag. sync st st' \<longrightarrow>
          (\<exists>st1 c st1'. secretstream_push sod st msg tag = Some (st1, c)
             \<and> length c = length msg + secretstream_ABYTES
             \<and> secretstream_pull sod st' c = Some (st1', msg, tag) \<and> sync st1 st1'))"

lemma hex_lawsD:
  assumes "hex_laws sod"
  shows "length (sodium_bin2hex sod bs) = 2 * length bs"
    and "c \<in> set (sodium_bin2hex sod bs) \<Longrightarrow> c \<in> set hex_digits"
    and "length bs \<le> n \<Longrightarrow> sodium_hex2bin sod n (sodium_bin2hex sod bs) = Some bs"
  using assms by (auto simp: hex_laws_def)

lemma hex_digit_plain:
  "c \<in> set hex_digits \<Longrightarrow> c \<noteq> CHR 0x22 \<and> c \<noteq> CHR 0x5C \<and> c \<noteq> nul \<and> \<not> is_space c \<and> 32 \<le> char_code c"
  by (auto simp: hex_digits_def nul_def is_space_def char_code_def)

lemma base64_lawsD:
  assumes "base64_laws sod"
  shows "Suc (length (sodium_bin2base64 sod bs)) = base64_encoded_len (length bs)"
    and "c \<in> set (sodium_bin2base64 sod bs) \<Longrightarrow> c \<in> set b64_digits"
    and "length bs \<le> n \<Longrightarrow> sodium_base642bin sod n (sodium_bin2base64 sod bs) = Some bs"
  using assms by (auto simp: base64_laws_def)

lemma b64_digit_plain:
  "c \<in> set b64_digits \<Longrightarrow> c \<noteq> CHR 0x22 \<and> c \<noteq> CHR 0x5C \<and> c \<noteq> nul \<and> 32 \<le> char_code c"
  by (auto simp: b64_digits_def nul_def char_code_def)

section \<open>A concrete instance\<close>

text \<open>
  The instance has the documented sizes and laws and no cryptographic strength: signatures
  carry the key in clear, the hash keeps the last bytes, the stream numbers its messages.
\<close>

definition nibble_char :: "nat \<Rightarrow> char" where
  "nibble_char n = hex_digits ! n"

definition char_nibble :: "char \<Rightarrow> nat option" where
  "char_nibble c = (let i = length (takeWhile (\<lambda>d. d \<noteq> c) hex_digits) in if i < 16 then Some i else None)"

fun demo_bin2hex :: "bytes \<Rightarrow> string" where
  "demo_bin2hex [] = []"
| "demo_bin2hex (b # bs) = nibble_char (unat b div 16) # nibble_char (unat b mod 16) # demo_bin2hex bs"

fun demo_hex2bin :: "nat \<Rightarrow> string \<Rightarrow> bytes option" where
  "demo_hex2bin n [] = Some []"
| "demo_hex2bin n [c] = None"
| "demo_hex2bin n (c # d # cs) =
     (case (n, char_nibble c, char_nibble d) of
        (Suc m, Some i, Some j) \<Rightarrow> map_option (Cons (word_of_nat (16 * i + j))) (demo_hex2bin m cs)
      | _ \<Rightarrow> None)"

definition b64_char :: "nat \<Rightarrow> char" where
  "b64_char n = b64_digits ! n"

definition char_b64 :: "char \<Rightarrow> nat" where
  "char_b64 c = length (takeWhile (\<lambda>d. d \<noteq> c) b64_digits)"

fun demo_bin2base64 :: "bytes \<Rightarrow> string" where
  "demo_bin2base64 [] = []"
| "demo_bin2base64 [a] = [b64_char (unat a div 4), b64_char (unat a mod 4 * 16)]"
| "demo_bin2base64 [a, b] = [b64_char (unat a div 4), b64_char (unat a mod 4 * 16 + unat b div 16), b64_char (unat b mod 16 * 4)]"
| "demo_bin2base64 (a # b # c # bs) =
     b64_char (unat a div 4) # b64_char (unat a mod 4 * 16 + unat b div 16) #
     b64_char (unat b mod 16 * 4 + unat c div 64) # b64_char (unat c mod 64) # demo_bin2base64 bs"

definition b64_first :: "char \<Rightarrow> char \<Rightarrow> byte" where
  "b64_first x y = word_of_nat (char_b64 x * 4 + char_b64 y div 16)"

definition b64_second :: "char \<Rightarrow> char \<Rightarrow> byte" where
  "b64_second y z = word_of_nat (char_b64 y mod 16 * 16 + char_b64 z div 4)"

definition b64_third :: "char \<Rightarrow> char \<Rightarrow> byte" where
  "b64_third z w = word_of_nat (char_b64 z mod 4 * 64 + char_b64 w)"

fun demo_decode64 :: "string \<Rightarrow> bytes" where
  "demo_decode64 (x # y # z # w # s) = b64_first x y # b64_second y z # b64_third z w # demo_decode64 s"
| "demo_decode64 [x, y, z] = [b64_first x y, b64_second y z]"
| "demo_decode64 [x, y] = [b64_first x y]"
| "demo_decode64 s = []"

definition demo_base642bin :: "nat \<Rightarrow> string \<Rightarrow> bytes option" where
  "demo_base642bin n s =
     (let bs = demo_decode64 s in if length bs \<le> n \<and> demo_bin2base64 bs = s then Some bs else None)"

definition pad :: "nat \<Rightarrow> bytes \<Rightarrow> bytes" where
  "pad n bs = take n (bs @ replicate n 0)"

definition demo_session_keys :: "bytes \<Rightarrow> bytes \<Rightarrow> bytes \<times> bytes" where
  "demo_session_keys cpk spk = (pad 32 (1 # cpk @ spk), pad 32 (2 # cpk @ spk))"

definition demo :: "(bytes, bytes \<times> nat) sodium" where
  "demo =
     \<lparr>sodium_init = 0,
      sodium_bin2hex = demo_bin2hex,
      sodium_hex2bin = demo_hex2bin,
      sodium_bin2base64 = demo_bin2base64,
      sodium_base642bin = demo_base642bin,
      crypto_sign_keypair = (\<lambda>seed. (pad 32 seed, pad 32 seed @ pad 32 seed)),
      crypto_sign_detached = (\<lambda>msg sk. Some (pad 32 sk @ pad 32 msg)),
      crypto_sign_verify_detached = (\<lambda>sig msg pk. sig = pad 32 pk @ pad 32 msg),
      crypto_generichash_once = (\<lambda>m. Some (pad 32 m)),
      crypto_generichash_init = Some [],
      crypto_generichash_update = (\<lambda>h m. Some (h @ m)),
      crypto_generichash_final = (\<lambda>h. Some (pad 32 (rev h))),
      crypto_kx_keypair = (\<lambda>seed. Some (pad 32 seed, pad 32 seed)),
      crypto_kx_client_session_keys = (\<lambda>cpk csk spk. Some (demo_session_keys cpk spk)),
      crypto_kx_server_session_keys =
        (\<lambda>spk ssk cpk. Some (snd (demo_session_keys cpk spk), fst (demo_session_keys cpk spk))),
      secretstream_zero = ([], 0),
      secretstream_init_push = (\<lambda>rnd key. Some ((key, 0), pad 24 rnd)),
      secretstream_init_pull = (\<lambda>hdr key. Some (key, 0)),
      secretstream_push = (\<lambda>(key, n) msg tag. Some ((key, Suc n), tag # pad 16 (word_of_nat n # key) @ msg)),
      secretstream_pull = (\<lambda>(key, n) c.
        if length c \<ge> 17 \<and> take 16 (tl c) = pad 16 (word_of_nat n # key)
        then Some ((key, Suc n), drop 17 c, hd c) else None)\<rparr>"

lemma length_pad [simp]: "length (pad n bs) = n"
  by (simp add: pad_def)

lemma char_nibble_nibble_char: "n < 16 \<Longrightarrow> char_nibble (nibble_char n) = Some n"
proof -
  have "\<forall>n \<in> set [0..<16]. char_nibble (nibble_char n) = Some n"
    by code_simp
  then show "n < 16 \<Longrightarrow> ?thesis" by simp
qed

lemma demo_hex_roundtrip: "length bs \<le> n \<Longrightarrow> demo_hex2bin n (demo_bin2hex bs) = Some bs"
proof (induction bs arbitrary: n)
  case Nil
  then show ?case by simp
next
  case (Cons b bs)
  then obtain m where "n = Suc m" "length bs \<le> m" by (cases n) auto
  moreover have "unat b div 16 < 16" using unat_byte_less [of b] by simp
  ultimately show ?case
    using Cons.IH [of m] by (simp add: char_nibble_nibble_char)
qed

lemma length_demo_bin2hex: "length (demo_bin2hex bs) = 2 * length bs"
  by (induction bs) auto

lemma set_demo_bin2hex: "set (demo_bin2hex bs) \<subseteq> set hex_digits"
proof (induction bs)
  case Nil
  then show ?case by simp
next
  case (Cons b bs)
  have "unat b div 16 < length hex_digits" "unat b mod 16 < length hex_digits"
    using unat_byte_less [of b] by (simp_all add: hex_digits_def)
  then show ?case using Cons by (simp add: nibble_char_def)
qed

lemma demo_hex_laws: "hex_laws demo"
  by (simp add: hex_laws_def demo_def length_demo_bin2hex set_demo_bin2hex demo_hex_roundtrip)

lemma char_b64_b64_char: "n < 64 \<Longrightarrow> char_b64 (b64_char n) = n"
proof -
  have "\<forall>n \<in> set [0..<64]. char_b64 (b64_char n) = n" by code_simp
  then show "n < 64 \<Longrightarrow> ?thesis" by simp
qed

lemma b64_bounds:
  "unat (a :: byte) div 4 < 64" "unat a mod 4 * 16 < 64" "unat a mod 4 * 16 + unat (b :: byte) div 16 < 64"
  "unat b mod 16 * 4 < 64" "unat b mod 16 * 4 + unat (c :: byte) div 64 < 64" "unat c mod 64 < 64"
proof -
  have "unat b div 16 < 16" "unat c div 64 < 4" "unat a mod 4 < 4" "unat b mod 16 < 16"
    using unat_byte_less [of b] unat_byte_less [of c] by (simp_all add: less_mult_imp_div_less)
  then show "unat a mod 4 * 16 < 64" "unat a mod 4 * 16 + unat b div 16 < 64" "unat b mod 16 * 4 < 64"
    "unat b mod 16 * 4 + unat c div 64 < 64"
    by linarith+
  show "unat a div 4 < 64" "unat c mod 64 < 64" using unat_byte_less [of a] by (simp_all add: less_mult_imp_div_less)
qed

lemma div_mod_digits: "d < k \<Longrightarrow> (m * k + d) div k = m" "d < k \<Longrightarrow> (m * k + d) mod k = d" for d k m :: nat
  by simp_all

lemma b64_parts:
  "b64_first (b64_char (unat a div 4)) (b64_char (unat a mod 4 * 16)) = a"
  "b64_first (b64_char (unat a div 4)) (b64_char (unat a mod 4 * 16 + unat b div 16)) = a"
  "b64_second (b64_char (unat a mod 4 * 16 + unat b div 16)) (b64_char (unat b mod 16 * 4)) = b"
  "b64_second (b64_char (unat a mod 4 * 16 + unat b div 16)) (b64_char (unat b mod 16 * 4 + unat c div 64)) = b"
  "b64_third (b64_char (unat b mod 16 * 4 + unat c div 64)) (b64_char (unat c mod 64)) = c"
proof -
  have small: "unat b div 16 < 16" "unat c div 64 < 4"
    using unat_byte_less [of b] unat_byte_less [of c] by (simp_all add: less_mult_imp_div_less)
  note digits = div_mod_digits [OF small(1)] div_mod_digits [OF small(2)]
  show "b64_first (b64_char (unat a div 4)) (b64_char (unat a mod 4 * 16)) = a"
    "b64_first (b64_char (unat a div 4)) (b64_char (unat a mod 4 * 16 + unat b div 16)) = a"
    "b64_second (b64_char (unat a mod 4 * 16 + unat b div 16)) (b64_char (unat b mod 16 * 4)) = b"
    "b64_second (b64_char (unat a mod 4 * 16 + unat b div 16)) (b64_char (unat b mod 16 * 4 + unat c div 64)) = b"
    "b64_third (b64_char (unat b mod 16 * 4 + unat c div 64)) (b64_char (unat c mod 64)) = c"
    unfolding b64_first_def b64_second_def b64_third_def char_b64_b64_char [OF b64_bounds(1)] char_b64_b64_char [OF b64_bounds(2)]
      char_b64_b64_char [OF b64_bounds(3)] char_b64_b64_char [OF b64_bounds(4)] char_b64_b64_char [OF b64_bounds(5)]
      char_b64_b64_char [OF b64_bounds(6)] digits by simp_all
qed

lemma demo_decode64_inverts: "demo_decode64 (demo_bin2base64 bs) = bs"
  by (induction bs rule: demo_bin2base64.induct) (simp_all add: b64_parts)

lemma length_demo_bin2base64: "Suc (length (demo_bin2base64 bs)) = base64_encoded_len (length bs)"
  by (induction bs rule: demo_bin2base64.induct) (simp_all add: base64_encoded_len_def div_add1_eq [of 3])

lemma set_demo_bin2base64: "set (demo_bin2base64 bs) \<subseteq> set b64_digits"
proof -
  have digit: "n < 64 \<Longrightarrow> b64_char n \<in> set b64_digits" for n
    unfolding b64_char_def by (rule nth_mem) (simp add: b64_digits_def)
  show ?thesis by (induction bs rule: demo_bin2base64.induct) (simp_all add: digit b64_bounds del: mult_less_cancel2)
qed

lemma demo_base64_laws: "base64_laws demo"
  by (simp add: base64_laws_def demo_def length_demo_bin2base64 set_demo_bin2base64 demo_base642bin_def demo_decode64_inverts)

lemma pad_pad_append: "pad 32 (pad 32 s @ t) = pad 32 s"
  by (simp add: pad_def)

lemma pad_exact: "length s = n \<Longrightarrow> pad n s = s"
  by (simp add: pad_def)

lemma demo_sign_laws: "sign_laws demo"
  by (auto simp: sign_laws_def demo_def pad_pad_append pad_exact)

lemma demo_hash_laws: "hash_laws demo"
  by (simp add: hash_laws_def demo_def)

lemma demo_kx_laws: "kx_laws demo"
  by (auto simp: kx_laws_def demo_def demo_session_keys_def)

lemma demo_stream_laws: "stream_laws demo (=)"
  by (auto simp: stream_laws_def demo_def)

end
