(* ===== verification/Json.thy ===== *)
theory Json
  imports Protocole Sodium
begin

text \<open>
  The field extractor \<open>json_get_string\<close> of \<open>server/main.c\<close> (the daemon has a textually
  identical copy, as it has of \<open>hex_to_bin\<close>) and \<open>json_bool_is_true\<close> of
  \<open>daemon/main.c\<close>. It is no JSON parser: it
  looks for the first occurrence of the quoted key anywhere in the text. The second half of
  the theory characterises what it returns on the texts the program itself prints.
\<close>

section \<open>The extractors\<close>

definition quote_char :: char where "quote_char = CHR 0x22"
definition backslash_char :: char where "backslash_char = CHR 0x5C"

definition json_ws :: "char \<Rightarrow> bool" where
  "json_ws c \<longleftrightarrow> c = CHR '' '' \<or> c = CHR 0x09 \<or> c = CHR 0x0D \<or> c = CHR 0x0A"

text \<open>The copying loop: \<open>offset\<close> characters have been stored in a buffer of \<open>out_size\<close>. The
  end of the list is the terminating zero byte.\<close>

fun json_copy_value :: "nat \<Rightarrow> nat \<Rightarrow> string \<Rightarrow> string option" where
  "json_copy_value out_size offset [] = None"
| "json_copy_value out_size offset (c # cursor) =
     (if c = quote_char then Some []
      else if char_code c < 0x20 \<or> c = backslash_char \<or> offset + 1 \<ge> out_size then None
      else map_option (Cons c) (json_copy_value out_size (offset + 1) cursor))"

definition json_pattern :: "string \<Rightarrow> string" where
  "json_pattern key = quote_char # key @ [quote_char]"

text \<open>After the key: optional white space, a colon, optional white space.\<close>

definition json_after_colon :: "string \<Rightarrow> string \<Rightarrow> string option" where
  "json_after_colon json key =
     (let pattern = json_pattern key in
      if \<not> snprintf_fits 64 pattern then None
      else case strstr json pattern of
             None \<Rightarrow> None
           | Some at \<Rightarrow>
               (case dropWhile json_ws (drop (length pattern) at) of
                  c # cursor \<Rightarrow> if c = CHR '':'' then Some (dropWhile json_ws cursor) else None
                | [] \<Rightarrow> None))"

definition json_get_string :: "string \<Rightarrow> string \<Rightarrow> nat \<Rightarrow> string option" where
  "json_get_string json key out_size =
     (if out_size = 0 then None
      else case json_after_colon json key of
             None \<Rightarrow> None
           | Some [] \<Rightarrow> None
           | Some (c # cursor) \<Rightarrow>
               if c = quote_char then json_copy_value out_size 0 cursor else None)"

text \<open>\<open>hex_to_bin\<close> accepts exactly as many bytes as the output buffer holds.\<close>

definition hex_to_bin :: "('h, 's) sodium \<Rightarrow> string \<Rightarrow> nat \<Rightarrow> bytes option" where
  "hex_to_bin sod hex out_size =
     (case sodium_hex2bin sod out_size hex of
        None \<Rightarrow> None
      | Some bin \<Rightarrow> if length bin = out_size then Some bin else None)"

definition json_bool_is_true :: "string \<Rightarrow> string \<Rightarrow> bool" where
  "json_bool_is_true json key =
     (case json_after_colon json key of
        None \<Rightarrow> False
      | Some cursor \<Rightarrow> prefix ''true'' cursor)"

section \<open>The texts the program prints\<close>

text \<open>
  Every message is one flat object whose fields are strings or the literals \<open>true\<close> and
  \<open>false\<close>. \<open>json_object\<close> is the text the \<open>snprintf\<close> formats of the program produce.
\<close>

datatype json_value = JStr string | JLit string

type_synonym json_field = "string \<times> json_value"

fun json_value_text :: "json_value \<Rightarrow> string" where
  "json_value_text (JStr s) = quote_char # s @ [quote_char]"
| "json_value_text (JLit s) = s"

fun json_field_text :: "json_field \<Rightarrow> string" where
  "json_field_text (k, v) = quote_char # k @ quote_char # CHR '':'' # json_value_text v"

fun json_fields_text :: "json_field list \<Rightarrow> string" where
  "json_fields_text [] = ''}''"
| "json_fields_text [f] = json_field_text f @ ''}''"
| "json_fields_text (f # g # fs) = json_field_text f @ CHR '','' # json_fields_text (g # fs)"

definition json_object :: "json_field list \<Rightarrow> string" where
  "json_object fs = CHR 0x7B # json_fields_text fs"

section \<open>Searching for a quoted key\<close>

definition plain_char :: "char \<Rightarrow> bool" where
  "plain_char c \<longleftrightarrow> c \<noteq> quote_char \<and> c \<noteq> backslash_char \<and> 0x20 \<le> char_code c"

definition plain :: "string \<Rightarrow> bool" where
  "plain s \<longleftrightarrow> (\<forall>c \<in> set s. plain_char c)"

text \<open>A key is an identifier: it starts with none of the punctuation characters.\<close>

definition json_key :: "string \<Rightarrow> bool" where
  "json_key key \<longleftrightarrow> quote_char \<notin> set key \<and> length key < 62 \<and> key \<noteq> []
     \<and> hd key \<notin> {CHR '':'', CHR '','', CHR ''}''}"

lemma plain_no_quote: "plain s \<Longrightarrow> quote_char \<notin> set s"
  by (auto simp: plain_def plain_char_def)

lemma strstr_skip_char: "c \<noteq> quote_char \<Longrightarrow> strstr (c # s) (json_pattern key) = strstr s (json_pattern key)"
  by (simp add: strstr_Cons json_pattern_def)

lemma strstr_skip_text:
  "quote_char \<notin> set xs \<Longrightarrow> strstr (xs @ s) (json_pattern key) = strstr s (json_pattern key)"
  by (induction xs) (auto simp: strstr_skip_char)

lemma prefix_quoted:
  assumes "quote_char \<notin> set key" "quote_char \<notin> set xs"
  shows "prefix (key @ [quote_char]) (xs @ quote_char # s) \<longleftrightarrow> xs = key"
  using assms
proof (induction key arbitrary: xs)
  case Nil
  then show ?case by (cases xs) auto
next
  case (Cons c key)
  then show ?case by (cases xs) auto
qed

lemma strstr_hit: "strstr (json_pattern key @ s) (json_pattern key) = Some (json_pattern key @ s)"
  by (subst strstr.simps) simp

lemma strstr_skip_quoted:
  assumes "quote_char \<notin> set key" "quote_char \<notin> set xs" "xs \<noteq> key"
  shows "strstr (quote_char # xs @ quote_char # s) (json_pattern key) =
           strstr (quote_char # s) (json_pattern key)"
proof -
  have "\<not> prefix (json_pattern key) (quote_char # xs @ quote_char # s)"
    using prefix_quoted [OF assms(1,2)] assms(3) by (simp add: json_pattern_def)
  then have "strstr (quote_char # xs @ quote_char # s) (json_pattern key) =
               strstr (xs @ quote_char # s) (json_pattern key)"
    by (simp add: strstr_Cons)
  then show ?thesis using assms(2) by (simp add: strstr_skip_text)
qed

text \<open>A quote that is followed by punctuation does not start a key.\<close>

lemma strstr_skip_closing:
  assumes "json_key key" "c \<in> {CHR '':'', CHR '','', CHR ''}''}"
  shows "strstr (quote_char # c # s) (json_pattern key) = strstr s (json_pattern key)"
proof -
  have "c \<noteq> quote_char" using assms(2) by (auto simp: quote_char_def)
  moreover have "\<not> prefix (json_pattern key) (quote_char # c # s)"
    using assms by (cases key) (auto simp: json_pattern_def json_key_def)
  ultimately show ?thesis by (subst strstr_Cons) (simp add: strstr_skip_char)
qed

section \<open>Extraction from printed objects\<close>

text \<open>
  The extractor stops at the first field whose name is the key, or whose string value
  happens to be the key: in the second case the text after it is no colon and the
  extraction fails.
\<close>

fun json_find :: "string \<Rightarrow> json_field list \<Rightarrow> json_value option" where
  "json_find key [] = None"
| "json_find key ((k, v) # fs) =
     (if k = key then Some v else if v = JStr key then None else json_find key fs)"

fun plain_value :: "json_value \<Rightarrow> bool" where
  "plain_value (JStr s) = plain s"
| "plain_value (JLit s) = (s = ''true'' \<or> s = ''false'')"

definition plain_fields :: "json_field list \<Rightarrow> bool" where
  "plain_fields fs \<longleftrightarrow> (\<forall>(k, v) \<in> set fs. plain k \<and> plain_value v)"

lemma plain_fields_Cons [simp]:
  "plain_fields [] = True"
  "plain_fields ((k, v) # fs) \<longleftrightarrow> plain k \<and> plain_value v \<and> plain_fields fs"
  by (auto simp: plain_fields_def)

lemma strstr_field:
  assumes "json_key key" "plain k" "plain_value v" "c \<in> {CHR '','', CHR ''}''}"
  shows "strstr (json_field_text (k, v) @ c # rest) (json_pattern key) =
           (if k = key then Some (json_pattern key @ CHR '':'' # json_value_text v @ c # rest)
            else if v = JStr key then Some (json_pattern key @ c # rest)
            else strstr rest (json_pattern key))"
proof (cases "k = key")
  case True
  then show ?thesis
    using strstr_hit [of key "CHR '':'' # json_value_text v @ c # rest"]
    by (simp add: json_pattern_def)
next
  case False
  note key = assms(1) [unfolded json_key_def]
  have c: "c \<in> {CHR '':'', CHR '','', CHR ''}''}" "c \<noteq> quote_char"
    using assms(4) by (auto simp: quote_char_def)
  have tail: "strstr (json_field_text (k, v) @ c # rest) (json_pattern key) =
                strstr (json_value_text v @ c # rest) (json_pattern key)"
    using strstr_skip_quoted [of key k "CHR '':'' # json_value_text v @ c # rest"] key False
      plain_no_quote [OF assms(2)] strstr_skip_closing [OF assms(1), of "CHR '':''"]
    by simp
  show ?thesis
  proof (cases v)
    case (JStr s)
    then have s: "quote_char \<notin> set s" using assms(3) plain_no_quote by simp
    show ?thesis
    proof (cases "s = key")
      case True
      then show ?thesis
        using tail False strstr_hit [of key "c # rest"] by (simp add: JStr json_pattern_def)
    next
      case neq: False
      then show ?thesis
        using tail False key strstr_skip_quoted [OF _ s neq, of "c # rest"]
          strstr_skip_closing [OF assms(1) c(1), of rest]
        by (simp add: JStr)
    qed
  next
    case (JLit s)
    then have "quote_char \<notin> set s" using assms(3) by (auto simp: quote_char_def)
    then show ?thesis
      using tail False c(2) by (simp add: JLit strstr_skip_text strstr_skip_char)
  qed
qed

lemma strstr_fields:
  assumes "json_key key" "plain_fields fs"
  shows "\<exists>c rest. c \<in> {CHR '','', CHR ''}''} \<and>
           strstr (json_fields_text fs) (json_pattern key) \<in>
             (case json_find key fs of
                Some v \<Rightarrow> {Some (json_pattern key @ CHR '':'' # json_value_text v @ c # rest)}
              | None \<Rightarrow> {None, Some (json_pattern key @ c # rest)})"
  using assms(2)
proof (induction fs rule: json_fields_text.induct)
  case 1
  have "strstr ''}'' (json_pattern key) = None"
    by (simp add: libc_simps json_pattern_def quote_char_def)
  then show ?case by auto
next
  case (2 f)
  obtain k v where f: "f = (k, v)" by force
  have "strstr [] (json_pattern key) = None" by (simp add: libc_simps json_pattern_def)
  then show ?case
    using strstr_field [OF assms(1), of k v "CHR ''}''" "[]"] 2 by (auto simp: f simp del: json_field_text.simps)
next
  case (3 f g fs)
  obtain k v where f: "f = (k, v)" by force
  show ?case
    using strstr_field [OF assms(1), of k v "CHR '',''" "json_fields_text (g # fs)"] 3
    by (auto simp: f simp del: json_field_text.simps)
qed

lemma json_copy_value_plain:
  assumes "plain s" "offset + length s < out_size"
  shows "json_copy_value out_size offset (s @ quote_char # rest) = Some s"
  using assms
  by (induction s arbitrary: offset) (auto simp: plain_def plain_char_def)

lemma json_copy_value_long:
  assumes "plain s" "out_size \<le> offset + length s" "offset < out_size"
  shows "json_copy_value out_size offset (s @ quote_char # rest) = None"
  using assms
  by (induction s arbitrary: offset) (auto simp: plain_def plain_char_def not_less)

text \<open>The text of a field value as the extractors see it.\<close>

lemma json_after_colon_object:
  assumes "json_key key" "plain_fields fs"
  shows "(case json_find key fs of
            Some v \<Rightarrow> \<exists>c rest. c \<in> {CHR '','', CHR ''}''} \<and>
                        json_after_colon (json_object fs) key = Some (json_value_text v @ c # rest)
          | None \<Rightarrow> json_after_colon (json_object fs) key = None)"
proof -
  have obj: "strstr (json_object fs) (json_pattern key) = strstr (json_fields_text fs) (json_pattern key)"
    by (simp add: json_object_def strstr_skip_char quote_char_def)
  have fits: "snprintf_fits 64 (json_pattern key)"
    using assms(1) by (simp add: snprintf_fits_def json_pattern_def json_key_def)
  have start: "dropWhile json_ws (json_value_text v @ s) = json_value_text v @ s"
    if "plain_value v" for v s
    using that by (cases v) (auto simp: json_ws_def quote_char_def)
  have plainv: "plain_value v" if "json_find key fs = Some v" for v
    using assms(2) that by (induction fs rule: json_find.induct) (auto split: if_splits)
  obtain c rest where c: "c \<in> {CHR '','', CHR ''}''}" and st: "strstr (json_fields_text fs) (json_pattern key) \<in>
             (case json_find key fs of
                Some v \<Rightarrow> {Some (json_pattern key @ CHR '':'' # json_value_text v @ c # rest)}
              | None \<Rightarrow> {None, Some (json_pattern key @ c # rest)})"
    using strstr_fields [OF assms] by blast
  have colon: "\<not> json_ws (CHR '':'')" "\<not> json_ws c" "c \<noteq> CHR '':''"
    using c by (auto simp: json_ws_def)
  show ?thesis
  proof (cases "json_find key fs")
    case None
    then show ?thesis
      using st colon by (auto simp: json_after_colon_def Let_def fits obj)
  next
    case (Some v)
    then show ?thesis
      using st colon c plainv start [of v] by (auto simp: json_after_colon_def Let_def fits obj)
  qed
qed

lemma json_get_string_object [json_simps]:
  assumes "json_key key" "plain_fields fs" "0 < out_size"
  shows "json_get_string (json_object fs) key out_size =
           (case json_find key fs of
              Some (JStr s) \<Rightarrow> if length s < out_size then Some s else None
            | _ \<Rightarrow> None)"
proof (cases "json_find key fs")
  case None
  then show ?thesis
    using json_after_colon_object [OF assms(1,2)] by (simp add: json_get_string_def)
next
  case (Some v)
  have plainv: "plain_value v"
    using assms(2) Some by (induction fs rule: json_find.induct) (auto split: if_splits)
  obtain c rest where at: "json_after_colon (json_object fs) key = Some (json_value_text v @ c # rest)"
    using json_after_colon_object [OF assms(1,2)] Some by auto
  show ?thesis
  proof (cases v)
    case (JStr s)
    then show ?thesis
      using at Some plainv assms(3) json_copy_value_plain [of s 0 out_size] json_copy_value_long [of s out_size 0]
      by (auto simp: json_get_string_def)
  next
    case (JLit s)
    then show ?thesis
      using at Some plainv by (auto simp: json_get_string_def quote_char_def)
  qed
qed

lemma json_bool_object [json_simps]:
  assumes "json_key key" "plain_fields fs"
  shows "json_bool_is_true (json_object fs) key \<longleftrightarrow> json_find key fs = Some (JLit ''true'')"
proof (cases "json_find key fs")
  case None
  then show ?thesis
    using json_after_colon_object [OF assms] by (simp add: json_bool_is_true_def)
next
  case (Some v)
  have plainv: "plain_value v"
    using assms(2) Some by (induction fs rule: json_find.induct) (auto split: if_splits)
  obtain c rest where at: "json_after_colon (json_object fs) key = Some (json_value_text v @ c # rest)"
    using json_after_colon_object [OF assms] Some by auto
  show ?thesis
    using at Some plainv by (cases v) (auto simp: json_bool_is_true_def quote_char_def)
qed

section \<open>Field names and values of the protocol\<close>

lemma plain_username: "valid_username u \<Longrightarrow> plain u"
  using username_char_ok_plain
  by (auto simp: plain_def plain_char_def valid_username_iff quote_char_def backslash_char_def)

lemma plain_Cons [simp]: "plain [] = True" "plain (c # s) \<longleftrightarrow> plain_char c \<and> plain s"
  by (auto simp: plain_def)

lemma hex_to_bin_hex: "hex_laws sod \<Longrightarrow> length bs = n \<Longrightarrow> hex_to_bin sod (sodium_bin2hex sod bs) n = Some bs"
  by (simp add: hex_to_bin_def hex_lawsD(3))

text \<open>Texts printed from plain fields contain no zero byte.\<close>

lemma plain_hex: "hex_laws sod \<Longrightarrow> plain (sodium_bin2hex sod bs)"
  using hex_lawsD(2) [of sod _ bs] hex_digit_plain
  by (auto simp: plain_def plain_char_def quote_char_def backslash_char_def)

lemma plain_base64: "base64_laws sod \<Longrightarrow> plain (sodium_bin2base64 sod bs)"
  using base64_lawsD(2) [of sod _ bs] b64_digit_plain
  by (auto simp: plain_def plain_char_def quote_char_def backslash_char_def)

lemma plain_nul: "plain s \<Longrightarrow> nul \<notin> set s"
  by (auto simp: plain_def plain_char_def nul_def char_code_def)

lemma plain_fields_nul: "plain_fields fs \<Longrightarrow> nul \<notin> set (json_fields_text fs)"
proof (induction fs rule: json_fields_text.induct)
  case 1
  then show ?case by (auto simp: nul_def)
next
  case (2 f)
  then show ?case by (cases f; cases "snd f") (auto simp: nul_def quote_char_def dest: plain_nul [unfolded nul_def])
next
  case (3 f g fs)
  then show ?case by (cases f; cases "snd f") (auto simp: nul_def quote_char_def dest: plain_nul [unfolded nul_def])
qed

lemma cstr_json_object: "plain_fields fs \<Longrightarrow> cstr (json_object fs) = json_object fs"
  using plain_fields_nul by (intro cstr_id) (auto simp: json_object_def nul_def)

lemmas plain_literal = plain_char_def quote_char_def backslash_char_def char_code_def
lemmas key_literal = json_key_def quote_char_def

text \<open>What the extractor returns fits the caller's buffer and contains no quote, no
  backslash and no control character, whatever the text.\<close>

lemma json_copy_value_sound:
  "json_copy_value out_size offset s = Some v \<Longrightarrow> plain v \<and> (v = [] \<or> offset + length v < out_size)"
proof (induction s arbitrary: offset v)
  case Nil
  then show ?case by simp
next
  case (Cons c s)
  show ?case
  proof (cases "c = quote_char")
    case True
    then show ?thesis using Cons.prems by simp
  next
    case False
    with Cons.prems obtain w where w: "json_copy_value out_size (offset + 1) s = Some w" "v = c # w"
      and c: "\<not> char_code c < 0x20" "c \<noteq> backslash_char" "offset + 1 < out_size"
      by (auto split: if_splits)
    then show ?thesis using Cons.IH [OF w(1)] False by (auto simp: plain_char_def)
  qed
qed

lemma json_get_string_larger:
  assumes "json_get_string json key n = Some v" "n \<le> m"
  shows "json_get_string json key m = Some v"
proof -
  have copy: "json_copy_value n k s = Some v \<Longrightarrow> json_copy_value m k s = Some v" for k s v
    using assms(2) by (induction s arbitrary: k v) (auto split: if_splits)
  show ?thesis using assms by (auto simp: json_get_string_def split: if_splits option.splits list.splits intro: copy)
qed

lemma json_get_string_sound:
  assumes "json_get_string json key out_size = Some v"
  shows "plain v \<and> length v < out_size"
proof -
  obtain s where "json_copy_value out_size 0 s = Some v" "0 < out_size"
    using assms by (auto simp: json_get_string_def split: if_splits option.splits list.splits)
  then show ?thesis using json_copy_value_sound [of out_size 0 s v] by auto
qed

section \<open>Properties\<close>

text \<open>
  Memory safety of the extractor: on any text, key and buffer size, a successful
  extraction stores fewer characters than the buffer holds (so the terminating zero fits),
  and the stored value contains no quote, no backslash and no control character.
\<close>

theorem json_get_string_bounded:
  assumes "json_get_string json key out_size = Some v"
  shows "length v < out_size \<and>
    (\<forall>c \<in> set v. c \<noteq> quote_char \<and> c \<noteq> backslash_char \<and> 0x20 \<le> char_code c)"
  using json_get_string_sound [OF assms] by (auto simp: plain_def plain_char_def)

theorem json_get_string_bounded_witness:
  "json_get_string (json_object [(''type'', JStr ''hello'')]) ''type'' 32 = Some ''hello''
   \<and> length ''hello'' < (32::nat)"
proof -
  have "json_get_string (json_object [(''type'', JStr ''hello'')]) ''type'' 32 = Some ''hello''"
    by code_simp
  with json_get_string_bounded [OF this] show ?thesis by simp
qed

text \<open>
  C31. Extraction from a printed object: if the first field named \<open>key\<close> comes before any
  field whose string value is \<open>key\<close>, and carries a string that fits the buffer, the
  extractor returns exactly that string. All values are plain text, as the program prints
  them.
\<close>

theorem json_extract_printed:
  assumes "json_key key" and "plain_fields fs"
    and "json_find key fs = Some (JStr s)" and "length s < out_size"
  shows "json_get_string (json_object fs) key out_size = Some s"
  using assms by (simp add: json_get_string_object)

theorem json_extract_printed_witness:
  "json_get_string (json_object [(''type'', JStr ''register''), (''username'', JStr ''alice'')])
     ''username'' 33 = Some ''alice''"
proof (rule json_extract_printed)
  show "json_key ''username''" by (simp add: json_key_def quote_char_def)
  show "plain_fields [(''type'', JStr ''register''), (''username'', JStr ''alice'')]"
    by (simp add: plain_char_def quote_char_def backslash_char_def char_code_def)
qed simp_all

text \<open>
  C39. The extractor is not a JSON parser: a field whose string value equals the key hides a
  later field of that name. A registration message for the valid username \<open>public_key\<close>
  therefore yields no public key, whatever key it carries.
\<close>

theorem json_value_hides_key:
  "valid_username ''public_key'' \<and>
   json_get_string
     (json_object [(''type'', JStr ''register''), (''username'', JStr ''public_key''),
                   (''public_key'', JStr hex)]) ''public_key'' out_size = None"
proof -
  let ?k = "''public_key''"
  let ?rest = "quote_char # ?k @ quote_char # CHR '':'' # quote_char # hex @ quote_char # ''}''"
  have obj: "json_object [(''type'', JStr ''register''), (''username'', JStr ?k), (?k, JStr hex)] =
      CHR 0x7B # json_field_text (''type'', JStr ''register'') @ CHR '','' #
        json_field_text (''username'', JStr ?k) @ CHR '','' # ?rest"
    by (simp add: json_object_def)
  have key: "json_key ?k" by (simp add: json_key_def quote_char_def)
  have plains: "plain ''type''" "plain ''register''" "plain ''username''" "plain ?k"
    by (simp_all add: plain_char_def quote_char_def backslash_char_def char_code_def)
  have "strstr (json_object [(''type'', JStr ''register''), (''username'', JStr ?k), (?k, JStr hex)])
          (json_pattern ?k) = Some (json_pattern ?k @ CHR '','' # ?rest)"
    unfolding obj
    using strstr_field [OF key plains(1), of "JStr ''register''" "CHR '',''"]
      strstr_field [OF key plains(3), of "JStr ?k" "CHR '',''"] plains
    by (subst strstr_skip_char) (simp_all add: quote_char_def del: json_field_text.simps)
  then have "json_after_colon (json_object [(''type'', JStr ''register''), (''username'', JStr ?k), (?k, JStr hex)]) ?k = None"
    by (simp add: json_after_colon_def Let_def json_ws_def)
  moreover have "valid_username ?k" by code_simp
  ultimately show ?thesis by (simp add: json_get_string_def)
qed

end
