(* ===== verification/Server.thy ===== *)
theory Server
  imports Users Json Sodium
begin

text \<open>
  \<open>server/main.c\<close>: the control server. libwebsockets calls \<open>callback_chat_control\<close> with
  one reason at a time from a single thread; the per-connection \<open>chat_server_session_t\<close>
  lives in memory that libwebsockets owns and frees after the close callback. The model keeps
  these sessions in a store from connection addresses to sessions, so that a registry entry
  that outlives its connection is a dangling address; reading one is the value
  \<open>Inl Use_after_free\<close>. A connection's websocket and its session memory have the same
  lifetime and the same address here. Logging has no effect on the modelled state.
\<close>

section \<open>State\<close>

definition CHAT_SERVER_MAX_JSON_SIZE :: nat where "CHAT_SERVER_MAX_JSON_SIZE = 4096"
definition CHAT_SERVER_CHALLENGE_BYTES :: nat where "CHAT_SERVER_CHALLENGE_BYTES = 32"
definition CHAT_SERVER_HEX_PUBLIC_KEY_LEN :: nat where
  "CHAT_SERVER_HEX_PUBLIC_KEY_LEN = crypto_sign_PUBLICKEYBYTES * 2 + 1"
definition CHAT_SERVER_HEX_SIGNATURE_LEN :: nat where
  "CHAT_SERVER_HEX_SIGNATURE_LEN = crypto_sign_BYTES * 2 + 1"
definition CHAT_SERVER_SESSION_ID_MAX :: nat where "CHAT_SERVER_SESSION_ID_MAX = 128"

lemmas server_consts [simp] =
  CHAT_SERVER_MAX_JSON_SIZE_def CHAT_SERVER_CHALLENGE_BYTES_def CHAT_SERVER_HEX_PUBLIC_KEY_LEN_def
  CHAT_SERVER_HEX_SIGNATURE_LEN_def CHAT_SERVER_SESSION_ID_MAX_def

text \<open>\<open>ss_pending\<close> is the output buffer behind the \<open>LWS_PRE\<close> bytes. The \<open>state\<close> pointer of
  the source always points to the one server state.\<close>

record chat_server_session_t =
  ss_username :: string
  ss_challenge :: bytes
  ss_has_challenge :: bool
  ss_authenticated :: bool
  ss_pending :: string
  ss_pending_len :: nat

text \<open>\<open>sv_writable\<close> are the connections for which a writable callback was requested,
  \<open>sv_sent\<close> the texts handed to \<open>lws_write\<close> in full, in order.\<close>

record server =
  sv_users :: chat_server_users_t
  sv_sessions :: "nat \<Rightarrow> chat_server_session_t option"
  sv_writable :: "nat set"
  sv_sent :: "(nat \<times> string) list"

datatype fault = Use_after_free

type_synonym outcome = "fault + int \<times> server"

section \<open>Sending\<close>

definition send_json :: "nat \<Rightarrow> nat \<Rightarrow> string \<Rightarrow> server \<Rightarrow> outcome" where
  "send_json wsi session json s =
     (if length json \<ge> CHAT_SERVER_MAX_JSON_SIZE then Inr (-1, s)
      else case sv_sessions s session of
             None \<Rightarrow> Inl Use_after_free
           | Some sess \<Rightarrow>
               Inr (0, s\<lparr>sv_sessions := (sv_sessions s)
                          (session \<mapsto> sess\<lparr>ss_pending := json @ drop (length json) (ss_pending sess),
                                          ss_pending_len := length json\<rparr>),
                         sv_writable := insert wsi (sv_writable s)\<rparr>))"

definition send_error :: "nat \<Rightarrow> nat \<Rightarrow> string \<Rightarrow> server \<Rightarrow> outcome" where
  "send_error wsi session code s =
     (let response = json_object [(''type'', JStr ''error''), (''code'', JStr code)] in
      if \<not> snprintf_fits 256 response then Inr (-1, s) else send_json wsi session response s)"

section \<open>Handlers\<close>

definition handle_register :: "('h, 's) sodium \<Rightarrow> nat \<Rightarrow> string \<Rightarrow> server \<Rightarrow> outcome" where
  "handle_register sod w json s =
     (case json_get_string json ''username'' (CHAT_USERNAME_MAX_LEN + 1) of
        None \<Rightarrow> send_error w w ''bad_register'' s
      | Some username \<Rightarrow>
     (case json_get_string json ''public_key'' CHAT_SERVER_HEX_PUBLIC_KEY_LEN of
        None \<Rightarrow> send_error w w ''bad_register'' s
      | Some public_key_hex \<Rightarrow>
      if \<not> valid_username username then send_error w w ''bad_register'' s
      else
     (case hex_to_bin sod public_key_hex crypto_sign_PUBLICKEYBYTES of
        None \<Rightarrow> send_error w w ''bad_register'' s
      | Some public_key \<Rightarrow>
          (let (result, users') = chat_server_users_register (sv_users s) (Some username) (Some public_key);
               s' = s\<lparr>sv_users := users'\<rparr>
           in if result \<noteq> CHAT_SERVER_USERS_OK
              then send_error w w (chat_server_users_result_name result) s'
              else send_json w w (json_object [(''type'', JStr ''register_ok'')]) s'))))"

text \<open>\<open>rnd\<close> are the bytes \<open>randombytes_buf\<close> writes into the challenge.\<close>

definition handle_hello ::
  "('h, 's) sodium \<Rightarrow> bytes \<Rightarrow> nat \<Rightarrow> string \<Rightarrow> server \<Rightarrow> outcome" where
  "handle_hello sod rnd w json s =
     (case json_get_string json ''username'' (CHAT_USERNAME_MAX_LEN + 1) of
        None \<Rightarrow> send_error w w ''bad_hello'' s
      | Some username \<Rightarrow>
          if \<not> valid_username username then send_error w w ''bad_hello'' s
          else if chat_server_users_find (sv_users s) (Some username) = None
            then send_error w w ''unknown_user'' s
          else
            (case sv_sessions s w of
               None \<Rightarrow> Inl Use_after_free
             | Some sess \<Rightarrow>
                 (let s' = s\<lparr>sv_sessions := (sv_sessions s)
                       (w \<mapsto> sess\<lparr>ss_challenge := rnd, ss_has_challenge := True,
                                  ss_authenticated := False,
                                  ss_username := snprintf_store (CHAT_USERNAME_MAX_LEN + 1) username\<rparr>)\<rparr>;
                      challenge_hex = sodium_bin2hex sod rnd;
                      response = json_object [(''type'', JStr ''auth_challenge''),
                                              (''challenge'', JStr challenge_hex)]
                  in if \<not> snprintf_fits 192 response then Inr (-1, s')
                     else send_json w w response s')))"

definition handle_auth_response :: "('h, 's) sodium \<Rightarrow> nat \<Rightarrow> string \<Rightarrow> server \<Rightarrow> outcome" where
  "handle_auth_response sod w json s =
     (case sv_sessions s w of
        None \<Rightarrow> Inl Use_after_free
      | Some sess \<Rightarrow>
          if \<not> ss_has_challenge sess \<or> ss_username sess = [] then send_error w w ''auth_not_started'' s
          else
     (case json_get_string json ''signature'' CHAT_SERVER_HEX_SIGNATURE_LEN of
        None \<Rightarrow> send_error w w ''bad_auth_response'' s
      | Some signature_hex \<Rightarrow>
     (case hex_to_bin sod signature_hex crypto_sign_BYTES of
        None \<Rightarrow> send_error w w ''bad_auth_response'' s
      | Some signature \<Rightarrow>
     (case chat_server_users_find (sv_users s) (Some (ss_username sess)) of
        None \<Rightarrow> send_error w w ''unknown_user'' s
      | Some user \<Rightarrow>
          if \<not> crypto_sign_verify_detached sod signature (ss_challenge sess) (su_identity_pk user)
          then send_error w w ''authentication_failed'' s
          else
            (let sess' = sess\<lparr>ss_challenge := replicate CHAT_SERVER_CHALLENGE_BYTES 0,
                              ss_has_challenge := False, ss_authenticated := True\<rparr>;
                 (result, users') = chat_server_users_set_online (sv_users s)
                                      (Some (ss_username sess)) (Some w) (Some w)
             in if result \<noteq> CHAT_SERVER_USERS_OK
                then send_error w w (chat_server_users_result_name result)
                       (s\<lparr>sv_users := users',
                         sv_sessions := (sv_sessions s)(w \<mapsto> sess'\<lparr>ss_authenticated := False\<rparr>)\<rparr>)
                else send_json w w (json_object [(''type'', JStr ''auth_ok'')])
                       (s\<lparr>sv_users := users', sv_sessions := (sv_sessions s)(w \<mapsto> sess')\<rparr>))))))"

definition signaling_type_is_supported :: "string \<Rightarrow> bool" where
  "signaling_type_is_supported type \<longleftrightarrow>
     type = ''chat_request'' \<or> type = ''chat_accept'' \<or> type = ''chat_reject''
     \<or> type = ''ice_credentials'' \<or> type = ''ice_candidate'' \<or> type = ''ice_done''
     \<or> type = ''ice_gathering_done'' \<or> type = ''chat_end'' \<or> type = ''chat_cancel''"

text \<open>The second half of \<open>handle_signaling_forward\<close>: the target is looked up and served.\<close>

definition forward_to_target :: "nat \<Rightarrow> string \<Rightarrow> string \<Rightarrow> server \<Rightarrow> outcome" where
  "forward_to_target w to_name json s =
     (case chat_server_users_find_mut (sv_users s) (Some to_name) of
        None \<Rightarrow> send_error w w ''peer_offline'' s
      | Some i \<Rightarrow>
          (let target = reg_users (sv_users s) ! i in
           case (su_wsi target, su_session target) of
             (Some target_wsi, Some target_session) \<Rightarrow>
               if \<not> su_online target then send_error w w ''peer_offline'' s
               else
                 (case sv_sessions s target_session of
                    None \<Rightarrow> Inl Use_after_free
                  | Some tsess \<Rightarrow>
                      if ss_pending_len tsess \<noteq> 0 then send_error w w ''peer_busy'' s
                      else send_json target_wsi target_session json s)
           | _ \<Rightarrow> send_error w w ''peer_offline'' s))"

definition handle_signaling_forward ::
  "('h, 's) sodium \<Rightarrow> nat \<Rightarrow> string \<Rightarrow> string \<Rightarrow> server \<Rightarrow> outcome" where
  "handle_signaling_forward sod w json type s =
     (case sv_sessions s w of
        None \<Rightarrow> Inl Use_after_free
      | Some sess \<Rightarrow>
          if \<not> ss_authenticated sess then send_error w w ''authentication_required'' s
          else
     (case (json_get_string json ''from'' (CHAT_USERNAME_MAX_LEN + 1),
            json_get_string json ''to'' (CHAT_USERNAME_MAX_LEN + 1),
            json_get_string json ''session_id'' CHAT_SERVER_SESSION_ID_MAX) of
        (Some from, Some to_name, Some session_id) \<Rightarrow>
          if \<not> valid_username from \<or> \<not> valid_username to_name \<or> session_id = []
            then send_error w w ''bad_signaling_message'' s
          else if from \<noteq> ss_username sess then send_error w w ''from_mismatch'' s
          else
            (case chat_server_users_find (sv_users s) (Some from) of
               None \<Rightarrow> send_error w w ''unknown_user'' s
             | Some sender \<Rightarrow>
                 if type = ''chat_request'' \<or> type = ''chat_accept'' then
                   (case json_get_string json ''public_key'' CHAT_SERVER_HEX_PUBLIC_KEY_LEN of
                      None \<Rightarrow> send_error w w ''bad_public_key'' s
                    | Some public_key_hex \<Rightarrow>
                   (case hex_to_bin sod public_key_hex crypto_sign_PUBLICKEYBYTES of
                      None \<Rightarrow> send_error w w ''bad_public_key'' s
                    | Some public_key \<Rightarrow>
                        if public_key \<noteq> su_identity_pk sender
                        then send_error w w ''public_key_mismatch'' s
                        else forward_to_target w to_name json s))
                 else forward_to_target w to_name json s)
      | _ \<Rightarrow> send_error w w ''bad_signaling_message'' s))"

definition handle_user_lookup :: "('h, 's) sodium \<Rightarrow> nat \<Rightarrow> string \<Rightarrow> server \<Rightarrow> outcome" where
  "handle_user_lookup sod w json s =
     (case sv_sessions s w of
        None \<Rightarrow> Inl Use_after_free
      | Some sess \<Rightarrow>
          if \<not> ss_authenticated sess then send_error w w ''authentication_required'' s
          else
     (case json_get_string json ''username'' (CHAT_USERNAME_MAX_LEN + 1) of
        None \<Rightarrow> send_error w w ''bad_lookup'' s
      | Some username \<Rightarrow>
          if \<not> valid_username username then send_error w w ''bad_lookup'' s
          else
            (case chat_server_users_find (sv_users s) (Some username) of
               None \<Rightarrow>
                 (let response = json_object [(''type'', JStr ''user_status''),
                        (''username'', JStr username), (''known'', JLit ''false''),
                        (''online'', JLit ''false'')]
                  in if \<not> snprintf_fits 160 response then Inr (-1, s)
                     else send_json w w response s)
             | Some user \<Rightarrow>
                 (let response = json_object [(''type'', JStr ''user_status''),
                        (''username'', JStr (su_username user)), (''known'', JLit ''true''),
                        (''online'', JLit (if su_online user then ''true'' else ''false'')),
                        (''public_key'', JStr (sodium_bin2hex sod (su_identity_pk user)))]
                  in if \<not> snprintf_fits 320 response then Inr (-1, s)
                     else send_json w w response s))))"

definition handle_message ::
  "('h, 's) sodium \<Rightarrow> bytes \<Rightarrow> nat \<Rightarrow> string \<Rightarrow> server \<Rightarrow> outcome" where
  "handle_message sod rnd w json s =
     (case json_get_string json ''type'' 32 of
        None \<Rightarrow> send_error w w ''missing_type'' s
      | Some type \<Rightarrow>
          if type = ''register'' then handle_register sod w json s
          else if type = ''hello'' then handle_hello sod rnd w json s
          else if type = ''auth_response'' then handle_auth_response sod w json s
          else if type = ''user_lookup'' then handle_user_lookup sod w json s
          else if signaling_type_is_supported type then handle_signaling_forward sod w json type s
          else send_error w w ''unknown_type'' s)"

section \<open>The websocket callback\<close>

text \<open>
  The reasons the callback distinguishes, with what libwebsockets passes or answers: the
  received bytes, the number of bytes still missing and whether the fragment is the last;
  the random bytes of a challenge; the result of \<open>lws_write\<close>.
\<close>

datatype callback_reason =
    LWS_CALLBACK_ESTABLISHED
  | LWS_CALLBACK_RECEIVE string nat bool bytes
  | LWS_CALLBACK_SERVER_WRITEABLE int
  | LWS_CALLBACK_CLOSED
  | LWS_CALLBACK_OTHER

definition zero_session :: chat_server_session_t where
  "zero_session = \<lparr>ss_username = [], ss_challenge = replicate CHAT_SERVER_CHALLENGE_BYTES 0,
     ss_has_challenge = False, ss_authenticated = False,
     ss_pending = replicate CHAT_SERVER_MAX_JSON_SIZE nul, ss_pending_len = 0\<rparr>"

fun callback_chat_control ::
  "('h, 's) sodium \<Rightarrow> nat \<Rightarrow> callback_reason \<Rightarrow> server \<Rightarrow> outcome" where
  "callback_chat_control sod w LWS_CALLBACK_ESTABLISHED s =
     Inr (0, s\<lparr>sv_sessions := (sv_sessions s)(w \<mapsto> zero_session)\<rparr>)"
| "callback_chat_control sod w (LWS_CALLBACK_RECEIVE inp remaining final rnd) s =
     (if length inp \<ge> CHAT_SERVER_MAX_JSON_SIZE \<or> remaining \<noteq> 0 \<or> \<not> final
      then send_error w w ''message_too_large_or_fragmented'' s
      else handle_message sod rnd w (cstr inp) s)"
| "callback_chat_control sod w (LWS_CALLBACK_SERVER_WRITEABLE written) s =
     (case sv_sessions s w of
        None \<Rightarrow> Inl Use_after_free
      | Some sess \<Rightarrow>
          if ss_pending_len sess = 0 then Inr (0, s)
          else if written < int (ss_pending_len sess) then Inr (-1, s)
          else Inr (0, s\<lparr>sv_sessions := (sv_sessions s)(w \<mapsto> sess\<lparr>ss_pending_len := 0\<rparr>),
                        sv_sent := sv_sent s @ [(w, take (ss_pending_len sess) (ss_pending sess))]\<rparr>))"
| "callback_chat_control sod w LWS_CALLBACK_CLOSED s =
     (case sv_sessions s w of
        None \<Rightarrow> Inr (0, s)
      | Some sess \<Rightarrow>
          if ss_authenticated sess
          then Inr (0, s\<lparr>sv_users := chat_server_users_set_offline_by_wsi (sv_users s) (Some w),
                        sv_sessions := (sv_sessions s)
                          (w \<mapsto> sess\<lparr>ss_challenge := replicate CHAT_SERVER_CHALLENGE_BYTES 0\<rparr>)\<rparr>)
          else Inr (0, s))"
| "callback_chat_control sod w LWS_CALLBACK_OTHER s = Inr (0, s)"

section \<open>Runs of the server\<close>

text \<open>
  libwebsockets' side of the contract: a connection is established at an address that is
  not in use, its callbacks come while it lives, and its session memory is freed after the
  close callback. An address may be used again for a later connection.
\<close>

datatype server_event =
    Ev_established nat
  | Ev_receive nat string nat bool bytes
  | Ev_writeable nat int
  | Ev_closed nat

fun server_callback :: "('h, 's) sodium \<Rightarrow> server_event \<Rightarrow> server \<Rightarrow> outcome" where
  "server_callback sod (Ev_established w) s = callback_chat_control sod w LWS_CALLBACK_ESTABLISHED s"
| "server_callback sod (Ev_receive w inp remaining final rnd) s =
     callback_chat_control sod w (LWS_CALLBACK_RECEIVE inp remaining final rnd) s"
| "server_callback sod (Ev_writeable w written) s =
     callback_chat_control sod w (LWS_CALLBACK_SERVER_WRITEABLE written) s"
| "server_callback sod (Ev_closed w) s =
     (case callback_chat_control sod w LWS_CALLBACK_CLOSED s of
        Inl f \<Rightarrow> Inl f
      | Inr (rc, s') \<Rightarrow> Inr (rc, s'\<lparr>sv_sessions := (sv_sessions s')(w := None)\<rparr>))"

fun event_enabled :: "server_event \<Rightarrow> server \<Rightarrow> bool" where
  "event_enabled (Ev_established w) s \<longleftrightarrow> sv_sessions s w = None"
| "event_enabled (Ev_receive w inp remaining final rnd) s \<longleftrightarrow>
     sv_sessions s w \<noteq> None \<and> length rnd = CHAT_SERVER_CHALLENGE_BYTES"
| "event_enabled (Ev_writeable w written) s \<longleftrightarrow> sv_sessions s w \<noteq> None"
| "event_enabled (Ev_closed w) s \<longleftrightarrow> sv_sessions s w \<noteq> None"

inductive server_step :: "('h, 's) sodium \<Rightarrow> server \<Rightarrow> server_event \<Rightarrow> server \<Rightarrow> bool"
  for sod :: "('h, 's) sodium" where
  server_stepI: "event_enabled e s \<Longrightarrow> server_callback sod e s = Inr (rc, s') \<Longrightarrow> server_step sod s e s'"

inductive_cases server_stepE: "server_step sod s e s'"

inductive_simps server_step_simps: "server_step sod s e s'"

definition server_init :: "chat_server_user_t list \<Rightarrow> nat \<Rightarrow> server" where
  "server_init slots count =
     \<lparr>sv_users = chat_server_users_init \<lparr>reg_users = slots, reg_count = count\<rparr>,
      sv_sessions = Map.empty, sv_writable = {}, sv_sent = []\<rparr>"

inductive server_reachable :: "('h, 's) sodium \<Rightarrow> server \<Rightarrow> bool" for sod :: "('h, 's) sodium" where
  reach_init: "length slots = CHAT_SERVER_MAX_USERS \<Longrightarrow> server_reachable sod (server_init slots count)"
| reach_step: "server_reachable sod s \<Longrightarrow> server_step sod s e s' \<Longrightarrow> server_reachable sod s'"

section \<open>The command line\<close>

definition CHAT_SERVER_DEFAULT_PORT :: int where "CHAT_SERVER_DEFAULT_PORT = 8787"

text \<open>The loop over the arguments after the program name.\<close>

fun parse_port :: "string list \<Rightarrow> int" where
  "parse_port [] = CHAT_SERVER_DEFAULT_PORT"
| "parse_port [a] = CHAT_SERVER_DEFAULT_PORT"
| "parse_port (a # b # args) =
     (if a = ''--port'' \<and> 0 < atoi b \<and> atoi b \<le> 65535 then atoi b else parse_port (b # args))"

lemma parse_port_range: "0 < parse_port args \<and> parse_port args \<le> 65535"
  by (induction args rule: parse_port.induct) (auto simp: CHAT_SERVER_DEFAULT_PORT_def)

section \<open>An abstract description of received messages\<close>

text \<open>
  The handlers differ in their many early returns, which all answer the sender and change
  nothing else. \<open>recv_effect\<close> lists what a received message can do before the answer is
  queued; \<open>replied\<close> is the queuing of an answer.
\<close>

definition with_pending :: "chat_server_session_t \<Rightarrow> string \<Rightarrow> chat_server_session_t" where
  "with_pending sess json =
     sess\<lparr>ss_pending := json @ drop (length json) (ss_pending sess), ss_pending_len := length json\<rparr>"

definition queue_to :: "nat \<Rightarrow> nat \<Rightarrow> chat_server_session_t \<Rightarrow> string \<Rightarrow> server \<Rightarrow> server" where
  "queue_to wsi p sess json s =
     s\<lparr>sv_sessions := (sv_sessions s)(p \<mapsto> with_pending sess json),
       sv_writable := insert wsi (sv_writable s)\<rparr>"

definition replied :: "nat \<Rightarrow> server \<Rightarrow> server \<Rightarrow> bool" where
  "replied w s s' \<longleftrightarrow> s' = s \<or>
     (\<exists>sess json. length json < 4096 \<and> sv_sessions s w = Some sess \<and> s' = queue_to w w sess json s)"

inductive recv_effect ::
  "('h, 's) sodium \<Rightarrow> bytes \<Rightarrow> nat \<Rightarrow> string \<Rightarrow> server \<Rightarrow> server \<Rightarrow> bool"
  for sod :: "('h, 's) sodium" and rnd :: bytes and w :: nat and json :: string and s :: server where
  eff_none: "recv_effect sod rnd w json s s"
| eff_register: "json_get_string json ''type'' 32 = Some ''register'' \<Longrightarrow>
     json_get_string json ''username'' 33 = Some u \<Longrightarrow> length pk = 32 \<Longrightarrow>
     reg_register (sv_users s) u pk = (CHAT_SERVER_USERS_OK, users') \<Longrightarrow>
     recv_effect sod rnd w json s (s\<lparr>sv_users := users'\<rparr>)"
| eff_hello: "json_get_string json ''type'' 32 = Some ''hello'' \<Longrightarrow>
     valid_username u \<Longrightarrow> reg_lookup (sv_users s) u \<noteq> None \<Longrightarrow> sv_sessions s w = Some sess \<Longrightarrow>
     recv_effect sod rnd w json s
       (s\<lparr>sv_sessions := (sv_sessions s)
            (w \<mapsto> sess\<lparr>ss_challenge := rnd, ss_has_challenge := True, ss_authenticated := False,
                       ss_username := u\<rparr>)\<rparr>)"
| eff_auth: "json_get_string json ''type'' 32 = Some ''auth_response'' \<Longrightarrow>
     sv_sessions s w = Some sess \<Longrightarrow> ss_has_challenge sess \<Longrightarrow>
     json_get_string json ''signature'' 129 = Some hex \<Longrightarrow> hex_to_bin sod hex 64 = Some sig \<Longrightarrow>
     reg_lookup (sv_users s) (ss_username sess) = Some user \<Longrightarrow>
     crypto_sign_verify_detached sod sig (ss_challenge sess) (su_identity_pk user) \<Longrightarrow>
     recv_effect sod rnd w json s
       (s\<lparr>sv_users := snd (reg_set_online (sv_users s) (ss_username sess) (Some w) (Some w)),
          sv_sessions := (sv_sessions s)
            (w \<mapsto> sess\<lparr>ss_challenge := replicate 32 0, ss_has_challenge := False,
                       ss_authenticated := True\<rparr>)\<rparr>)"
| eff_forward: "json_get_string json ''type'' 32 = Some type \<Longrightarrow> signaling_type_is_supported type \<Longrightarrow>
     sv_sessions s w = Some sess \<Longrightarrow> ss_authenticated sess \<Longrightarrow>
     json_get_string json ''from'' 33 = Some (ss_username sess) \<Longrightarrow>
     json_get_string json ''to'' 33 = Some to_name \<Longrightarrow>
     reg_lookup (sv_users s) (ss_username sess) = Some sender \<Longrightarrow>
     (type = ''chat_request'' \<or> type = ''chat_accept'' \<Longrightarrow>
        \<exists>hex. json_get_string json ''public_key'' 65 = Some hex
             \<and> hex_to_bin sod hex 32 = Some (su_identity_pk sender)) \<Longrightarrow>
     reg_lookup (sv_users s) to_name = Some target \<Longrightarrow>
     su_online target \<Longrightarrow> su_wsi target = Some tw \<Longrightarrow> su_session target = Some p \<Longrightarrow>
     sv_sessions s p = Some tsess \<Longrightarrow> ss_pending_len tsess = 0 \<Longrightarrow> length json < 4096 \<Longrightarrow>
     recv_effect sod rnd w json s (queue_to tw p tsess json s)"

subsection \<open>The handlers implement it\<close>

lemma replied_refl [simp]: "replied w s s"
  by (simp add: replied_def)

lemma send_json_own:
  assumes "sv_sessions s w = Some sess"
  shows "\<exists>rc s'. send_json w w json s = Inr (rc, s') \<and> replied w s s'"
  using assms by (auto simp: send_json_def replied_def queue_to_def with_pending_def not_le)

lemma send_error_own:
  assumes "sv_sessions s w = Some sess"
  shows "\<exists>rc s'. send_error w w code s = Inr (rc, s') \<and> replied w s s'"
  using send_json_own [OF assms] by (auto simp: send_error_def Let_def)

text \<open>An outcome is explained by an effect followed by an answer.\<close>

definition explained ::
  "('h, 's) sodium \<Rightarrow> bytes \<Rightarrow> nat \<Rightarrow> string \<Rightarrow> server \<Rightarrow> outcome \<Rightarrow> bool" where
  "explained sod rnd w json s out \<longleftrightarrow>
     (\<exists>rc s1 s'. out = Inr (rc, s') \<and> recv_effect sod rnd w json s s1 \<and> replied w s1 s')"

lemma explained_error:
  "sv_sessions s w = Some sess \<Longrightarrow> explained sod rnd w json s (send_error w w code s)"
  using send_error_own [of s w sess code] recv_effect.eff_none
  unfolding explained_def by metis

lemma explained_send:
  "sv_sessions s w = Some sess \<Longrightarrow> explained sod rnd w json s (send_json w w response s)"
  using send_json_own [of s w sess response] recv_effect.eff_none
  unfolding explained_def by metis

lemma explained_after:
  assumes "recv_effect sod rnd w json s s1" "sv_sessions s1 w = Some sess"
  shows "explained sod rnd w json s (send_json w w response s1)"
    and "explained sod rnd w json s (Inr (rc, s1))"
  using send_json_own [OF assms(2), of response] assms(1) replied_refl
  unfolding explained_def by metis+

lemma json_username_short: "json_get_string json key 33 = Some u \<Longrightarrow> length u < 33"
  using json_get_string_sound by blast

lemma handle_register_explained:
  assumes "sv_sessions s w = Some sess" "json_get_string json ''type'' 32 = Some ''register''"
  shows "explained sod rnd w json s (handle_register sod w json s)"
proof -
  note err = explained_error [OF assms(1)]
  show ?thesis
  proof (cases "json_get_string json ''username'' 33")
    case None
    then show ?thesis using err by (simp add: handle_register_def)
  next
    case u: (Some u)
    show ?thesis
    proof (cases "json_get_string json ''public_key'' 65")
      case None
      then show ?thesis using err u by (simp add: handle_register_def)
    next
      case h: (Some hex)
      show ?thesis
      proof (cases "valid_username u \<and> hex_to_bin sod hex 32 \<noteq> None")
        case False
        then show ?thesis using err u h by (auto simp: handle_register_def)
      next
        case True
        then obtain pk where pk: "hex_to_bin sod hex 32 = Some pk" and v: "valid_username u" by auto
        then have len: "length pk = 32"
          by (auto simp: hex_to_bin_def split: option.splits if_splits)
        obtain res users' where reg: "reg_register (sv_users s) u pk = (res, users')" by force
        show ?thesis
        proof (cases "res = CHAT_SERVER_USERS_OK")
          case True
          with reg have "recv_effect sod rnd w json s (s\<lparr>sv_users := users'\<rparr>)"
            using eff_register [OF assms(2) u len] by simp
          then show ?thesis
            using explained_after(1) [of sod rnd w json s "s\<lparr>sv_users := users'\<rparr>" sess] assms(1)
            by (simp add: handle_register_def u h v pk reg True)
        next
          case False
          then have "users' = sv_users s" using reg.register_error [OF reg] by simp
          then show ?thesis using err False by (simp add: handle_register_def u h v pk reg)
        qed
      qed
    qed
  qed
qed

lemma handle_hello_explained:
  assumes "sv_sessions s w = Some sess" "json_get_string json ''type'' 32 = Some ''hello''"
  shows "explained sod rnd w json s (handle_hello sod rnd w json s)"
proof (cases "json_get_string json ''username'' 33")
  case None
  then show ?thesis using explained_error [OF assms(1)] by (simp add: handle_hello_def)
next
  case (Some u)
  show ?thesis
  proof (cases "valid_username u \<and> reg_lookup (sv_users s) u \<noteq> None")
    case False
    then show ?thesis using explained_error [OF assms(1)] Some by (auto simp: handle_hello_def)
  next
    case True
    have store: "snprintf_store 33 u = u"
      using json_username_short [OF Some] by (simp add: snprintf_store_def)
    let ?s1 = "s\<lparr>sv_sessions := (sv_sessions s)
            (w \<mapsto> sess\<lparr>ss_challenge := rnd, ss_has_challenge := True, ss_authenticated := False,
                       ss_username := u\<rparr>)\<rparr>"
    have eff: "recv_effect sod rnd w json s ?s1"
      using eff_hello [OF assms(2) _ _ assms(1)] True by blast
    show ?thesis
      using explained_after [OF eff] True
      by (auto simp: handle_hello_def Some Let_def store assms(1))
  qed
qed

lemma handle_auth_explained:
  assumes "sv_sessions s w = Some sess" "json_get_string json ''type'' 32 = Some ''auth_response''"
  shows "explained sod rnd w json s (handle_auth_response sod w json s)"
proof (cases "ss_has_challenge sess \<and> ss_username sess \<noteq> [] \<and>
    (\<exists>hex sig user. json_get_string json ''signature'' 129 = Some hex \<and> hex_to_bin sod hex 64 = Some sig
       \<and> reg_lookup (sv_users s) (ss_username sess) = Some user
       \<and> crypto_sign_verify_detached sod sig (ss_challenge sess) (su_identity_pk user))")
  case False
  then show ?thesis
    using explained_error [OF assms(1)]
    by (auto simp: handle_auth_response_def assms(1) split: option.splits)
next
  case True
  then obtain hex sig user where a: "json_get_string json ''signature'' 129 = Some hex"
    "hex_to_bin sod hex 64 = Some sig" "reg_lookup (sv_users s) (ss_username sess) = Some user"
    "crypto_sign_verify_detached sod sig (ss_challenge sess) (su_identity_pk user)"
    "ss_has_challenge sess" "ss_username sess \<noteq> []"
    by blast
  obtain users' where on: "reg_set_online (sv_users s) (ss_username sess) (Some w) (Some w) =
      (CHAT_SERVER_USERS_OK, users')"
    using reg.online_ok [of "sv_users s" "ss_username sess" "Some w" "Some w"] a(3)
    by (metis option.distinct(1) prod.collapse)
  note eff = eff_auth [OF assms(2,1) a(5) a(1-4), of rnd]
  show ?thesis
    using explained_after(1) [OF eff]
    by (auto simp: handle_auth_response_def assms(1) a on Let_def)
qed

lemma handle_user_lookup_explained:
  assumes "sv_sessions s w = Some sess"
  shows "explained sod rnd w json s (handle_user_lookup sod w json s)"
  using explained_error [OF assms, of sod rnd json] explained_send [OF assms, of sod rnd json]
    explained_after(2) [OF recv_effect.eff_none assms, of sod rnd json]
  by (auto simp: handle_user_lookup_def assms Let_def split: option.splits)

text \<open>A handler can fail in one place only: the target of a forward is a freed session.\<close>

definition dangling :: "server \<Rightarrow> bool" where
  "dangling s \<longleftrightarrow> (\<exists>u x p. reg_lookup (sv_users s) u = Some x \<and> su_online x \<and> su_wsi x \<noteq> None
     \<and> su_session x = Some p \<and> sv_sessions s p = None)"

definition explained_or_dangling ::
  "('h, 's) sodium \<Rightarrow> bytes \<Rightarrow> nat \<Rightarrow> string \<Rightarrow> server \<Rightarrow> outcome \<Rightarrow> bool" where
  "explained_or_dangling sod rnd w json s out \<longleftrightarrow>
     explained sod rnd w json s out \<or> (out = Inl Use_after_free \<and> dangling s)"

lemma explained_weaken: "explained sod rnd w json s out \<Longrightarrow> explained_or_dangling sod rnd w json s out"
  by (simp add: explained_or_dangling_def)

lemma find_mut_lookup:
  "chat_server_users_find_mut r (Some u) = Some i \<Longrightarrow> reg_lookup r u = Some (reg_users r ! i)"
  "chat_server_users_find_mut r (Some u) = None \<Longrightarrow> reg_lookup r u = None"
  by (simp_all add: chat_server_users_find_mut_def chat_server_users_find_def)

text \<open>The three ways of forwarding: refused with an error to the sender, a target whose session is
  gone, or sent to a target with nothing pending.\<close>

lemma forward_to_target_cases:
  obtains (refused) reason where "forward_to_target w to_name json s = send_error w w reason s"
  | (freed) x tw p where "reg_lookup (sv_users s) to_name = Some x" "su_online x" "su_wsi x = Some tw" "su_session x = Some p"
      "sv_sessions s p = None" "forward_to_target w to_name json s = Inl Use_after_free"
  | (sent) x tw p tsess where "reg_lookup (sv_users s) to_name = Some x" "su_online x" "su_wsi x = Some tw" "su_session x = Some p"
      "sv_sessions s p = Some tsess" "ss_pending_len tsess = 0" "forward_to_target w to_name json s = send_json tw p json s"
proof (cases "chat_server_users_find_mut (sv_users s) (Some to_name)")
  case None
  then show thesis using refused by (simp add: forward_to_target_def)
next
  case (Some i)
  define x where "x = reg_users (sv_users s) ! i"
  have lk: "reg_lookup (sv_users s) to_name = Some x" using find_mut_lookup(1) [OF Some] by (simp add: x_def)
  show thesis
  proof (cases "su_online x \<and> su_wsi x \<noteq> None \<and> su_session x \<noteq> None")
    case False
    then have "forward_to_target w to_name json s = send_error w w ''peer_offline'' s"
      by (auto simp: forward_to_target_def Some Let_def x_def [symmetric] split: option.splits)
    then show thesis by (rule refused)
  next
    case True
    then obtain tw p where x: "su_online x" "su_wsi x = Some tw" "su_session x = Some p" by auto
    have "forward_to_target w to_name json s = (case sv_sessions s p of None \<Rightarrow> Inl Use_after_free
          | Some tsess \<Rightarrow> if ss_pending_len tsess \<noteq> 0 then send_error w w ''peer_busy'' s else send_json tw p json s)"
      by (simp add: forward_to_target_def Some Let_def x_def [symmetric] x)
    then show thesis using refused freed [OF lk x] sent [OF lk x] by (auto split: option.splits if_splits)
  qed
qed

lemma forward_to_target_explained:
  assumes own: "sv_sessions s w = Some sess"
    and pre: "\<And>target tw p tsess. reg_lookup (sv_users s) to_name = Some target \<Longrightarrow> su_online target \<Longrightarrow>
       su_wsi target = Some tw \<Longrightarrow> su_session target = Some p \<Longrightarrow> sv_sessions s p = Some tsess \<Longrightarrow>
       ss_pending_len tsess = 0 \<Longrightarrow> length json < 4096 \<Longrightarrow>
       recv_effect sod rnd w json s (queue_to tw p tsess json s)"
  shows "explained_or_dangling sod rnd w json s (forward_to_target w to_name json s)"
proof (cases rule: forward_to_target_cases [of w to_name json s])
  case (refused reason)
  then show ?thesis using explained_weaken [OF explained_error [OF own]] by simp
next
  case (freed x tw p)
  then have "dangling s" unfolding dangling_def by blast
  then show ?thesis by (simp add: freed explained_or_dangling_def)
next
  case (sent x tw p tsess)
  show ?thesis
  proof (cases "length json < 4096")
    case True
    then have "send_json tw p json s = Inr (0, queue_to tw p tsess json s)"
      using sent by (simp add: send_json_def queue_to_def with_pending_def)
    then show ?thesis
      using pre [OF sent(1-6) True] replied_refl unfolding explained_or_dangling_def explained_def by (auto simp: sent(7))
  next
    case False
    then show ?thesis
      using explained_weaken [OF explained_after(2) [OF recv_effect.eff_none own]] by (simp add: sent send_json_def)
  qed
qed

lemma handle_forward_explained:
  assumes own: "sv_sessions s w = Some sess" and ty: "json_get_string json ''type'' 32 = Some type"
    and sup: "signaling_type_is_supported type"
  shows "explained_or_dangling sod rnd w json s (handle_signaling_forward sod w json type s)"
proof -
  note err = explained_weaken [OF explained_error [OF own]]
  show ?thesis
  proof (cases "ss_authenticated sess \<and> (\<exists>to_name sid. json_get_string json ''from'' 33 = Some (ss_username sess)
       \<and> json_get_string json ''to'' 33 = Some to_name \<and> json_get_string json ''session_id'' 128 = Some sid
       \<and> valid_username (ss_username sess) \<and> valid_username to_name \<and> sid \<noteq> [])")
    case False
    then show ?thesis
      using err by (auto simp: handle_signaling_forward_def own split: option.splits)
  next
    case True
    then obtain to_name sid where a: "ss_authenticated sess" "json_get_string json ''from'' 33 = Some (ss_username sess)"
      "json_get_string json ''to'' 33 = Some to_name" "json_get_string json ''session_id'' 128 = Some sid"
      "valid_username (ss_username sess)" "valid_username to_name" "sid \<noteq> []" by blast
    have go: "explained_or_dangling sod rnd w json s (forward_to_target w to_name json s)"
      if sender: "reg_lookup (sv_users s) (ss_username sess) = Some sender"
        and key: "type = ''chat_request'' \<or> type = ''chat_accept'' \<Longrightarrow>
          \<exists>hex. json_get_string json ''public_key'' 65 = Some hex
             \<and> hex_to_bin sod hex 32 = Some (su_identity_pk sender)" for sender
      by (rule forward_to_target_explained [OF own], rule eff_forward [OF ty sup own a(1-3) sender key])
    show ?thesis
      using err go by (auto simp: handle_signaling_forward_def own a split: option.splits)
  qed
qed

lemma handle_message_explained:
  assumes "sv_sessions s w = Some sess"
  shows "explained_or_dangling sod rnd w json s (handle_message sod rnd w json s)"
proof (cases "json_get_string json ''type'' 32")
  case None
  then show ?thesis
    using explained_weaken [OF explained_error [OF assms]] by (simp add: handle_message_def)
next
  case (Some type)
  note reg = handle_register_explained [OF assms, THEN explained_weaken]
    and hello = handle_hello_explained [OF assms, THEN explained_weaken]
    and auth = handle_auth_explained [OF assms, THEN explained_weaken]
    and other = handle_user_lookup_explained [OF assms, THEN explained_weaken]
      explained_error [OF assms, THEN explained_weaken] handle_forward_explained [OF assms Some]
  consider "type = ''register''" | "type = ''hello''" | "type = ''auth_response''"
    | "type \<notin> {''register'', ''hello'', ''auth_response''}" by blast
  then show ?thesis
  proof cases
    case 1
    then show ?thesis using Some reg by (simp add: handle_message_def)
  next
    case 2
    then show ?thesis using Some hello by (simp add: handle_message_def)
  next
    case 3
    then show ?thesis using Some auth by (simp add: handle_message_def)
  next
    case 4
    then show ?thesis using Some by (simp add: handle_message_def other)
  qed
qed

text \<open>
  One received message, end to end: the received text is cut at its first zero byte, has one
  of the listed effects, and is answered.
\<close>

lemma receive_explained:
  assumes "sv_sessions s w = Some sess"
  shows "explained_or_dangling sod rnd w (cstr inp) s
           (callback_chat_control sod w (LWS_CALLBACK_RECEIVE inp remaining final rnd) s)"
  by (simp add: explained_weaken [OF explained_error [OF assms]] handle_message_explained [OF assms])

lemma step_receive_cases:
  assumes "server_step sod s (Ev_receive w inp remaining final rnd) s'"
  obtains s1 where "recv_effect sod rnd w (cstr inp) s s1" "replied w s1 s'" "length rnd = 32"
    "sv_sessions s w \<noteq> None"
proof -
  from assms obtain rc where cb: "callback_chat_control sod w (LWS_CALLBACK_RECEIVE inp remaining final rnd) s =
      Inr (rc, s')" and en: "sv_sessions s w \<noteq> None" "length rnd = 32"
    by (auto elim!: server_stepE simp del: callback_chat_control.simps)
  then obtain sess where "sv_sessions s w = Some sess" by auto
  from receive_explained [OF this, of sod rnd inp remaining final] cb en show thesis
    using that by (auto simp: explained_or_dangling_def explained_def simp del: callback_chat_control.simps)
qed

section \<open>The server's invariant\<close>

text \<open>
  Of each session: an authenticated session has no open challenge, a session that greeted or
  authenticated belongs to a registered name, challenges have their size, and the pending
  answer lies inside the buffer. Of each registered user: presence, websocket and session
  are set together.
\<close>

definition session_ok :: "chat_server_users_t \<Rightarrow> chat_server_session_t \<Rightarrow> bool" where
  "session_ok users sess \<longleftrightarrow>
     \<not> (ss_authenticated sess \<and> ss_has_challenge sess)
     \<and> (ss_authenticated sess \<or> ss_has_challenge sess \<longrightarrow> reg_lookup users (ss_username sess) \<noteq> None)
     \<and> length (ss_challenge sess) = 32
     \<and> ss_pending_len sess < 4096 \<and> ss_pending_len sess \<le> length (ss_pending sess)"

definition user_ok :: "chat_server_user_t \<Rightarrow> bool" where
  "user_ok x \<longleftrightarrow> su_wsi x = su_session x \<and> (su_online x \<longleftrightarrow> su_wsi x \<noteq> None)"

definition server_inv :: "server \<Rightarrow> bool" where
  "server_inv s \<longleftrightarrow> reg_invar (sv_users s)
     \<and> (\<forall>w sess. sv_sessions s w = Some sess \<longrightarrow> session_ok (sv_users s) sess)
     \<and> (\<forall>u x. reg_lookup (sv_users s) u = Some x \<longrightarrow> user_ok x)"

lemma server_invD:
  assumes "server_inv s"
  shows "reg_invar (sv_users s)"
    and "sv_sessions s w = Some sess \<Longrightarrow> session_ok (sv_users s) sess"
    and "reg_lookup (sv_users s) u = Some x \<Longrightarrow> user_ok x"
  using assms by (auto simp: server_inv_def)

lemma session_ok_with_pending:
  "session_ok users sess \<Longrightarrow> length json < 4096 \<Longrightarrow> session_ok users (with_pending sess json)"
  by (simp add: session_ok_def with_pending_def)

lemma server_inv_queue:
  assumes "server_inv s" "sv_sessions s p = Some sess" "length json < 4096"
  shows "server_inv (queue_to w p sess json s)"
  using assms session_ok_with_pending [of "sv_users s" sess json]
  by (auto simp: server_inv_def queue_to_def)

lemma server_inv_replied: "server_inv s \<Longrightarrow> replied w s s' \<Longrightarrow> server_inv s'"
  by (auto simp: replied_def server_inv_queue)

lemma session_ok_more_users:
  assumes "session_ok users sess" "\<And>u. reg_lookup users u \<noteq> None \<Longrightarrow> reg_lookup users' u \<noteq> None"
  shows "session_ok users' sess"
  using assms by (auto simp: session_ok_def)

lemma server_inv_users:
  assumes "server_inv s" "reg_invar users'"
    and "\<And>u. reg_lookup (sv_users s) u \<noteq> None \<Longrightarrow> reg_lookup users' u \<noteq> None"
    and "\<And>u x. reg_lookup users' u = Some x \<Longrightarrow> user_ok x"
  shows "server_inv (s\<lparr>sv_users := users'\<rparr>)"
  using assms session_ok_more_users [of "sv_users s" _ users'] by (auto simp: server_inv_def)

lemma server_inv_session:
  assumes "server_inv s" "session_ok (sv_users s) sess'"
  shows "server_inv (s\<lparr>sv_sessions := (sv_sessions s)(w \<mapsto> sess')\<rparr>)"
  using assms by (auto simp: server_inv_def)

lemma user_ok_updates:
  "user_ok (new_user u pk)" "user_ok (go_online (Some w) (Some w) x)" "user_ok x \<Longrightarrow> user_ok (drop_wsi w x)"
  by (auto simp: user_ok_def drop_wsi_def)

lemma server_inv_effect:
  assumes "recv_effect sod rnd w json s s'" "server_inv s" "length rnd = 32"
  shows "server_inv s'"
  using assms(1)
proof cases
  case eff_none
  then show ?thesis using assms(2) by simp
next
  case (eff_register u pk users')
  note inv = server_invD [OF assms(2)]
  show ?thesis
    unfolding eff_register(1)
    using reg.register_lookup [OF inv(1) eff_register(5)] inv(3) user_ok_updates(1)
    by (intro server_inv_users [OF assms(2)] reg.register_invar [OF inv(1) eff_register(5)])
      (auto split: if_splits)
next
  case (eff_hello u sess)
  have "session_ok (sv_users s) sess" using server_invD(2) [OF assms(2)] eff_hello by blast
  then show ?thesis
    unfolding eff_hello(1) using eff_hello assms(3)
    by (intro server_inv_session [OF assms(2)]) (simp add: session_ok_def)
next
  case (eff_auth sess hex sig user)
  note inv = server_invD [OF assms(2)]
  let ?users = "snd (reg_set_online (sv_users s) (ss_username sess) (Some w) (Some w))"
  have "server_inv (s\<lparr>sv_users := ?users\<rparr>)"
    using reg.online_lookup [OF inv(1)] inv(3) user_ok_updates(2)
    by (intro server_inv_users [OF assms(2)] reg.online_invar [OF inv(1)]) (auto split: if_splits)
  moreover have "session_ok ?users sess"
    by (rule session_ok_more_users [OF inv(2) [OF eff_auth(3)]])
      (auto simp: reg.online_lookup [OF inv(1)])
  ultimately show ?thesis
    unfolding eff_auth(1) using eff_auth(7) reg.online_lookup [OF inv(1)]
    using server_inv_session [of "s\<lparr>sv_users := ?users\<rparr>" "sess\<lparr>ss_challenge := replicate 32 0,
        ss_has_challenge := False, ss_authenticated := True\<rparr>" w]
    by (simp add: session_ok_def)
next
  case (eff_forward type sess to_name sender target tw p tsess)
  then show ?thesis using server_inv_queue [OF assms(2)] by simp
qed

lemma server_inv_init:
  "length slots = CHAT_SERVER_MAX_USERS \<Longrightarrow> server_inv (server_init slots count)"
  by (simp add: server_inv_def server_init_def chat_server_users_init_def reg_invar_def reg_entries_def
      reg_lookup_eq)

lemma session_ok_zero: "session_ok users zero_session"
  by (simp add: session_ok_def zero_session_def)

lemma server_inv_closed:
  assumes "server_inv s"
  shows "server_inv (s\<lparr>sv_users := reg_set_offline (sv_users s) w\<rparr>)"
  using server_invD [OF assms] user_ok_updates(3)
  by (intro server_inv_users [OF assms] reg.offline_invar) (auto simp: reg.offline_lookup)

lemma server_inv_forget:
  assumes "server_inv s"
  shows "server_inv (s\<lparr>sv_sessions := (sv_sessions s)(w := None)\<rparr>)"
  using assms by (auto simp: server_inv_def split: if_splits)

lemma server_inv_step:
  assumes "server_step sod s e s'" "server_inv s"
  shows "server_inv s'"
proof (cases e)
  case (Ev_established w)
  then show ?thesis
    using assms server_inv_session [OF assms(2) session_ok_zero] by (auto elim!: server_stepE)
next
  case (Ev_receive w inp remaining final rnd)
  then show ?thesis
    using assms by (metis step_receive_cases server_inv_effect server_inv_replied)
next
  case (Ev_writeable w written)
  then obtain sess where sess: "sv_sessions s w = Some sess" using assms(1) by (auto elim!: server_stepE)
  then have "session_ok (sv_users s) (sess\<lparr>ss_pending_len := 0\<rparr>)"
    using server_invD(2) [OF assms(2)] by (force simp: session_ok_def)
  from server_inv_session [OF assms(2) this, of w] show ?thesis
    using assms(1,2) sess Ev_writeable by (auto elim!: server_stepE simp: server_inv_def split: if_splits)
next
  case (Ev_closed w)
  then obtain sess where sess: "sv_sessions s w = Some sess" using assms(1) by (auto elim!: server_stepE)
  then show ?thesis
    using assms server_inv_forget [OF server_inv_closed [OF assms(2)], of w w]
      server_inv_forget [OF assms(2), of w] Ev_closed
    by (auto elim!: server_stepE split: if_splits)
qed

lemma server_reachable_inv: "server_reachable sod s \<Longrightarrow> server_inv s"
  by (induction rule: server_reachable.induct) (blast intro: server_inv_init server_inv_step)+

section \<open>Connections that greet once\<close>

text \<open>
  The registry refers to sessions by address. As long as no authenticated connection sends
  another \<open>hello\<close>, every address it holds belongs to a live session that is authenticated
  under the user's name.
\<close>

definition rehello :: "server \<Rightarrow> server_event \<Rightarrow> bool" where
  "rehello s e = (case e of
     Ev_receive w inp remaining final rnd \<Rightarrow>
       (case sv_sessions s w of None \<Rightarrow> False | Some sess \<Rightarrow> ss_authenticated sess)
       \<and> json_get_string (cstr inp) ''type'' 32 = Some ''hello''
   | _ \<Rightarrow> False)"

inductive orderly_reachable :: "('h, 's) sodium \<Rightarrow> server \<Rightarrow> bool" for sod :: "('h, 's) sodium" where
  orderly_init: "length slots = CHAT_SERVER_MAX_USERS \<Longrightarrow> orderly_reachable sod (server_init slots count)"
| orderly_step: "orderly_reachable sod s \<Longrightarrow> server_step sod s e s' \<Longrightarrow> \<not> rehello s e \<Longrightarrow>
     orderly_reachable sod s'"

definition links_live :: "server \<Rightarrow> bool" where
  "links_live s \<longleftrightarrow> (\<forall>u x p. reg_lookup (sv_users s) u = Some x \<longrightarrow> su_session x = Some p \<longrightarrow>
     (\<exists>sess. sv_sessions s p = Some sess \<and> ss_authenticated sess \<and> ss_username sess = u))"

lemma links_liveD:
  "links_live s \<Longrightarrow> reg_lookup (sv_users s) u = Some x \<Longrightarrow> su_session x = Some p \<Longrightarrow>
   \<exists>sess. sv_sessions s p = Some sess \<and> ss_authenticated sess \<and> ss_username sess = u"
  by (auto simp: links_live_def)

lemma links_live_session:
  assumes "links_live s" "sv_sessions s p = Some sess"
    and "ss_authenticated sess \<Longrightarrow> ss_authenticated sess' \<and> ss_username sess' = ss_username sess"
    and "sv_users s' = sv_users s" "sv_sessions s' = (sv_sessions s)(p \<mapsto> sess')"
  shows "links_live s'"
  unfolding links_live_def
proof (intro allI impI)
  fix u x q
  assume "reg_lookup (sv_users s') u = Some x" "su_session x = Some q"
  then obtain old where "sv_sessions s q = Some old" "ss_authenticated old" "ss_username old = u"
    using links_liveD [OF assms(1)] assms(4) by metis
  then show "\<exists>sess. sv_sessions s' q = Some sess \<and> ss_authenticated sess \<and> ss_username sess = u"
    using assms(2,3,5) by (cases "q = p") auto
qed

lemma links_live_queue:
  "links_live s \<Longrightarrow> sv_sessions s p = Some sess \<Longrightarrow> links_live (queue_to w p sess json s)"
  by (rule links_live_session [of s p sess "with_pending sess json"])
    (auto simp: queue_to_def with_pending_def)

lemma links_live_replied: "links_live s \<Longrightarrow> replied w s s' \<Longrightarrow> links_live s'"
  by (auto simp: replied_def links_live_queue)

lemma links_live_unlinked:
  assumes "links_live s" "sv_sessions s w = Some sess" "\<not> ss_authenticated sess"
    "reg_lookup (sv_users s) u = Some x"
  shows "su_session x \<noteq> Some w"
  using links_liveD [OF assms(1,4)] assms(2,3) by auto

lemma links_live_effect:
  assumes "recv_effect sod rnd w json s s'" "server_inv s" "links_live s"
    and "json_get_string json ''type'' 32 = Some ''hello'' \<Longrightarrow>
           \<forall>sess. sv_sessions s w = Some sess \<longrightarrow> \<not> ss_authenticated sess"
  shows "links_live s'"
  using assms(1)
proof cases
  case eff_none
  then show ?thesis using assms(3) by simp
next
  case (eff_register u pk users')
  then show ?thesis
    using assms(3) reg.register_lookup [OF server_invD(1) [OF assms(2)] eff_register(5)]
    by (auto simp: links_live_def split: if_splits)
next
  case (eff_hello u sess)
  then have "\<not> ss_authenticated sess" using assms(4) by blast
  then show ?thesis
    unfolding eff_hello(1) by (intro links_live_session [OF assms(3) eff_hello(5)]) auto
next
  case (eff_auth sess hex sig user)
  have "\<not> ss_authenticated sess"
    using server_invD(2) [OF assms(2) eff_auth(3)] eff_auth(4) by (auto simp: session_ok_def)
  then have "\<And>v x. reg_lookup (sv_users s) v = Some x \<Longrightarrow> su_session x \<noteq> Some w"
    using links_live_unlinked [OF assms(3) eff_auth(3)] by blast
  then show ?thesis
    unfolding eff_auth(1) links_live_def
    using links_liveD [OF assms(3)] reg.online_lookup [OF server_invD(1) [OF assms(2)]]
    by (fastforce split: if_splits)
next
  case (eff_forward type sess to_name sender target tw p tsess)
  then show ?thesis using links_live_queue [OF assms(3)] by simp
qed

lemma offline_unlinks:
  assumes "reg_invar r" "\<And>u x. reg_lookup r u = Some x \<Longrightarrow> user_ok x"
    "reg_lookup (reg_set_offline r w) u = Some x"
  shows "su_session x \<noteq> Some w"
proof -
  obtain y where "reg_lookup r u = Some y" "x = drop_wsi w y"
    using assms(3) by (auto simp: reg.offline_lookup [OF assms(1)])
  then show ?thesis using assms(2) [of u y] by (simp add: user_ok_def drop_wsi_def)
qed

lemma links_live_closed:
  assumes "server_inv s" "links_live s" "sv_sessions s w = Some sess" "sv_sessions s' = (sv_sessions s)(w := None)"
    and "sv_users s' = (if ss_authenticated sess then reg_set_offline (sv_users s) w else sv_users s)"
  shows "links_live s'"
proof (cases "ss_authenticated sess")
  case True
  then have users: "sv_users s' = reg_set_offline (sv_users s) w" using assms(5) by simp
  have "p \<noteq> w"
    if "reg_lookup (reg_set_offline (sv_users s) w) u = Some x" "su_session x = Some p" for u x p
    using that(2) offline_unlinks [OF server_invD(1,3) [OF assms(1)] that(1)] by auto
  moreover have "\<exists>y. sv_sessions s p = Some y \<and> ss_authenticated y \<and> ss_username y = u"
    if "reg_lookup (reg_set_offline (sv_users s) w) u = Some x" "su_session x = Some p" for u x p
    using that links_liveD [OF assms(2)] reg.offline_lookup [OF server_invD(1) [OF assms(1)]]
    by (auto simp: drop_wsi_def split: if_splits)
  ultimately show ?thesis
    unfolding links_live_def assms(4) users by (metis fun_upd_other)
next
  case False
  then show ?thesis
    using links_live_unlinked [OF assms(2,3) False] assms(2) unfolding links_live_def assms(4,5) by fastforce
qed

lemma links_live_step:
  assumes "server_step sod s e s'" "server_inv s" "links_live s" "\<not> rehello s e"
  shows "links_live s'"
proof (cases e)
  case (Ev_established w)
  then have none: "sv_sessions s w = None" and s': "s' = s\<lparr>sv_sessions := (sv_sessions s)(w \<mapsto> zero_session)\<rparr>"
    using assms(1) by (auto elim!: server_stepE)
  then show ?thesis using assms(3) unfolding links_live_def by fastforce
next
  case (Ev_receive w inp remaining final rnd)
  with assms(1) obtain s1 where "recv_effect sod rnd w (cstr inp) s s1" "replied w s1 s'"
    by (metis step_receive_cases)
  moreover have "json_get_string (cstr inp) ''type'' 32 = Some ''hello'' \<Longrightarrow>
           \<forall>sess. sv_sessions s w = Some sess \<longrightarrow> \<not> ss_authenticated sess"
    using assms(4) by (simp add: rehello_def Ev_receive split: option.splits)
  ultimately show ?thesis
    using links_live_effect [OF _ assms(2,3)] links_live_replied by blast
next
  case (Ev_writeable w written)
  then obtain sess where sess: "sv_sessions s w = Some sess" using assms(1) by (auto elim!: server_stepE)
  have "sv_users s' = sv_users s \<and> (s' = s \<or> sv_sessions s' = (sv_sessions s)(w \<mapsto> sess\<lparr>ss_pending_len := 0\<rparr>))"
    using assms(1) Ev_writeable sess by (auto elim!: server_stepE split: if_splits)
  then show ?thesis
    using assms(3) links_live_session [OF assms(3) sess, of "sess\<lparr>ss_pending_len := 0\<rparr>" s'] by auto
next
  case (Ev_closed w)
  then obtain sess where sess: "sv_sessions s w = Some sess" using assms(1) by (auto elim!: server_stepE)
  then have "sv_sessions s' = (sv_sessions s)(w := None)"
    "sv_users s' = (if ss_authenticated sess then reg_set_offline (sv_users s) w else sv_users s)"
    using assms(1) Ev_closed by (auto elim!: server_stepE split: if_splits)
  then show ?thesis by (rule links_live_closed [OF assms(2,3) sess])
qed

lemma orderly_links:
  "orderly_reachable sod s \<Longrightarrow> server_reachable sod s \<and> links_live s"
proof (induction rule: orderly_reachable.induct)
  case (orderly_init slots count)
  have "reg_lookup (sv_users (server_init slots count)) u = None" for u
    by (simp add: server_init_def chat_server_users_init_def chat_server_users_find_def users_find_loop.simps)
  then show ?case using reach_init [OF orderly_init] by (auto simp: links_live_def)
next
  case (orderly_step s e s')
  then show ?case
    using reach_step links_live_step server_reachable_inv by blast
qed

lemma dangling_links: "links_live s \<Longrightarrow> \<not> dangling s"
  by (auto simp: dangling_def dest: links_liveD)

lemma callback_total:
  assumes "event_enabled e s" "\<not> dangling s"
  shows "\<exists>rc s'. server_callback sod e s = Inr (rc, s')"
proof (cases e)
  case (Ev_receive w inp remaining final rnd)
  then obtain sess where "sv_sessions s w = Some sess" using assms(1) by auto
  from receive_explained [OF this, of sod rnd inp remaining final] assms(2) Ev_receive
  show ?thesis
    by (auto simp: explained_or_dangling_def explained_def simp del: callback_chat_control.simps)
qed (use assms in \<open>auto split: option.splits\<close>)

end
