(* ===== verification/Server_Login.thy ===== *)
theory Server_Login
  imports Server
begin

text \<open>
  Runs of the control server: sequences of events as a function, the messages a daemon
  sends to log in, and what the handlers do with them. The lemmas compute the effect of the
  three login messages for every libsodium that satisfies the hexadecimal and signature laws.
\<close>

section \<open>Sequences of events\<close>

fun server_run :: "('h, 's) sodium \<Rightarrow> server_event list \<Rightarrow> server \<Rightarrow> server option" where
  "server_run sod [] s = Some s"
| "server_run sod (e # es) s =
     (if event_enabled e s then
        case server_callback sod e s of Inl f \<Rightarrow> None | Inr (rc, s') \<Rightarrow> server_run sod es s'
      else None)"

lemma server_run_append:
  "server_run sod (es @ es') s = Option.bind (server_run sod es s) (server_run sod es')"
  by (induction es arbitrary: s) (auto split: sum.splits)

lemma server_run_reachable:
  "server_reachable sod s \<Longrightarrow> server_run sod es s = Some s' \<Longrightarrow> server_reachable sod s'"
proof (induction es arbitrary: s)
  case (Cons e es)
  then obtain rc s1 where "event_enabled e s" "server_callback sod e s = Inr (rc, s1)" "server_run sod es s1 = Some s'"
    by (auto split: if_splits sum.splits)
  then show ?case
    using Cons.IH [of s1] reach_step [OF Cons.prems(1) server_stepI] by blast
qed simp

section \<open>The messages of a login\<close>

definition register_msg :: "('h, 's) sodium \<Rightarrow> string \<Rightarrow> bytes \<Rightarrow> string" where
  "register_msg sod u pk = json_object [(''type'', JStr ''register''), (''username'', JStr u),
     (''public_key'', JStr (sodium_bin2hex sod pk))]"

definition hello_msg :: "string \<Rightarrow> string" where
  "hello_msg u = json_object [(''type'', JStr ''hello''), (''username'', JStr u)]"

definition auth_response_msg :: "('h, 's) sodium \<Rightarrow> bytes \<Rightarrow> string" where
  "auth_response_msg sod sig = json_object [(''type'', JStr ''auth_response''),
     (''signature'', JStr (sodium_bin2hex sod sig))]"

lemma register_msg_fields:
  assumes "hex_laws sod" "valid_username u" "u \<noteq> ''public_key''" "length pk = 32"
  shows "json_get_string (register_msg sod u pk) ''type'' 32 = Some ''register''"
    and "json_get_string (register_msg sod u pk) ''username'' 33 = Some u"
    and "json_get_string (register_msg sod u pk) ''public_key'' 65 = Some (sodium_bin2hex sod pk)"
    and "cstr (register_msg sod u pk) = register_msg sod u pk"
    and "length (register_msg sod u pk) < 4096"
proof -
  have pf: "plain_fields [(''type'', JStr ''register''), (''username'', JStr u),
     (''public_key'', JStr (sodium_bin2hex sod pk))]"
    using plain_hex [OF assms(1)] plain_username [OF assms(2)] by (simp add: plain_literal)
  have len: "length u < 33" using assms(2) by (simp add: valid_username_iff)
  show "json_get_string (register_msg sod u pk) ''type'' 32 = Some ''register''"
    "json_get_string (register_msg sod u pk) ''username'' 33 = Some u"
    "json_get_string (register_msg sod u pk) ''public_key'' 65 = Some (sodium_bin2hex sod pk)"
    using pf assms len hex_lawsD(1) [OF assms(1)]
    by (simp_all add: register_msg_def json_get_string_object key_literal)
  show "cstr (register_msg sod u pk) = register_msg sod u pk"
    unfolding register_msg_def by (rule cstr_json_object [OF pf])
  show "length (register_msg sod u pk) < 4096"
    using len hex_lawsD(1) [OF assms(1)] assms(4) by (simp add: register_msg_def json_object_def)
qed

lemma hello_msg_fields:
  assumes "valid_username u"
  shows "json_get_string (hello_msg u) ''type'' 32 = Some ''hello''"
    and "json_get_string (hello_msg u) ''username'' 33 = Some u"
    and "cstr (hello_msg u) = hello_msg u"
    and "length (hello_msg u) < 4096"
proof -
  have pf: "plain_fields [(''type'', JStr ''hello''), (''username'', JStr u)]"
    using plain_username [OF assms] by (simp add: plain_literal)
  have len: "length u < 33" using assms by (simp add: valid_username_iff)
  show "json_get_string (hello_msg u) ''type'' 32 = Some ''hello''"
    "json_get_string (hello_msg u) ''username'' 33 = Some u"
    using pf len by (simp_all add: hello_msg_def json_get_string_object key_literal)
  show "cstr (hello_msg u) = hello_msg u"
    unfolding hello_msg_def by (rule cstr_json_object [OF pf])
  show "length (hello_msg u) < 4096" using len by (simp add: hello_msg_def json_object_def)
qed

lemma auth_response_msg_fields:
  assumes "hex_laws sod" "length sig = 64"
  shows "json_get_string (auth_response_msg sod sig) ''type'' 32 = Some ''auth_response''"
    and "json_get_string (auth_response_msg sod sig) ''signature'' 129 = Some (sodium_bin2hex sod sig)"
    and "cstr (auth_response_msg sod sig) = auth_response_msg sod sig"
    and "length (auth_response_msg sod sig) < 4096"
proof -
  have pf: "plain_fields [(''type'', JStr ''auth_response''), (''signature'', JStr (sodium_bin2hex sod sig))]"
    using plain_hex [OF assms(1)] by (simp add: plain_literal)
  show "json_get_string (auth_response_msg sod sig) ''type'' 32 = Some ''auth_response''"
    "json_get_string (auth_response_msg sod sig) ''signature'' 129 = Some (sodium_bin2hex sod sig)"
    using pf hex_lawsD(1) [OF assms(1)] assms(2)
    by (simp_all add: auth_response_msg_def json_get_string_object key_literal)
  show "cstr (auth_response_msg sod sig) = auth_response_msg sod sig"
    unfolding auth_response_msg_def by (rule cstr_json_object [OF pf])
  show "length (auth_response_msg sod sig) < 4096"
    using hex_lawsD(1) [OF assms(1)] assms(2) by (simp add: auth_response_msg_def json_object_def)
qed

lemma receive_whole:
  assumes "cstr msg = msg" "length msg < 4096"
  shows "server_callback sod (Ev_receive w msg 0 True rnd) s = handle_message sod rnd w msg s"
  using assms by simp

section \<open>What the handlers do with them\<close>

lemma send_json_queue:
  "sv_sessions s p = Some sess \<Longrightarrow> length json < 4096 \<Longrightarrow>
   send_json w p json s = Inr (0, queue_to w p sess json s)"
  by (simp add: send_json_def queue_to_def with_pending_def)

lemma register_new:
  assumes "hex_laws sod" "valid_username u" "u \<noteq> ''public_key''" "length pk = 32"
    and "sv_sessions s w = Some sess" "reg_lookup (sv_users s) u = None" "reg_count (sv_users s) < 256"
  shows "\<exists>users'. reg_register (sv_users s) u pk = (CHAT_SERVER_USERS_OK, users') \<and>
     server_callback sod (Ev_receive w (register_msg sod u pk) 0 True rnd) s =
       Inr (0, queue_to w w sess (json_object [(''type'', JStr ''register_ok'')]) (s\<lparr>sv_users := users'\<rparr>))"
proof -
  note msg = register_msg_fields [OF assms(1-4)]
  obtain users' where reg: "reg_register (sv_users s) u pk = (CHAT_SERVER_USERS_OK, users')"
    using assms(2,6,7) by (simp add: register_result)
  have "handle_register sod w (register_msg sod u pk) s =
      Inr (0, queue_to w w sess (json_object [(''type'', JStr ''register_ok'')]) (s\<lparr>sv_users := users'\<rparr>))"
    using assms(2,5) by (simp add: handle_register_def msg(2,3) hex_to_bin_hex assms(1,4) reg send_json_queue json_object_def)
  then show ?thesis
    using reg by (simp only: receive_whole [OF msg(4,5)]) (simp add: handle_message_def msg(1))
qed

definition challenged :: "chat_server_session_t \<Rightarrow> string \<Rightarrow> bytes \<Rightarrow> chat_server_session_t" where
  "challenged sess u rnd =
     sess\<lparr>ss_challenge := rnd, ss_has_challenge := True, ss_authenticated := False, ss_username := u\<rparr>"

definition auth_challenge_msg :: "('h, 's) sodium \<Rightarrow> bytes \<Rightarrow> string" where
  "auth_challenge_msg sod rnd = json_object [(''type'', JStr ''auth_challenge''),
     (''challenge'', JStr (sodium_bin2hex sod rnd))]"

lemma hello_known:
  assumes "hex_laws sod" "valid_username u" "length rnd = 32"
    and "sv_sessions s w = Some sess" "reg_lookup (sv_users s) u \<noteq> None"
  shows "server_callback sod (Ev_receive w (hello_msg u) 0 True rnd) s =
     Inr (0, queue_to w w (challenged sess u rnd) (auth_challenge_msg sod rnd)
               (s\<lparr>sv_sessions := (sv_sessions s)(w \<mapsto> challenged sess u rnd)\<rparr>))"
proof -
  note msg = hello_msg_fields [OF assms(2)]
  have "length (auth_challenge_msg sod rnd) < 192"
    using hex_lawsD(1) [OF assms(1)] assms(3) by (simp add: auth_challenge_msg_def json_object_def)
  then have "handle_hello sod rnd w (hello_msg u) s =
      Inr (0, queue_to w w (challenged sess u rnd) (auth_challenge_msg sod rnd)
               (s\<lparr>sv_sessions := (sv_sessions s)(w \<mapsto> challenged sess u rnd)\<rparr>))"
    using assms(2,4,5)
    by (auto simp: handle_hello_def msg(2) challenged_def snprintf_store_def valid_username_iff
        auth_challenge_msg_def snprintf_fits_def send_json_queue)
  then show ?thesis
    by (simp only: receive_whole [OF msg(3,4)]) (simp add: handle_message_def msg(1))
qed

definition logged_in :: "chat_server_session_t \<Rightarrow> chat_server_session_t" where
  "logged_in sess = sess\<lparr>ss_challenge := replicate 32 0, ss_has_challenge := False, ss_authenticated := True\<rparr>"

lemma auth_response_valid:
  assumes "hex_laws sod" "length sig = 64"
    and "sv_sessions s w = Some sess" "ss_has_challenge sess" "ss_username sess \<noteq> []"
    and "reg_lookup (sv_users s) (ss_username sess) = Some user"
    and "crypto_sign_verify_detached sod sig (ss_challenge sess) (su_identity_pk user)"
  shows "server_callback sod (Ev_receive w (auth_response_msg sod sig) 0 True rnd) s =
     Inr (0, queue_to w w (logged_in sess) (json_object [(''type'', JStr ''auth_ok'')])
       (s\<lparr>sv_users := snd (reg_set_online (sv_users s) (ss_username sess) (Some w) (Some w)),
          sv_sessions := (sv_sessions s)(w \<mapsto> logged_in sess)\<rparr>))"
proof -
  note msg = auth_response_msg_fields [OF assms(1,2)]
  obtain users' where on: "reg_set_online (sv_users s) (ss_username sess) (Some w) (Some w) =
      (CHAT_SERVER_USERS_OK, users')"
    using reg.online_ok [of "sv_users s" "ss_username sess" "Some w" "Some w"] assms(6)
    by (metis option.distinct(1) prod.collapse)
  have "handle_auth_response sod w (auth_response_msg sod sig) s =
     Inr (0, queue_to w w (logged_in sess) (json_object [(''type'', JStr ''auth_ok'')])
       (s\<lparr>sv_users := users', sv_sessions := (sv_sessions s)(w \<mapsto> logged_in sess)\<rparr>))"
    using assms(3-7) on
    by (simp add: handle_auth_response_def msg(2) hex_to_bin_hex assms(1,2) logged_in_def
        send_json_queue json_object_def Let_def)
  then show ?thesis
    using on by (simp only: receive_whole [OF msg(3,4)]) (simp add: handle_message_def msg(1))
qed

section \<open>A whole login\<close>

definition login_events ::
  "('h, 's) sodium \<Rightarrow> nat \<Rightarrow> string \<Rightarrow> bytes \<Rightarrow> bytes \<Rightarrow> bytes \<Rightarrow> server_event list" where
  "login_events sod w u pk sig rnd =
     [Ev_established w, Ev_receive w (register_msg sod u pk) 0 True rnd,
      Ev_receive w (hello_msg u) 0 True rnd, Ev_receive w (auth_response_msg sod sig) 0 True rnd]"

text \<open>The state after it: the name is registered and online at this connection.\<close>

definition online_at :: "server \<Rightarrow> string \<Rightarrow> bytes \<Rightarrow> nat \<Rightarrow> bool" where
  "online_at s u pk w \<longleftrightarrow>
     (\<exists>x sess. reg_lookup (sv_users s) u = Some x \<and> su_identity_pk x = pk \<and> su_online x
        \<and> su_wsi x = Some w \<and> su_session x = Some w
        \<and> sv_sessions s w = Some sess \<and> ss_authenticated sess \<and> ss_username sess = u)"

lemma queue_to_fields [simp]:
  "sv_users (queue_to w p sess json s) = sv_users s"
  "sv_sessions (queue_to w p sess json s) = (sv_sessions s)(p \<mapsto> with_pending sess json)"
  "sv_sent (queue_to w p sess json s) = sv_sent s"
  by (simp_all add: queue_to_def)

lemma session_shape_fields [simp]:
  "ss_username (with_pending sess json) = ss_username sess"
  "ss_authenticated (with_pending sess json) = ss_authenticated sess"
  "ss_has_challenge (with_pending sess json) = ss_has_challenge sess"
  "ss_challenge (with_pending sess json) = ss_challenge sess"
  "ss_pending_len (with_pending sess json) = length json"
  "ss_username (challenged sess u rnd) = u" "ss_has_challenge (challenged sess u rnd)"
  "ss_challenge (challenged sess u rnd) = rnd" "\<not> ss_authenticated (challenged sess u rnd)"
  "ss_username (logged_in sess) = ss_username sess" "ss_authenticated (logged_in sess)"
  by (simp_all add: with_pending_def challenged_def logged_in_def)

text \<open>After the first three events the connection holds a challenge and the name is known.\<close>

definition challenge_open :: "server \<Rightarrow> string \<Rightarrow> bytes \<Rightarrow> nat \<Rightarrow> bytes \<Rightarrow> bool" where
  "challenge_open s u pk w rnd \<longleftrightarrow>
     (\<exists>x. reg_lookup (sv_users s) u = Some x \<and> su_identity_pk x = pk)
     \<and> (\<exists>sess. sv_sessions s w = Some sess \<and> ss_has_challenge sess \<and> ss_challenge sess = rnd
          \<and> ss_username sess = u \<and> \<not> ss_authenticated sess)"

definition challenged_at :: "server \<Rightarrow> string \<Rightarrow> bytes \<Rightarrow> nat \<Rightarrow> bytes \<Rightarrow> bool" where
  "challenged_at s u pk w rnd \<longleftrightarrow> reg_lookup (sv_users s) u = Some (new_user u pk) \<and> challenge_open s u pk w rnd"

lemma challenged_open: "challenged_at s u pk w rnd \<Longrightarrow> challenge_open s u pk w rnd"
  by (simp add: challenged_at_def)

text \<open>What such a run leaves alone.\<close>

definition run_frame :: "string \<Rightarrow> nat \<Rightarrow> server \<Rightarrow> server \<Rightarrow> bool" where
  "run_frame u w s s' \<longleftrightarrow> sv_sent s' = sv_sent s \<and> reg_count (sv_users s') = Suc (reg_count (sv_users s))
     \<and> (\<forall>v. v \<noteq> u \<longrightarrow> reg_lookup (sv_users s') v = reg_lookup (sv_users s) v)
     \<and> (\<forall>p. p \<noteq> w \<longrightarrow> sv_sessions s' p = sv_sessions s p)"

lemma hello_run:
  assumes "hex_laws sod" "valid_username u" "u \<noteq> ''public_key''" "length pk = 32" "length rnd = 32"
    and "server_inv s" "sv_sessions s w = None"
    and "reg_lookup (sv_users s) u = None" "reg_count (sv_users s) < 256"
  shows "\<exists>s'. server_run sod (butlast (login_events sod w u pk sig rnd)) s = Some s'
     \<and> challenged_at s' u pk w rnd \<and> reg_invar (sv_users s') \<and> run_frame u w s s'"
proof -
  let ?s1 = "s\<lparr>sv_sessions := (sv_sessions s)(w \<mapsto> zero_session)\<rparr>"
  obtain users' where reg: "reg_register (sv_users s) u pk = (CHAT_SERVER_USERS_OK, users')"
    and cb2: "server_callback sod (Ev_receive w (register_msg sod u pk) 0 True rnd) ?s1 =
       Inr (0, queue_to w w zero_session (json_object [(''type'', JStr ''register_ok'')]) (?s1\<lparr>sv_users := users'\<rparr>))"
    using register_new [OF assms(1-4), of ?s1 w zero_session rnd] assms(8,9) by auto
  let ?sess2 = "with_pending zero_session (json_object [(''type'', JStr ''register_ok'')])"
  let ?s2 = "queue_to w w zero_session (json_object [(''type'', JStr ''register_ok'')]) (?s1\<lparr>sv_users := users'\<rparr>)"
  note lk = reg.register_lookup [OF server_invD(1) [OF assms(6)] reg]
  let ?s3 = "queue_to w w (challenged ?sess2 u rnd) (auth_challenge_msg sod rnd)
               (?s2\<lparr>sv_sessions := (sv_sessions ?s2)(w \<mapsto> challenged ?sess2 u rnd)\<rparr>)"
  have cb3: "server_callback sod (Ev_receive w (hello_msg u) 0 True rnd) ?s2 = Inr (0, ?s3)"
    by (rule hello_known [OF assms(1,2,5)]) (simp_all add: lk)
  have "server_run sod (butlast (login_events sod w u pk sig rnd)) s = Some ?s3"
    using assms(5,7) cb2 cb3
    by (simp add: login_events_def del: server_callback.simps)
      (simp del: server_callback.simps add: server_callback.simps(1))
  moreover have "reg_count users' = Suc (reg_count (sv_users s))"
    using reg by (auto simp: register_result split: if_splits)
  ultimately show ?thesis
    using reg.register_invar [OF server_invD(1) [OF assms(6)] reg]
    by (intro exI [of _ ?s3]) (simp add: challenged_at_def challenge_open_def run_frame_def lk new_user_def)
qed

lemma auth_run:
  assumes "hex_laws sod" "length sig = 64" "crypto_sign_verify_detached sod sig rnd pk" "valid_username u"
    and "challenge_open s u pk w rnd" "reg_invar (sv_users s)"
  shows "\<exists>s'. server_callback sod (Ev_receive w (auth_response_msg sod sig) 0 True r) s = Inr (0, s')
     \<and> online_at s' u pk w \<and> sv_sent s' = sv_sent s \<and> reg_count (sv_users s') = reg_count (sv_users s)
     \<and> (\<forall>v. v \<noteq> u \<longrightarrow> reg_lookup (sv_users s') v = reg_lookup (sv_users s) v)
     \<and> (\<forall>p. p \<noteq> w \<longrightarrow> sv_sessions s' p = sv_sessions s p)
     \<and> (\<exists>sess. sv_sessions s' w = Some sess
          \<and> take (ss_pending_len sess) (ss_pending sess) = json_object [(''type'', JStr ''auth_ok'')])"
proof -
  obtain sess where sess: "sv_sessions s w = Some sess" "ss_has_challenge sess" "ss_challenge sess = rnd"
    "ss_username sess = u"
    using assms(5) by (auto simp: challenge_open_def)
  obtain x where lk: "reg_lookup (sv_users s) u = Some x" "su_identity_pk x = pk"
    using assms(5) by (auto simp: challenge_open_def)
  let ?s' = "queue_to w w (logged_in sess) (json_object [(''type'', JStr ''auth_ok'')])
       (s\<lparr>sv_users := snd (reg_set_online (sv_users s) (ss_username sess) (Some w) (Some w)),
          sv_sessions := (sv_sessions s)(w \<mapsto> logged_in sess)\<rparr>)"
  have "server_callback sod (Ev_receive w (auth_response_msg sod sig) 0 True r) s = Inr (0, ?s')"
    using assms(3,4) sess lk
    by (intro auth_response_valid [OF assms(1,2), where user = x]) (auto simp: valid_username_iff)
  moreover have "online_at ?s' u pk w"
    by (simp add: online_at_def reg.online_lookup [OF assms(6)] lk sess)
  moreover have "reg_count (snd (reg_set_online (sv_users s) u (Some w) (Some w))) = reg_count (sv_users s)"
    by (simp add: set_online_result split: option.splits)
  ultimately show ?thesis
    by (intro exI [of _ ?s']) (simp add: reg.online_lookup [OF assms(6)] sess with_pending_def)
qed

lemma login_run:
  assumes "hex_laws sod" "valid_username u" "u \<noteq> ''public_key''" "length pk = 32" "length sig = 64"
    and "crypto_sign_verify_detached sod sig rnd pk" "length rnd = 32"
    and "server_inv s" "sv_sessions s w = None"
    and "reg_lookup (sv_users s) u = None" "reg_count (sv_users s) < 256"
  shows "\<exists>s'. server_run sod (login_events sod w u pk sig rnd) s = Some s' \<and> online_at s' u pk w
     \<and> run_frame u w s s'
     \<and> (\<exists>sess. sv_sessions s' w = Some sess
          \<and> take (ss_pending_len sess) (ss_pending sess) = json_object [(''type'', JStr ''auth_ok'')])"
proof -
  let ?es = "login_events sod w u pk sig rnd"
  obtain s3 where s3: "server_run sod (butlast ?es) s = Some s3" "challenged_at s3 u pk w rnd"
    "reg_invar (sv_users s3)" "run_frame u w s s3"
    using hello_run [OF assms(1-4,7-11)] by blast
  from auth_run [OF assms(1,5,6,2) challenged_open [OF s3(2)] s3(3), of rnd] obtain s4
    where s4: "server_callback sod (Ev_receive w (auth_response_msg sod sig) 0 True rnd) s3 = Inr (0, s4)"
      "online_at s4 u pk w" "run_frame u w s s4"
      "\<exists>sess. sv_sessions s4 w = Some sess
          \<and> take (ss_pending_len sess) (ss_pending sess) = json_object [(''type'', JStr ''auth_ok'')]"
    using s3(4) by (auto simp: run_frame_def)
  have "?es = butlast ?es @ [Ev_receive w (auth_response_msg sod sig) 0 True rnd]"
    by (simp add: login_events_def)
  then have "server_run sod ?es s = Option.bind (server_run sod (butlast ?es) s)
      (server_run sod [Ev_receive w (auth_response_msg sod sig) 0 True rnd])"
    by (metis server_run_append)
  also have "\<dots> = Some s4"
    using s3(1,2) s4(1) assms(7) by (auto simp: challenged_at_def challenge_open_def simp del: server_callback.simps)
  finally show ?thesis using s4 by blast
qed

section \<open>A signaling message\<close>

definition chat_end_msg :: "string \<Rightarrow> string \<Rightarrow> string" where
  "chat_end_msg v u = json_object [(''type'', JStr ''chat_end''), (''from'', JStr v), (''to'', JStr u),
     (''session_id'', JStr ''s1'')]"

lemma chat_end_msg_fields:
  assumes "valid_username v" "valid_username u" "v \<noteq> ''session_id''" "u \<noteq> ''session_id''"
  shows "json_get_string (chat_end_msg v u) ''type'' 32 = Some ''chat_end''"
    and "json_get_string (chat_end_msg v u) ''from'' 33 = Some v"
    and "json_get_string (chat_end_msg v u) ''to'' 33 = Some u"
    and "json_get_string (chat_end_msg v u) ''session_id'' 128 = Some ''s1''"
    and "cstr (chat_end_msg v u) = chat_end_msg v u"
    and "length (chat_end_msg v u) < 4096"
proof -
  have pf: "plain_fields [(''type'', JStr ''chat_end''), (''from'', JStr v), (''to'', JStr u),
     (''session_id'', JStr ''s1'')]"
    using plain_username assms(1,2) by (simp add: plain_literal)
  have len: "length u < 33" "length v < 33" "v \<noteq> ''to''"
    using assms(1,2) by (auto simp: valid_username_iff)
  show "json_get_string (chat_end_msg v u) ''type'' 32 = Some ''chat_end''"
    "json_get_string (chat_end_msg v u) ''from'' 33 = Some v"
    "json_get_string (chat_end_msg v u) ''to'' 33 = Some u"
    "json_get_string (chat_end_msg v u) ''session_id'' 128 = Some ''s1''"
    using pf len assms(3,4) by (simp_all add: chat_end_msg_def json_get_string_object key_literal)
  show "cstr (chat_end_msg v u) = chat_end_msg v u"
    unfolding chat_end_msg_def by (rule cstr_json_object [OF pf])
  show "length (chat_end_msg v u) < 4096" using len by (simp add: chat_end_msg_def json_object_def)
qed

lemma forward_to_lookup:
  assumes "reg_lookup (sv_users s) u = Some x"
  shows "forward_to_target w u json s =
     (case (su_wsi x, su_session x) of
        (Some tw, Some p) \<Rightarrow>
          if \<not> su_online x then send_error w w ''peer_offline'' s
          else (case sv_sessions s p of
                  None \<Rightarrow> Inl Use_after_free
                | Some tsess \<Rightarrow> if ss_pending_len tsess \<noteq> 0 then send_error w w ''peer_busy'' s
                                else send_json tw p json s)
      | _ \<Rightarrow> send_error w w ''peer_offline'' s)"
  using assms by (auto simp: forward_to_target_def chat_server_users_find_def chat_server_users_find_mut_def
      Let_def split: option.splits)

lemma chat_end_forwarded:
  assumes "valid_username v" "valid_username u" "v \<noteq> ''session_id''" "u \<noteq> ''session_id''"
    and "sv_sessions s w = Some sess" "ss_authenticated sess" "ss_username sess = v"
    and "reg_lookup (sv_users s) v \<noteq> None"
  shows "server_callback sod (Ev_receive w (chat_end_msg v u) 0 True rnd) s =
     forward_to_target w u (chat_end_msg v u) s"
proof -
  note msg = chat_end_msg_fields [OF assms(1-4)]
  show ?thesis
    using assms(1,2,5-8)
    by (simp only: receive_whole [OF msg(5,6)])
      (auto simp: handle_message_def msg(1-4) signaling_type_is_supported_def handle_signaling_forward_def)
qed

end
