(* ===== verification/Log.thy ===== *)
theory Log
  imports Libc
begin

text \<open>
  \<open>common/log.c\<close>: the level of the program and the lines written to its two streams. The format
  string and its arguments are given as the text they print.
\<close>

datatype chat_log_level_t = CHAT_LOG_ERROR | CHAT_LOG_WARN | CHAT_LOG_INFO | CHAT_LOG_DEBUG | CHAT_LOG_TRACE

text \<open>The levels are ordered as the numbers of the enumeration.\<close>

fun log_level_code :: "chat_log_level_t \<Rightarrow> nat" where
  "log_level_code CHAT_LOG_ERROR = 0"
| "log_level_code CHAT_LOG_WARN = 1"
| "log_level_code CHAT_LOG_INFO = 2"
| "log_level_code CHAT_LOG_DEBUG = 3"
| "log_level_code CHAT_LOG_TRACE = 4"

lemma log_level_code_inj [simp]: "log_level_code a = log_level_code b \<longleftrightarrow> a = b"
  by (cases a; cases b) auto

instantiation chat_log_level_t :: linorder
begin

definition less_eq_chat_log_level_t :: "chat_log_level_t \<Rightarrow> chat_log_level_t \<Rightarrow> bool" where
  "a \<le> b \<longleftrightarrow> log_level_code a \<le> log_level_code b"

definition less_chat_log_level_t :: "chat_log_level_t \<Rightarrow> chat_log_level_t \<Rightarrow> bool" where
  "a < b \<longleftrightarrow> log_level_code a < log_level_code b"

instance by standard (auto simp: less_eq_chat_log_level_t_def less_chat_log_level_t_def)

end

record logger =
  lg_level :: chat_log_level_t
  lg_stdout :: string
  lg_stderr :: string

definition logger_start :: logger where
  "logger_start = \<lparr>lg_level = CHAT_LOG_INFO, lg_stdout = [], lg_stderr = []\<rparr>"

fun chat_log_level_name :: "chat_log_level_t \<Rightarrow> string" where
  "chat_log_level_name CHAT_LOG_ERROR = ''ERROR''"
| "chat_log_level_name CHAT_LOG_WARN = ''WARN''"
| "chat_log_level_name CHAT_LOG_INFO = ''INFO''"
| "chat_log_level_name CHAT_LOG_DEBUG = ''DEBUG''"
| "chat_log_level_name CHAT_LOG_TRACE = ''TRACE''"

definition chat_log_set_level :: "chat_log_level_t \<Rightarrow> logger \<Rightarrow> logger" where
  "chat_log_set_level level lg = lg\<lparr>lg_level := level\<rparr>"

definition chat_log_get_level :: "logger \<Rightarrow> chat_log_level_t" where
  "chat_log_get_level lg = lg_level lg"

definition log_line :: "chat_log_level_t \<Rightarrow> string \<Rightarrow> string" where
  "log_line level msg = chat_log_level_name level @ '': '' @ msg @ [newline]"

definition chat_log :: "chat_log_level_t \<Rightarrow> string \<Rightarrow> logger \<Rightarrow> logger" where
  "chat_log level msg lg =
     (if level > lg_level lg then lg
      else if level \<le> CHAT_LOG_WARN then lg\<lparr>lg_stderr := lg_stderr lg @ log_line level msg\<rparr>
      else lg\<lparr>lg_stdout := lg_stdout lg @ log_line level msg\<rparr>)"

text \<open>Many calls: each stream gets the lines of its levels, up to the level set, in their order.\<close>

lemma chat_log_streams:
  "fold (\<lambda>(level, msg). chat_log level msg) calls lg =
     lg\<lparr>lg_stderr := lg_stderr lg @ concat [log_line l m. (l, m) \<leftarrow> calls, l \<le> lg_level lg \<and> l \<le> CHAT_LOG_WARN],
        lg_stdout := lg_stdout lg @ concat [log_line l m. (l, m) \<leftarrow> calls, l \<le> lg_level lg \<and> CHAT_LOG_WARN < l]\<rparr>"
  by (induction calls arbitrary: lg) (auto simp: chat_log_def not_le)

lemma chat_log_level_kept [simp]:
  "lg_level (chat_log level msg lg) = lg_level lg" "chat_log_get_level (chat_log_set_level level lg) = level"
  by (simp_all add: chat_log_def chat_log_get_level_def chat_log_set_level_def)

end
