(* ===== verification/Server_Main.thy ===== *)
theory Server_Main
  imports Server_Login Log
begin

text \<open>
  \<open>main\<close> of \<open>server/main.c\<close>. What libsodium and libwebsockets answer during the set-up is passed as
  arguments, as are the events of the calls of \<open>lws_service\<close> up to the signal that ends the loop.
  The registry on the stack starts with arbitrary contents.
\<close>

definition service_rounds :: "('h, 's) sodium \<Rightarrow> server_event list list \<Rightarrow> server \<Rightarrow> server option" where
  "service_rounds sod rounds s = fold (\<lambda>events st. Option.bind st (server_run sod events)) rounds (Some s)"

fun decimal :: "nat \<Rightarrow> string" where
  "decimal n = (if n < 10 then [char_of (48 + n)] else decimal (n div 10) @ [char_of (48 + n mod 10)])"

declare decimal.simps [simp del]

definition listening_text :: "int \<Rightarrow> string" where
  "listening_text port = ''chat-server listening on ws://127.0.0.1:'' @ decimal (nat port)"

definition server_main ::
  "('h, 's) sodium \<Rightarrow> (int \<Rightarrow> bool) \<Rightarrow> chat_server_users_t \<Rightarrow> server_event list list \<Rightarrow> string list \<Rightarrow> logger \<Rightarrow>
   (int \<times> server option \<times> logger) option" where
  "server_main sod create_context stack rounds args lg =
     (if sodium_init sod < 0 then Some (1, None, chat_log CHAT_LOG_ERROR ''libsodium initialization failed'' lg)
      else
        (let s = server_init (reg_users stack) (reg_count stack); port = parse_port args in
         if \<not> create_context port then Some (1, None, chat_log CHAT_LOG_ERROR ''failed to create libwebsockets context'' lg)
         else map_option (\<lambda>s'. (0, Some s', chat_log CHAT_LOG_INFO (listening_text port) lg)) (service_rounds sod rounds s)))"

lemma service_rounds_concat: "service_rounds sod rounds s = server_run sod (concat rounds) s"
proof -
  let ?round = "\<lambda>events st. Option.bind st (server_run sod events)"
  have none: "fold ?round rounds None = None" for rounds by (induction rounds) auto
  have "fold ?round rounds (Some s) = server_run sod (concat rounds) s" for s
  proof (induction rounds arbitrary: s)
    case (Cons events rounds)
    then show ?case by (cases "server_run sod events s") (simp_all add: server_run_append none)
  qed simp
  then show ?thesis by (simp add: service_rounds_def)
qed

text \<open>Whatever \<open>main\<close> runs, the server ends in a reachable state of the step relation, so its
  properties hold of the program.\<close>

lemma server_main_reachable:
  assumes "server_main sod cc stack rounds args lg = Some (rc, Some s, lg')" "length (reg_users stack) = CHAT_SERVER_MAX_USERS"
  shows "rc = 0 \<and> server_reachable sod s"
  using assms server_run_reachable [OF reach_init [OF assms(2)]]
  by (auto simp: server_main_def service_rounds_concat Let_def split: if_splits)

end
