(* ===== verification/Server_Safety.thy ===== *)
theory Server_Safety
  imports Server_Login
begin

text \<open>
  The properties of the control server: its invariant, memory safety of runs in which
  authenticated connections do not greet again, authentication and presence only by a
  verified signature, forwarding without impersonation, a login that succeeds, and two runs
  that show where the code does not do what it means to.
\<close>

section \<open>Sample runs\<close>

definition idle_server :: server where
  "idle_server = server_init (replicate 256 slot0) 0"

definition sample_key :: bytes where "sample_key = replicate 32 7"
definition sample_challenge :: bytes where "sample_challenge = replicate 32 9"

lemma sample_lengths [simp]: "length sample_key = 32" "length sample_challenge = 32"
  by (simp_all add: sample_key_def sample_challenge_def)

lemma demo_verifies:
  "crypto_sign_verify_detached demo (sample_key @ sample_challenge) sample_challenge sample_key"
  by (simp add: demo_def pad_exact)

lemma idle_server_facts:
  "server_reachable sod idle_server" "sv_sessions idle_server w = None"
  "reg_lookup (sv_users idle_server) u = None" "reg_count (sv_users idle_server) = 0"
  using reach_init [of "replicate 256 slot0" sod 0]
  by (simp_all add: idle_server_def CHAT_SERVER_MAX_USERS_def server_init_def chat_server_users_init_def
      chat_server_users_find_def users_find_loop.simps)

lemma alice_online:
  "\<exists>s. server_reachable demo s \<and> online_at s ''alice'' sample_key 1
     \<and> reg_lookup (sv_users s) ''bob'' = None \<and> reg_count (sv_users s) = 1 \<and> sv_sessions s 2 = None"
proof -
  from login_run [OF demo_hex_laws valid_alice _ _ _ demo_verifies _
      server_reachable_inv [OF idle_server_facts(1)], of 1]
  obtain s where "server_run demo (login_events demo 1 ''alice'' sample_key (sample_key @ sample_challenge) sample_challenge)
      idle_server = Some s" "online_at s ''alice'' sample_key 1"
    "\<forall>v. v \<noteq> ''alice'' \<longrightarrow> reg_lookup (sv_users s) v = None" "reg_count (sv_users s) = 1"
    "\<forall>p. p \<noteq> 1 \<longrightarrow> sv_sessions s p = None"
    by (auto simp: idle_server_facts run_frame_def)
  moreover from this(1) have "server_reachable demo s"
    using server_run_reachable [OF idle_server_facts(1)] by blast
  ultimately show ?thesis by (intro exI [of _ s]) simp
qed

lemma alice_bob_online:
  "\<exists>s. server_reachable demo s \<and> online_at s ''alice'' sample_key 1 \<and> online_at s ''bob'' sample_key 2"
proof -
  obtain s where s: "server_reachable demo s" "online_at s ''alice'' sample_key 1"
    "reg_lookup (sv_users s) ''bob'' = None" "reg_count (sv_users s) = 1" "sv_sessions s 2 = None"
    using alice_online by blast
  from login_run [OF demo_hex_laws valid_bob _ _ _ demo_verifies _ server_reachable_inv [OF s(1)] s(5,3)] s(4)
  obtain s' where s': "server_run demo (login_events demo 2 ''bob'' sample_key (sample_key @ sample_challenge) sample_challenge) s = Some s'"
    "online_at s' ''bob'' sample_key 2"
    "\<forall>v. v \<noteq> ''bob'' \<longrightarrow> reg_lookup (sv_users s') v = reg_lookup (sv_users s) v"
    "\<forall>p. p \<noteq> 2 \<longrightarrow> sv_sessions s' p = sv_sessions s p"
    by (auto simp: run_frame_def)
  have "online_at s' ''alice'' sample_key 1"
    using s(2) s'(3,4) by (simp add: online_at_def)
  then show ?thesis using server_run_reachable [OF s(1) s'(1)] s'(2) by blast
qed

lemma alice_answers:
  "\<exists>s s'. server_reachable demo s \<and> challenged_at s ''alice'' sample_key 1 sample_challenge
     \<and> server_step demo s (Ev_receive 1 (auth_response_msg demo (sample_key @ sample_challenge)) 0 True sample_challenge) s'
     \<and> online_at s' ''alice'' sample_key 1"
proof -
  obtain s where s: "server_run demo (butlast (login_events demo 1 ''alice'' sample_key [] sample_challenge)) idle_server = Some s"
    "challenged_at s ''alice'' sample_key 1 sample_challenge" "reg_invar (sv_users s)"
    using hello_run [OF demo_hex_laws valid_alice _ _ _ server_reachable_inv [OF idle_server_facts(1)],
        of sample_key sample_challenge 1 "[]"]
    by (auto simp: idle_server_facts)
  moreover obtain s' where "server_callback demo
      (Ev_receive 1 (auth_response_msg demo (sample_key @ sample_challenge)) 0 True sample_challenge) s = Inr (0, s')"
    "online_at s' ''alice'' sample_key 1"
    using auth_run [OF demo_hex_laws _ demo_verifies valid_alice challenged_open [OF s(2)] s(3), of sample_challenge] by auto
  ultimately show ?thesis
    using server_run_reachable [OF idle_server_facts(1)]
    by (intro exI [of _ s] exI [of _ s'] conjI server_stepI [where rc = 0]) (auto simp: challenged_at_def challenge_open_def)
qed

section \<open>The invariant\<close>

text \<open>
  C13. In every reachable state of the server the registry holds at most 256 users with
  distinct, valid names; an authenticated session has no open challenge and belongs to a
  registered name; a session's pending answer lies inside its 4096-byte buffer; and a user is
  online exactly when a websocket and a session are recorded for it.
\<close>

theorem server_invariant:
  assumes "server_reachable sod s"
  shows "server_inv s"
  using assms by (rule server_reachable_inv)

theorem server_invariant_witness:
  "\<exists>s. server_reachable demo s \<and> online_at s ''alice'' sample_key 1 \<and> server_inv s"
  using alice_online server_invariant by blast

section \<open>Memory safety\<close>

text \<open>
  C15. As long as no authenticated connection sends another \<open>hello\<close>, no callback reads a
  freed session: every event libwebsockets can deliver is handled without a fault, and every
  session the registry refers to is alive and authenticated under the user's name.
\<close>

theorem orderly_run_safe:
  assumes "orderly_reachable sod s" and "event_enabled e s"
  shows "(\<exists>rc s'. server_callback sod e s = Inr (rc, s')) \<and> links_live s"
  using callback_total [OF assms(2) dangling_links] orderly_links [OF assms(1)] by blast

theorem orderly_run_safe_witness:
  "\<exists>s rc s'. server_callback demo (Ev_receive 1 (register_msg demo ''alice'' sample_key) 0 True sample_challenge) s
       = Inr (rc, s') \<and> orderly_reachable demo s"
proof -
  let ?s = "idle_server\<lparr>sv_sessions := (sv_sessions idle_server)(1 \<mapsto> zero_session)\<rparr>"
  let ?e = "Ev_receive 1 (register_msg demo ''alice'' sample_key) 0 True sample_challenge"
  have "orderly_reachable demo idle_server"
    unfolding idle_server_def by (rule orderly_init) (simp add: CHAT_SERVER_MAX_USERS_def)
  moreover have "server_step demo idle_server (Ev_established 1) ?s"
    by (rule server_stepI [where rc = 0]) (simp_all add: idle_server_facts)
  ultimately have "orderly_reachable demo ?s"
    by (rule orderly_step) (simp add: rehello_def)
  moreover have "event_enabled ?e ?s" by simp
  ultimately show ?thesis using orderly_run_safe by blast
qed

section \<open>Authentication\<close>

definition identity_proof :: "('h, 's) sodium \<Rightarrow> server \<Rightarrow> server_event \<Rightarrow> nat \<Rightarrow> string \<Rightarrow> bool" where
  "identity_proof sod s e w u \<longleftrightarrow>
     (\<exists>inp remaining final rnd sess hex sig user.
        e = Ev_receive w inp remaining final rnd \<and>
        sv_sessions s w = Some sess \<and> ss_has_challenge sess \<and> ss_username sess = u \<and>
        json_get_string (cstr inp) ''signature'' 129 = Some hex \<and> hex_to_bin sod hex 64 = Some sig \<and>
        reg_lookup (sv_users s) u = Some user \<and>
        crypto_sign_verify_detached sod sig (ss_challenge sess) (su_identity_pk user))"

lemma identity_proofI:
  assumes "sv_sessions s w = Some sess" "ss_has_challenge sess"
    and "json_get_string (cstr inp) ''signature'' 129 = Some hex" "hex_to_bin sod hex 64 = Some sig"
    and "reg_lookup (sv_users s) (ss_username sess) = Some user"
    and "crypto_sign_verify_detached sod sig (ss_challenge sess) (su_identity_pk user)"
  shows "identity_proof sod s (Ev_receive w inp remaining final rnd) w (ss_username sess)"
  using assms unfolding identity_proof_def by (intro exI) (simp (no_asm_simp))

lemma replied_fields:
  assumes "replied w s s'"
  shows "sv_users s' = sv_users s" "p \<noteq> w \<Longrightarrow> sv_sessions s' p = sv_sessions s p"
    and "map_option ss_authenticated (sv_sessions s' p) = map_option ss_authenticated (sv_sessions s p)"
    and "map_option ss_username (sv_sessions s' p) = map_option ss_username (sv_sessions s p)"
  using assms by (auto simp: replied_def)

lemma effect_authenticates:
  assumes "recv_effect sod rnd w (cstr inp) s s1"
    and "sv_sessions s1 p = Some sess1" "ss_authenticated sess1"
    and "\<And>sess. sv_sessions s p = Some sess \<Longrightarrow> \<not> ss_authenticated sess"
  shows "identity_proof sod s (Ev_receive w inp remaining final rnd) p (ss_username sess1)"
  using assms(1)
proof cases
  case (eff_auth sess hex sig user)
  with assms(2-4) have "p = w" "ss_username sess1 = ss_username sess" by (auto split: if_splits)
  then show ?thesis using identity_proofI [OF eff_auth(3-8)] by simp
next
  case (eff_hello u sess)
  then show ?thesis using assms(2-4) by (cases "p = w") auto
next
  case (eff_forward type sess to_name sender target tw q tsess)
  then show ?thesis using assms(2-4) by (cases "p = q") auto
qed (use assms(2-4) in auto)

lemma effect_presence:
  assumes "recv_effect sod rnd w (cstr inp) s s1" "reg_invar (sv_users s)"
    and "reg_lookup (sv_users s1) u = Some x1" "su_wsi x1 = Some p"
    and "\<And>x. reg_lookup (sv_users s) u = Some x \<Longrightarrow> su_wsi x \<noteq> Some p"
  shows "identity_proof sod s (Ev_receive w inp remaining final rnd) p u"
  using assms(1)
proof cases
  case (eff_register v pk users')
  then show ?thesis
    using reg.register_lookup [OF assms(2) eff_register(5)] assms(3-5)
    by (auto simp: new_user_def split: if_splits)
next
  case (eff_auth sess hex sig user)
  with assms(3-5) have "p = w" "u = ss_username sess"
    by (auto simp: reg.online_lookup [OF assms(2)] go_online_def split: if_splits)
  then show ?thesis using identity_proofI [OF eff_auth(3-8)] by simp
qed (use assms(3-5) in auto)

lemma step_other_auth:
  assumes "server_step sod s e s'" "\<And>w inp remaining final rnd. e \<noteq> Ev_receive w inp remaining final rnd"
    and "sv_sessions s' p = Some sess'" "ss_authenticated sess'"
  shows "\<exists>sess. sv_sessions s p = Some sess \<and> ss_authenticated sess"
proof (cases e)
  case (Ev_established w)
  then show ?thesis using assms(1,3,4) by (auto elim!: server_stepE simp: zero_session_def split: if_splits)
next
  case (Ev_writeable w written)
  then show ?thesis using assms(1,3,4) by (auto elim!: server_stepE split: if_splits)
next
  case (Ev_closed w)
  then show ?thesis using assms(1,3,4) by (auto elim!: server_stepE split: if_splits)
qed (use assms(2) in blast)

lemma step_other_presence:
  assumes "server_step sod s e s'" "\<And>w inp remaining final rnd. e \<noteq> Ev_receive w inp remaining final rnd"
    and "reg_invar (sv_users s)" "reg_lookup (sv_users s') u = Some x'" "su_wsi x' = Some p"
  shows "\<exists>x. reg_lookup (sv_users s) u = Some x \<and> su_wsi x = Some p"
proof (cases e)
  case (Ev_established w)
  then show ?thesis using assms(1,4,5) by (auto elim!: server_stepE)
next
  case (Ev_writeable w written)
  then show ?thesis using assms(1,4,5) by (auto elim!: server_stepE split: if_splits)
next
  case (Ev_closed w)
  then have "sv_users s' = sv_users s \<or> sv_users s' = reg_set_offline (sv_users s) w"
    using assms(1) by (auto elim!: server_stepE split: if_splits)
  then show ?thesis
    using assms(4,5) by (auto simp: reg.offline_lookup [OF assms(3)] drop_wsi_def split: if_splits)
qed (use assms(2) in blast)

text \<open>
  C6. Authentication: a connection that is authenticated after a step and was not before has
  just sent an \<open>auth_response\<close> whose signature verifies, under the public key registered for
  the name it greeted with, over the challenge the server issued to this very connection.
\<close>

theorem authentication_sound:
  assumes "server_step sod s e s'"
    and "sv_sessions s' w = Some sess'" and "ss_authenticated sess'"
    and "\<And>sess. sv_sessions s w = Some sess \<Longrightarrow> \<not> ss_authenticated sess"
  shows "identity_proof sod s e w (ss_username sess')"
proof (cases "\<exists>v inp remaining final rnd. e = Ev_receive v inp remaining final rnd")
  case True
  then obtain v inp remaining final rnd where e: "e = Ev_receive v inp remaining final rnd" by blast
  obtain s1 where s1: "recv_effect sod rnd v (cstr inp) s s1" "replied v s1 s'"
    using step_receive_cases assms(1) e by metis
  obtain sess1 where "sv_sessions s1 w = Some sess1" "ss_authenticated sess1" "ss_username sess1 = ss_username sess'"
    using replied_fields(3,4) [OF s1(2), of w] assms(2,3) by (cases "sv_sessions s1 w") auto
  then show ?thesis using effect_authenticates [OF s1(1)] assms(4) e by metis
next
  case False
  then show ?thesis using step_other_auth [OF assms(1) _ assms(2,3)] assms(4) by blast
qed

theorem authentication_sound_witness:
  "\<exists>s s' e. server_step demo s e s' \<and> identity_proof demo s e 1 ''alice''"
proof -
  obtain s s' where s: "challenged_at s ''alice'' sample_key 1 sample_challenge"
    "server_step demo s (Ev_receive 1 (auth_response_msg demo (sample_key @ sample_challenge)) 0 True sample_challenge) s'"
    "online_at s' ''alice'' sample_key 1"
    using alice_answers by blast
  obtain sess' where sess': "sv_sessions s' 1 = Some sess'" "ss_authenticated sess'" "ss_username sess' = ''alice''"
    using s(3) by (auto simp: online_at_def)
  have "\<And>sess. sv_sessions s 1 = Some sess \<Longrightarrow> \<not> ss_authenticated sess"
    using s(1) by (auto simp: challenged_at_def challenge_open_def)
  from authentication_sound [OF s(2) sess'(1,2) this] sess'(3) s(2) show ?thesis by auto
qed

text \<open>
  C10. Presence: a name is recorded as online at a connection only by a step in which that
  connection proved, with a verified signature over its own challenge, the key registered for
  the name.
\<close>

theorem presence_sound:
  assumes "server_reachable sod s" and "server_step sod s e s'"
    and "chat_server_users_find (sv_users s') (Some u) = Some x'" and "su_wsi x' = Some w"
    and "\<And>x. chat_server_users_find (sv_users s) (Some u) = Some x \<Longrightarrow> su_wsi x \<noteq> Some w"
  shows "identity_proof sod s e w u"
proof (cases "\<exists>v inp remaining final rnd. e = Ev_receive v inp remaining final rnd")
  case True
  then obtain v inp remaining final rnd where e: "e = Ev_receive v inp remaining final rnd" by blast
  obtain s1 where s1: "recv_effect sod rnd v (cstr inp) s s1" "replied v s1 s'"
    using step_receive_cases assms(2) e by metis
  have "reg_lookup (sv_users s1) u = Some x'" using replied_fields(1) [OF s1(2)] assms(3) by simp
  then show ?thesis
    using effect_presence [OF s1(1) server_invD(1) [OF server_reachable_inv [OF assms(1)]]] assms(4,5) e by metis
next
  case False
  then show ?thesis
    using step_other_presence [OF assms(2) _ server_invD(1) [OF server_reachable_inv [OF assms(1)]] assms(3,4)]
      assms(5) by blast
qed

theorem presence_sound_witness:
  "\<exists>s s' e. server_step demo s e s' \<and> identity_proof demo s e 1 ''alice''"
proof -
  obtain s s' where s: "server_reachable demo s" "challenged_at s ''alice'' sample_key 1 sample_challenge"
    "server_step demo s (Ev_receive 1 (auth_response_msg demo (sample_key @ sample_challenge)) 0 True sample_challenge) s'"
    "online_at s' ''alice'' sample_key 1"
    using alice_answers by blast
  obtain x' where x': "reg_lookup (sv_users s') ''alice'' = Some x'" "su_wsi x' = Some 1"
    using s(4) by (auto simp: online_at_def)
  have "\<And>x. reg_lookup (sv_users s) ''alice'' = Some x \<Longrightarrow> su_wsi x \<noteq> Some 1"
    using s(2) by (auto simp: challenged_at_def challenge_open_def new_user_def)
  from presence_sound [OF s(1,3) x' this] s(3) show ?thesis by blast
qed

text \<open>
  C23. A challenge is used once: a further \<open>auth_response\<close> on an authenticated connection,
  with whatever signature, changes neither the registry nor any session but the sender's
  pending answer, which becomes the error \<open>auth_not_started\<close>.
\<close>

theorem challenge_single_use:
  assumes "server_reachable sod s"
    and "sv_sessions s w = Some sess" and "ss_authenticated sess"
    and "length inp < CHAT_SERVER_MAX_JSON_SIZE"
    and "json_get_string (cstr inp) ''type'' 32 = Some ''auth_response''"
  shows "callback_chat_control sod w (LWS_CALLBACK_RECEIVE inp 0 True rnd) s =
    Inr (0, queue_to w w sess (json_object [(''type'', JStr ''error''), (''code'', JStr ''auth_not_started'')]) s)"
proof -
  have "\<not> ss_has_challenge sess"
    using server_invD(2) [OF server_reachable_inv [OF assms(1)] assms(2)] assms(3) by (simp add: session_ok_def)
  then have "handle_auth_response sod w (cstr inp) s = send_error w w ''auth_not_started'' s"
    by (simp add: handle_auth_response_def assms(2))
  also have "\<dots> = Inr (0, queue_to w w sess (json_object [(''type'', JStr ''error''), (''code'', JStr ''auth_not_started'')]) s)"
    by (simp add: send_error_def send_json_queue [OF assms(2)] json_object_def snprintf_fits_def)
  finally show ?thesis using assms(4,5) by (simp add: handle_message_def)
qed

theorem challenge_single_use_witness:
  "\<exists>s sess. sv_sessions s 1 = Some sess \<and> ss_authenticated sess \<and>
     callback_chat_control demo 1
       (LWS_CALLBACK_RECEIVE (auth_response_msg demo (sample_key @ sample_challenge)) 0 True []) s =
     Inr (0, queue_to 1 1 sess (json_object [(''type'', JStr ''error''), (''code'', JStr ''auth_not_started'')]) s)"
proof -
  obtain s sess where s: "server_reachable demo s" "sv_sessions s 1 = Some sess" "ss_authenticated sess"
    using alice_online by (auto simp: online_at_def)
  note msg = auth_response_msg_fields [OF demo_hex_laws, of "sample_key @ sample_challenge"]
  have "length (auth_response_msg demo (sample_key @ sample_challenge)) < CHAT_SERVER_MAX_JSON_SIZE"
    "json_get_string (cstr (auth_response_msg demo (sample_key @ sample_challenge))) ''type'' 32 = Some ''auth_response''"
    using msg(1,3,4) by simp_all
  from challenge_single_use [OF s this] s show ?thesis by blast
qed

section \<open>Forwarding\<close>

text \<open>
  C7. Forwarding without impersonation: a received message reaches another connection only
  if the sender is authenticated, names itself as \<open>from\<close>, carries its own registered key
  when it asks for or accepts a chat, and the target is online with nothing waiting to be
  sent to it. What is queued there is the received text, byte for byte, and the registry is
  unchanged.
\<close>

theorem forward_authentic:
  assumes "server_step sod s (Ev_receive w inp remaining final rnd) s'"
    and "p \<noteq> w" and "sv_sessions s' p \<noteq> sv_sessions s p"
  shows "\<exists>type sess to_name sender target tsess.
    json_get_string (cstr inp) ''type'' 32 = Some type \<and> signaling_type_is_supported type \<and>
    sv_sessions s w = Some sess \<and> ss_authenticated sess \<and>
    json_get_string (cstr inp) ''from'' 33 = Some (ss_username sess) \<and>
    chat_server_users_find (sv_users s) (Some (ss_username sess)) = Some sender \<and>
    (type = ''chat_request'' \<or> type = ''chat_accept'' \<longrightarrow>
       (\<exists>hex. json_get_string (cstr inp) ''public_key'' 65 = Some hex
            \<and> hex_to_bin sod hex 32 = Some (su_identity_pk sender))) \<and>
    json_get_string (cstr inp) ''to'' 33 = Some to_name \<and>
    chat_server_users_find (sv_users s) (Some to_name) = Some target \<and>
    su_online target \<and> su_session target = Some p \<and>
    sv_sessions s p = Some tsess \<and> ss_pending_len tsess = 0 \<and>
    sv_sessions s' p = Some (with_pending tsess (cstr inp)) \<and> sv_users s' = sv_users s"
proof -
  obtain s1 where s1: "recv_effect sod rnd w (cstr inp) s s1" "replied w s1 s'"
    using step_receive_cases [OF assms(1)] by metis
  have p: "sv_sessions s' p = sv_sessions s1 p" using replied_fields(2) [OF s1(2) assms(2)] .
  with assms(3) have diff: "sv_sessions s1 p \<noteq> sv_sessions s p" by simp
  from s1(1) show ?thesis
  proof cases
    case (eff_forward type sess to_name sender target tw q tsess)
    with diff have q: "q = p" by (auto split: if_splits)
    have "sv_sessions s' p = Some (with_pending tsess (cstr inp))" "sv_users s' = sv_users s"
      using p replied_fields(1) [OF s1(2)] q eff_forward(1) by simp_all
    with eff_forward(2-15) q show ?thesis
      by - (rule exI [of _ type], rule exI [of _ sess], rule exI [of _ to_name],
          rule exI [of _ sender], rule exI [of _ target], rule exI [of _ tsess], simp)
  qed (use diff assms(2) in auto)
qed

lemma bob_drained:
  "\<exists>s. server_reachable demo s \<and> online_at s ''alice'' sample_key 1 \<and> online_at s ''bob'' sample_key 2
     \<and> (\<exists>tsess. sv_sessions s 2 = Some tsess \<and> ss_pending_len tsess = 0)"
proof -
  obtain s where s: "server_reachable demo s" "online_at s ''alice'' sample_key 1" "online_at s ''bob'' sample_key 2"
    using alice_bob_online by blast
  obtain sess where sess: "sv_sessions s 2 = Some sess" using s(3) by (auto simp: online_at_def)
  have len: "ss_pending_len sess < 4096"
    using server_invD(2) [OF server_reachable_inv [OF s(1)] sess] by (simp add: session_ok_def)
  obtain s' where s': "server_callback demo (Ev_writeable 2 4096) s = Inr (0, s')"
    "sv_users s' = sv_users s" "sv_sessions s' = (sv_sessions s)(2 \<mapsto> sess\<lparr>ss_pending_len := 0\<rparr>)"
    using sess len by (cases "ss_pending_len sess = 0") (auto simp: fun_upd_idem)
  have "server_step demo s (Ev_writeable 2 4096) s'"
    by (rule server_stepI [OF _ s'(1)]) (simp add: sess)
  moreover have "online_at s' ''alice'' sample_key 1" "online_at s' ''bob'' sample_key 2"
    using s(2,3) sess by (auto simp: online_at_def s'(2,3))
  moreover have "\<exists>tsess. sv_sessions s' 2 = Some tsess \<and> ss_pending_len tsess = 0" by (simp add: s'(3))
  ultimately show ?thesis using reach_step [OF s(1)] by blast
qed

theorem forward_authentic_witness:
  "\<exists>s s' sess. server_step demo s (Ev_receive 1 (chat_end_msg ''alice'' ''bob'') 0 True sample_challenge) s'
     \<and> sv_sessions s 1 = Some sess \<and> ss_authenticated sess \<and> ss_username sess = ''alice''
     \<and> (\<exists>tsess. sv_sessions s' 2 = Some (with_pending tsess (cstr (chat_end_msg ''alice'' ''bob''))))"
proof -
  obtain s tsess where s: "online_at s ''alice'' sample_key 1" "online_at s ''bob'' sample_key 2"
    "sv_sessions s 2 = Some tsess" "ss_pending_len tsess = 0"
    using bob_drained by blast
  let ?msg = "chat_end_msg ''alice'' ''bob''"
  obtain sess where sess: "sv_sessions s 1 = Some sess" "ss_authenticated sess" "ss_username sess = ''alice''"
    using s(1) by (auto simp: online_at_def)
  have short: "length ?msg < 4096" and ne: "length ?msg \<noteq> 0"
    using chat_end_msg_fields(6) [OF valid_alice valid_bob] by (simp_all add: chat_end_msg_def json_object_def)
  let ?s' = "queue_to 2 2 tsess ?msg s"
  have "server_callback demo (Ev_receive 1 ?msg 0 True sample_challenge) s = Inr (0, ?s')"
    using s sess short
    by (subst chat_end_forwarded [OF valid_alice valid_bob _ _ sess])
      (auto simp: online_at_def forward_to_lookup send_json_queue)
  then have step: "server_step demo s (Ev_receive 1 ?msg 0 True sample_challenge) ?s'"
    using sess by (intro server_stepI) (auto simp del: server_callback.simps)
  have diff: "sv_sessions ?s' 2 \<noteq> sv_sessions s 2"
    using s(3,4) ne by (auto simp: with_pending_def dest: arg_cong [of _ _ ss_pending_len])
  have "(2::nat) \<noteq> 1" by simp
  from forward_authentic [OF step this diff] obtain tsess'
    where "sv_sessions ?s' 2 = Some (with_pending tsess' (cstr ?msg))" by blast
  then show ?thesis using step sess by blast
qed

section \<open>Where the code does not do what it means to\<close>

text \<open>
  C34. An authenticated connection that sends a second \<open>hello\<close> and then closes is not taken
  offline, because the close callback only looks at connections that are still
  authenticated. The registry keeps referring to the freed session, and the next signaling
  message to that user reads it.
\<close>

theorem rehello_close_dangles:
  assumes "hex_laws sod" and "server_reachable sod s" and "length rnd = CHAT_SERVER_CHALLENGE_BYTES"
    and "online_at s u pk w" and "online_at s v pk' w'" and "w \<noteq> w'"
    and "u \<noteq> ''session_id''" and "v \<noteq> ''session_id''"
  shows "\<exists>s' x. server_run sod [Ev_receive w (hello_msg u) 0 True rnd, Ev_closed w] s = Some s'
    \<and> sv_sessions s' w = None
    \<and> chat_server_users_find (sv_users s') (Some u) = Some x \<and> su_online x \<and> su_session x = Some w
    \<and> server_callback sod (Ev_receive w' (chat_end_msg v u) 0 True rnd) s' = Inl Use_after_free"
proof -
  note inv = server_invD(1) [OF server_reachable_inv [OF assms(2)]]
  obtain x sess where x: "reg_lookup (sv_users s) u = Some x" "su_online x" "su_wsi x = Some w" "su_session x = Some w"
    and sess: "sv_sessions s w = Some sess"
    using assms(4) by (auto simp: online_at_def)
  obtain y sess' where y: "reg_lookup (sv_users s) v = Some y"
    and sess': "sv_sessions s w' = Some sess'" "ss_authenticated sess'" "ss_username sess' = v"
    using assms(5) by (auto simp: online_at_def)
  have valid: "valid_username u" "valid_username v" using reg.lookup_name [OF inv] x y by blast+
  let ?s1 = "queue_to w w (challenged sess u rnd) (auth_challenge_msg sod rnd)
               (s\<lparr>sv_sessions := (sv_sessions s)(w \<mapsto> challenged sess u rnd)\<rparr>)"
  let ?s' = "?s1\<lparr>sv_sessions := (sv_sessions ?s1)(w := None)\<rparr>"
  have hello: "server_callback sod (Ev_receive w (hello_msg u) 0 True rnd) s = Inr (0, ?s1)"
    using assms(3) x(1) by (intro hello_known [OF assms(1) valid(1) _ sess]) auto
  have closed: "server_callback sod (Ev_closed w) ?s1 = Inr (0, ?s')" by simp
  have run: "server_run sod [Ev_receive w (hello_msg u) 0 True rnd, Ev_closed w] s = Some ?s'"
    using hello closed assms(3) sess by (simp del: server_callback.simps)
  have "server_callback sod (Ev_receive w' (chat_end_msg v u) 0 True rnd) ?s' =
      forward_to_target w' u (chat_end_msg v u) ?s'"
    using sess' y assms(6) by (intro chat_end_forwarded [OF valid(2,1) assms(8,7)]) auto
  also have "\<dots> = Inl Use_after_free"
    using x by (simp add: forward_to_lookup)
  finally show ?thesis using run x by (intro exI [of _ ?s'] exI [of _ x]) simp
qed

theorem rehello_close_dangles_witness:
  "\<exists>s'. server_reachable demo s' \<and>
     server_callback demo (Ev_receive 2 (chat_end_msg ''bob'' ''alice'') 0 True sample_challenge) s' = Inl Use_after_free"
proof -
  obtain s where s: "server_reachable demo s" "online_at s ''alice'' sample_key 1" "online_at s ''bob'' sample_key 2"
    using alice_bob_online by blast
  have "length sample_challenge = CHAT_SERVER_CHALLENGE_BYTES" by simp
  from rehello_close_dangles [OF demo_hex_laws s(1) this s(2,3)] show ?thesis
    using server_run_reachable [OF s(1)] by (auto simp del: server_callback.simps server_run.simps)
qed

text \<open>
  C35. A forwarded message that waits in a connection's buffer is lost when that connection
  sends anything the server answers before the buffer is written out: the answer is copied
  over it. Here an authenticated client looks up a name the server does not know.
\<close>

theorem reply_overwrites_forwarded:
  assumes "sv_sessions s w = Some sess" and "ss_authenticated sess"
    and "0 < ss_pending_len sess"
    and "json_get_string (cstr inp) ''type'' 32 = Some ''user_lookup''"
    and "json_get_string (cstr inp) ''username'' 33 = Some u" and "valid_username u"
    and "chat_server_users_find (sv_users s) (Some u) = None" and "length inp < CHAT_SERVER_MAX_JSON_SIZE"
  shows "\<exists>s' sess'. callback_chat_control sod w (LWS_CALLBACK_RECEIVE inp 0 True rnd) s = Inr (0, s')
    \<and> sv_sessions s' w = Some sess' \<and> sv_sent s' = sv_sent s
    \<and> take (ss_pending_len sess') (ss_pending sess') =
        json_object [(''type'', JStr ''user_status''), (''username'', JStr u), (''known'', JLit ''false''),
                     (''online'', JLit ''false'')]"
proof -
  let ?r = "json_object [(''type'', JStr ''user_status''), (''username'', JStr u), (''known'', JLit ''false''),
                     (''online'', JLit ''false'')]"
  have len: "length ?r < 160" using assms(6) by (simp add: json_object_def valid_username_iff)
  then have "handle_user_lookup sod w (cstr inp) s = Inr (0, queue_to w w sess ?r s)"
    using assms by (simp add: handle_user_lookup_def snprintf_fits_def send_json_queue)
  then show ?thesis
    using assms(4,8) by (intro exI [of _ "queue_to w w sess ?r s"]) (simp add: handle_message_def with_pending_def)
qed

lemma lookup_carol:
  "json_get_string (cstr (json_object [(''type'', JStr ''user_lookup''), (''username'', JStr ''carol'')])) ''type'' 32
     = Some ''user_lookup''"
  "json_get_string (cstr (json_object [(''type'', JStr ''user_lookup''), (''username'', JStr ''carol'')])) ''username'' 33
     = Some ''carol''"
  "valid_username ''carol''"
  by code_simp+

theorem reply_overwrites_forwarded_witness:
  "\<exists>s s' sess sess'. sv_sessions s 2 = Some sess
     \<and> take (ss_pending_len sess) (ss_pending sess) = chat_end_msg ''alice'' ''bob''
     \<and> callback_chat_control demo 2 (LWS_CALLBACK_RECEIVE
         (json_object [(''type'', JStr ''user_lookup''), (''username'', JStr ''carol'')]) 0 True []) s = Inr (0, s')
     \<and> sv_sessions s' 2 = Some sess'
     \<and> take (ss_pending_len sess') (ss_pending sess') \<noteq> chat_end_msg ''alice'' ''bob''"
proof -
  let ?sess = "with_pending (zero_session\<lparr>ss_authenticated := True\<rparr>) (chat_end_msg ''alice'' ''bob'')"
  let ?s = "idle_server\<lparr>sv_sessions := [2 \<mapsto> ?sess]\<rparr>"
  let ?inp = "json_object [(''type'', JStr ''user_lookup''), (''username'', JStr ''carol'')]"
  have "sv_sessions ?s 2 = Some ?sess" "ss_authenticated ?sess" "0 < ss_pending_len ?sess"
    "chat_server_users_find (sv_users ?s) (Some ''carol'') = None" "length ?inp < CHAT_SERVER_MAX_JSON_SIZE"
    by (simp_all add: idle_server_facts chat_end_msg_def json_object_def)
  from reply_overwrites_forwarded [OF this(1-3) lookup_carol this(4,5), of demo "[]"]
  obtain s' sess' where s': "callback_chat_control demo 2 (LWS_CALLBACK_RECEIVE ?inp 0 True []) ?s = Inr (0, s')"
    "sv_sessions s' 2 = Some sess'"
    "take (ss_pending_len sess') (ss_pending sess') =
        json_object [(''type'', JStr ''user_status''), (''username'', JStr ''carol''), (''known'', JLit ''false''),
                     (''online'', JLit ''false'')]"
    by blast
  moreover have "take (ss_pending_len ?sess) (ss_pending ?sess) = chat_end_msg ''alice'' ''bob''"
    by (simp add: with_pending_def)
  moreover have "take (ss_pending_len sess') (ss_pending sess') \<noteq> chat_end_msg ''alice'' ''bob''"
    unfolding s'(3) by (simp add: chat_end_msg_def json_object_def quote_char_def)
  ultimately show ?thesis
    by - (rule exI [of _ ?s], rule exI [of _ s'], rule exI [of _ ?sess], rule exI [of _ sess'],
      simp del: callback_chat_control.simps)
qed

end
