(* ===== verification/Ice.thy ===== *)
theory Ice
  imports Prelude
begin

text \<open>
  \<open>daemon/ice.c\<close>: the ICE session and its receive ring. libnice is not part of the
  repository: what its functions answer during one call of the module is a record passed as
  an argument, and the calls that have an effect inside libnice are returned as a list. The
  ring of eight 4096-byte slots is kept as the arrays the code has; theorems relate it to a
  bounded queue that drops its oldest element, an interface stated as a locale.
\<close>

section \<open>State\<close>

definition CHAT_ICE_RECV_MAX :: nat where "CHAT_ICE_RECV_MAX = 4096"
definition CHAT_ICE_RECV_QUEUE_CAPACITY :: nat where "CHAT_ICE_RECV_QUEUE_CAPACITY = 8"
definition NICE_COMPONENT_TYPE_RTP :: nat where "NICE_COMPONENT_TYPE_RTP = 1"

lemmas ice_consts [simp] =
  CHAT_ICE_RECV_MAX_def CHAT_ICE_RECV_QUEUE_CAPACITY_def NICE_COMPONENT_TYPE_RTP_def

datatype chat_ice_result_t =
    CHAT_ICE_OK
  | CHAT_ICE_ERR_INVALID
  | CHAT_ICE_ERR_AGENT
  | CHAT_ICE_ERR_GATHER
  | CHAT_ICE_ERR_SDP
  | CHAT_ICE_ERR_REMOTE
  | CHAT_ICE_ERR_SEND
  | CHAT_ICE_ERR_BUFFER

record chat_ice_config_t =
  ic_local_address :: string
  ic_stun_host :: string
  ic_stun_port :: nat
  ic_turn_host :: string
  ic_turn_port :: nat
  ic_turn_username :: string
  ic_turn_password :: string
  ic_has_stun :: bool
  ic_has_turn :: bool
  ic_has_local_address :: bool
  ic_force_relay :: bool

record chat_ice_session_t =
  is_agent :: "nat option"
  is_stream_id :: nat
  is_component_id :: nat
  is_gathering_done :: bool
  is_remote_set :: bool
  is_ready :: bool
  is_failed :: bool
  is_selected_pair_known :: bool
  is_selected_pair_is_relayed :: bool
  is_recv_queue :: "bytes list"
  is_recv_lens :: "nat list"
  is_recv_head :: nat
  is_recv_count :: nat

section \<open>libnice\<close>

datatype nice_candidate_type =
    NICE_CANDIDATE_TYPE_HOST
  | NICE_CANDIDATE_TYPE_SERVER_REFLEXIVE
  | NICE_CANDIDATE_TYPE_PEER_REFLEXIVE
  | NICE_CANDIDATE_TYPE_RELAYED

datatype nice_component_state =
    NICE_COMPONENT_STATE_DISCONNECTED
  | NICE_COMPONENT_STATE_GATHERING
  | NICE_COMPONENT_STATE_CONNECTING
  | NICE_COMPONENT_STATE_CONNECTED
  | NICE_COMPONENT_STATE_READY
  | NICE_COMPONENT_STATE_FAILED

record nice =
  nice_agent_new_full :: "nat option"
  nice_agent_add_stream :: "nat \<Rightarrow> nat"
  nice_agent_set_stream_name :: "nat \<Rightarrow> nat \<Rightarrow> string \<Rightarrow> bool"
  nice_address_set_from_string :: "string \<Rightarrow> bool"
  nice_agent_add_local_address :: "nat \<Rightarrow> string \<Rightarrow> bool"
  nice_agent_set_relay_info :: "nat \<Rightarrow> nat \<Rightarrow> nat \<Rightarrow> string \<Rightarrow> nat \<Rightarrow> string \<Rightarrow> string \<Rightarrow> bool"
  nice_agent_attach_recv :: "nat \<Rightarrow> nat \<Rightarrow> nat \<Rightarrow> bool"
  nice_agent_gather_candidates :: "nat \<Rightarrow> nat \<Rightarrow> bool"
  nice_agent_generate_local_sdp :: "nat \<Rightarrow> string option"
  nice_agent_parse_remote_sdp :: "nat \<Rightarrow> string \<Rightarrow> int"
  nice_agent_send :: "nat \<Rightarrow> nat \<Rightarrow> nat \<Rightarrow> bytes \<Rightarrow> int"
  nice_agent_get_selected_pair ::
    "nat \<Rightarrow> nat \<Rightarrow> nat \<Rightarrow> (nice_candidate_type option \<times> nice_candidate_type option) option"

text \<open>The calls that change libnice's state.\<close>

datatype nice_call =
    Nice_new nat
  | Nice_set_mode nat bool bool
  | Nice_set_software nat string
  | Nice_set_stun nat string nat
  | Nice_connect nat string
  | Nice_remove_stream nat nat
  | Nice_unref nat

section \<open>Callbacks\<close>

definition on_candidate_gathering_done :: "nat \<Rightarrow> chat_ice_session_t \<Rightarrow> chat_ice_session_t" where
  "on_candidate_gathering_done stream_id session =
     (if stream_id \<noteq> is_stream_id session then session
      else session\<lparr>is_gathering_done := True\<rparr>)"

definition on_component_state_changed ::
  "nice \<Rightarrow> nat \<Rightarrow> nat \<Rightarrow> nat \<Rightarrow> nice_component_state \<Rightarrow> chat_ice_session_t \<Rightarrow> chat_ice_session_t" where
  "on_component_state_changed nice agent stream_id component_id state session =
     (if stream_id \<noteq> is_stream_id session \<or> component_id \<noteq> is_component_id session then session
      else if state = NICE_COMPONENT_STATE_READY \<or> state = NICE_COMPONENT_STATE_CONNECTED then
        (case nice_agent_get_selected_pair nice agent stream_id component_id of
           None \<Rightarrow> session\<lparr>is_ready := True\<rparr>
         | Some (local, remote) \<Rightarrow>
             session\<lparr>is_ready := True, is_selected_pair_known := True,
                     is_selected_pair_is_relayed :=
                       (local = Some NICE_CANDIDATE_TYPE_RELAYED \<or> remote = Some NICE_CANDIDATE_TYPE_RELAYED)\<rparr>)
      else if state = NICE_COMPONENT_STATE_FAILED then session\<lparr>is_failed := True\<rparr>
      else session)"

text \<open>\<open>memcpy\<close> to and \<open>sodium_memzero\<close> of the front of a slot.\<close>

definition slot_copy :: "bytes \<Rightarrow> bytes \<Rightarrow> bytes" where
  "slot_copy buf slot = buf @ drop (length buf) slot"

definition slot_zero :: "nat \<Rightarrow> bytes \<Rightarrow> bytes" where
  "slot_zero n slot = replicate n 0 @ drop n slot"

text \<open>The statements shared by the drop of the oldest packet and \<open>chat_ice_take_received\<close>: the
  slot at the head is wiped and the head moves on.\<close>

definition drop_head :: "chat_ice_session_t \<Rightarrow> chat_ice_session_t" where
  "drop_head session =
     (let h = is_recv_head session in
      session\<lparr>is_recv_queue := (is_recv_queue session)[h := slot_zero (is_recv_lens session ! h) (is_recv_queue session ! h)],
              is_recv_lens := (is_recv_lens session)[h := 0],
              is_recv_head := (h + 1) mod CHAT_ICE_RECV_QUEUE_CAPACITY,
              is_recv_count := is_recv_count session - 1\<rparr>)"

definition on_recv :: "bytes option \<Rightarrow> chat_ice_session_t \<Rightarrow> chat_ice_session_t" where
  "on_recv buf session =
     (case buf of
        None \<Rightarrow> session\<lparr>is_failed := True\<rparr>
      | Some data \<Rightarrow>
          if length data > CHAT_ICE_RECV_MAX then session\<lparr>is_failed := True\<rparr>
          else
            (let session' = (if is_recv_count session \<ge> CHAT_ICE_RECV_QUEUE_CAPACITY
                             then drop_head session else session);
                 index = (is_recv_head session' + is_recv_count session') mod CHAT_ICE_RECV_QUEUE_CAPACITY
             in session'\<lparr>is_recv_queue := (is_recv_queue session')[index := slot_copy data (is_recv_queue session' ! index)],
                         is_recv_lens := (is_recv_lens session')[index := length data],
                         is_recv_count := is_recv_count session' + 1\<rparr>))"

section \<open>Sessions\<close>

definition chat_ice_session_init :: chat_ice_session_t where
  "chat_ice_session_init =
     \<lparr>is_agent = None, is_stream_id = 0, is_component_id = NICE_COMPONENT_TYPE_RTP,
      is_gathering_done = False, is_remote_set = False, is_ready = False, is_failed = False,
      is_selected_pair_known = False, is_selected_pair_is_relayed = False,
      is_recv_queue = replicate CHAT_ICE_RECV_QUEUE_CAPACITY (replicate CHAT_ICE_RECV_MAX 0),
      is_recv_lens = replicate CHAT_ICE_RECV_QUEUE_CAPACITY 0, is_recv_head = 0, is_recv_count = 0\<rparr>"

definition chat_ice_session_close :: "chat_ice_session_t \<Rightarrow> chat_ice_session_t \<times> nice_call list" where
  "chat_ice_session_close session =
     (chat_ice_session_init,
      case is_agent session of
        None \<Rightarrow> []
      | Some agent \<Rightarrow>
          (if is_stream_id session \<noteq> 0 then [Nice_remove_stream agent (is_stream_id session)] else [])
          @ [Nice_unref agent])"

definition chat_ice_config_init :: chat_ice_config_t where
  "chat_ice_config_init =
     \<lparr>ic_local_address = [], ic_stun_host = [], ic_stun_port = 0, ic_turn_host = [], ic_turn_port = 0,
      ic_turn_username = [], ic_turn_password = [], ic_has_stun = False, ic_has_turn = False,
      ic_has_local_address = False, ic_force_relay = False\<rparr>"

text \<open>\<open>start_failed\<close> is the close-and-return at the error exits of \<open>chat_ice_session_start\<close>.\<close>

definition start_failed ::
  "chat_ice_result_t \<Rightarrow> chat_ice_session_t \<Rightarrow> nice_call list \<Rightarrow>
   chat_ice_result_t \<times> chat_ice_session_t \<times> nice_call list" where
  "start_failed result session calls =
     (let (session', closing) = chat_ice_session_close session in (result, session', calls @ closing))"

definition ice_local_address_refused :: "nice \<Rightarrow> nat \<Rightarrow> chat_ice_config_t option \<Rightarrow> bool" where
  "ice_local_address_refused nice agent config =
     (case config of
        None \<Rightarrow> False
      | Some c \<Rightarrow> ic_has_local_address c
          \<and> (\<not> nice_address_set_from_string nice (ic_local_address c)
             \<or> \<not> nice_agent_add_local_address nice agent (ic_local_address c)))"

definition ice_relay_refused :: "nice \<Rightarrow> nat \<Rightarrow> chat_ice_session_t \<Rightarrow> chat_ice_config_t option \<Rightarrow> bool" where
  "ice_relay_refused nice agent session config =
     (case config of
        None \<Rightarrow> False
      | Some c \<Rightarrow> ic_has_turn c
          \<and> \<not> nice_agent_set_relay_info nice agent (is_stream_id session) (is_component_id session)
                (ic_turn_host c) (ic_turn_port c) (ic_turn_username c) (ic_turn_password c))"

definition chat_ice_session_start ::
  "nice \<Rightarrow> bool \<Rightarrow> chat_ice_config_t option \<Rightarrow> chat_ice_session_t \<Rightarrow>
   chat_ice_result_t \<times> chat_ice_session_t \<times> nice_call list" where
  "chat_ice_session_start nice controlling config session =
     (let (closed, calls0) = chat_ice_session_close session in
      case nice_agent_new_full nice of
        None \<Rightarrow> (CHAT_ICE_ERR_AGENT, closed, calls0)
      | Some agent \<Rightarrow>
          (let force = (case config of None \<Rightarrow> False | Some c \<Rightarrow> ic_force_relay c);
               calls1 = calls0 @ [Nice_new agent, Nice_set_mode agent controlling force,
                                  Nice_set_software agent ''ProntoChat''];
               s1 = closed\<lparr>is_agent := Some agent, is_stream_id := nice_agent_add_stream nice agent\<rparr>
           in
           if is_stream_id s1 = 0 then start_failed CHAT_ICE_ERR_AGENT s1 calls1
           else
             (let s2 = s1\<lparr>is_component_id := NICE_COMPONENT_TYPE_RTP\<rparr> in
              if \<not> nice_agent_set_stream_name nice agent (is_stream_id s2) ''application''
                then start_failed CHAT_ICE_ERR_AGENT s2 calls1
              else if ice_local_address_refused nice agent config
                then start_failed CHAT_ICE_ERR_AGENT s2 calls1
              else
                (let calls2 = calls1 @ (case config of
                       Some c \<Rightarrow> if ic_has_stun c then [Nice_set_stun agent (ic_stun_host c) (ic_stun_port c)] else []
                     | None \<Rightarrow> [])
                 in
                 if ice_relay_refused nice agent s2 config then start_failed CHAT_ICE_ERR_AGENT s2 calls2
                 else
                   (let calls3 = calls2 @ [Nice_connect agent ''candidate-gathering-done'',
                                           Nice_connect agent ''component-state-changed'']
                    in
                    if \<not> nice_agent_attach_recv nice agent (is_stream_id s2) (is_component_id s2)
                      then start_failed CHAT_ICE_ERR_AGENT s2 calls3
                    else if \<not> nice_agent_gather_candidates nice agent (is_stream_id s2)
                      then start_failed CHAT_ICE_ERR_GATHER s2 calls3
                    else (CHAT_ICE_OK, s2, calls3))))))"

definition chat_ice_session_generate_local_sdp ::
  "nice \<Rightarrow> chat_ice_session_t \<Rightarrow> chat_ice_result_t \<times> string option" where
  "chat_ice_session_generate_local_sdp nice session =
     (case is_agent session of
        None \<Rightarrow> (CHAT_ICE_ERR_INVALID, None)
      | Some agent \<Rightarrow>
          if \<not> is_gathering_done session then (CHAT_ICE_ERR_GATHER, None)
          else (case nice_agent_generate_local_sdp nice agent of
                  None \<Rightarrow> (CHAT_ICE_ERR_SDP, None)
                | Some sdp \<Rightarrow> if sdp = [] then (CHAT_ICE_ERR_SDP, None) else (CHAT_ICE_OK, Some sdp)))"

definition chat_ice_session_set_remote_sdp ::
  "nice \<Rightarrow> string option \<Rightarrow> chat_ice_session_t \<Rightarrow> chat_ice_result_t \<times> chat_ice_session_t" where
  "chat_ice_session_set_remote_sdp nice remote_sdp session =
     (case (is_agent session, remote_sdp) of
        (Some agent, Some sdp) \<Rightarrow>
          (let added = nice_agent_parse_remote_sdp nice agent sdp in
           if added < 0 then (CHAT_ICE_ERR_SDP, session)
           else if added = 0 then (CHAT_ICE_ERR_REMOTE, session)
           else (CHAT_ICE_OK, session\<lparr>is_remote_set := True\<rparr>))
      | _ \<Rightarrow> (CHAT_ICE_ERR_INVALID, session))"

definition chat_ice_send :: "nice \<Rightarrow> bytes option \<Rightarrow> chat_ice_session_t \<Rightarrow> chat_ice_result_t" where
  "chat_ice_send nice data session =
     (case data of
        None \<Rightarrow> CHAT_ICE_ERR_INVALID
      | Some d \<Rightarrow>
          (case is_agent session of
             None \<Rightarrow> CHAT_ICE_ERR_INVALID
           | Some agent \<Rightarrow>
               if \<not> is_ready session \<or> length d = 0 \<or> length d > CHAT_ICE_RECV_MAX then CHAT_ICE_ERR_INVALID
               else if nice_agent_send nice agent (is_stream_id session) (is_component_id session) d \<noteq> int (length d)
                 then CHAT_ICE_ERR_SEND
               else CHAT_ICE_OK))"

text \<open>The output buffer is the list of the bytes copied into it.\<close>

definition chat_ice_take_received ::
  "nat \<Rightarrow> chat_ice_session_t \<Rightarrow> chat_ice_result_t \<times> bytes \<times> chat_ice_session_t" where
  "chat_ice_take_received out_size session =
     (if is_recv_count session = 0 then (CHAT_ICE_OK, [], session)
      else
        (let recv_len = is_recv_lens session ! is_recv_head session in
         if out_size < recv_len then (CHAT_ICE_ERR_BUFFER, [], session)
         else (CHAT_ICE_OK, take recv_len (is_recv_queue session ! is_recv_head session), drop_head session)))"

definition chat_ice_selected_pair_is_relayed :: "chat_ice_session_t \<Rightarrow> bool option" where
  "chat_ice_selected_pair_is_relayed session =
     (if \<not> is_selected_pair_known session then None else Some (is_selected_pair_is_relayed session))"

fun chat_ice_result_name :: "chat_ice_result_t \<Rightarrow> string" where
  "chat_ice_result_name CHAT_ICE_OK = ''ok''"
| "chat_ice_result_name CHAT_ICE_ERR_INVALID = ''invalid ICE session''"
| "chat_ice_result_name CHAT_ICE_ERR_AGENT = ''ICE agent error''"
| "chat_ice_result_name CHAT_ICE_ERR_GATHER = ''ICE candidate gathering error''"
| "chat_ice_result_name CHAT_ICE_ERR_SDP = ''ICE SDP error''"
| "chat_ice_result_name CHAT_ICE_ERR_REMOTE = ''ICE remote candidate error''"
| "chat_ice_result_name CHAT_ICE_ERR_SEND = ''ICE send error''"
| "chat_ice_result_name CHAT_ICE_ERR_BUFFER = ''ICE buffer too small''"

section \<open>The ring as a queue\<close>

text \<open>The \<open>i\<close>-th waiting packet lies in the slot \<open>head + i\<close>, modulo the capacity.\<close>

definition ring_slot :: "chat_ice_session_t \<Rightarrow> nat \<Rightarrow> nat" where
  "ring_slot s i = (is_recv_head s + i) mod 8"

definition ring_packets :: "chat_ice_session_t \<Rightarrow> bytes list" where
  "ring_packets s =
     map (\<lambda>i. take (is_recv_lens s ! ring_slot s i) (is_recv_queue s ! ring_slot s i)) [0..<is_recv_count s]"

text \<open>A slot is clean behind its length: no byte of an earlier packet is left there.\<close>

definition slot_ok :: "nat \<Rightarrow> bytes \<Rightarrow> bool" where
  "slot_ok n slot \<longleftrightarrow> length slot = 4096 \<and> n \<le> 4096 \<and> drop n slot = replicate (4096 - n) 0"

definition ring_inv :: "chat_ice_session_t \<Rightarrow> bool" where
  "ring_inv s \<longleftrightarrow> length (is_recv_queue s) = 8 \<and> length (is_recv_lens s) = 8
     \<and> is_recv_head s < 8 \<and> is_recv_count s \<le> 8
     \<and> (\<forall>j<8. slot_ok (is_recv_lens s ! j) (is_recv_queue s ! j))
     \<and> (\<forall>i<8. is_recv_count s \<le> i \<longrightarrow> is_recv_lens s ! ring_slot s i = 0)"

lemma mod8_le: "i \<le> j \<Longrightarrow> j < 8 \<Longrightarrow> (h + j) mod 8 = (h + i) mod (8::nat) \<Longrightarrow> i = j"
  using mod_eq_dvd_iff_nat [of "h + i" "h + j" 8] nat_dvd_not_less [of "j - i" 8] by (cases "i = j") auto

lemma mod8_inj: "i < 8 \<Longrightarrow> j < 8 \<Longrightarrow> ((h + i) mod 8 = (h + j) mod (8::nat)) = (i = j)"
  using mod8_le [of i j h] mod8_le [of j i h] by (cases "i \<le> j") auto

lemma ring_slot_less [simp]: "ring_slot s i < 8"
  by (simp add: ring_slot_def)

lemma ring_slot_inj: "i < 8 \<Longrightarrow> j < 8 \<Longrightarrow> (ring_slot s i = ring_slot s j) = (i = j)"
  by (simp add: ring_slot_def mod8_inj)

lemma ring_slot_0: "ring_inv s \<Longrightarrow> ring_slot s 0 = is_recv_head s"
  by (simp add: ring_slot_def ring_inv_def)

lemma slot_zero_ok: "slot_ok n slot \<Longrightarrow> slot_ok 0 (slot_zero n slot)"
  using replicate_add [of n "4096 - n" "0 :: byte"] by (simp add: slot_ok_def slot_zero_def)

lemma slot_copy_ok: "slot_ok 0 slot \<Longrightarrow> length data \<le> 4096 \<Longrightarrow> slot_ok (length data) (slot_copy data slot)"
  by (auto simp: slot_ok_def slot_copy_def)

lemma drop_head_slot:
  "ring_slot (drop_head s) i = (is_recv_head s + Suc i) mod 8"
  by (simp add: ring_slot_def drop_head_def Let_def mod_simps)

lemma drop_head_inv:
  assumes "ring_inv s" "0 < is_recv_count s"
  shows "ring_inv (drop_head s)"
proof -
  let ?h = "is_recv_head s"
  have h: "?h < 8" "length (is_recv_queue s) = 8" "length (is_recv_lens s) = 8" "is_recv_count s \<le> 8"
    and ok: "\<And>j. j < 8 \<Longrightarrow> slot_ok (is_recv_lens s ! j) (is_recv_queue s ! j)"
    and free: "\<And>i. i < 8 \<Longrightarrow> is_recv_count s \<le> i \<Longrightarrow> is_recv_lens s ! ring_slot s i = 0"
    using assms(1) by (auto simp: ring_inv_def)
  have "slot_ok (is_recv_lens (drop_head s) ! j) (is_recv_queue (drop_head s) ! j)" if "j < 8" for j
    using h ok [OF that] slot_zero_ok by (auto simp: drop_head_def Let_def nth_list_update_if)
  moreover have "is_recv_lens (drop_head s) ! ring_slot (drop_head s) i = 0"
    if i: "i < 8" "is_recv_count (drop_head s) \<le> i" for i
  proof (cases "Suc i = 8")
    case True
    then have "(?h + Suc i) mod 8 = ?h" using h(1) by simp
    then show ?thesis unfolding drop_head_slot using h by (simp add: drop_head_def Let_def)
  next
    case False
    then have "is_recv_lens s ! ((?h + Suc i) mod 8) = 0"
      using i free [of "Suc i"] by (simp add: ring_slot_def drop_head_def Let_def)
    then show ?thesis unfolding drop_head_slot using h by (simp add: drop_head_def Let_def nth_list_update_if)
  qed
  ultimately show ?thesis
    using h by (simp add: ring_inv_def) (simp add: drop_head_def Let_def)
qed

lemma drop_head_packets:
  assumes "ring_inv s" "0 < is_recv_count s"
  shows "ring_packets s = take (is_recv_lens s ! is_recv_head s) (is_recv_queue s ! is_recv_head s)
           # ring_packets (drop_head s)"
proof -
  let ?h = "is_recv_head s"
  have h: "?h < 8" "length (is_recv_queue s) = 8" "length (is_recv_lens s) = 8" "is_recv_count s \<le> 8"
    using assms(1) by (auto simp: ring_inv_def)
  have cnt: "is_recv_count s = Suc (is_recv_count (drop_head s))"
    using assms(2) by (simp add: drop_head_def Let_def)
  have ne: "?h \<noteq> (?h + Suc i) mod 8" if "i < is_recv_count (drop_head s)" for i
    using mod8_inj [of "Suc i" 0 ?h] that cnt h by simp
  have "ring_packets s = take (is_recv_lens s ! ring_slot s 0) (is_recv_queue s ! ring_slot s 0) #
      map (\<lambda>i. take (is_recv_lens s ! ring_slot s (Suc i)) (is_recv_queue s ! ring_slot s (Suc i)))
        [0..<is_recv_count (drop_head s)]"
    unfolding ring_packets_def cnt by (simp add: upt_conv_Cons map_Suc_upt [symmetric] del: upt_Suc)
  also have "map (\<lambda>i. take (is_recv_lens s ! ring_slot s (Suc i)) (is_recv_queue s ! ring_slot s (Suc i)))
        [0..<is_recv_count (drop_head s)] = ring_packets (drop_head s)"
    unfolding ring_packets_def drop_head_slot
    using ne h by (intro map_cong refl) (simp add: ring_slot_def drop_head_def Let_def nth_list_update_if)
  finally show ?thesis by (simp add: ring_slot_0 [OF assms(1)])
qed

definition push_slot :: "bytes \<Rightarrow> chat_ice_session_t \<Rightarrow> chat_ice_session_t" where
  "push_slot data s =
     (let index = ring_slot s (is_recv_count s) in
      s\<lparr>is_recv_queue := (is_recv_queue s)[index := slot_copy data (is_recv_queue s ! index)],
        is_recv_lens := (is_recv_lens s)[index := length data],
        is_recv_count := is_recv_count s + 1\<rparr>)"

lemma on_recv_push:
  "length data \<le> 4096 \<Longrightarrow>
   on_recv (Some data) s = push_slot data (if is_recv_count s \<ge> 8 then drop_head s else s)"
  by (simp add: on_recv_def push_slot_def ring_slot_def Let_def)

lemma push_slot_slot: "ring_slot (push_slot data s) i = ring_slot s i"
  by (simp add: ring_slot_def push_slot_def Let_def)

lemma push_slot_inv:
  assumes "ring_inv s" "is_recv_count s < 8" "length data \<le> 4096"
  shows "ring_inv (push_slot data s)"
proof -
  let ?x = "ring_slot s (is_recv_count s)"
  have h: "length (is_recv_queue s) = 8" "length (is_recv_lens s) = 8"
    and ok: "\<And>j. j < 8 \<Longrightarrow> slot_ok (is_recv_lens s ! j) (is_recv_queue s ! j)"
    and free: "\<And>i. i < 8 \<Longrightarrow> is_recv_count s \<le> i \<Longrightarrow> is_recv_lens s ! ring_slot s i = 0"
    using assms(1) by (auto simp: ring_inv_def)
  have "slot_ok 0 (is_recv_queue s ! ?x)" using ok [of ?x] free [of "is_recv_count s"] assms(2) by simp
  then have "slot_ok (is_recv_lens (push_slot data s) ! j) (is_recv_queue (push_slot data s) ! j)" if "j < 8" for j
    using h ok [OF that] slot_copy_ok assms(3) by (auto simp: push_slot_def Let_def nth_list_update_if)
  moreover have "is_recv_lens (push_slot data s) ! ring_slot s i = 0" if "i < 8" "is_recv_count s < i" for i
    using that free [of i] h ring_slot_inj [of "is_recv_count s" i s] assms(2)
    by (simp add: push_slot_def Let_def nth_list_update_if)
  ultimately show ?thesis
    using assms(1,2) by (simp add: ring_inv_def push_slot_slot) (simp add: push_slot_def Let_def)
qed

lemma push_slot_packets:
  assumes "ring_inv s" "is_recv_count s < 8" "length data \<le> 4096"
  shows "ring_packets (push_slot data s) = ring_packets s @ [data]"
proof -
  let ?x = "ring_slot s (is_recv_count s)"
  have h: "length (is_recv_queue s) = 8" "length (is_recv_lens s) = 8" using assms(1) by (auto simp: ring_inv_def)
  have other: "?x \<noteq> ring_slot s i" if "i < is_recv_count s" for i
    using ring_slot_inj [of "is_recv_count s" i s] that assms(2) by simp
  have "is_recv_count (push_slot data s) = Suc (is_recv_count s)" by (simp add: push_slot_def Let_def)
  then show ?thesis
    unfolding ring_packets_def push_slot_slot
    using h other by (auto simp: push_slot_def Let_def nth_list_update_if slot_copy_def)
qed

lemma ring_packets_length: "length (ring_packets s) = is_recv_count s"
  by (simp add: ring_packets_def)

lemma on_recv_inv:
  "ring_inv s \<Longrightarrow> length data \<le> 4096 \<Longrightarrow> ring_inv (on_recv (Some data) s)"
  using drop_head_inv [of s] push_slot_inv [of "drop_head s" data] push_slot_inv [of s data]
  by (auto simp: on_recv_push ring_inv_def [of s]) (simp_all add: drop_head_def Let_def)

lemma on_recv_packets:
  assumes "ring_inv s" "length data \<le> 4096"
  shows "ring_packets (on_recv (Some data) s) =
    (if length (ring_packets s) < 8 then ring_packets s @ [data] else tl (ring_packets s) @ [data])"
proof (cases "is_recv_count s < 8")
  case True
  then show ?thesis using assms push_slot_packets [OF assms(1)] by (simp add: on_recv_push ring_packets_length)
next
  case False
  then have c: "0 < is_recv_count s" "is_recv_count s \<le> 8" using assms(1) by (auto simp: ring_inv_def)
  have "is_recv_count (drop_head s) < 8" using c by (simp add: drop_head_def Let_def)
  then show ?thesis
    using False push_slot_packets [OF drop_head_inv [OF assms(1) c(1)] _ assms(2)]
      drop_head_packets [OF assms(1) c(1)] ring_packets_length [of s]
    by (simp add: on_recv_push assms(2))
qed

lemma take_received_packets:
  assumes "ring_inv s" "CHAT_ICE_RECV_MAX \<le> out_size"
  shows "chat_ice_take_received out_size s =
    (case ring_packets s of
       [] \<Rightarrow> (CHAT_ICE_OK, [], s)
     | p # ps \<Rightarrow> (CHAT_ICE_OK, p, drop_head s))"
proof (cases "is_recv_count s = 0")
  case True
  then show ?thesis by (simp add: chat_ice_take_received_def ring_packets_def)
next
  case False
  have "is_recv_lens s ! is_recv_head s \<le> 4096" using assms(1) by (auto simp: ring_inv_def slot_ok_def)
  then show ?thesis
    using False assms(2) drop_head_packets [OF assms(1)] by (simp add: chat_ice_take_received_def)
qed

lemma session_init_ring: "ring_inv chat_ice_session_init" "ring_packets chat_ice_session_init = []"
  by (auto simp: ring_inv_def chat_ice_session_init_def ring_slot_def slot_ok_def ring_packets_def)

section \<open>The interface: a queue that drops its oldest element\<close>

locale lossy_queue =
  fixes cap :: nat
    and invar :: "'q \<Rightarrow> bool" and content :: "'q \<Rightarrow> 'a list"
    and valid :: "'a \<Rightarrow> bool"
    and put :: "'a \<Rightarrow> 'q \<Rightarrow> 'q" and take_first :: "'q \<Rightarrow> 'a option \<times> 'q"
  assumes content_cap: "invar q \<Longrightarrow> length (content q) \<le> cap"
    and put_invar: "invar q \<Longrightarrow> valid x \<Longrightarrow> invar (put x q)"
    and put_content: "invar q \<Longrightarrow> valid x \<Longrightarrow>
          content (put x q) = (if length (content q) < cap then content q else tl (content q)) @ [x]"
    and take_empty: "invar q \<Longrightarrow> content q = [] \<Longrightarrow> take_first q = (None, q)"
    and take_content: "invar q \<Longrightarrow> content q = x # xs \<Longrightarrow>
          \<exists>q'. take_first q = (Some x, q') \<and> content q' = xs \<and> invar q'"
begin

definition put_all :: "'a list \<Rightarrow> 'q \<Rightarrow> 'q" where
  "put_all xs q = foldl (\<lambda>q x. put x q) q xs"

primrec take_many :: "nat \<Rightarrow> 'q \<Rightarrow> 'a list" where
  "take_many 0 q = []"
| "take_many (Suc n) q =
     (case take_first q of (None, q') \<Rightarrow> [] | (Some x, q') \<Rightarrow> x # take_many n q')"

lemma put_all_invar: "invar q \<Longrightarrow> \<forall>x \<in> set xs. valid x \<Longrightarrow> invar (put_all xs q)"
  unfolding put_all_def by (induction xs arbitrary: q) (auto simp: put_invar)

lemma put_all_content:
  "invar q \<Longrightarrow> \<forall>x \<in> set xs. valid x \<Longrightarrow>
   content (put_all xs q) = drop (length (content q) + length xs - cap) (content q @ xs)"
proof (induction xs arbitrary: q)
  case Nil
  then show ?case using content_cap by (simp add: put_all_def)
next
  case (Cons x xs)
  have IH: "content (put_all xs (put x q)) =
      drop (length (content (put x q)) + length xs - cap) (content (put x q) @ xs)"
    using Cons by (simp add: put_invar)
  have put: "put_all (x # xs) q = put_all xs (put x q)" by (simp add: put_all_def)
  have c: "content (put x q) = (if length (content q) < cap then content q else tl (content q)) @ [x]"
    using put_content Cons.prems by simp
  show ?case
  proof (cases "length (content q) < cap \<or> content q = []")
    case True
    then show ?thesis using IH c by (auto simp: put)
  next
    case False
    moreover have "length (content q) = cap" using False content_cap [OF Cons.prems(1)] by auto
    ultimately show ?thesis using IH c by (cases "content q") (auto simp: put)
  qed
qed

lemma take_many_content: "invar q \<Longrightarrow> take_many n q = take n (content q)"
proof (induction n arbitrary: q)
  case (Suc n)
  show ?case
  proof (cases "content q")
    case Nil
    then show ?thesis using take_empty [OF Suc.prems] by simp
  next
    case (Cons x xs)
    then show ?thesis using take_content [OF Suc.prems Cons] Suc.IH by auto
  qed
qed simp

end

definition ice_take :: "chat_ice_session_t \<Rightarrow> bytes option \<times> chat_ice_session_t" where
  "ice_take s =
     (if is_recv_count s = 0 then (None, s)
      else case chat_ice_take_received CHAT_ICE_RECV_MAX s of (r, data, s') \<Rightarrow> (Some data, s'))"

interpretation ring: lossy_queue 8 ring_inv ring_packets "\<lambda>data. length data \<le> CHAT_ICE_RECV_MAX"
  "\<lambda>data. on_recv (Some data)" ice_take
proof unfold_locales
  fix q assume "ring_inv q"
  then show "length (ring_packets q) \<le> 8" by (simp add: ring_packets_length ring_inv_def)
next
  fix q and x :: bytes and xs assume "ring_inv q" "ring_packets q = x # xs"
  moreover from this(2) have "0 < is_recv_count q" using ring_packets_length [of q] by auto
  ultimately show "\<exists>q'. ice_take q = (Some x, q') \<and> ring_packets q' = xs \<and> ring_inv q'"
    using drop_head_packets [of q] drop_head_inv [of q] take_received_packets [of q 4096]
    by (auto simp: ice_take_def)
next
  fix q assume "ring_packets q = []"
  then have "is_recv_count q = 0" using ring_packets_length [of q] by simp
  then show "ice_take q = (None, q)" by (simp add: ice_take_def)
qed (auto simp: on_recv_inv on_recv_packets)

section \<open>Properties\<close>

text \<open>Repeated calls of \<open>chat_ice_take_received\<close>, as the daemon makes them.\<close>

primrec drain_received :: "nat \<Rightarrow> chat_ice_session_t \<Rightarrow> bytes list" where
  "drain_received 0 s = []"
| "drain_received (Suc n) s =
     (if is_recv_count s = 0 then []
      else case chat_ice_take_received CHAT_ICE_RECV_MAX s of (r, data, s') \<Rightarrow> data # drain_received n s')"

lemma drain_received_take: "drain_received n s = ring.take_many n s"
  by (induction n arbitrary: s) (auto simp: ice_take_def split: prod.splits)

text \<open>
  C21. The receive ring delivers in order and loses only the oldest: after any number of
  packets of at most 4096 bytes arrived in a fresh session, repeated
  \<open>chat_ice_take_received\<close> calls return exactly the last eight of them, complete and in the
  order of arrival.
\<close>

theorem ice_ring_delivers_latest:
  assumes "\<forall>p \<in> set packets. length p \<le> CHAT_ICE_RECV_MAX" and "8 \<le> n"
  shows "drain_received n (foldl (\<lambda>s p. on_recv (Some p) s) chat_ice_session_init packets) =
           drop (length packets - CHAT_ICE_RECV_QUEUE_CAPACITY) packets"
proof -
  let ?s = "ring.put_all packets chat_ice_session_init"
  have "ring_inv ?s" using ring.put_all_invar [OF session_init_ring(1) assms(1)] .
  moreover have "ring_packets ?s = drop (length packets - 8) packets"
    using ring.put_all_content [OF session_init_ring(1) assms(1)] by (simp add: session_init_ring(2))
  ultimately show ?thesis
    using assms(2) by (simp add: drain_received_take ring.take_many_content ring.put_all_def)
qed

theorem ice_ring_delivers_latest_witness:
  "drain_received 8 (foldl (\<lambda>s p. on_recv (Some p) s) chat_ice_session_init
      [[0], [1, 1], [2], [3], [4], [5], [6], [7], [8], [9]])
    = [[2], [3], [4], [5], [6], [7], [8], [9]]"
  by (subst ice_ring_delivers_latest) simp_all

text \<open>Everything that touches the ring: arriving data of any size, and takes into a buffer of
  any size.\<close>

datatype ring_op = Ring_recv "bytes option" | Ring_take nat

fun ring_step :: "chat_ice_session_t \<Rightarrow> ring_op \<Rightarrow> chat_ice_session_t" where
  "ring_step s (Ring_recv buf) = on_recv buf s"
| "ring_step s (Ring_take out_size) = (case chat_ice_take_received out_size s of (r, data, s') \<Rightarrow> s')"

lemma ring_inv_failed: "ring_inv s \<Longrightarrow> ring_inv (s\<lparr>is_failed := True\<rparr>)"
  by (simp add: ring_inv_def ring_slot_def)

lemma ring_step_inv: "ring_inv s \<Longrightarrow> ring_inv (ring_step s oper)"
proof (cases oper)
  case (Ring_recv buf)
  assume "ring_inv s"
  then show ?thesis
    using on_recv_inv [of s] ring_inv_failed [of s] Ring_recv
    by (cases buf) (auto simp: on_recv_def [of None] on_recv_def [of "Some _"] not_le split: if_splits
        simp del: on_recv_def)
next
  case (Ring_take out_size)
  assume "ring_inv s"
  then show ?thesis
    using drop_head_inv [of s] Ring_take by (auto simp: chat_ice_take_received_def Let_def)
qed

text \<open>
  Bounds and wiping: whatever data arrives and however the packets are taken, the ring's
  indices and lengths stay inside its arrays, and every byte that does not belong to a
  waiting packet is zero, so no byte of a delivered or dropped packet stays in memory.
\<close>

theorem ice_ring_bounds_and_wipe:
  "ring_inv (foldl ring_step chat_ice_session_init ops)"
proof (induction ops rule: rev_induct)
  case Nil
  then show ?case by (simp add: session_init_ring)
next
  case (snoc oper ops)
  then show ?case by (simp add: ring_step_inv)
qed

lemma session_init_agent [simp]: "is_agent chat_ice_session_init = None"
  by (simp only: chat_ice_session_init_def chat_ice_session_t.select_convs)

text \<open>How often an agent is created and released in a list of calls.\<close>

definition created :: "nat \<Rightarrow> nice_call list \<Rightarrow> nat" where
  "created a calls = count_list calls (Nice_new a)"

definition released :: "nat \<Rightarrow> nice_call list \<Rightarrow> nat" where
  "released a calls = count_list calls (Nice_unref a)"

definition held :: "nat \<Rightarrow> chat_ice_session_t \<Rightarrow> nat" where
  "held a s = (if is_agent s = Some a then 1 else 0)"

lemma close_balance:
  assumes "chat_ice_session_close s = (s', calls)"
  shows "s' = chat_ice_session_init" "created a calls = 0" "released a calls = held a s"
  using assms by (auto simp: chat_ice_session_close_def created_def released_def held_def split: option.splits)

text \<open>
  C33. Starting a session leaks no agent: over every path of \<open>chat_ice_session_start\<close> each
  agent that was held or created is either released exactly once or held by the session
  afterwards; on an error the session is back in its initial state, and on success it holds
  the new agent with a stream and an empty ring.
\<close>

theorem ice_start_balanced:
  assumes "chat_ice_session_start nice controlling config s = (result, s', calls)"
  shows "held a s + created a calls = released a calls + held a s'
    \<and> (result \<noteq> CHAT_ICE_OK \<longrightarrow> s' = chat_ice_session_init)
    \<and> (result = CHAT_ICE_OK \<longrightarrow> is_agent s' = nice_agent_new_full nice \<and> is_agent s' \<noteq> None
         \<and> is_stream_id s' \<noteq> 0 \<and> ring_packets s' = [])"
proof -
  obtain closing where cl: "chat_ice_session_close s = (chat_ice_session_init, closing)"
    by (auto simp: chat_ice_session_close_def)
  have "is_agent chat_ice_session_init = None" by (simp add: chat_ice_session_init_def)
  then show ?thesis
    using assms close_balance(2,3) [OF cl, of a] session_init_ring(2)
    unfolding chat_ice_session_start_def cl start_failed_def
    by (auto simp: Let_def chat_ice_session_close_def created_def released_def held_def ring_packets_def
        chat_ice_session_init_def split: option.splits if_splits)
qed

text \<open>A libnice that refuses to gather candidates.\<close>

definition deaf_nice :: nice where
  "deaf_nice =
     \<lparr>nice_agent_new_full = Some 5, nice_agent_add_stream = (\<lambda>a. 1),
      nice_agent_set_stream_name = (\<lambda>a st n. True), nice_address_set_from_string = (\<lambda>a. True),
      nice_agent_add_local_address = (\<lambda>a l. True),
      nice_agent_set_relay_info = (\<lambda>a st c h p u pw. True),
      nice_agent_attach_recv = (\<lambda>a st c. True), nice_agent_gather_candidates = (\<lambda>a st. False),
      nice_agent_generate_local_sdp = (\<lambda>a. None), nice_agent_parse_remote_sdp = (\<lambda>a t. -1),
      nice_agent_send = (\<lambda>a st c d. -1), nice_agent_get_selected_pair = (\<lambda>a st c. None)\<rparr>"

theorem ice_start_balanced_witness:
  "\<exists>calls. chat_ice_session_start deaf_nice True None chat_ice_session_init =
      (CHAT_ICE_ERR_GATHER, chat_ice_session_init, calls) \<and> created 5 calls = 1 \<and> released 5 calls = 1"
proof -
  obtain s' calls where start: "chat_ice_session_start deaf_nice True None chat_ice_session_init =
      (CHAT_ICE_ERR_GATHER, s', calls)" and new: "created 5 calls = 1"
    by (simp add: chat_ice_session_start_def deaf_nice_def chat_ice_session_close_def
        start_failed_def ice_local_address_refused_def ice_relay_refused_def created_def Let_def)
  from ice_start_balanced [OF start, of 5] start new show ?thesis
    by (simp add: held_def)
qed

end
