(* ===== verification/Identity.thy ===== *)
theory Identity
  imports Protocole Sodium
begin

text \<open>
  \<open>common/identity.c\<close>: the local identity, where it is stored, and the configuration file.
  The process environment is a function from names to values; the build is the one without
  \<open>__APPLE__\<close>.
\<close>

section \<open>Types\<close>

definition PATH_MAX :: nat where "PATH_MAX = 4096"
definition CHAT_IDENTITY_SERVER_URL_MAX :: nat where "CHAT_IDENTITY_SERVER_URL_MAX = 256"
definition CHAT_IDENTITY_FINGERPRINT_LEN :: nat where
  "CHAT_IDENTITY_FINGERPRINT_LEN = crypto_generichash_BYTES * 3"

lemmas identity_consts [simp] =
  PATH_MAX_def CHAT_IDENTITY_SERVER_URL_MAX_def CHAT_IDENTITY_FINGERPRINT_LEN_def

datatype chat_identity_result_t =
    CHAT_IDENTITY_OK
  | CHAT_IDENTITY_ERR_INVALID_USERNAME
  | CHAT_IDENTITY_ERR_ALREADY_EXISTS
  | CHAT_IDENTITY_ERR_SODIUM
  | CHAT_IDENTITY_ERR_IO
  | CHAT_IDENTITY_ERR_BUFFER
  | CHAT_IDENTITY_ERR_NOT_FOUND
  | CHAT_IDENTITY_ERR_BAD_FILE
  | CHAT_IDENTITY_ERR_INVALID_SERVER_URL

record chat_identity_t =
  id_username :: string
  id_public_key :: bytes
  id_secret_key :: bytes

section \<open>Paths\<close>

text \<open>Functions with an output buffer yield the error or the text in the buffer.\<close>

definition chat_copy_string :: "nat \<Rightarrow> string \<Rightarrow> chat_identity_result_t + string" where
  "chat_copy_string out_size value =
     (if out_size = 0 \<or> \<not> snprintf_fits out_size value then Inl CHAT_IDENTITY_ERR_BUFFER else Inr value)"

definition chat_join_path :: "nat \<Rightarrow> string \<Rightarrow> string \<Rightarrow> chat_identity_result_t + string" where
  "chat_join_path out_size dir file =
     (if out_size = 0 \<or> \<not> snprintf_fits out_size (dir @ ''/'' @ file) then Inl CHAT_IDENTITY_ERR_BUFFER
      else Inr (dir @ ''/'' @ file))"

definition nonempty_env :: "(string \<Rightarrow> string option) \<Rightarrow> string \<Rightarrow> string option" where
  "nonempty_env getenv name = (case getenv name of Some (c # cs) \<Rightarrow> Some (c # cs) | _ \<Rightarrow> None)"

definition chat_identity_config_dir ::
  "(string \<Rightarrow> string option) \<Rightarrow> nat \<Rightarrow> chat_identity_result_t + string" where
  "chat_identity_config_dir getenv out_size =
     (case nonempty_env getenv ''CHAT_CONFIG_DIR'' of
        Some override \<Rightarrow> chat_copy_string out_size override
      | None \<Rightarrow>
     (case nonempty_env getenv ''XDG_CONFIG_HOME'' of
        Some xdg \<Rightarrow>
          if \<not> snprintf_fits out_size (xdg @ ''/chat'') then Inl CHAT_IDENTITY_ERR_BUFFER
          else Inr (xdg @ ''/chat'')
      | None \<Rightarrow>
     (case nonempty_env getenv ''HOME'' of
        None \<Rightarrow> Inl CHAT_IDENTITY_ERR_IO
      | Some home \<Rightarrow>
          if \<not> snprintf_fits out_size (home @ ''/.config/chat'') then Inl CHAT_IDENTITY_ERR_BUFFER
          else Inr (home @ ''/.config/chat''))))"

section \<open>Results and wiping\<close>

fun chat_identity_result_name :: "chat_identity_result_t \<Rightarrow> string" where
  "chat_identity_result_name CHAT_IDENTITY_OK = ''ok''"
| "chat_identity_result_name CHAT_IDENTITY_ERR_INVALID_USERNAME = ''invalid username''"
| "chat_identity_result_name CHAT_IDENTITY_ERR_ALREADY_EXISTS = ''identity already exists''"
| "chat_identity_result_name CHAT_IDENTITY_ERR_SODIUM = ''libsodium failure''"
| "chat_identity_result_name CHAT_IDENTITY_ERR_IO = ''I/O error''"
| "chat_identity_result_name CHAT_IDENTITY_ERR_BUFFER = ''buffer too small''"
| "chat_identity_result_name CHAT_IDENTITY_ERR_NOT_FOUND = ''identity not found''"
| "chat_identity_result_name CHAT_IDENTITY_ERR_BAD_FILE = ''invalid identity file''"
| "chat_identity_result_name CHAT_IDENTITY_ERR_INVALID_SERVER_URL = ''invalid server URL''"

definition chat_identity_wipe :: "chat_identity_t \<Rightarrow> chat_identity_t" where
  "chat_identity_wipe identity = identity\<lparr>id_secret_key := replicate crypto_sign_SECRETKEYBYTES 0\<rparr>"

end
