(* ===== verification/Crypto.thy ===== *)
theory Crypto
  imports Identity
begin

text \<open>
  \<open>common/crypto.c\<close>: the authenticated key exchange and the encrypted stream between two
  daemons. Output pointers are results; the arguments the code compares with \<open>NULL\<close> and that
  callers may leave out are options. Roles keep the width of the C enumeration, so that its
  validity test means something. Random bytes are arguments of the model.
\<close>

section \<open>State\<close>

definition CHAT_CRYPTO_SESSION_ID_MAX :: nat where "CHAT_CRYPTO_SESSION_ID_MAX = 128"
definition CHAT_CRYPTO_KX_MESSAGE_BYTES :: nat where
  "CHAT_CRYPTO_KX_MESSAGE_BYTES = crypto_kx_PUBLICKEYBYTES + crypto_sign_BYTES"
definition CHAT_CRYPTO_STREAM_HEADER_BYTES :: nat where
  "CHAT_CRYPTO_STREAM_HEADER_BYTES = secretstream_HEADERBYTES"
definition CHAT_CRYPTO_STREAM_ABYTES :: nat where "CHAT_CRYPTO_STREAM_ABYTES = secretstream_ABYTES"

lemmas crypto_consts [simp] =
  CHAT_CRYPTO_SESSION_ID_MAX_def CHAT_CRYPTO_KX_MESSAGE_BYTES_def CHAT_CRYPTO_STREAM_HEADER_BYTES_def
  CHAT_CRYPTO_STREAM_ABYTES_def

datatype chat_crypto_result_t =
    CHAT_CRYPTO_OK
  | CHAT_CRYPTO_ERR_NULL
  | CHAT_CRYPTO_ERR_INVALID
  | CHAT_CRYPTO_ERR_BUFFER
  | CHAT_CRYPTO_ERR_SODIUM
  | CHAT_CRYPTO_ERR_VERIFY
  | CHAT_CRYPTO_ERR_DECRYPT
  | CHAT_CRYPTO_ERR_TOO_LARGE

type_synonym chat_crypto_role_t = "32 word"

definition CHAT_CRYPTO_ROLE_INITIATOR :: chat_crypto_role_t where "CHAT_CRYPTO_ROLE_INITIATOR = 1"
definition CHAT_CRYPTO_ROLE_RESPONDER :: chat_crypto_role_t where "CHAT_CRYPTO_ROLE_RESPONDER = 2"

lemmas crypto_roles = CHAT_CRYPTO_ROLE_INITIATOR_def CHAT_CRYPTO_ROLE_RESPONDER_def

record chat_crypto_session_keys_t =
  ck_rx :: bytes
  ck_tx :: bytes

record chat_crypto_handshake_t =
  hs_role :: chat_crypto_role_t
  hs_local_identity_pk :: bytes
  hs_remote_identity_pk :: bytes
  hs_local_kx_pk :: bytes
  hs_local_kx_sk :: bytes
  hs_session_id :: bytes
  hs_session_id_len :: nat
  hs_initialized :: bool
  hs_finished :: bool

record 's chat_crypto_secretstream_t =
  st_push :: 's
  st_pull :: 's
  st_push_initialized :: bool
  st_pull_initialized :: bool

section \<open>The transcript\<close>

definition chat_crypto_role_is_valid :: "chat_crypto_role_t \<Rightarrow> bool" where
  "chat_crypto_role_is_valid role \<longleftrightarrow> role = CHAT_CRYPTO_ROLE_INITIATOR \<or> role = CHAT_CRYPTO_ROLE_RESPONDER"

definition chat_crypto_opposite_role :: "chat_crypto_role_t \<Rightarrow> chat_crypto_role_t" where
  "chat_crypto_opposite_role role =
     (if role = CHAT_CRYPTO_ROLE_INITIATOR then CHAT_CRYPTO_ROLE_RESPONDER else CHAT_CRYPTO_ROLE_INITIATOR)"

definition chat_crypto_write_u64_be :: "64 word \<Rightarrow> bytes" where
  "chat_crypto_write_u64_be value =
     map (\<lambda>i. ucast (drop_bit ((7 - i) * 8) value AND 0xFF)) [0..<8]"

definition CHAT_CRYPTO_TRANSCRIPT_DOMAIN :: bytes where
  "CHAT_CRYPTO_TRANSCRIPT_DOMAIN = map byte_of_char ''ProntoChat crypto-kx v1''"

text \<open>The chunks that are hashed, in order, and the chain of hash updates, which stops at the
  first failing call.\<close>

definition transcript_chunks ::
  "chat_crypto_role_t \<Rightarrow> bytes \<Rightarrow> bytes \<Rightarrow> bytes \<Rightarrow> bytes \<Rightarrow> bytes list" where
  "transcript_chunks signer_role signer_identity_pk peer_identity_pk session_id signer_kx_pk =
     [CHAT_CRYPTO_TRANSCRIPT_DOMAIN, [ucast signer_role], signer_identity_pk, peer_identity_pk,
      chat_crypto_write_u64_be (word_of_nat (length session_id)), session_id, signer_kx_pk]"

fun hash_updates :: "('h, 's) sodium \<Rightarrow> 'h \<Rightarrow> bytes list \<Rightarrow> 'h option" where
  "hash_updates sod h [] = Some h"
| "hash_updates sod h (m # ms) =
     (case crypto_generichash_update sod h m of None \<Rightarrow> None | Some h' \<Rightarrow> hash_updates sod h' ms)"

definition hash_chunks :: "('h, 's) sodium \<Rightarrow> bytes list \<Rightarrow> bytes option" where
  "hash_chunks sod chunks =
     (case crypto_generichash_init sod of
        None \<Rightarrow> None
      | Some h \<Rightarrow> (case hash_updates sod h chunks of
                      None \<Rightarrow> None
                    | Some h' \<Rightarrow> crypto_generichash_final sod h'))"

definition chat_crypto_transcript_hash ::
  "('h, 's) sodium \<Rightarrow> chat_crypto_role_t \<Rightarrow> bytes \<Rightarrow> bytes \<Rightarrow> bytes \<Rightarrow> bytes \<Rightarrow>
   chat_crypto_result_t + bytes" where
  "chat_crypto_transcript_hash sod signer_role signer_identity_pk peer_identity_pk session_id signer_kx_pk =
     (if \<not> chat_crypto_role_is_valid signer_role \<or> session_id = []
         \<or> length session_id > CHAT_CRYPTO_SESSION_ID_MAX
      then Inl CHAT_CRYPTO_ERR_INVALID
      else case hash_chunks sod (transcript_chunks signer_role signer_identity_pk peer_identity_pk
                                   session_id signer_kx_pk) of
             None \<Rightarrow> Inl CHAT_CRYPTO_ERR_SODIUM
           | Some digest \<Rightarrow> Inr digest)"

fun chat_crypto_result_name :: "chat_crypto_result_t \<Rightarrow> string" where
  "chat_crypto_result_name CHAT_CRYPTO_OK = ''ok''"
| "chat_crypto_result_name CHAT_CRYPTO_ERR_NULL = ''null pointer''"
| "chat_crypto_result_name CHAT_CRYPTO_ERR_INVALID = ''invalid crypto input''"
| "chat_crypto_result_name CHAT_CRYPTO_ERR_BUFFER = ''buffer too small''"
| "chat_crypto_result_name CHAT_CRYPTO_ERR_SODIUM = ''libsodium failure''"
| "chat_crypto_result_name CHAT_CRYPTO_ERR_VERIFY = ''signature verification failed''"
| "chat_crypto_result_name CHAT_CRYPTO_ERR_DECRYPT = ''decryption failed''"
| "chat_crypto_result_name CHAT_CRYPTO_ERR_TOO_LARGE = ''message too large''"

section \<open>The handshake\<close>

definition chat_crypto_handshake_wipe :: chat_crypto_handshake_t where
  "chat_crypto_handshake_wipe =
     \<lparr>hs_role = 0, hs_local_identity_pk = replicate crypto_sign_PUBLICKEYBYTES 0,
      hs_remote_identity_pk = replicate crypto_sign_PUBLICKEYBYTES 0,
      hs_local_kx_pk = replicate crypto_kx_PUBLICKEYBYTES 0,
      hs_local_kx_sk = replicate crypto_kx_SECRETKEYBYTES 0,
      hs_session_id = replicate CHAT_CRYPTO_SESSION_ID_MAX 0, hs_session_id_len = 0,
      hs_initialized = False, hs_finished = False\<rparr>"

definition chat_crypto_session_keys_wipe :: chat_crypto_session_keys_t where
  "chat_crypto_session_keys_wipe =
     \<lparr>ck_rx = replicate crypto_kx_SESSIONKEYBYTES 0, ck_tx = replicate crypto_kx_SESSIONKEYBYTES 0\<rparr>"

text \<open>\<open>rnd\<close> are the random bytes of the ephemeral key pair. The result carries the handshake
  and, when it is \<open>CHAT_CRYPTO_OK\<close>, the message to send.\<close>

definition chat_crypto_handshake_init ::
  "('h, 's) sodium \<Rightarrow> bytes \<Rightarrow> chat_crypto_handshake_t \<Rightarrow> chat_identity_t option \<Rightarrow> bytes option \<Rightarrow>
   chat_crypto_role_t \<Rightarrow> bytes option \<Rightarrow> chat_crypto_result_t \<times> chat_crypto_handshake_t \<times> bytes option" where
  "chat_crypto_handshake_init sod rnd handshake identity remote_identity_pk role session_id =
     (case (identity, remote_identity_pk) of
        (Some ident, Some remote_pk) \<Rightarrow>
     (case session_id of
        None \<Rightarrow> (CHAT_CRYPTO_ERR_INVALID, handshake, None)
      | Some sid \<Rightarrow>
          if \<not> chat_crypto_role_is_valid role \<or> sid = [] \<or> length sid > CHAT_CRYPTO_SESSION_ID_MAX
            then (CHAT_CRYPTO_ERR_INVALID, handshake, None)
          else if sodium_init sod < 0 then (CHAT_CRYPTO_ERR_SODIUM, handshake, None)
          else
     (case crypto_kx_keypair sod rnd of
        None \<Rightarrow> (CHAT_CRYPTO_ERR_SODIUM, chat_crypto_handshake_wipe, None)
      | Some (kx_pk, kx_sk) \<Rightarrow>
          (let hs = \<lparr>hs_role = role, hs_local_identity_pk = id_public_key ident,
                     hs_remote_identity_pk = remote_pk, hs_local_kx_pk = kx_pk, hs_local_kx_sk = kx_sk,
                     hs_session_id = sid @ replicate (CHAT_CRYPTO_SESSION_ID_MAX - length sid) 0,
                     hs_session_id_len = length sid, hs_initialized = False, hs_finished = False\<rparr>
           in
     (case chat_crypto_transcript_hash sod role (id_public_key ident) remote_pk sid kx_pk of
        Inl err \<Rightarrow> (err, chat_crypto_handshake_wipe, None)
      | Inr digest \<Rightarrow>
     (case crypto_sign_detached sod digest (id_secret_key ident) of
        None \<Rightarrow> (CHAT_CRYPTO_ERR_SODIUM, chat_crypto_handshake_wipe, None)
      | Some signature \<Rightarrow>
          (CHAT_CRYPTO_OK, hs\<lparr>hs_initialized := True\<rparr>, Some (kx_pk @ signature)))))))
      | _ \<Rightarrow> (CHAT_CRYPTO_ERR_NULL, handshake, None))"

text \<open>\<open>out_keys\<close> is what the key structure holds before the call.\<close>

definition chat_crypto_handshake_finish ::
  "('h, 's) sodium \<Rightarrow> chat_crypto_handshake_t \<Rightarrow> bytes option \<Rightarrow> chat_crypto_session_keys_t \<Rightarrow>
   chat_crypto_result_t \<times> chat_crypto_handshake_t \<times> chat_crypto_session_keys_t" where
  "chat_crypto_handshake_finish sod handshake remote_message out_keys =
     (case remote_message of
        None \<Rightarrow> (CHAT_CRYPTO_ERR_NULL, handshake, out_keys)
      | Some msg \<Rightarrow>
          if \<not> hs_initialized handshake \<or> hs_finished handshake
            then (CHAT_CRYPTO_ERR_INVALID, handshake, out_keys)
          else
            (let remote_kx_pk = take crypto_kx_PUBLICKEYBYTES msg;
                 remote_signature = take crypto_sign_BYTES (drop crypto_kx_PUBLICKEYBYTES msg)
             in
     (case chat_crypto_transcript_hash sod (chat_crypto_opposite_role (hs_role handshake))
             (hs_remote_identity_pk handshake) (hs_local_identity_pk handshake)
             (take (hs_session_id_len handshake) (hs_session_id handshake)) remote_kx_pk of
        Inl err \<Rightarrow> (err, handshake, out_keys)
      | Inr digest \<Rightarrow>
          if \<not> crypto_sign_verify_detached sod remote_signature digest (hs_remote_identity_pk handshake)
            then (CHAT_CRYPTO_ERR_VERIFY, handshake, out_keys)
          else
            (let derived = (if hs_role handshake = CHAT_CRYPTO_ROLE_INITIATOR
                            then crypto_kx_client_session_keys sod else crypto_kx_server_session_keys sod)
                           (hs_local_kx_pk handshake) (hs_local_kx_sk handshake) remote_kx_pk;
                 cleared = handshake\<lparr>hs_local_kx_sk := replicate crypto_kx_SECRETKEYBYTES 0\<rparr>
             in case derived of
                  None \<Rightarrow> (CHAT_CRYPTO_ERR_SODIUM, cleared, chat_crypto_session_keys_wipe)
                | Some (rx, tx) \<Rightarrow>
                    (CHAT_CRYPTO_OK, cleared\<lparr>hs_finished := True\<rparr>, \<lparr>ck_rx = rx, ck_tx = tx\<rparr>)))))"

section \<open>The stream\<close>

definition chat_crypto_secretstream_init :: "('h, 's) sodium \<Rightarrow> 's chat_crypto_secretstream_t" where
  "chat_crypto_secretstream_init sod =
     \<lparr>st_push = secretstream_zero sod, st_pull = secretstream_zero sod,
      st_push_initialized = False, st_pull_initialized = False\<rparr>"

definition chat_crypto_secretstream_init_push ::
  "('h, 's) sodium \<Rightarrow> bytes \<Rightarrow> 's chat_crypto_secretstream_t \<Rightarrow> bytes \<Rightarrow>
   chat_crypto_result_t \<times> 's chat_crypto_secretstream_t \<times> bytes option" where
  "chat_crypto_secretstream_init_push sod rnd stream tx_key =
     (case secretstream_init_push sod rnd tx_key of
        None \<Rightarrow> (CHAT_CRYPTO_ERR_SODIUM, stream, None)
      | Some (st, header) \<Rightarrow>
          (CHAT_CRYPTO_OK, stream\<lparr>st_push := st, st_push_initialized := True\<rparr>, Some header))"

definition chat_crypto_secretstream_init_pull ::
  "('h, 's) sodium \<Rightarrow> 's chat_crypto_secretstream_t \<Rightarrow> bytes \<Rightarrow> bytes \<Rightarrow>
   chat_crypto_result_t \<times> 's chat_crypto_secretstream_t" where
  "chat_crypto_secretstream_init_pull sod stream rx_key header =
     (case secretstream_init_pull sod header rx_key of
        None \<Rightarrow> (CHAT_CRYPTO_ERR_SODIUM, stream)
      | Some st \<Rightarrow> (CHAT_CRYPTO_OK, stream\<lparr>st_pull := st, st_pull_initialized := True\<rparr>))"

definition chat_crypto_secretstream_encrypt ::
  "('h, 's) sodium \<Rightarrow> 's chat_crypto_secretstream_t \<Rightarrow> bytes \<Rightarrow> bool \<Rightarrow> nat \<Rightarrow>
   chat_crypto_result_t \<times> 's chat_crypto_secretstream_t \<times> bytes" where
  "chat_crypto_secretstream_encrypt sod stream plaintext final ciphertext_size =
     (if \<not> st_push_initialized stream then (CHAT_CRYPTO_ERR_INVALID, stream, [])
      else if length plaintext > CHAT_MAX_MESSAGE_SIZE then (CHAT_CRYPTO_ERR_TOO_LARGE, stream, [])
      else if ciphertext_size < length plaintext + CHAT_CRYPTO_STREAM_ABYTES
        then (CHAT_CRYPTO_ERR_BUFFER, stream, [])
      else case secretstream_push sod (st_push stream) plaintext
                  (if final then secretstream_TAG_FINAL else secretstream_TAG_MESSAGE) of
             None \<Rightarrow> (CHAT_CRYPTO_ERR_SODIUM, stream, [])
           | Some (st, ciphertext) \<Rightarrow> (CHAT_CRYPTO_OK, stream\<lparr>st_push := st\<rparr>, ciphertext))"

definition chat_crypto_secretstream_decrypt ::
  "('h, 's) sodium \<Rightarrow> 's chat_crypto_secretstream_t \<Rightarrow> bytes \<Rightarrow> nat \<Rightarrow>
   chat_crypto_result_t \<times> 's chat_crypto_secretstream_t \<times> bytes \<times> byte" where
  "chat_crypto_secretstream_decrypt sod stream ciphertext plaintext_size =
     (if \<not> st_pull_initialized stream \<or> length ciphertext < CHAT_CRYPTO_STREAM_ABYTES
        then (CHAT_CRYPTO_ERR_INVALID, stream, [], 0)
      else if plaintext_size < length ciphertext - CHAT_CRYPTO_STREAM_ABYTES
        then (CHAT_CRYPTO_ERR_BUFFER, stream, [], 0)
      else case secretstream_pull sod (st_pull stream) ciphertext of
             None \<Rightarrow> (CHAT_CRYPTO_ERR_DECRYPT, stream, [], 0)
           | Some (st, plaintext, tag) \<Rightarrow> (CHAT_CRYPTO_OK, stream\<lparr>st_pull := st\<rparr>, plaintext, tag))"

definition chat_crypto_secretstream_wipe :: "('h, 's) sodium \<Rightarrow> 's chat_crypto_secretstream_t" where
  "chat_crypto_secretstream_wipe sod = chat_crypto_secretstream_init sod"

section \<open>Lemmas\<close>

lemma roles [simp]:
  "chat_crypto_role_is_valid CHAT_CRYPTO_ROLE_INITIATOR" "chat_crypto_role_is_valid CHAT_CRYPTO_ROLE_RESPONDER"
  "chat_crypto_opposite_role CHAT_CRYPTO_ROLE_INITIATOR = CHAT_CRYPTO_ROLE_RESPONDER"
  "chat_crypto_opposite_role CHAT_CRYPTO_ROLE_RESPONDER = CHAT_CRYPTO_ROLE_INITIATOR"
  "CHAT_CRYPTO_ROLE_RESPONDER \<noteq> CHAT_CRYPTO_ROLE_INITIATOR"
  by (simp_all add: chat_crypto_role_is_valid_def chat_crypto_opposite_role_def crypto_roles)

lemma length_write_u64 [simp]: "length (chat_crypto_write_u64_be v) = 8"
  by (simp add: chat_crypto_write_u64_be_def)

lemma role_byte_inj:
  "chat_crypto_role_is_valid r \<Longrightarrow> chat_crypto_role_is_valid r' \<Longrightarrow> (ucast r :: byte) = ucast r' \<Longrightarrow> r = r'"
  by (auto simp: chat_crypto_role_is_valid_def crypto_roles)

lemma hash_updates_total: "hash_laws sod \<Longrightarrow> \<exists>h'. hash_updates sod h chunks = Some h'"
proof (induction chunks arbitrary: h)
  case (Cons m ms)
  then obtain h1 where "crypto_generichash_update sod h m = Some h1" by (meson hash_laws_def)
  then show ?case using Cons by simp
qed simp

lemma hash_chunks_total:
  assumes "hash_laws sod"
  shows "\<exists>d. hash_chunks sod chunks = Some d"
proof -
  obtain h where h: "crypto_generichash_init sod = Some h" using assms by (meson hash_laws_def)
  obtain h' where h': "hash_updates sod h chunks = Some h'" using hash_updates_total [OF assms] by blast
  obtain d where "crypto_generichash_final sod h' = Some d" using assms by (meson hash_laws_def)
  then show ?thesis by (simp add: hash_chunks_def h h')
qed

lemma transcript_hash_error: "chat_crypto_transcript_hash sod r a b sid k \<noteq> Inl CHAT_CRYPTO_OK"
  by (simp add: chat_crypto_transcript_hash_def split: option.splits)

text \<open>What a successful initialisation leaves and sends.\<close>

lemma handshake_init_ok:
  assumes "hash_laws sod" "sign_laws sod" "kx_laws sod" "0 \<le> sodium_init sod"
    and "crypto_sign_keypair sod seed = (id_public_key ident, id_secret_key ident)"
    and "chat_crypto_role_is_valid role" "sid \<noteq> []" "length sid \<le> CHAT_CRYPTO_SESSION_ID_MAX"
  shows "\<exists>kx_pk kx_sk digest sig hs.
     chat_crypto_handshake_init sod rnd h0 (Some ident) (Some remote) role (Some sid) =
       (CHAT_CRYPTO_OK, hs, Some (kx_pk @ sig))
     \<and> crypto_kx_keypair sod rnd = Some (kx_pk, kx_sk) \<and> length kx_pk = 32 \<and> length sig = 64
     \<and> hash_chunks sod (transcript_chunks role (id_public_key ident) remote sid kx_pk) = Some digest
     \<and> crypto_sign_verify_detached sod sig digest (id_public_key ident)
     \<and> hs_role hs = role \<and> hs_local_identity_pk hs = id_public_key ident \<and> hs_remote_identity_pk hs = remote
     \<and> hs_local_kx_pk hs = kx_pk \<and> hs_local_kx_sk hs = kx_sk
     \<and> take (hs_session_id_len hs) (hs_session_id hs) = sid \<and> hs_initialized hs \<and> \<not> hs_finished hs"
proof -
  obtain kx_pk kx_sk where kx: "crypto_kx_keypair sod rnd = Some (kx_pk, kx_sk)" "length kx_pk = 32"
    using assms(3) by (auto simp: kx_laws_def) metis
  obtain digest where d: "hash_chunks sod (transcript_chunks role (id_public_key ident) remote sid kx_pk) = Some digest"
    using hash_chunks_total [OF assms(1)] by blast
  obtain sig where "crypto_sign_detached sod digest (id_secret_key ident) = Some sig" "length sig = 64"
    "crypto_sign_verify_detached sod sig digest (id_public_key ident)"
    using assms(2,5) by (fastforce simp: sign_laws_def)
  then show ?thesis
    using assms(4,6-8) kx d
    by (simp add: chat_crypto_handshake_init_def chat_crypto_transcript_hash_def Let_def)
qed

lemma finish_step:
  assumes "hs_initialized hs" "\<not> hs_finished hs" "length remote_kx = 32" "length sig = 64"
    and "take (hs_session_id_len hs) (hs_session_id hs) = sid" "sid \<noteq> []" "length sid \<le> CHAT_CRYPTO_SESSION_ID_MAX"
    and "chat_crypto_role_is_valid (chat_crypto_opposite_role (hs_role hs))"
    and "hash_chunks sod (transcript_chunks (chat_crypto_opposite_role (hs_role hs))
           (hs_remote_identity_pk hs) (hs_local_identity_pk hs) sid remote_kx) = Some digest"
    and "crypto_sign_verify_detached sod sig digest (hs_remote_identity_pk hs)"
    and "(if hs_role hs = CHAT_CRYPTO_ROLE_INITIATOR then crypto_kx_client_session_keys sod
          else crypto_kx_server_session_keys sod) (hs_local_kx_pk hs) (hs_local_kx_sk hs) remote_kx = Some (rx, tx)"
  shows "\<exists>hs'. chat_crypto_handshake_finish sod hs (Some (remote_kx @ sig)) keys =
     (CHAT_CRYPTO_OK, hs', \<lparr>ck_rx = rx, ck_tx = tx\<rparr>)"
  using assms by (simp add: chat_crypto_handshake_finish_def chat_crypto_transcript_hash_def Let_def)

lemma finish_authentic:
  assumes "chat_crypto_handshake_finish sod hs (Some msg) keys0 = (CHAT_CRYPTO_OK, hs', keys)"
  shows "(\<exists>digest. hash_chunks sod
           (transcript_chunks (chat_crypto_opposite_role (hs_role hs)) (hs_remote_identity_pk hs)
              (hs_local_identity_pk hs) (take (hs_session_id_len hs) (hs_session_id hs)) (take 32 msg)) = Some digest
         \<and> crypto_sign_verify_detached sod (take 64 (drop 32 msg)) digest (hs_remote_identity_pk hs))
    \<and> (if hs_role hs = CHAT_CRYPTO_ROLE_INITIATOR then crypto_kx_client_session_keys sod
       else crypto_kx_server_session_keys sod) (hs_local_kx_pk hs) (hs_local_kx_sk hs) (take 32 msg)
        = Some (ck_rx keys, ck_tx keys)
    \<and> hs_local_kx_sk hs' = replicate crypto_kx_SECRETKEYBYTES 0
    \<and> chat_crypto_handshake_finish sod hs' (Some msg') keys' = (CHAT_CRYPTO_ERR_INVALID, hs', keys')"
proof -
  have ok: "hs_initialized hs" "\<not> hs_finished hs"
    using assms by (auto simp: chat_crypto_handshake_finish_def split: if_splits)
  obtain digest where d: "chat_crypto_transcript_hash sod (chat_crypto_opposite_role (hs_role hs))
      (hs_remote_identity_pk hs) (hs_local_identity_pk hs) (take (hs_session_id_len hs) (hs_session_id hs)) (take 32 msg)
      = Inr digest"
    using assms ok transcript_hash_error
    by (fastforce simp: chat_crypto_handshake_finish_def Let_def split: sum.splits)
  then have hash: "hash_chunks sod (transcript_chunks (chat_crypto_opposite_role (hs_role hs)) (hs_remote_identity_pk hs)
      (hs_local_identity_pk hs) (take (hs_session_id_len hs) (hs_session_id hs)) (take 32 msg)) = Some digest"
    by (auto simp: chat_crypto_transcript_hash_def split: if_splits option.splits)
  then show ?thesis
    using assms ok d by (auto simp: chat_crypto_handshake_finish_def Let_def split: if_splits option.splits)
qed

text \<open>Two handshakes with opposite roles finish on each other's messages.\<close>

lemma handshake_pair:
  assumes "hash_laws sod" and "sign_laws sod" and "kx_laws sod" and "0 \<le> sodium_init sod"
    and "crypto_sign_keypair sod seedA = (id_public_key A, id_secret_key A)"
    and "crypto_sign_keypair sod seedB = (id_public_key B, id_secret_key B)"
    and "sid \<noteq> []" and "length sid \<le> CHAT_CRYPTO_SESSION_ID_MAX"
    and "chat_crypto_handshake_init sod rndA hA0 (Some A) (Some (id_public_key B))
           CHAT_CRYPTO_ROLE_INITIATOR (Some sid) = (resA, hA, mA)"
    and "chat_crypto_handshake_init sod rndB hB0 (Some B) (Some (id_public_key A))
           CHAT_CRYPTO_ROLE_RESPONDER (Some sid) = (resB, hB, mB)"
  shows "resA = CHAT_CRYPTO_OK \<and> resB = CHAT_CRYPTO_OK \<and>
    (\<exists>msgA msgB hA' kA hB' kB. mA = Some msgA \<and> length msgA = 96 \<and> mB = Some msgB \<and> length msgB = 96 \<and>
       chat_crypto_handshake_finish sod hA mB keysA = (CHAT_CRYPTO_OK, hA', kA) \<and>
       chat_crypto_handshake_finish sod hB mA keysB = (CHAT_CRYPTO_OK, hB', kB) \<and>
       ck_tx kA = ck_rx kB \<and> ck_rx kA = ck_tx kB)"
proof -
  obtain pkA skA dA sigA where A: "resA = CHAT_CRYPTO_OK" "mA = Some (pkA @ sigA)"
    "crypto_kx_keypair sod rndA = Some (pkA, skA)" "length pkA = 32" "length sigA = 64"
    "hash_chunks sod (transcript_chunks CHAT_CRYPTO_ROLE_INITIATOR (id_public_key A) (id_public_key B) sid pkA) = Some dA"
    "crypto_sign_verify_detached sod sigA dA (id_public_key A)"
    "hs_role hA = CHAT_CRYPTO_ROLE_INITIATOR" "hs_local_identity_pk hA = id_public_key A"
    "hs_remote_identity_pk hA = id_public_key B" "hs_local_kx_pk hA = pkA" "hs_local_kx_sk hA = skA"
    "take (hs_session_id_len hA) (hs_session_id hA) = sid" "hs_initialized hA" "\<not> hs_finished hA"
    using handshake_init_ok [OF assms(1-4,5) _ assms(7,8), of CHAT_CRYPTO_ROLE_INITIATOR rndA hA0 "id_public_key B"] assms(9)
    by auto
  obtain pkB skB dB sigB where B: "resB = CHAT_CRYPTO_OK" "mB = Some (pkB @ sigB)"
    "crypto_kx_keypair sod rndB = Some (pkB, skB)" "length pkB = 32" "length sigB = 64"
    "hash_chunks sod (transcript_chunks CHAT_CRYPTO_ROLE_RESPONDER (id_public_key B) (id_public_key A) sid pkB) = Some dB"
    "crypto_sign_verify_detached sod sigB dB (id_public_key B)"
    "hs_role hB = CHAT_CRYPTO_ROLE_RESPONDER" "hs_local_identity_pk hB = id_public_key B"
    "hs_remote_identity_pk hB = id_public_key A" "hs_local_kx_pk hB = pkB" "hs_local_kx_sk hB = skB"
    "take (hs_session_id_len hB) (hs_session_id hB) = sid" "hs_initialized hB" "\<not> hs_finished hB"
    using handshake_init_ok [OF assms(1-4,6) _ assms(7,8), of CHAT_CRYPTO_ROLE_RESPONDER rndB hB0 "id_public_key A"] assms(10)
    by auto
  obtain rx tx where keys: "crypto_kx_client_session_keys sod pkA skA pkB = Some (rx, tx)"
    "crypto_kx_server_session_keys sod pkB skB pkA = Some (tx, rx)"
    using assms(3) A(3) B(3) by (auto simp: kx_laws_def) metis
  have "\<exists>hA'. chat_crypto_handshake_finish sod hA (Some (pkB @ sigB)) keysA = (CHAT_CRYPTO_OK, hA', \<lparr>ck_rx = rx, ck_tx = tx\<rparr>)"
    using A B keys assms(7,8) by (intro finish_step) simp_all
  moreover have "\<exists>hB'. chat_crypto_handshake_finish sod hB (Some (pkA @ sigA)) keysB = (CHAT_CRYPTO_OK, hB', \<lparr>ck_rx = tx, ck_tx = rx\<rparr>)"
    using A B keys assms(7,8) by (intro finish_step) simp_all
  ultimately show ?thesis using A(1,2,4,5) B(1,2,4,5) by auto
qed

section \<open>Properties\<close>

text \<open>
  C8. Key agreement: two daemons that know each other's identity keys, use the same session
  id and take opposite roles both complete the handshake on the other's message, and each
  side's transmit key is the other side's receive key.
\<close>

theorem handshake_agreement:
  assumes "hash_laws sod" and "sign_laws sod" and "kx_laws sod" and "0 \<le> sodium_init sod"
    and "crypto_sign_keypair sod seedA = (id_public_key A, id_secret_key A)"
    and "crypto_sign_keypair sod seedB = (id_public_key B, id_secret_key B)"
    and "sid \<noteq> []" and "length sid \<le> CHAT_CRYPTO_SESSION_ID_MAX"
    and "chat_crypto_handshake_init sod rndA hA0 (Some A) (Some (id_public_key B))
           CHAT_CRYPTO_ROLE_INITIATOR (Some sid) = (resA, hA, mA)"
    and "chat_crypto_handshake_init sod rndB hB0 (Some B) (Some (id_public_key A))
           CHAT_CRYPTO_ROLE_RESPONDER (Some sid) = (resB, hB, mB)"
  shows "resA = CHAT_CRYPTO_OK \<and> resB = CHAT_CRYPTO_OK \<and>
    (\<exists>hA' kA hB' kB.
       chat_crypto_handshake_finish sod hA mB keysA = (CHAT_CRYPTO_OK, hA', kA) \<and>
       chat_crypto_handshake_finish sod hB mA keysB = (CHAT_CRYPTO_OK, hB', kB) \<and>
       ck_tx kA = ck_rx kB \<and> ck_rx kA = ck_tx kB)"
  using handshake_pair [OF assms, of keysA keysB] by blast

definition sample_identity :: "string \<Rightarrow> byte \<Rightarrow> chat_identity_t" where
  "sample_identity name b =
     \<lparr>id_username = name, id_public_key = replicate 32 b, id_secret_key = replicate 64 b\<rparr>"

lemma sample_identity_keys:
  "crypto_sign_keypair demo (replicate 32 b) = (id_public_key (sample_identity n b), id_secret_key (sample_identity n b))"
  by (simp add: demo_def pad_exact sample_identity_def replicate_add [symmetric])

theorem handshake_agreement_witness:
  "\<exists>hA mA hB mB hA' kA hB' kB.
     chat_crypto_handshake_init demo [1] chat_crypto_handshake_wipe (Some (sample_identity ''alice'' 7))
       (Some (id_public_key (sample_identity ''bob'' 8))) CHAT_CRYPTO_ROLE_INITIATOR (Some [5]) = (CHAT_CRYPTO_OK, hA, mA)
     \<and> chat_crypto_handshake_init demo [2] chat_crypto_handshake_wipe (Some (sample_identity ''bob'' 8))
       (Some (id_public_key (sample_identity ''alice'' 7))) CHAT_CRYPTO_ROLE_RESPONDER (Some [5]) = (CHAT_CRYPTO_OK, hB, mB)
     \<and> chat_crypto_handshake_finish demo hA mB chat_crypto_session_keys_wipe = (CHAT_CRYPTO_OK, hA', kA)
     \<and> chat_crypto_handshake_finish demo hB mA chat_crypto_session_keys_wipe = (CHAT_CRYPTO_OK, hB', kB)
     \<and> ck_tx kA = ck_rx kB \<and> ck_rx kA = ck_tx kB"
proof -
  let ?A = "sample_identity ''alice'' 7" and ?B = "sample_identity ''bob'' 8"
  obtain resA hA mA where A: "chat_crypto_handshake_init demo [1] chat_crypto_handshake_wipe (Some ?A)
       (Some (id_public_key ?B)) CHAT_CRYPTO_ROLE_INITIATOR (Some [5]) = (resA, hA, mA)"
    using prod_cases3 by blast
  obtain resB hB mB where B: "chat_crypto_handshake_init demo [2] chat_crypto_handshake_wipe (Some ?B)
       (Some (id_public_key ?A)) CHAT_CRYPTO_ROLE_RESPONDER (Some [5]) = (resB, hB, mB)"
    using prod_cases3 by blast
  have "0 \<le> sodium_init demo" "([5] :: bytes) \<noteq> []" "length ([5] :: bytes) \<le> CHAT_CRYPTO_SESSION_ID_MAX"
    by (simp_all add: demo_def)
  from handshake_agreement [OF demo_hash_laws demo_sign_laws demo_kx_laws this(1) sample_identity_keys
      sample_identity_keys this(2,3) A B, of chat_crypto_session_keys_wipe chat_crypto_session_keys_wipe] A B
  show ?thesis by blast
qed

text \<open>
  C11. What a finished handshake proves: if finishing succeeds, the received signature
  verifies under the remote identity key over the transcript of the opposite role, with both
  identity keys, this session id and the received ephemeral key; the session keys are those
  derived from that ephemeral key; the local ephemeral secret is wiped, and the handshake
  cannot be finished a second time.
\<close>

theorem handshake_finish_authenticates:
  assumes "chat_crypto_handshake_finish sod hs (Some msg) keys0 = (CHAT_CRYPTO_OK, hs', keys)"
  shows "(\<exists>digest. hash_chunks sod
           (transcript_chunks (chat_crypto_opposite_role (hs_role hs)) (hs_remote_identity_pk hs)
              (hs_local_identity_pk hs) (take (hs_session_id_len hs) (hs_session_id hs)) (take 32 msg)) = Some digest
         \<and> crypto_sign_verify_detached sod (take 64 (drop 32 msg)) digest (hs_remote_identity_pk hs))
    \<and> (if hs_role hs = CHAT_CRYPTO_ROLE_INITIATOR then crypto_kx_client_session_keys sod
       else crypto_kx_server_session_keys sod) (hs_local_kx_pk hs) (hs_local_kx_sk hs) (take 32 msg)
        = Some (ck_rx keys, ck_tx keys)
    \<and> hs_local_kx_sk hs' = replicate crypto_kx_SECRETKEYBYTES 0
    \<and> chat_crypto_handshake_finish sod hs' (Some msg') keys' = (CHAT_CRYPTO_ERR_INVALID, hs', keys')"
  using assms by (rule finish_authentic)

theorem handshake_finish_authenticates_witness:
  "\<exists>hs msg hs' keys. chat_crypto_handshake_finish demo hs (Some msg) chat_crypto_session_keys_wipe =
       (CHAT_CRYPTO_OK, hs', keys) \<and> hs_local_kx_sk hs' = replicate crypto_kx_SECRETKEYBYTES 0"
proof -
  let ?hs = "chat_crypto_handshake_wipe\<lparr>hs_role := CHAT_CRYPTO_ROLE_INITIATOR, hs_session_id_len := 1, hs_initialized := True\<rparr>"
  obtain digest where d: "hash_chunks demo (transcript_chunks CHAT_CRYPTO_ROLE_RESPONDER (replicate 32 0) (replicate 32 0) [0]
      (replicate 32 0)) = Some digest"
    using hash_chunks_total [OF demo_hash_laws] by blast
  have ver: "crypto_sign_verify_detached demo (replicate 32 0 @ pad 32 digest) digest (replicate 32 0)"
    by (simp add: demo_def pad_exact)
  obtain rx tx where kx: "crypto_kx_client_session_keys demo (replicate 32 0) (replicate 32 0) (replicate 32 0) = Some (rx, tx)"
    by (simp add: demo_def demo_session_keys_def)
  have "\<exists>hs'. chat_crypto_handshake_finish demo ?hs (Some (replicate 32 0 @ replicate 32 0 @ pad 32 digest))
      chat_crypto_session_keys_wipe = (CHAT_CRYPTO_OK, hs', \<lparr>ck_rx = rx, ck_tx = tx\<rparr>)"
    using d ver kx by (intro finish_step [where sid = "[0]"]) (simp_all add: chat_crypto_handshake_wipe_def)
  then obtain hs' where f: "chat_crypto_handshake_finish demo ?hs (Some (replicate 32 0 @ replicate 32 0 @ pad 32 digest))
      chat_crypto_session_keys_wipe = (CHAT_CRYPTO_OK, hs', \<lparr>ck_rx = rx, ck_tx = tx\<rparr>)" by blast
  from handshake_finish_authenticates [OF f, of "[]" chat_crypto_session_keys_wipe] f show ?thesis by blast
qed

text \<open>
  The signed transcript determines its contents: two transcripts with the same bytes
  have the same role, identity keys, session id and ephemeral key, so a signature for one
  session, direction or peer is not one for another.
\<close>

theorem transcript_injective:
  assumes "chat_crypto_role_is_valid r" and "chat_crypto_role_is_valid r'"
    and "length a = crypto_sign_PUBLICKEYBYTES" and "length a' = crypto_sign_PUBLICKEYBYTES"
    and "length b = crypto_sign_PUBLICKEYBYTES" and "length b' = crypto_sign_PUBLICKEYBYTES"
    and "length k = crypto_kx_PUBLICKEYBYTES" and "length k' = crypto_kx_PUBLICKEYBYTES"
    and "concat (transcript_chunks r a b sid k) = concat (transcript_chunks r' a' b' sid' k')"
  shows "r = r' \<and> a = a' \<and> b = b' \<and> sid = sid' \<and> k = k'"
  using assms role_byte_inj [OF assms(1,2)] by (simp add: transcript_chunks_def)

theorem transcript_injective_witness:
  "concat (transcript_chunks CHAT_CRYPTO_ROLE_INITIATOR (replicate 32 1) (replicate 32 2) [5] (replicate 32 3)) \<noteq>
   concat (transcript_chunks CHAT_CRYPTO_ROLE_RESPONDER (replicate 32 1) (replicate 32 2) [5] (replicate 32 3))"
proof
  assume eq: "concat (transcript_chunks CHAT_CRYPTO_ROLE_INITIATOR (replicate 32 1) (replicate 32 2) [5] (replicate 32 3)) =
   concat (transcript_chunks CHAT_CRYPTO_ROLE_RESPONDER (replicate 32 1) (replicate 32 2) [5] (replicate 32 3))"
  have "CHAT_CRYPTO_ROLE_INITIATOR = CHAT_CRYPTO_ROLE_RESPONDER"
    using transcript_injective [OF roles(1,2) _ _ _ _ _ _ eq] by simp
  then show False using roles(5) by simp
qed

text \<open>One direction of a conversation: each message is encrypted by the sender and decrypted
  by the receiver, who has a buffer for the largest message.\<close>

fun stream_exchange ::
  "('h, 's) sodium \<Rightarrow> 's chat_crypto_secretstream_t \<Rightarrow> 's chat_crypto_secretstream_t \<Rightarrow>
   (bytes \<times> bool) list \<Rightarrow> (chat_crypto_result_t \<times> chat_crypto_result_t \<times> bytes \<times> byte) list" where
  "stream_exchange sod snd_st rcv_st [] = []"
| "stream_exchange sod snd_st rcv_st ((m, final) # ms) =
     (let (re, snd', c) = chat_crypto_secretstream_encrypt sod snd_st m final
            (CHAT_MAX_MESSAGE_SIZE + CHAT_CRYPTO_STREAM_ABYTES);
          (rd, rcv', p, tag) = chat_crypto_secretstream_decrypt sod rcv_st c CHAT_MAX_MESSAGE_SIZE
      in (re, rd, p, tag) # stream_exchange sod snd' rcv' ms)"

lemma stream_exchange_sync:
  assumes "stream_laws sod sync"
  shows "st_push_initialized a \<Longrightarrow> st_pull_initialized b \<Longrightarrow> sync (st_push a) (st_pull b) \<Longrightarrow>
     \<forall>(m, final) \<in> set ms. length m \<le> CHAT_MAX_MESSAGE_SIZE \<Longrightarrow>
     stream_exchange sod a b ms =
       map (\<lambda>(m, final). (CHAT_CRYPTO_OK, CHAT_CRYPTO_OK, m,
              if final then secretstream_TAG_FINAL else secretstream_TAG_MESSAGE)) ms"
proof (induction ms arbitrary: a b)
  case (Cons mf ms)
  obtain m final where mf: "mf = (m, final)" by force
  let ?tag = "if final then secretstream_TAG_FINAL else secretstream_TAG_MESSAGE"
  obtain st c st' where st: "secretstream_push sod (st_push a) m ?tag = Some (st, c)" "length c = length m + 17"
    "secretstream_pull sod (st_pull b) c = Some (st', m, ?tag)" "sync st st'"
    using assms Cons.prems(3) by (fastforce simp: stream_laws_def)
  have "length m \<le> 65536" using Cons.prems(4) mf by simp
  then show ?case
    using Cons.prems(1,2,4) Cons.IH [of "a\<lparr>st_push := st\<rparr>" "b\<lparr>st_pull := st'\<rparr>"] st mf
    by (simp add: chat_crypto_secretstream_encrypt_def chat_crypto_secretstream_decrypt_def)
qed simp

text \<open>
  C20. The encrypted stream delivers: once the sender has initialised its stream with a key
  and the receiver its own with the same key and the sender's header, every sequence of
  messages of at most 64 KiB is decrypted to exactly the messages sent, in order, each with
  its tag.
\<close>

theorem secretstream_roundtrip:
  assumes "stream_laws sod sync"
    and "chat_crypto_secretstream_init_push sod rnd a key = (resA, a', header)"
    and "\<forall>(m, final) \<in> set ms. length m \<le> CHAT_MAX_MESSAGE_SIZE"
  shows "\<exists>h b'. resA = CHAT_CRYPTO_OK \<and> header = Some h \<and> length h = CHAT_CRYPTO_STREAM_HEADER_BYTES
    \<and> chat_crypto_secretstream_init_pull sod b key h = (CHAT_CRYPTO_OK, b')
    \<and> stream_exchange sod a' b' ms =
        map (\<lambda>(m, final). (CHAT_CRYPTO_OK, CHAT_CRYPTO_OK, m,
               if final then secretstream_TAG_FINAL else secretstream_TAG_MESSAGE)) ms"
proof -
  obtain st hdr st' where st: "secretstream_init_push sod rnd key = Some (st, hdr)" "length hdr = 24"
    "secretstream_init_pull sod hdr key = Some st'" "sync st st'"
    using assms(1) by (fastforce simp: stream_laws_def)
  then show ?thesis
    using assms(2) stream_exchange_sync [OF assms(1) _ _ _ assms(3), of a' "b\<lparr>st_pull := st', st_pull_initialized := True\<rparr>"]
    by (auto simp: chat_crypto_secretstream_init_push_def chat_crypto_secretstream_init_pull_def)
qed

theorem secretstream_roundtrip_witness:
  "\<exists>a' h b'. chat_crypto_secretstream_init_push demo [1] (chat_crypto_secretstream_init demo) [9] = (CHAT_CRYPTO_OK, a', Some h)
     \<and> stream_exchange demo a' b' [([104, 105], False), ([], True)] =
        [(CHAT_CRYPTO_OK, CHAT_CRYPTO_OK, [104, 105], secretstream_TAG_MESSAGE),
         (CHAT_CRYPTO_OK, CHAT_CRYPTO_OK, [], secretstream_TAG_FINAL)]"
proof -
  obtain resA a' header where i: "chat_crypto_secretstream_init_push demo [1] (chat_crypto_secretstream_init demo) [9]
      = (resA, a', header)"
    using prod_cases3 by blast
  have "\<forall>(m, final) \<in> set [([104, 105] :: bytes, False), ([], True)]. length m \<le> CHAT_MAX_MESSAGE_SIZE" by simp
  from secretstream_roundtrip [OF demo_stream_laws i this, of "chat_crypto_secretstream_init demo"] i
  show ?thesis by auto
qed

end
