(* ===== verification/Contacts.thy ===== *)
theory Contacts
  imports Identity
begin

text \<open>
  \<open>common/contacts.c\<close>: the pinned identity keys of known users, trusted on first use. The
  state is the text of \<open>contacts.db\<close>, \<open>None\<close> when the file does not exist. What the file
  system answers is a record passed as an argument: whether opening, reading or closing
  fails, and how many bytes a \<open>write\<close> takes. The store is related to a finite map from names
  to keys, and its contract is a locale.
\<close>

section \<open>Types\<close>

datatype chat_contacts_result_t =
    CHAT_CONTACTS_OK
  | CHAT_CONTACTS_ERR_INVALID
  | CHAT_CONTACTS_ERR_IO
  | CHAT_CONTACTS_ERR_BUFFER
  | CHAT_CONTACTS_ERR_BAD_FILE
  | CHAT_CONTACTS_ERR_MISMATCH
  | CHAT_CONTACTS_ERR_NOT_FOUND

definition CHAT_CONTACTS_HEX_PUBLIC_KEY_LEN :: nat where
  "CHAT_CONTACTS_HEX_PUBLIC_KEY_LEN = crypto_sign_PUBLICKEYBYTES * 2 + 1"
definition CHAT_CONTACTS_LINE_MAX :: nat where
  "CHAT_CONTACTS_LINE_MAX = CHAT_USERNAME_MAX_LEN + 1 + CHAT_CONTACTS_HEX_PUBLIC_KEY_LEN + 2"

lemmas contacts_consts [simp] = CHAT_CONTACTS_HEX_PUBLIC_KEY_LEN_def CHAT_CONTACTS_LINE_MAX_def

type_synonym contacts_file = "string option"

text \<open>\<open>ci_write n\<close> is what \<open>write\<close> returns when \<open>n\<close> bytes are left to write.\<close>

record contacts_io =
  ci_getenv :: "string \<Rightarrow> string option"
  ci_fopen_fails :: bool
  ci_read_fails :: bool
  ci_open_fails :: bool
  ci_write :: "nat \<Rightarrow> int"
  ci_close_fails :: bool

section \<open>Operations\<close>

definition contacts_path :: "contacts_io \<Rightarrow> nat \<Rightarrow> chat_contacts_result_t + string" where
  "contacts_path io out_size =
     (case chat_identity_config_dir (ci_getenv io) 512 of
        Inl err \<Rightarrow> Inl CHAT_CONTACTS_ERR_IO
      | Inr config_dir \<Rightarrow>
          if \<not> snprintf_fits out_size (config_dir @ ''/contacts.db'') then Inl CHAT_CONTACTS_ERR_BUFFER
          else Inr (config_dir @ ''/contacts.db''))"

text \<open>The loop yields its result and what it wrote.\<close>

function write_all :: "(nat \<Rightarrow> int) \<Rightarrow> string \<Rightarrow> chat_contacts_result_t \<times> string" where
  "write_all wr buffer =
     (if buffer = [] then (CHAT_CONTACTS_OK, [])
      else let written = wr (length buffer) in
           if written \<le> 0 then (CHAT_CONTACTS_ERR_IO, [])
           else let (result, out) = write_all wr (drop (nat written) buffer)
                in (result, take (nat written) buffer @ out))"
  by pat_completeness auto
termination by (relation "measure (\<lambda>(wr, buffer). length buffer)") auto

declare write_all.simps [simp del]

definition parse_contact_line ::
  "('h, 's) sodium \<Rightarrow> string \<Rightarrow> nat \<Rightarrow> chat_contacts_result_t + string \<times> bytes" where
  "parse_contact_line sod line username_size =
     (case scan_word 32 line of
        None \<Rightarrow> Inl CHAT_CONTACTS_ERR_BAD_FILE
      | Some (username, rest1) \<Rightarrow>
     (case scan_word 64 (scan_ws rest1) of
        None \<Rightarrow> Inl CHAT_CONTACTS_ERR_BAD_FILE
      | Some (hex, rest2) \<Rightarrow>
          if scan_ws rest2 \<noteq> [] then Inl CHAT_CONTACTS_ERR_BAD_FILE
          else if \<not> valid_username username then Inl CHAT_CONTACTS_ERR_BAD_FILE
          else if length username + 1 > username_size
                  \<or> length hex \<noteq> CHAT_CONTACTS_HEX_PUBLIC_KEY_LEN - 1 then Inl CHAT_CONTACTS_ERR_BAD_FILE
          else
     (case sodium_hex2bin sod crypto_sign_PUBLICKEYBYTES hex of
        None \<Rightarrow> Inl CHAT_CONTACTS_ERR_BAD_FILE
      | Some pk \<Rightarrow>
          if length pk \<noteq> crypto_sign_PUBLICKEYBYTES then Inl CHAT_CONTACTS_ERR_BAD_FILE
          else Inr (username, pk))))"

definition contact_line :: "('h, 's) sodium \<Rightarrow> string \<Rightarrow> bytes \<Rightarrow> string" where
  "contact_line sod username identity_pk = username @ '' '' @ sodium_bin2hex sod identity_pk @ [CHR 0x0A]"

definition append_contact ::
  "('h, 's) sodium \<Rightarrow> contacts_io \<Rightarrow> string \<Rightarrow> bytes \<Rightarrow> contacts_file \<Rightarrow> chat_contacts_result_t \<times> contacts_file" where
  "append_contact sod io username identity_pk file =
     (let line = contact_line sod username identity_pk in
      if \<not> snprintf_fits CHAT_CONTACTS_LINE_MAX line then (CHAT_CONTACTS_ERR_BUFFER, file)
      else if ci_open_fails io then (CHAT_CONTACTS_ERR_IO, file)
      else
        (let (result, out) = write_all (ci_write io) line;
             file' = Some ((case file of None \<Rightarrow> [] | Some t \<Rightarrow> t) @ out)
         in (if ci_close_fails io \<and> result = CHAT_CONTACTS_OK then CHAT_CONTACTS_ERR_IO else result, file')))"

text \<open>The loop over the lines \<open>fgets\<close> delivers; \<open>sscanf\<close> sees the line up to its first zero
  byte. The result is the key, or \<open>None\<close> when the name is not found.\<close>

function find_contact_loop ::
  "('h, 's) sodium \<Rightarrow> bool \<Rightarrow> string \<Rightarrow> string \<Rightarrow> chat_contacts_result_t + bytes option" where
  "find_contact_loop sod read_fails username text_left =
     (case fgets CHAT_CONTACTS_LINE_MAX text_left of
        None \<Rightarrow> if read_fails then Inl CHAT_CONTACTS_ERR_IO else Inr None
      | Some (line, rest) \<Rightarrow>
          (case parse_contact_line sod (cstr line) (CHAT_USERNAME_MAX_LEN + 1) of
             Inl err \<Rightarrow> Inl err
           | Inr (stored_username, stored_pk) \<Rightarrow>
               if stored_username = username then Inr (Some stored_pk)
               else find_contact_loop sod read_fails username rest))"
  by pat_completeness auto
termination
  by (relation "measure (\<lambda>(sod, rf, u, t). length t)") (auto dest: fgets_progress [rotated])

declare find_contact_loop.simps [simp del]

definition find_contact ::
  "('h, 's) sodium \<Rightarrow> contacts_io \<Rightarrow> contacts_file \<Rightarrow> string \<Rightarrow> chat_contacts_result_t + bytes option" where
  "find_contact sod io file username =
     (case file of
        None \<Rightarrow> Inr None
      | Some t \<Rightarrow> if ci_fopen_fails io then Inl CHAT_CONTACTS_ERR_IO
                   else find_contact_loop sod (ci_read_fails io) username t)"

fun chat_contacts_result_name :: "chat_contacts_result_t \<Rightarrow> string" where
  "chat_contacts_result_name CHAT_CONTACTS_OK = ''ok''"
| "chat_contacts_result_name CHAT_CONTACTS_ERR_INVALID = ''invalid contact''"
| "chat_contacts_result_name CHAT_CONTACTS_ERR_IO = ''contact storage I/O error''"
| "chat_contacts_result_name CHAT_CONTACTS_ERR_BUFFER = ''contact buffer too small''"
| "chat_contacts_result_name CHAT_CONTACTS_ERR_BAD_FILE = ''invalid contacts file''"
| "chat_contacts_result_name CHAT_CONTACTS_ERR_MISMATCH = ''identity mismatch''"
| "chat_contacts_result_name CHAT_CONTACTS_ERR_NOT_FOUND = ''contact not found''"

text \<open>The result, whether the contact is new, and the file afterwards.\<close>

definition chat_contacts_verify_or_pin ::
  "('h, 's) sodium \<Rightarrow> contacts_io \<Rightarrow> string option \<Rightarrow> bytes option \<Rightarrow> contacts_file \<Rightarrow>
   chat_contacts_result_t \<times> bool \<times> contacts_file" where
  "chat_contacts_verify_or_pin sod io username identity_pk file =
     (case (username, identity_pk) of
        (Some u, Some pk) \<Rightarrow>
          if \<not> valid_username u then (CHAT_CONTACTS_ERR_INVALID, False, file)
          else
     (case contacts_path io 1024 of
        Inl err \<Rightarrow> (err, False, file)
      | Inr path \<Rightarrow>
     (case find_contact sod io file u of
        Inl err \<Rightarrow> (err, False, file)
      | Inr (Some stored_pk) \<Rightarrow>
          (if stored_pk = pk then CHAT_CONTACTS_OK else CHAT_CONTACTS_ERR_MISMATCH, False, file)
      | Inr None \<Rightarrow>
          (let (result, file') = append_contact sod io u pk file
           in (result, result = CHAT_CONTACTS_OK, file'))))
      | _ \<Rightarrow> (CHAT_CONTACTS_ERR_INVALID, False, file))"

definition chat_contacts_load_public_key ::
  "('h, 's) sodium \<Rightarrow> contacts_io \<Rightarrow> string option \<Rightarrow> contacts_file \<Rightarrow> chat_contacts_result_t + bytes" where
  "chat_contacts_load_public_key sod io username file =
     (case username of
        None \<Rightarrow> Inl CHAT_CONTACTS_ERR_INVALID
      | Some u \<Rightarrow>
          if \<not> valid_username u then Inl CHAT_CONTACTS_ERR_INVALID
          else
     (case contacts_path io 1024 of
        Inl err \<Rightarrow> Inl err
      | Inr path \<Rightarrow>
     (case find_contact sod io file u of
        Inl err \<Rightarrow> Inl err
      | Inr None \<Rightarrow> Inl CHAT_CONTACTS_ERR_NOT_FOUND
      | Inr (Some pk) \<Rightarrow> Inr pk)))"

section \<open>Lines\<close>

lemma scan_ws_word: "w \<noteq> [] \<Longrightarrow> \<forall>c \<in> set w. \<not> is_space c \<Longrightarrow> scan_ws (w @ r) = w @ r"
  by (cases w) (auto simp: scan_ws_def)

lemma scan_word_space:
  assumes "w \<noteq> []" "\<forall>c \<in> set w. \<not> is_space c" "length w \<le> n" "is_space d"
  shows "scan_word n (w @ d # r) = Some (w, d # r)"
  using assms takeWhile_stop [of w "\<lambda>c. \<not> is_space c" d r]
  by (cases w) (simp_all add: scan_word_def scan_ws_def)

lemma scan_word_end:
  assumes "w \<noteq> []" "\<forall>c \<in> set w. \<not> is_space c" "length w \<le> n"
  shows "scan_word n w = Some (w, [])"
proof -
  have tw: "takeWhile (\<lambda>c. \<not> is_space c) w = w" using assms(2) by (simp add: takeWhile_eq_all_conv)
  have ws: "scan_ws w = w" using scan_ws_word [OF assms(1,2), of "[]"] by simp
  show ?thesis
    unfolding scan_word_def Let_def ws tw using assms(1,3) by simp
qed

lemma scan_word_none: "scan_word n [] = None"
  by (simp add: scan_word_def scan_ws_def)

lemma username_words: "valid_username u \<Longrightarrow> u \<noteq> [] \<and> length u \<le> 32 \<and> (\<forall>c \<in> set u. \<not> is_space c \<and> c \<noteq> nul)"
  using username_char_ok_plain by (auto simp: valid_username_iff)

lemma hex_words:
  assumes "hex_laws sod" "length pk = 32"
  shows "length (sodium_bin2hex sod pk) = 64" "sodium_bin2hex sod pk \<noteq> []"
    and "\<forall>c \<in> set (sodium_bin2hex sod pk). \<not> is_space c \<and> c \<noteq> nul"
  using hex_lawsD(1) [OF assms(1), of pk] hex_lawsD(2) [OF assms(1), of _ pk] hex_digit_plain assms(2) by auto

lemma is_space_literals [simp]: "is_space (CHR '' '')" "is_space (CHR 0x0A)"
  by (simp_all add: is_space_def char_code_def)

lemma parse_contact_line_print:
  assumes "hex_laws sod" "valid_username u" "length pk = 32"
  shows "parse_contact_line sod (contact_line sod u pk) 33 = Inr (u, pk)"
proof -
  let ?hex = "sodium_bin2hex sod pk"
  note u = username_words [OF assms(2)] and h = hex_words [OF assms(1,3)]
  have 1: "scan_word 32 (contact_line sod u pk) = Some (u, CHR '' '' # ?hex @ [CHR 0x0A])"
    using u scan_word_space [of u 32 "CHR '' ''"] by (simp add: contact_line_def)
  have 2: "scan_ws (CHR '' '' # ?hex @ [CHR 0x0A]) = ?hex @ [CHR 0x0A]"
    using scan_ws_word [OF h(2), of "[CHR 0x0A]"] h(3) by (simp add: scan_ws_def)
  have 3: "scan_word 64 (?hex @ [CHR 0x0A]) = Some (?hex, [CHR 0x0A])"
    using scan_word_space [of ?hex 64 "CHR 0x0A" "[]"] h by simp
  have "scan_ws [CHR 0x0A] = []" by (simp add: scan_ws_def)
  then show ?thesis
    using u h(1) assms hex_lawsD(3) [OF assms(1), of pk 32]
    by (simp add: parse_contact_line_def 1 2 3)
qed

lemma contact_line_shape:
  assumes "hex_laws sod" "valid_username u" "length pk = 32"
  shows "length (contact_line sod u pk) = length u + 66" "nul \<notin> set (contact_line sod u pk)"
    and "CHR 0x0A \<notin> set (u @ '' '' @ sodium_bin2hex sod pk)"
proof -
  note u = username_words [OF assms(2)] and h = hex_words [OF assms(1,3)]
  show "length (contact_line sod u pk) = length u + 66" using h(1) by (simp add: contact_line_def)
  show "nul \<notin> set (contact_line sod u pk)"
    using u h(3) by (auto simp: contact_line_def nul_def)
  show "CHR 0x0A \<notin> set (u @ '' '' @ sodium_bin2hex sod pk)" using u h(3) by auto
qed

lemma fgets_contact_line:
  assumes "hex_laws sod" "valid_username u" "length pk = 32"
  shows "fgets 100 (contact_line sod u pk @ rest) = Some (contact_line sod u pk, rest)"
proof -
  let ?body = "u @ '' '' @ sodium_bin2hex sod pk"
  have eq: "contact_line sod u pk = ?body @ [CHR 0x0A]" by (simp add: contact_line_def)
  have tw: "takeWhile (\<lambda>c. c \<noteq> CHR 0x0A) (?body @ CHR 0x0A # rest) = ?body"
    using contact_line_shape(3) [OF assms] by (intro takeWhile_stop) auto
  have "length (?body @ [CHR 0x0A]) \<le> 99"
    using contact_line_shape(1) [OF assms] username_words [OF assms(2)] eq by simp
  then show ?thesis unfolding eq fgets_def using tw by simp
qed

section \<open>Files\<close>

definition contact_ok :: "string \<times> bytes \<Rightarrow> bool" where
  "contact_ok c \<longleftrightarrow> valid_username (fst c) \<and> length (snd c) = crypto_sign_PUBLICKEYBYTES"

definition contacts_text :: "('h, 's) sodium \<Rightarrow> (string \<times> bytes) list \<Rightarrow> string" where
  "contacts_text sod cs = concat (map (\<lambda>(u, pk). contact_line sod u pk) cs)"

lemma find_contact_text:
  assumes "hex_laws sod"
  shows "\<forall>c \<in> set cs. contact_ok c \<Longrightarrow> find_contact_loop sod False u (contacts_text sod cs) = Inr (map_of cs u)"
proof (induction cs)
  case Nil
  then show ?case by (simp add: find_contact_loop.simps contacts_text_def fgets_def)
next
  case (Cons c cs)
  obtain v pk where c: "c = (v, pk)" by force
  with Cons.prems have ok: "valid_username v" "length pk = 32" by (auto simp: contact_ok_def)
  show ?case
    using Cons c fgets_contact_line [OF assms ok] parse_contact_line_print [OF assms ok]
      contact_line_shape(2) [OF assms ok]
    by (subst find_contact_loop.simps) (simp add: contacts_text_def cstr_id)
qed

lemma write_all_total: "\<forall>n>0. 0 < wr n \<Longrightarrow> write_all wr buf = (CHAT_CONTACTS_OK, buf)"
proof (induction wr buf rule: write_all.induct)
  case (1 wr buf)
  then show ?case
    by (subst write_all.simps) (auto simp: Let_def not_le)
qed

lemma write_all_prefix:
  "write_all wr buf = (r, out) \<Longrightarrow> prefix out buf \<and> (r = CHAT_CONTACTS_OK \<longrightarrow> out = buf)"
proof (induction wr buf arbitrary: r out rule: write_all.induct)
  case (1 wr buf)
  show ?case
  proof (cases "buf = [] \<or> wr (length buf) \<le> 0")
    case True
    then show ?thesis using "1.prems" by (subst (asm) write_all.simps) (auto simp: Let_def split: if_splits)
  next
    case False
    let ?n = "nat (wr (length buf))"
    obtain r' out' where rec: "write_all wr (drop ?n buf) = (r', out')" by force
    have "r = r'" "out = take ?n buf @ out'"
      using "1.prems" False rec by (subst (asm) write_all.simps, simp add: Let_def)+
    moreover have "prefix out' (drop ?n buf) \<and> (r' = CHAT_CONTACTS_OK \<longrightarrow> out' = drop ?n buf)"
      using "1.IH" False rec by (auto simp: Let_def)
    ultimately show ?thesis
      by (metis append_take_drop_id same_prefix_prefix)
  qed
qed

lemma write_all_result: "fst (write_all wr buf) = CHAT_CONTACTS_OK \<or> fst (write_all wr buf) = CHAT_CONTACTS_ERR_IO"
proof (induction wr buf rule: write_all.induct)
  case (1 wr buf)
  then show ?case by (subst (1 2) write_all.simps) (auto simp: Let_def split: prod.splits)
qed

definition io_ok :: "contacts_io \<Rightarrow> bool" where
  "io_ok io \<longleftrightarrow> \<not> ci_fopen_fails io \<and> \<not> ci_read_fails io \<and> \<not> ci_open_fails io \<and> \<not> ci_close_fails io
     \<and> (\<forall>n>0. 0 < ci_write io n) \<and> (\<exists>p. contacts_path io 1024 = Inr p)"

definition contacts_inv :: "('h, 's) sodium \<Rightarrow> contacts_file \<Rightarrow> bool" where
  "contacts_inv sod file \<longleftrightarrow> hex_laws sod \<and>
     (\<exists>cs. (\<forall>c \<in> set cs. contact_ok c) \<and> distinct (map fst cs) \<and>
        (file = Some (contacts_text sod cs) \<or> file = None \<and> cs = []))"

definition pinned :: "('h, 's) sodium \<Rightarrow> contacts_file \<Rightarrow> string \<Rightarrow> bytes option" where
  "pinned sod file u =
     (case file of
        None \<Rightarrow> None
      | Some t \<Rightarrow> (case find_contact_loop sod False u t of Inr r \<Rightarrow> r | Inl err \<Rightarrow> None))"

lemma contacts_invE:
  assumes "contacts_inv sod f"
  obtains cs where "hex_laws sod" "\<forall>c \<in> set cs. contact_ok c" "distinct (map fst cs)" "pinned sod f = map_of cs"
    "case_option [] id f = contacts_text sod cs"
proof -
  obtain cs where cs: "hex_laws sod" "\<forall>c \<in> set cs. contact_ok c" "distinct (map fst cs)"
    "f = Some (contacts_text sod cs) \<or> f = None \<and> cs = []"
    using assms by (auto simp: contacts_inv_def)
  moreover have "pinned sod f = map_of cs"
    using cs(4) find_contact_text [OF cs(1,2)] by (auto simp: pinned_def)
  moreover have "case_option [] id f = contacts_text sod cs" using cs(4) by (auto simp: contacts_text_def)
  ultimately show thesis using that by blast
qed

lemma find_contact_pinned:
  assumes "contacts_inv sod f" "io_ok io"
  shows "find_contact sod io f u = Inr (pinned sod f u)"
proof -
  obtain cs where "hex_laws sod" "\<forall>c \<in> set cs. contact_ok c" "f = Some (contacts_text sod cs) \<or> f = None"
    using assms(1) by (auto simp: contacts_inv_def)
  then show ?thesis
    using assms(2) find_contact_text [of sod cs u] by (auto simp: find_contact_def pinned_def io_ok_def)
qed

lemma append_contact_ok:
  assumes "contacts_inv sod f" "io_ok io" "valid_username u" "length pk = 32" "pinned sod f u = None"
  shows "\<exists>f'. append_contact sod io u pk f = (CHAT_CONTACTS_OK, f') \<and> contacts_inv sod f'
     \<and> (\<forall>v. pinned sod f' v = (if v = u then Some pk else pinned sod f v))"
proof -
  obtain cs where cs: "hex_laws sod" "\<forall>c \<in> set cs. contact_ok c" "distinct (map fst cs)"
    "pinned sod f = map_of cs" "case_option [] id f = contacts_text sod cs"
    using contacts_invE [OF assms(1)] by blast
  let ?cs = "cs @ [(u, pk)]" and ?f = "Some (contacts_text sod (cs @ [(u, pk)]))"
  have none: "map_of cs u = None" using assms(5) cs(4) by simp
  then have new: "u \<notin> fst ` set cs" by (simp add: map_of_eq_None_iff)
  have ok: "\<forall>c \<in> set ?cs. contact_ok c" using cs(2) assms(3,4) by (simp add: contact_ok_def)
  then have inv: "contacts_inv sod ?f"
    using cs(1,3) new unfolding contacts_inv_def by (intro conjI exI [of _ ?cs]) auto
  have pin: "pinned sod ?f v = (if v = u then Some pk else pinned sod f v)" for v
    using find_contact_text [OF cs(1) ok] none cs(4)
    by (auto simp: pinned_def map_add_def split: option.splits)
  have "length (contact_line sod u pk) < 100"
    using contact_line_shape(1) [OF cs(1) assms(3,4)] username_words [OF assms(3)] by simp
  moreover have "(case f of None \<Rightarrow> [] | Some t \<Rightarrow> t) = contacts_text sod cs"
    using cs(5) by (cases f) auto
  ultimately have "append_contact sod io u pk f = (CHAT_CONTACTS_OK, ?f)"
    using assms(2) by (simp add: append_contact_def snprintf_fits_def io_ok_def write_all_total contacts_text_def)
  then show ?thesis using inv pin by blast
qed

section \<open>The interface: pins that never change\<close>

locale pin_store =
  fixes invar :: "'f \<Rightarrow> bool" and lookup :: "'f \<Rightarrow> string \<Rightarrow> bytes option"
    and usable :: "'e \<Rightarrow> bool"
    and pin :: "'e \<Rightarrow> string \<Rightarrow> bytes \<Rightarrow> 'f \<Rightarrow> chat_contacts_result_t \<times> bool \<times> 'f"
  assumes pin_known: "invar f \<Longrightarrow> usable e \<Longrightarrow> valid_username u \<Longrightarrow> lookup f u = Some pk' \<Longrightarrow>
        pin e u pk f = (if pk' = pk then CHAT_CONTACTS_OK else CHAT_CONTACTS_ERR_MISMATCH, False, f)"
    and pin_new: "invar f \<Longrightarrow> usable e \<Longrightarrow> valid_username u \<Longrightarrow> length pk = 32 \<Longrightarrow> lookup f u = None \<Longrightarrow>
        \<exists>f'. pin e u pk f = (CHAT_CONTACTS_OK, True, f') \<and> invar f'
           \<and> (\<forall>v. lookup f' v = (if v = u then Some pk else lookup f v))"
begin

definition pin_all :: "('e \<times> string \<times> bytes) list \<Rightarrow> 'f \<Rightarrow> 'f" where
  "pin_all reqs f = foldl (\<lambda>f (e, u, pk). snd (snd (pin e u pk f))) f reqs"

definition request_ok :: "'e \<times> string \<times> bytes \<Rightarrow> bool" where
  "request_ok r \<longleftrightarrow> (case r of (e, u, pk) \<Rightarrow> usable e \<and> valid_username u \<and> length pk = 32)"

lemma pin_step:
  assumes "invar f" "request_ok (e, u, pk)"
  shows "invar (snd (snd (pin e u pk f)))"
    and "lookup f v = Some k \<Longrightarrow> lookup (snd (snd (pin e u pk f))) v = Some k"
  using assms pin_known [of f e u _ pk] pin_new [of f e u pk]
  by (cases "lookup f u"; fastforce simp: request_ok_def)+

lemma pins_stay:
  "invar f \<Longrightarrow> \<forall>r \<in> set reqs. request_ok r \<Longrightarrow>
   invar (pin_all reqs f) \<and> (lookup f v = Some k \<longrightarrow> lookup (pin_all reqs f) v = Some k)"
proof (induction reqs arbitrary: f)
  case (Cons r reqs)
  obtain e u pk where r: "r = (e, u, pk)" using prod_cases3 by blast
  then show ?case
    using Cons.IH [of "snd (snd (pin e u pk f))"] Cons.prems pin_step [of f e u pk]
    by (auto simp: pin_all_def)
qed (simp add: pin_all_def)

end

text \<open>The store of the program: libsodium for the hexadecimal form, and the file.\<close>

definition pin_contact ::
  "contacts_io \<Rightarrow> string \<Rightarrow> bytes \<Rightarrow> ('h, 's) sodium \<times> contacts_file \<Rightarrow>
   chat_contacts_result_t \<times> bool \<times> ('h, 's) sodium \<times> contacts_file" where
  "pin_contact io u pk = (\<lambda>(sod, file).
     case chat_contacts_verify_or_pin sod io (Some u) (Some pk) file of (r, new, file') \<Rightarrow> (r, new, sod, file'))"

lemma verify_known:
  assumes "contacts_inv sod f" "io_ok io" "valid_username u" "pinned sod f u = Some pk'"
  shows "chat_contacts_verify_or_pin sod io (Some u) (Some pk) f =
    (if pk' = pk then CHAT_CONTACTS_OK else CHAT_CONTACTS_ERR_MISMATCH, False, f)"
  using assms(2-4) find_contact_pinned [OF assms(1,2), of u]
  by (auto simp: chat_contacts_verify_or_pin_def io_ok_def)

lemma verify_new:
  assumes "contacts_inv sod f" "io_ok io" "valid_username u" "length pk = 32" "pinned sod f u = None"
  shows "\<exists>f'. chat_contacts_verify_or_pin sod io (Some u) (Some pk) f = (CHAT_CONTACTS_OK, True, f')
     \<and> contacts_inv sod f' \<and> (\<forall>v. pinned sod f' v = (if v = u then Some pk else pinned sod f v))"
proof -
  obtain f' where f': "append_contact sod io u pk f = (CHAT_CONTACTS_OK, f')" "contacts_inv sod f'"
    "\<forall>v. pinned sod f' v = (if v = u then Some pk else pinned sod f v)"
    using append_contact_ok [OF assms] by blast
  have "find_contact sod io f u = Inr None" using find_contact_pinned [OF assms(1,2), of u] assms(5) by simp
  then show ?thesis
    using f' assms(2,3) by (auto simp: chat_contacts_verify_or_pin_def io_ok_def)
qed

interpretation contacts: pin_store "\<lambda>(sod, f). contacts_inv sod f" "\<lambda>(sod, f). pinned sod f" io_ok pin_contact
proof unfold_locales
  fix f :: "('a, 'b) sodium \<times> contacts_file" and e u pk pk'
  assume "case f of (sod, f) \<Rightarrow> contacts_inv sod f" "io_ok e" "valid_username u" "(case f of (sod, f) \<Rightarrow> pinned sod f) u = Some pk'"
  then show "pin_contact e u pk f = (if pk' = pk then CHAT_CONTACTS_OK else CHAT_CONTACTS_ERR_MISMATCH, False, f)"
    using verify_known [of "fst f" "snd f" e u pk' pk] by (cases f) (auto simp: pin_contact_def)
next
  fix f :: "('a, 'b) sodium \<times> contacts_file" and e u and pk :: bytes
  assume "case f of (sod, f) \<Rightarrow> contacts_inv sod f" "io_ok e" "valid_username u" "length pk = 32"
    "(case f of (sod, f) \<Rightarrow> pinned sod f) u = None"
  then show "\<exists>f'. pin_contact e u pk f = (CHAT_CONTACTS_OK, True, f') \<and> (case f' of (sod, f) \<Rightarrow> contacts_inv sod f) \<and>
      (\<forall>v. (case f' of (sod, f) \<Rightarrow> pinned sod f) v = (if v = u then Some pk else (case f of (sod, f) \<Rightarrow> pinned sod f) v))"
    using verify_new [of "fst f" "snd f" e u pk] by (cases f) (auto simp: pin_contact_def)
qed

section \<open>Properties\<close>





definition good_io :: contacts_io where
  "good_io = \<lparr>ci_getenv = (\<lambda>name. if name = ''HOME'' then Some ''/home/a'' else None), ci_fopen_fails = False,
     ci_read_fails = False, ci_open_fails = False, ci_write = (\<lambda>n. int n), ci_close_fails = False\<rparr>"

lemma good_io_ok: "io_ok good_io"
  by (simp add: io_ok_def good_io_def contacts_path_def chat_identity_config_dir_def nonempty_env_def snprintf_fits_def)

lemma contacts_names: "valid_username ''alice''" "valid_username ''bob''"
  by code_simp+

lemma alice_pinned:
  "\<exists>f. chat_contacts_verify_or_pin demo good_io (Some ''alice'') (Some (replicate 32 7)) None = (CHAT_CONTACTS_OK, True, f)
     \<and> contacts_inv demo f \<and> pinned demo f ''alice'' = Some (replicate 32 7)"
proof -
  have "contacts_inv demo None" by (auto simp: contacts_inv_def demo_hex_laws)
  from verify_new [OF this good_io_ok contacts_names(1), of "replicate 32 7"] show ?thesis
    by (auto simp: pinned_def [of demo None])
qed


text \<open>
  C22. Refinement: on a well-formed file and a working file system,
  \<open>chat_contacts_verify_or_pin\<close> implements a lookup and insertion in a map from names to
  keys. A known name is compared and the file left alone; an unknown one is added and
  nothing else changes.
\<close>

theorem verify_or_pin_refines_map:
  assumes "contacts_inv sod f" and "io_ok io" and "valid_username u"
    and "length pk = crypto_sign_PUBLICKEYBYTES"
    and "chat_contacts_verify_or_pin sod io (Some u) (Some pk) f = (result, new, f')"
  shows "contacts_inv sod f' \<and>
    (case pinned sod f u of
       Some k \<Rightarrow> f' = f \<and> \<not> new \<and> result = (if k = pk then CHAT_CONTACTS_OK else CHAT_CONTACTS_ERR_MISMATCH)
     | None \<Rightarrow> result = CHAT_CONTACTS_OK \<and> new \<and> pinned sod f' = (pinned sod f)(u \<mapsto> pk))"
proof (cases "pinned sod f u")
  case None
  then show ?thesis
    using verify_new [OF assms(1-3) _ None, of pk] assms(4,5) by (auto simp: fun_eq_iff)
next
  case (Some k)
  then show ?thesis using verify_known [OF assms(1-3) Some, of pk] assms(1,5) by auto
qed

theorem verify_or_pin_refines_map_witness:
  "\<exists>f. chat_contacts_verify_or_pin demo good_io (Some ''alice'') (Some (replicate 32 7)) None = (CHAT_CONTACTS_OK, True, f)
     \<and> pinned demo f = [''alice'' \<mapsto> replicate 32 7]"
proof -
  obtain f where f: "chat_contacts_verify_or_pin demo good_io (Some ''alice'') (Some (replicate 32 7)) None = (CHAT_CONTACTS_OK, True, f)"
    using alice_pinned by blast
  have "contacts_inv demo None" "length (replicate 32 (7 :: byte)) = crypto_sign_PUBLICKEYBYTES"
    by (auto simp: contacts_inv_def demo_hex_laws)
  from verify_or_pin_refines_map [OF this(1) good_io_ok contacts_names(1) this(2) f] f show ?thesis
    by (auto simp: pinned_def [of demo None] fun_eq_iff)
qed

text \<open>
  On any file and any file system, the contacts file is only ever extended, and by no
  more than the line of the name and key at hand; a mismatch, like every other outcome for a
  name that is found, leaves it untouched.
\<close>

definition file_text :: "contacts_file \<Rightarrow> string" where
  "file_text file = (case file of None \<Rightarrow> [] | Some t \<Rightarrow> t)"

theorem contacts_append_only:
  "\<exists>out. file_text (snd (snd (chat_contacts_verify_or_pin sod io (Some u) (Some pk) f))) = file_text f @ out
     \<and> prefix out (contact_line sod u pk)
     \<and> (fst (chat_contacts_verify_or_pin sod io (Some u) (Some pk) f) = CHAT_CONTACTS_ERR_MISMATCH \<longrightarrow>
          snd (snd (chat_contacts_verify_or_pin sod io (Some u) (Some pk) f)) = f)
     \<and> (find_contact sod io f u \<noteq> Inr None \<longrightarrow>
          snd (snd (chat_contacts_verify_or_pin sod io (Some u) (Some pk) f)) = f)"
proof (cases "valid_username u \<and> (\<exists>p. contacts_path io 1024 = Inr p) \<and> find_contact sod io f u = Inr None")
  case False
  then have "snd (snd (chat_contacts_verify_or_pin sod io (Some u) (Some pk) f)) = f"
    by (auto simp: chat_contacts_verify_or_pin_def split: sum.splits option.splits)
  then show ?thesis by simp
next
  case True
  obtain r out where w: "write_all (ci_write io) (contact_line sod u pk) = (r, out)" by force
  have r: "prefix out (contact_line sod u pk)" using write_all_prefix [OF w] by simp
  obtain res f' where app: "append_contact sod io u pk f = (res, f')" by force
  have "\<exists>o'. file_text f' = file_text f @ o' \<and> prefix o' (contact_line sod u pk)" "res \<noteq> CHAT_CONTACTS_ERR_MISMATCH"
    using app w r write_all_result [of "ci_write io" "contact_line sod u pk"]
    by (auto simp: append_contact_def file_text_def Let_def split: if_splits option.splits)
  then show ?thesis
    using True app by (auto simp: chat_contacts_verify_or_pin_def)
qed

theorem contacts_append_only_witness:
  "\<exists>f. contacts_inv demo f \<and>
     fst (chat_contacts_verify_or_pin demo good_io (Some ''alice'') (Some (replicate 32 8)) f) = CHAT_CONTACTS_ERR_MISMATCH \<and>
     snd (snd (chat_contacts_verify_or_pin demo good_io (Some ''alice'') (Some (replicate 32 8)) f)) = f"
proof -
  obtain f where f: "contacts_inv demo f" "pinned demo f ''alice'' = Some (replicate 32 7)"
    using alice_pinned by blast
  have "replicate 32 7 \<noteq> replicate 32 (8 :: byte)" by simp
  then have "fst (chat_contacts_verify_or_pin demo good_io (Some ''alice'') (Some (replicate 32 8)) f) = CHAT_CONTACTS_ERR_MISMATCH"
    using verify_known [OF f(1) good_io_ok contacts_names(1) f(2), of "replicate 32 8"] by (simp only: fst_conv if_False)
  then show ?thesis
    using contacts_append_only [of demo good_io "''alice''" "replicate 32 8" f] f(1) by blast
qed

lemma fgets_last:
  assumes "CHR 0x0A \<notin> set t" "t \<noteq> []" "length t \<le> 99"
  shows "fgets 100 t = Some (t, [])"
proof -
  have "takeWhile (\<lambda>c. c \<noteq> CHR 0x0A) t = t" using assms(1) by (auto simp: takeWhile_eq_all_conv)
  then show ?thesis using assms(2,3) unfolding fgets_def by (simp only: Let_def) simp
qed

lemma parse_truncated_line:
  assumes "hex_laws sod" "valid_username u" "length pk = 32" "k < length u + 65"
  shows "parse_contact_line sod (take k (contact_line sod u pk)) 33 = Inl CHAT_CONTACTS_ERR_BAD_FILE"
proof -
  let ?hex = "sodium_bin2hex sod pk"
  note u = username_words [OF assms(2)] and h = hex_words [OF assms(1,3)]
  consider (none) "k = 0" | (name) "0 < k" "k \<le> length u" | (blank) "k = length u + 1"
    | (hex) j where "k = length u + 1 + j" "0 < j" "j < 64"
    using assms(4) by (cases "k \<le> length u"; cases "k = length u + 1"; cases "k = 0")
      (auto intro: that(4) [of "k - length u - 1"])
  then show ?thesis
  proof cases
    case none
    then show ?thesis by (simp add: parse_contact_line_def scan_word_none)
  next
    case name
    then have "take k (contact_line sod u pk) = take k u" by (simp add: contact_line_def)
    moreover have "scan_word 32 (take k u) = Some (take k u, [])"
      using u name by (intro scan_word_end) (auto dest: in_set_takeD)
    moreover have "scan_ws [] = []" by (simp add: scan_ws_def)
    ultimately show ?thesis by (simp add: parse_contact_line_def scan_word_none)
  next
    case blank
    then have "take k (contact_line sod u pk) = u @ '' ''" by (simp add: contact_line_def)
    moreover have "scan_word 32 (u @ '' '') = Some (u, '' '')" using u by (intro scan_word_space) auto
    moreover have "scan_ws '' '' = []" by (simp add: scan_ws_def)
    ultimately show ?thesis by (simp add: parse_contact_line_def scan_word_none)
  next
    case hex
    let ?h = "take j ?hex"
    have "take k (contact_line sod u pk) = u @ CHR '' '' # ?h" using hex h(1) by (simp add: contact_line_def)
    moreover have "scan_word 32 (u @ CHR '' '' # ?h) = Some (u, CHR '' '' # ?h)" using u by (intro scan_word_space) auto
    moreover have "scan_ws (CHR '' '' # ?h) = ?h"
    proof -
      have "dropWhile is_space ?h = ?h" using h(3) by (intro dropWhile_none) (auto dest: in_set_takeD)
      then show ?thesis by (simp add: scan_ws_def)
    qed
    moreover have "scan_word 64 ?h = Some (?h, [])"
      using h hex by (intro scan_word_end) (auto dest: in_set_takeD)
    ultimately show ?thesis using h(1) hex by (simp add: parse_contact_line_def scan_ws_def)
  qed
qed

text \<open>
  C40. A pin is not written atomically: when the file system takes only part of the line of
  the first contact and then fails, pinning reports an I/O error, but the partial line stays
  in the file and from then on every verification and every load fails with
  \<open>CHAT_CONTACTS_ERR_BAD_FILE\<close>.
\<close>

theorem partial_pin_breaks_store:
  assumes "hex_laws sod" and "valid_username u" and "length pk = crypto_sign_PUBLICKEYBYTES"
    and "contacts_path io 1024 = Inr p" and "\<not> ci_open_fails io"
    and "0 < k" and "k < length u + 65" and "ci_write io (length u + 66) = int k"
    and "ci_write io (length u + 66 - k) \<le> 0"
    and "io_ok io'" and "valid_username v"
  shows "\<exists>f. chat_contacts_verify_or_pin sod io (Some u) (Some pk) None = (CHAT_CONTACTS_ERR_IO, False, f)
    \<and> chat_contacts_load_public_key sod io' (Some v) f = Inl CHAT_CONTACTS_ERR_BAD_FILE
    \<and> chat_contacts_verify_or_pin sod io' (Some v) (Some pk') f = (CHAT_CONTACTS_ERR_BAD_FILE, False, f)"
proof -
  let ?line = "contact_line sod u pk"
  have pk: "length pk = 32" using assms(3) by simp
  note shape = contact_line_shape [OF assms(1,2) pk]
  let ?t = "take k ?line"
  have rest: "write_all (ci_write io) (drop k ?line) = (CHAT_CONTACTS_ERR_IO, [])"
    using assms(7,9) shape(1) by (subst write_all.simps) (auto simp: Let_def)
  have "write_all (ci_write io) ?line = (CHAT_CONTACTS_ERR_IO, ?t)"
    using assms(6,8) shape(1) rest by (subst write_all.simps) (auto simp: Let_def)
  then have "append_contact sod io u pk None = (CHAT_CONTACTS_ERR_IO, Some ?t)"
    using assms(2,5) shape(1) by (simp add: append_contact_def snprintf_fits_def Let_def valid_username_iff)
  then have first: "chat_contacts_verify_or_pin sod io (Some u) (Some pk) None = (CHAT_CONTACTS_ERR_IO, False, Some ?t)"
    using assms(2,4) by (simp add: chat_contacts_verify_or_pin_def find_contact_def)
  have "?t = take k (u @ '' '' @ sodium_bin2hex sod pk)"
    using assms(7) hex_words(1) [OF assms(1) pk]
      take_append [of k "u @ '' '' @ sodium_bin2hex sod pk" "[CHR 0x0A]"] by (simp add: contact_line_def)
  then have "CHR 0x0A \<notin> set ?t" using shape(3) by (metis in_set_takeD)
  moreover have "?t \<noteq> []" "length ?t \<le> 99" using assms(2,6,7) shape(1) by (auto simp: valid_username_iff)
  ultimately have "fgets 100 ?t = Some (?t, [])" by (intro fgets_last)
  moreover have "cstr ?t = ?t" using shape(2) by (intro cstr_id) (auto dest: in_set_takeD)
  ultimately have "find_contact_loop sod False v ?t = Inl CHAT_CONTACTS_ERR_BAD_FILE"
    using parse_truncated_line [OF assms(1,2) pk assms(7)] by (subst find_contact_loop.simps) simp
  then have "find_contact sod io' (Some ?t) v = Inl CHAT_CONTACTS_ERR_BAD_FILE"
    using assms(10) by (simp add: find_contact_def io_ok_def)
  then show ?thesis
    using first assms(10,11)
    by (intro exI [of _ "Some ?t"])
      (auto simp: chat_contacts_load_public_key_def chat_contacts_verify_or_pin_def io_ok_def)
qed

definition full_disk :: contacts_io where
  "full_disk = good_io\<lparr>ci_write := (\<lambda>n. if n = 71 then 10 else -1)\<rparr>"

theorem partial_pin_breaks_store_witness:
  "\<exists>f. chat_contacts_verify_or_pin demo full_disk (Some ''alice'') (Some (replicate 32 7)) None = (CHAT_CONTACTS_ERR_IO, False, f)
    \<and> chat_contacts_load_public_key demo good_io (Some ''bob'') f = Inl CHAT_CONTACTS_ERR_BAD_FILE"
proof -
  obtain p where p: "contacts_path full_disk 1024 = Inr p"
    using good_io_ok by (auto simp: io_ok_def full_disk_def contacts_path_def)
  have "length (replicate 32 (7 :: byte)) = crypto_sign_PUBLICKEYBYTES" "\<not> ci_open_fails full_disk"
    "0 < (10 :: nat)" "10 < length ''alice'' + 65" "ci_write full_disk (length ''alice'' + 66) = int 10"
    "ci_write full_disk (length ''alice'' + 66 - 10) \<le> 0"
    by (simp_all add: full_disk_def good_io_def)
  from partial_pin_breaks_store [OF demo_hex_laws contacts_names(1) this(1) p this(2-6) good_io_ok contacts_names(2)]
  show ?thesis by blast
qed

end
