(* ===== verification/Ipc.thy ===== *)
theory Ipc
  imports Identity
begin

text \<open>
  \<open>common/ipc.c\<close>: where the socket between the command-line client and the daemon lives, and
  the sizes of the texts on it.
\<close>

definition CHAT_IPC_MAX_COMMAND :: nat where "CHAT_IPC_MAX_COMMAND = 4096"
definition CHAT_IPC_MAX_RESPONSE :: nat where "CHAT_IPC_MAX_RESPONSE = 4096"

lemmas ipc_consts [simp] = CHAT_IPC_MAX_COMMAND_def CHAT_IPC_MAX_RESPONSE_def

datatype chat_ipc_result_t = CHAT_IPC_OK | CHAT_IPC_ERR_BUFFER | CHAT_IPC_ERR_IO

fun chat_ipc_result_name :: "chat_ipc_result_t \<Rightarrow> string" where
  "chat_ipc_result_name CHAT_IPC_OK = ''ok''"
| "chat_ipc_result_name CHAT_IPC_ERR_BUFFER = ''buffer too small''"
| "chat_ipc_result_name CHAT_IPC_ERR_IO = ''I/O error''"

definition ipc_print :: "nat \<Rightarrow> string \<Rightarrow> chat_ipc_result_t + string" where
  "ipc_print out_size value = (if snprintf_fits out_size value then Inr value else Inl CHAT_IPC_ERR_BUFFER)"

definition chat_ipc_socket_path :: "(string \<Rightarrow> string option) \<Rightarrow> nat \<Rightarrow> chat_ipc_result_t + string" where
  "chat_ipc_socket_path getenv out_size =
     (if out_size = 0 then Inl CHAT_IPC_ERR_BUFFER
      else case nonempty_env getenv ''CHAT_SOCKET_PATH'' of
        Some override \<Rightarrow> ipc_print out_size override
      | None \<Rightarrow>
     (case nonempty_env getenv ''XDG_RUNTIME_DIR'' of
        Some runtime_dir \<Rightarrow> ipc_print out_size (runtime_dir @ ''/chatd.sock'')
      | None \<Rightarrow>
     (case chat_identity_config_dir getenv 512 of
        Inl err \<Rightarrow> Inl CHAT_IPC_ERR_IO
      | Inr config_dir \<Rightarrow> ipc_print out_size (config_dir @ ''/chatd.sock''))))"

end
