(* ===== verification/Daemon_State.thy ===== *)
theory Daemon_State
  imports Json Ice Crypto Contacts Ipc
begin

text \<open>
  \<open>daemon/main.c\<close>, first part: the daemon's state, what the outside world answers while one
  of its functions runs, and the queuing of control messages. Every function takes the state
  and returns its result code with the new state.

  The daemon runs on one thread; a second thread only wakes up libwebsockets, so the mutex,
  which protects the pending control message, has no visible effect and is left out, as are
  the libwebsockets context and log output. At the end of the record are not fields of the
  C structure but the outside world the daemon changes: the contacts file, the lines written
  to clients, the closed descriptors, the packets given to libnice, the texts written to the
  control server and the calls into libnice.
\<close>

section \<open>State\<close>

definition CHATD_MAX_JSON_SIZE :: nat where "CHATD_MAX_JSON_SIZE = 4096"
definition CHATD_RECONNECT_SECONDS :: nat where "CHATD_RECONNECT_SECONDS = 1"
definition CHATD_HEX_PUBLIC_KEY_LEN :: nat where
  "CHATD_HEX_PUBLIC_KEY_LEN = crypto_sign_PUBLICKEYBYTES * 2 + 1"
definition CHATD_CHALLENGE_BYTES :: nat where "CHATD_CHALLENGE_BYTES = 32"
definition CHATD_HEX_CHALLENGE_LEN :: nat where "CHATD_HEX_CHALLENGE_LEN = CHATD_CHALLENGE_BYTES * 2 + 1"
definition CHATD_SESSION_ID_BYTES :: nat where "CHATD_SESSION_ID_BYTES = 16"
definition CHATD_SESSION_ID_HEX_LEN :: nat where "CHATD_SESSION_ID_HEX_LEN = CHATD_SESSION_ID_BYTES * 2 + 1"
definition CHATD_ICE_TIMEOUT_SECONDS :: nat where "CHATD_ICE_TIMEOUT_SECONDS = 30"
definition CHATD_CRYPTO_TIMEOUT_SECONDS :: nat where "CHATD_CRYPTO_TIMEOUT_SECONDS = 30"
definition CHATD_ICE_RETRY_MAX :: nat where "CHATD_ICE_RETRY_MAX = 3"
definition CHATD_ICE_SDP_MAX :: nat where "CHATD_ICE_SDP_MAX = 2048"
definition CHATD_ICE_PACKET_MAX :: nat where "CHATD_ICE_PACKET_MAX = CHAT_ICE_RECV_MAX"
definition CHATD_CHAT_TEXT_MAX :: nat where
  "CHATD_CHAT_TEXT_MAX = CHAT_IPC_MAX_COMMAND - (length ''SEND_MESSAGE '' + 2)"

lemmas chatd_consts [simp] =
  CHATD_MAX_JSON_SIZE_def CHATD_RECONNECT_SECONDS_def CHATD_HEX_PUBLIC_KEY_LEN_def CHATD_CHALLENGE_BYTES_def
  CHATD_HEX_CHALLENGE_LEN_def CHATD_SESSION_ID_BYTES_def CHATD_SESSION_ID_HEX_LEN_def
  CHATD_ICE_TIMEOUT_SECONDS_def CHATD_CRYPTO_TIMEOUT_SECONDS_def CHATD_ICE_RETRY_MAX_def
  CHATD_ICE_SDP_MAX_def CHATD_ICE_PACKET_MAX_def CHATD_CHAT_TEXT_MAX_def

datatype chatd_phase_t =
    CHATD_PHASE_REGISTER
  | CHATD_PHASE_HELLO
  | CHATD_PHASE_AUTH_RESPONSE
  | CHATD_PHASE_ONLINE
  | CHATD_PHASE_FAILED

datatype chatd_session_state_t =
    CHATD_SESSION_IDLE
  | CHATD_SESSION_LOOKUP
  | CHATD_SESSION_REQUESTING
  | CHATD_SESSION_ICE_NEGOTIATING
  | CHATD_SESSION_ICE_CONNECTED
  | CHATD_SESSION_CRYPTO_HANDSHAKE
  | CHATD_SESSION_SECURE
  | CHATD_SESSION_CLOSING
  | CHATD_SESSION_CLOSED
  | CHATD_SESSION_FAILED

record 's chatd_state_t =
  cd_identity :: chat_identity_t
  cd_control_wsi :: "nat option"
  cd_phase :: chatd_phase_t
  cd_session_state :: chatd_session_state_t
  cd_challenge :: bytes
  cd_has_challenge :: bool
  cd_connected :: bool
  cd_should_reconnect :: bool
  cd_next_reconnect_at :: nat
  cd_ipc_fd :: int
  cd_pending_ipc_client_fd :: int
  cd_pending_ipc_deadline_at :: nat
  cd_lookup_client_fd :: int
  cd_lookup_peer :: string
  cd_chat_retry_count :: nat
  cd_ice_peer :: string
  cd_ice_session_id :: string
  cd_ice_config :: chat_ice_config_t
  cd_ice :: chat_ice_session_t
  cd_ice_active :: bool
  cd_ice_controlling :: bool
  cd_ice_local_sdp_sent :: bool
  cd_ice_cli_notified :: bool
  cd_ice_selected_pair_is_relayed :: bool
  cd_ice_deadline_at :: nat
  cd_pending_remote_ice_sdp :: string
  cd_has_pending_remote_ice_sdp :: bool
  cd_remote_identity_pk :: bytes
  cd_has_remote_identity_pk :: bool
  cd_crypto_role :: chat_crypto_role_t
  cd_crypto_handshake :: chat_crypto_handshake_t
  cd_crypto_keys :: chat_crypto_session_keys_t
  cd_crypto_stream :: "'s chat_crypto_secretstream_t"
  cd_crypto_local_handshake_message :: bytes
  cd_crypto_local_stream_header :: bytes
  cd_crypto_deadline_at :: nat
  cd_crypto_handshake_sent :: bool
  cd_crypto_next_handshake_at :: nat
  cd_crypto_keys_ready :: bool
  cd_crypto_stream_header_sent :: bool
  cd_crypto_next_stream_header_at :: nat
  cd_crypto_stream_header_received :: bool
  cd_encrypted_session_ready :: bool
  cd_pending :: string
  cd_pending_len :: nat
  cd_contacts_db :: contacts_file
  cd_ipc_out :: "(int \<times> string) list"
  cd_closed_fds :: "int list"
  cd_ice_out :: "bytes list"
  cd_control_out :: "string list"
  cd_nice_calls :: "nice_call list"

section \<open>The outside world during one call\<close>

text \<open>The places where the time is read.\<close>

datatype time_site =
    Time_ice_start
  | Time_handshake_sent
  | Time_header_sent
  | Time_crypto_service
  | Time_ice_service
  | Time_ice_connected
  | Time_reconnect
  | Time_loop
  | Time_ipc_accept
  | Time_ipc_poll

text \<open>What GLib delivers to the ICE session while it is polled.\<close>

datatype ice_event =
    Ice_gathering_done nat
  | Ice_state_changed nat nat nat nice_component_state
  | Ice_received "bytes option"

datatype read_result = Read_again | Read_error | Read_eof | Read_data string

record ('h, 's) denv =
  de_sod :: "('h, 's) sodium"
  de_nice :: nice
  de_contacts :: contacts_io
  de_time :: "time_site \<Rightarrow> nat"
  de_session_id :: bytes
  de_kx_seed :: bytes
  de_stream_seed :: bytes
  de_ipc_write :: "int \<Rightarrow> string \<Rightarrow> bool"
  de_ipc_read :: "int \<Rightarrow> read_result"
  de_ice_events :: "ice_event list"
  de_connect :: bool
  de_accept :: int
  de_poll_ready :: int
  de_poll_error :: bool
  de_poll_in :: bool

type_synonym ('h, 's) daemon_op = "('h, 's) denv \<Rightarrow> 's chatd_state_t \<Rightarrow> int \<times> 's chatd_state_t"

fun chatd_session_state_name :: "chatd_session_state_t \<Rightarrow> string" where
  "chatd_session_state_name CHATD_SESSION_IDLE = ''IDLE''"
| "chatd_session_state_name CHATD_SESSION_LOOKUP = ''LOOKUP''"
| "chatd_session_state_name CHATD_SESSION_REQUESTING = ''REQUESTING''"
| "chatd_session_state_name CHATD_SESSION_ICE_NEGOTIATING = ''ICE_NEGOTIATING''"
| "chatd_session_state_name CHATD_SESSION_ICE_CONNECTED = ''ICE_CONNECTED''"
| "chatd_session_state_name CHATD_SESSION_CRYPTO_HANDSHAKE = ''CRYPTO_HANDSHAKE''"
| "chatd_session_state_name CHATD_SESSION_SECURE = ''SECURE''"
| "chatd_session_state_name CHATD_SESSION_CLOSING = ''CLOSING''"
| "chatd_session_state_name CHATD_SESSION_CLOSED = ''CLOSED''"
| "chatd_session_state_name CHATD_SESSION_FAILED = ''FAILED''"

definition chatd_set_session_state ::
  "chatd_session_state_t \<Rightarrow> 's chatd_state_t \<Rightarrow> 's chatd_state_t" where
  "chatd_set_session_state next_state st =
     (if cd_session_state st = next_state then st else st\<lparr>cd_session_state := next_state\<rparr>)"

section \<open>Base64\<close>

definition base64_encode_sdp :: "('h, 's) sodium \<Rightarrow> string \<Rightarrow> nat \<Rightarrow> string option" where
  "base64_encode_sdp sod sdp out_size =
     (if out_size = 0 \<or> length sdp > CHATD_ICE_SDP_MAX \<or> base64_encoded_len (length sdp) > out_size then None
      else Some (sodium_bin2base64 sod (map byte_of_char sdp)))"

definition base64_decode_sdp :: "('h, 's) sodium \<Rightarrow> string \<Rightarrow> nat \<Rightarrow> string option" where
  "base64_decode_sdp sod encoded out_size =
     (if out_size = 0 then None
      else case sodium_base642bin sod (out_size - 1) encoded of
             None \<Rightarrow> None
           | Some bin \<Rightarrow> if length bin > 0 then Some (cstr (map char_of_byte bin)) else None)"

section \<open>Control messages\<close>

definition queue_json :: "string \<Rightarrow> 's chatd_state_t \<Rightarrow> int \<times> 's chatd_state_t" where
  "queue_json json st =
     (if length json \<ge> CHATD_MAX_JSON_SIZE then (-1, st\<lparr>cd_phase := CHATD_PHASE_FAILED\<rparr>)
      else if cd_pending_len st \<noteq> 0 then (-1, st)
      else (0, st\<lparr>cd_pending := json @ drop (length json) (cd_pending st), cd_pending_len := length json\<rparr>))"

definition has_pending_control_message :: "'s chatd_state_t \<Rightarrow> bool" where
  "has_pending_control_message st \<longleftrightarrow> cd_pending_len st \<noteq> 0"

text \<open>A message printed into a buffer of the given size and queued.\<close>

definition queue_printed :: "nat \<Rightarrow> string \<Rightarrow> 's chatd_state_t \<Rightarrow> int \<times> 's chatd_state_t" where
  "queue_printed sz json st = (if \<not> snprintf_fits sz json then (-1, st) else queue_json json st)"

definition queue_register :: "('h, 's) daemon_op" where
  "queue_register env st =
     queue_printed 512
       (json_object [(''type'', JStr ''register''), (''username'', JStr (id_username (cd_identity st))),
                     (''public_key'', JStr (sodium_bin2hex (de_sod env) (id_public_key (cd_identity st))))]) st"

definition queue_hello :: "('h, 's) daemon_op" where
  "queue_hello env st =
     queue_printed 128
       (json_object [(''type'', JStr ''hello''), (''username'', JStr (id_username (cd_identity st)))]) st"

definition queue_auth_response :: "('h, 's) daemon_op" where
  "queue_auth_response env st =
     (case crypto_sign_detached (de_sod env) (cd_challenge st) (id_secret_key (cd_identity st)) of
        None \<Rightarrow> (-1, st)
      | Some signature \<Rightarrow>
          queue_printed 256
            (json_object [(''type'', JStr ''auth_response''),
                          (''signature'', JStr (sodium_bin2hex (de_sod env) signature))]) st)"

definition queue_chat_accept :: "string \<Rightarrow> string \<Rightarrow> ('h, 's) daemon_op" where
  "queue_chat_accept peer session_id env st =
     queue_printed 512
       (json_object [(''type'', JStr ''chat_accept''), (''from'', JStr (id_username (cd_identity st))),
                     (''to'', JStr peer), (''session_id'', JStr session_id),
                     (''public_key'', JStr (sodium_bin2hex (de_sod env) (id_public_key (cd_identity st))))]) st"

text \<open>Both callers pass \<open>state->ice_session_id\<close> as the buffer for the new session id.\<close>

definition queue_chat_request :: "string \<Rightarrow> ('h, 's) daemon_op" where
  "queue_chat_request peer env st =
     (let session_id = sodium_bin2hex (de_sod env) (de_session_id env);
          st' = st\<lparr>cd_ice_session_id := session_id\<rparr>
      in queue_printed 512
           (json_object [(''type'', JStr ''chat_request''), (''from'', JStr (id_username (cd_identity st))),
                         (''to'', JStr peer), (''session_id'', JStr session_id),
                         (''public_key'', JStr (sodium_bin2hex (de_sod env) (id_public_key (cd_identity st))))]) st')"

definition queue_chat_cancel :: "string \<Rightarrow> string \<Rightarrow> ('h, 's) daemon_op" where
  "queue_chat_cancel peer session_id env st =
     queue_printed 384
       (json_object [(''type'', JStr ''chat_cancel''), (''from'', JStr (id_username (cd_identity st))),
                     (''to'', JStr peer), (''session_id'', JStr session_id)]) st"

section \<open>Lines to the client\<close>

text \<open>What one \<open>write\<close> call did. \<open>write_ipc_loop\<close> is the loop of \<open>write_ipc_line\<close> over the
  outcomes of its calls, with the text that reached the client; it is \<open>None\<close> while the loop
  has not ended.\<close>

datatype write_outcome = Written nat | Write_eintr | Write_eagain | Write_failed

fun write_ipc_loop :: "write_outcome list \<Rightarrow> string \<Rightarrow> (int \<times> string) option" where
  "write_ipc_loop outcomes [] = Some (0, [])"
| "write_ipc_loop [] (c # cs) = None"
| "write_ipc_loop (Write_eintr # outcomes) (c # cs) = write_ipc_loop outcomes (c # cs)"
| "write_ipc_loop (Write_eagain # outcomes) (c # cs) = write_ipc_loop outcomes (c # cs)"
| "write_ipc_loop (Write_failed # outcomes) (c # cs) = Some (-1, [])"
| "write_ipc_loop (Written 0 # outcomes) (c # cs) = Some (-1, [])"
| "write_ipc_loop (Written (Suc n) # outcomes) (c # cs) =
     map_option (\<lambda>(rc, out). (rc, take (Suc n) (c # cs) @ out)) (write_ipc_loop outcomes (drop (Suc n) (c # cs)))"

text \<open>In the daemon, \<open>de_ipc_write\<close> tells whether the loop for this line ends with success; the
  line is recorded when it does.\<close>

definition write_ipc_line :: "int \<Rightarrow> string \<Rightarrow> ('h, 's) daemon_op" where
  "write_ipc_line fd line env st =
     (if fd < 0 then (-1, st)
      else if \<not> de_ipc_write env fd line then (-1, st)
      else (0, st\<lparr>cd_ipc_out := cd_ipc_out st @ [(fd, line)]\<rparr>))"

definition close_lookup_client :: "'s chatd_state_t \<Rightarrow> 's chatd_state_t" where
  "close_lookup_client st =
     (let st1 = (if cd_lookup_client_fd st \<ge> 0
                 then st\<lparr>cd_closed_fds := cd_closed_fds st @ [cd_lookup_client_fd st], cd_lookup_client_fd := -1\<rparr>
                 else st)
      in st1\<lparr>cd_lookup_peer := [], cd_chat_retry_count := 0\<rparr>)"

definition write_lookup_response :: "string \<Rightarrow> string \<Rightarrow> ('h, 's) denv \<Rightarrow> 's chatd_state_t \<Rightarrow> 's chatd_state_t" where
  "write_lookup_response prefix_word username env st =
     (if cd_lookup_client_fd st < 0 then st
      else
        (let response = prefix_word @ '' '' @ username @ [newline];
             st1 = (if snprintf_fits CHAT_IPC_MAX_RESPONSE response
                    then snd (write_ipc_line (cd_lookup_client_fd st) response env st) else st)
         in close_lookup_client st1))"

end
