(* ===== verification/Daemon_Session.thy ===== *)
theory Daemon_Session
  imports Daemon_State
begin

text \<open>
  \<open>daemon/main.c\<close>, second part: the chat session with a peer, from ICE over the key exchange
  to the encrypted stream. A function that returns \<open>void\<close> in C is a state transformer here.
\<close>

section \<open>Starting, failing and retrying\<close>

definition reset_ice_session :: "('h, 's) denv \<Rightarrow> 's chatd_state_t \<Rightarrow> 's chatd_state_t" where
  "reset_ice_session env st =
     (let (ice, calls) = chat_ice_session_close (cd_ice st) in
      st\<lparr>cd_ice := ice, cd_nice_calls := cd_nice_calls st @ calls,
         cd_crypto_handshake := chat_crypto_handshake_wipe,
         cd_crypto_keys := chat_crypto_session_keys_wipe,
         cd_crypto_stream := chat_crypto_secretstream_wipe (de_sod env),
         cd_ice_active := False, cd_ice_controlling := False, cd_ice_local_sdp_sent := False,
         cd_ice_cli_notified := False, cd_ice_selected_pair_is_relayed := False,
         cd_ice_peer := [], cd_ice_session_id := [], cd_ice_deadline_at := 0,
         cd_pending_remote_ice_sdp := [], cd_has_pending_remote_ice_sdp := False,
         cd_remote_identity_pk := replicate crypto_sign_PUBLICKEYBYTES 0,
         cd_crypto_local_handshake_message := replicate CHAT_CRYPTO_KX_MESSAGE_BYTES 0,
         cd_crypto_local_stream_header := replicate CHAT_CRYPTO_STREAM_HEADER_BYTES 0,
         cd_has_remote_identity_pk := False, cd_crypto_role := 0, cd_crypto_deadline_at := 0,
         cd_crypto_handshake_sent := False, cd_crypto_next_handshake_at := 0, cd_crypto_keys_ready := False,
         cd_crypto_stream_header_sent := False, cd_crypto_next_stream_header_at := 0,
         cd_crypto_stream_header_received := False, cd_encrypted_session_ready := False\<rparr>)"

definition retry_outgoing_chat_session :: "('h, 's) daemon_op" where
  "retry_outgoing_chat_session env st =
     (if cd_lookup_client_fd st < 0 \<or> cd_lookup_peer st = [] \<or> cd_control_wsi st = None
         \<or> cd_encrypted_session_ready st \<or> cd_chat_retry_count st \<ge> CHATD_ICE_RETRY_MAX
      then (-1, st)
      else if \<not> snprintf_fits (CHAT_USERNAME_MAX_LEN + 1) (cd_lookup_peer st) then (-1, st)
      else
        (let peer = cd_lookup_peer st;
             st1 = st\<lparr>cd_chat_retry_count := cd_chat_retry_count st + 1\<rparr>;
             st2 = chatd_set_session_state CHATD_SESSION_REQUESTING (reset_ice_session env st1);
             (rc, st3) = queue_chat_request peer env st2
         in if rc \<noteq> 0 then (0, write_lookup_response ''ERROR'' ''chat_retry_failed'' env st3)
            else (0, st3)))"

definition fail_chat_session :: "('h, 's) denv \<Rightarrow> 's chatd_state_t \<Rightarrow> 's chatd_state_t" where
  "fail_chat_session env st =
     (let (rc, st0) = retry_outgoing_chat_session env st in
      if rc = 0 then st0
      else
        (let st1 = chatd_set_session_state CHATD_SESSION_FAILED st0;
             st2 =
               (if cd_lookup_client_fd st1 \<ge> 0 then
                  if cd_encrypted_session_ready st1 then
                    close_lookup_client
                      (snd (write_ipc_line (cd_lookup_client_fd st1) (''ERROR session_failed'' @ [newline]) env st1))
                  else if cd_ice_peer st1 \<noteq> [] then write_lookup_response ''ICE_FAILED'' (cd_ice_peer st1) env st1
                  else if cd_lookup_peer st1 \<noteq> [] then write_lookup_response ''ICE_FAILED'' (cd_lookup_peer st1) env st1
                  else
                    close_lookup_client
                      (snd (write_ipc_line (cd_lookup_client_fd st1) (''ERROR session_failed'' @ [newline]) env st1))
                else st1)
         in reset_ice_session env st2))"

definition begin_ice_session ::
  "string \<Rightarrow> string \<Rightarrow> bool \<Rightarrow> bytes \<Rightarrow> ('h, 's) daemon_op" where
  "begin_ice_session peer session_id controlling remote_identity_pk env st =
     (let st1 = chatd_set_session_state CHATD_SESSION_ICE_NEGOTIATING (reset_ice_session env st);
          st2 = st1\<lparr>cd_ice_peer := snprintf_store (CHAT_USERNAME_MAX_LEN + 1) peer\<rparr>
      in
      if \<not> snprintf_fits (CHAT_USERNAME_MAX_LEN + 1) peer then (-1, fail_chat_session env st2)
      else
        (let st3 = st2\<lparr>cd_ice_session_id := snprintf_store CHATD_SESSION_ID_HEX_LEN session_id\<rparr> in
         if \<not> snprintf_fits CHATD_SESSION_ID_HEX_LEN session_id then (-1, fail_chat_session env st3)
         else
           (let (result, ice, calls) = chat_ice_session_start (de_nice env) controlling (Some (cd_ice_config st3)) (cd_ice st3);
                st4 = st3\<lparr>cd_remote_identity_pk := remote_identity_pk, cd_has_remote_identity_pk := True,
                          cd_crypto_role := (if controlling then CHAT_CRYPTO_ROLE_INITIATOR else CHAT_CRYPTO_ROLE_RESPONDER),
                          cd_ice_controlling := controlling,
                          cd_crypto_stream := chat_crypto_secretstream_init (de_sod env),
                          cd_ice := ice, cd_nice_calls := cd_nice_calls st3 @ calls\<rparr>
            in if result \<noteq> CHAT_ICE_OK then (-1, fail_chat_session env st4)
               else (0, st4\<lparr>cd_ice_active := True,
                            cd_ice_deadline_at := de_time env Time_ice_start + CHATD_ICE_TIMEOUT_SECONDS\<rparr>))))"

section \<open>Session descriptions\<close>

definition apply_remote_ice_sdp :: "string \<Rightarrow> ('h, 's) daemon_op" where
  "apply_remote_ice_sdp sdp env st =
     (let (result, ice) = chat_ice_session_set_remote_sdp (de_nice env) (Some sdp) (cd_ice st) in
      if result \<noteq> CHAT_ICE_OK then (-1, st\<lparr>cd_ice := ice\<lparr>is_failed := True\<rparr>\<rparr>)
      else (0, st\<lparr>cd_ice := ice\<rparr>))"

definition queue_local_ice_sdp :: "('h, 's) daemon_op" where
  "queue_local_ice_sdp env st =
     (case chat_ice_session_generate_local_sdp (de_nice env) (cd_ice st) of
        (result, Some sdp) \<Rightarrow>
          if result \<noteq> CHAT_ICE_OK then (-1, st)
          else
            (case base64_encode_sdp (de_sod env) sdp (base64_encoded_len CHATD_ICE_SDP_MAX) of
               None \<Rightarrow> (-1, st)
             | Some encoded \<Rightarrow>
                 (let json = json_object [(''type'', JStr ''ice_credentials''),
                         (''from'', JStr (id_username (cd_identity st))), (''to'', JStr (cd_ice_peer st)),
                         (''session_id'', JStr (cd_ice_session_id st)), (''sdp'', JStr encoded)];
                      (rc, st1) = queue_printed CHATD_MAX_JSON_SIZE json st
                  in if rc \<noteq> 0 then (-1, st1) else (0, st1\<lparr>cd_ice_local_sdp_sent := True\<rparr>)))
      | (result, None) \<Rightarrow> (-1, st))"

definition handle_ice_credentials :: "string \<Rightarrow> ('h, 's) daemon_op" where
  "handle_ice_credentials json env st =
     (if \<not> cd_ice_active st then (0, st)
      else
        (case (json_get_string json ''from'' (CHAT_USERNAME_MAX_LEN + 1),
               json_get_string json ''to'' (CHAT_USERNAME_MAX_LEN + 1),
               json_get_string json ''session_id'' CHATD_SESSION_ID_HEX_LEN,
               json_get_string json ''sdp'' (base64_encoded_len CHATD_ICE_SDP_MAX)) of
           (Some from, Some to_name, Some session_id, Some encoded) \<Rightarrow>
             if from \<noteq> cd_ice_peer st \<or> to_name \<noteq> id_username (cd_identity st)
                \<or> session_id \<noteq> cd_ice_session_id st then (0, st)
             else
               (case base64_decode_sdp (de_sod env) encoded (CHATD_ICE_SDP_MAX + 1) of
                  None \<Rightarrow> (0, st)
                | Some sdp \<Rightarrow>
                    if \<not> is_gathering_done (cd_ice st) then
                      if \<not> snprintf_fits (CHATD_ICE_SDP_MAX + 1) sdp
                      then (-1, st\<lparr>cd_pending_remote_ice_sdp := snprintf_store (CHATD_ICE_SDP_MAX + 1) sdp,
                                   cd_ice := (cd_ice st)\<lparr>is_failed := True\<rparr>\<rparr>)
                      else (0, st\<lparr>cd_pending_remote_ice_sdp := sdp, cd_has_pending_remote_ice_sdp := True\<rparr>)
                    else apply_remote_ice_sdp sdp env st)
         | _ \<Rightarrow> (0, st)))"

section \<open>Packets\<close>

definition send_ice_packet :: "chat_packet_type_t \<Rightarrow> bytes \<Rightarrow> ('h, 's) daemon_op" where
  "send_ice_packet type payload env st =
     (if length payload > CHAT_MAX_MESSAGE_SIZE \<or> CHAT_PACKET_HEADER_SIZE + length payload > CHATD_ICE_PACKET_MAX
      then (-1, st)
      else case chat_packet_encode_header type (word_of_nat (length payload))
                  (Some (replicate CHAT_PACKET_HEADER_SIZE 0)) of
             (result, None) \<Rightarrow> (-1, st)
           | (result, Some header) \<Rightarrow>
               (let packet = header @ payload in
                if result \<noteq> CHAT_PROTOCOL_OK then (-1, st)
                else if chat_ice_send (de_nice env) (Some packet) (cd_ice st) \<noteq> CHAT_ICE_OK then (-1, st)
                else (0, st\<lparr>cd_ice_out := cd_ice_out st @ [packet]\<rparr>)))"

definition chat_text_is_valid :: "string \<Rightarrow> bool" where
  "chat_text_is_valid chat_text \<longleftrightarrow>
     length chat_text \<noteq> 0 \<and> length chat_text \<le> CHATD_CHAT_TEXT_MAX
     \<and> (\<forall>c \<in> set chat_text. c \<noteq> nul \<and> c \<noteq> CHR 0x0D \<and> c \<noteq> newline)"

definition send_encrypted_chat_payload ::
  "chat_packet_type_t \<Rightarrow> bytes \<Rightarrow> bool \<Rightarrow> ('h, 's) daemon_op" where
  "send_encrypted_chat_payload type plaintext final env st =
     (if \<not> cd_encrypted_session_ready st
         \<or> (cd_session_state st \<noteq> CHATD_SESSION_SECURE \<and> cd_session_state st \<noteq> CHATD_SESSION_CLOSING)
         \<or> length plaintext + CHAT_CRYPTO_STREAM_ABYTES > CHAT_MAX_MESSAGE_SIZE
      then (-1, st)
      else
        (let (result, stream, ciphertext) =
               chat_crypto_secretstream_encrypt (de_sod env) (cd_crypto_stream st) plaintext final CHAT_MAX_MESSAGE_SIZE;
             st1 = st\<lparr>cd_crypto_stream := stream\<rparr>
         in if result \<noteq> CHAT_CRYPTO_OK then (-1, st1) else send_ice_packet type ciphertext env st1))"

definition send_encrypted_chat_message :: "string \<Rightarrow> ('h, 's) daemon_op" where
  "send_encrypted_chat_message chat_text env st =
     (if \<not> chat_text_is_valid chat_text then (-1, st)
      else send_encrypted_chat_payload CHAT_PKT_MESSAGE (map byte_of_char chat_text) False env st)"

definition send_encrypted_chat_close :: "('h, 's) daemon_op" where
  "send_encrypted_chat_close env st =
     send_encrypted_chat_payload CHAT_PKT_CLOSE [] True env (chatd_set_session_state CHATD_SESSION_CLOSING st)"

text \<open>The text shown to the client: line breaks and zero bytes become blanks.\<close>

definition cli_char :: "byte \<Rightarrow> char" where
  "cli_char b = (let c = char_of_byte b in if c = CHR 0x0D \<or> c = newline \<or> c = nul then CHR '' '' else c)"

definition write_chat_message_to_cli :: "bytes \<Rightarrow> ('h, 's) daemon_op" where
  "write_chat_message_to_cli plaintext env st =
     (if cd_lookup_client_fd st < 0 then (0, st)
      else if length plaintext + (length ''MESSAGE '' + length (cd_ice_peer st) + 1) + 2 > CHAT_IPC_MAX_RESPONSE
        then (-1, st)
      else if \<not> snprintf_fits CHAT_IPC_MAX_RESPONSE (''MESSAGE '' @ cd_ice_peer st @ '' '') then (-1, st)
      else write_ipc_line (cd_lookup_client_fd st)
             (''MESSAGE '' @ cd_ice_peer st @ '' '' @ map cli_char plaintext @ [newline]) env st)"

definition decrypt_chat_payload :: "chat_packet_type_t \<Rightarrow> bytes \<Rightarrow> ('h, 's) daemon_op" where
  "decrypt_chat_payload type payload env st =
     (let (result, stream, plaintext, tag) =
            chat_crypto_secretstream_decrypt (de_sod env) (cd_crypto_stream st) payload CHAT_MAX_MESSAGE_SIZE;
          st1 = st\<lparr>cd_crypto_stream := stream\<rparr>
      in
      if result \<noteq> CHAT_CRYPTO_OK then (-1, st1)
      else if type = CHAT_PKT_MESSAGE then
        if tag \<noteq> secretstream_TAG_MESSAGE then (-1, st1)
        else write_chat_message_to_cli plaintext env st1
      else if type = CHAT_PKT_CLOSE then
        if tag \<noteq> secretstream_TAG_FINAL then (-1, st1)
        else
          (let st2 = chatd_set_session_state CHATD_SESSION_CLOSING st1;
               response = ''CHAT_CLOSED '' @ cd_ice_peer st2 @ [newline];
               st3 = (if cd_lookup_client_fd st2 \<ge> 0 then
                        close_lookup_client
                          (if snprintf_fits CHAT_IPC_MAX_RESPONSE response
                           then snd (write_ipc_line (cd_lookup_client_fd st2) response env st2) else st2)
                      else st2)
           in (0, chatd_set_session_state CHATD_SESSION_CLOSED (reset_ice_session env st3)))
      else (-1, st1))"

section \<open>The key exchange\<close>

definition start_crypto_handshake :: "('h, 's) daemon_op" where
  "start_crypto_handshake env st =
     (let st1 = chatd_set_session_state CHATD_SESSION_CRYPTO_HANDSHAKE st;
          (result, st2) =
            (if \<not> cd_crypto_handshake_sent st1 then
               (let (result, hs, msg) =
                      chat_crypto_handshake_init (de_sod env) (de_kx_seed env) (cd_crypto_handshake st1)
                        (Some (cd_identity st1)) (Some (cd_remote_identity_pk st1)) (cd_crypto_role st1)
                        (Some (map byte_of_char (cd_ice_session_id st1)))
                in (result, st1\<lparr>cd_crypto_handshake := hs,
                                cd_crypto_local_handshake_message :=
                                  (case msg of None \<Rightarrow> cd_crypto_local_handshake_message st1 | Some m \<Rightarrow> m)\<rparr>))
             else (CHAT_CRYPTO_OK, st1))
      in
      if result \<noteq> CHAT_CRYPTO_OK then (-1, st2)
      else
        (let (rc, st3) = send_ice_packet CHAT_PKT_HANDSHAKE (cd_crypto_local_handshake_message st2) env st2 in
         if rc \<noteq> 0 then (-1, st3)
         else (0, st3\<lparr>cd_crypto_next_handshake_at := de_time env Time_handshake_sent + 1,
                      cd_crypto_handshake_sent := True\<rparr>)))"

definition finish_crypto_handshake :: "bytes \<Rightarrow> ('h, 's) daemon_op" where
  "finish_crypto_handshake payload env st =
     (let (result, hs, keys) =
            chat_crypto_handshake_finish (de_sod env) (cd_crypto_handshake st) (Some payload) (cd_crypto_keys st);
          st1 = st\<lparr>cd_crypto_handshake := hs, cd_crypto_keys := keys\<rparr>
      in if result \<noteq> CHAT_CRYPTO_OK then (-1, st1) else (0, st1\<lparr>cd_crypto_keys_ready := True\<rparr>))"

definition send_stream_header :: "('h, 's) daemon_op" where
  "send_stream_header env st =
     (let (result, st1) =
            (if \<not> cd_crypto_stream_header_sent st then
               (let (result, stream, header) =
                      chat_crypto_secretstream_init_push (de_sod env) (de_stream_seed env) (cd_crypto_stream st)
                        (ck_tx (cd_crypto_keys st))
                in (result, st\<lparr>cd_crypto_stream := stream,
                               cd_crypto_local_stream_header :=
                                 (case header of None \<Rightarrow> cd_crypto_local_stream_header st | Some h \<Rightarrow> h)\<rparr>))
             else (CHAT_CRYPTO_OK, st))
      in
      if result \<noteq> CHAT_CRYPTO_OK then (-1, st1)
      else
        (let (rc, st2) = send_ice_packet CHAT_PKT_STREAM_HEADER (cd_crypto_local_stream_header st1) env st1 in
         if rc \<noteq> 0 then (-1, st2)
         else (0, st2\<lparr>cd_crypto_next_stream_header_at := de_time env Time_header_sent + 1,
                      cd_crypto_stream_header_sent := True\<rparr>)))"

definition receive_stream_header :: "bytes \<Rightarrow> ('h, 's) daemon_op" where
  "receive_stream_header payload env st =
     (let (result, stream) =
            chat_crypto_secretstream_init_pull (de_sod env) (cd_crypto_stream st) (ck_rx (cd_crypto_keys st)) payload;
          st1 = st\<lparr>cd_crypto_stream := stream\<rparr>
      in if result \<noteq> CHAT_CRYPTO_OK then (-1, st1)
         else (0, st1\<lparr>cd_crypto_stream_header_received := True\<rparr>))"

definition handle_ice_app_packet :: "bytes \<Rightarrow> ('h, 's) daemon_op" where
  "handle_ice_app_packet packet env st =
     (case chat_packet_decode_header (Some packet) (Some \<lparr>hdr_version = 0, hdr_type = 0, hdr_length = 0\<rparr>) of
        (result, None) \<Rightarrow> (-1, st)
      | (result, Some header) \<Rightarrow>
          if result \<noteq> CHAT_PROTOCOL_OK then (-1, st)
          else if length packet \<noteq> CHAT_PACKET_HEADER_SIZE + unat (hdr_length header) then (-1, st)
          else
            (let payload = drop CHAT_PACKET_HEADER_SIZE packet in
             if hdr_type header = CHAT_PKT_HANDSHAKE then
               if cd_session_state st \<noteq> CHATD_SESSION_ICE_CONNECTED
                  \<and> cd_session_state st \<noteq> CHATD_SESSION_CRYPTO_HANDSHAKE
                  \<and> \<not> (cd_session_state st = CHATD_SESSION_SECURE \<and> cd_crypto_keys_ready st) then (-1, st)
               else if unat (hdr_length header) \<noteq> CHAT_CRYPTO_KX_MESSAGE_BYTES then (-1, st)
               else if cd_crypto_keys_ready st then (0, st)
               else finish_crypto_handshake payload env st
             else if hdr_type header = CHAT_PKT_STREAM_HEADER then
               if cd_session_state st \<noteq> CHATD_SESSION_CRYPTO_HANDSHAKE
                  \<and> \<not> (cd_session_state st = CHATD_SESSION_SECURE \<and> cd_crypto_stream_header_received st) then (-1, st)
               else if unat (hdr_length header) \<noteq> CHAT_CRYPTO_STREAM_HEADER_BYTES then (-1, st)
               else if \<not> cd_crypto_keys_ready st then (0, st)
               else if cd_crypto_stream_header_received st then (0, st)
               else receive_stream_header payload env st
             else if hdr_type header = CHAT_PKT_MESSAGE \<or> hdr_type header = CHAT_PKT_CLOSE then
               if cd_session_state st \<noteq> CHATD_SESSION_SECURE \<or> \<not> cd_encrypted_session_ready st
                  \<or> unat (hdr_length header) < CHAT_CRYPTO_STREAM_ABYTES then (-1, st)
               else decrypt_chat_payload (hdr_type header) payload env st
             else (-1, st)))"

definition process_received_ice_packet :: "('h, 's) daemon_op" where
  "process_received_ice_packet env st =
     (let (result, packet, ice) = chat_ice_take_received CHATD_ICE_PACKET_MAX (cd_ice st);
          st1 = st\<lparr>cd_ice := ice\<rparr>
      in if result \<noteq> CHAT_ICE_OK then (-1, st1)
         else if packet = [] then (0, st1)
         else handle_ice_app_packet packet env st1)"

end
