(* ===== verification/Daemon_Control.thy ===== *)
theory Daemon_Control
  imports Daemon_Session
begin

text \<open>
  \<open>daemon/main.c\<close>, third part: the periodic service of the chat session, the messages from
  the control server and the websocket callback.
\<close>

section \<open>Servicing the session\<close>

text \<open>The loop over the receive ring of an established session.\<close>

fun drain_secure :: "nat \<Rightarrow> ('h, 's) denv \<Rightarrow> 's chatd_state_t \<Rightarrow> 's chatd_state_t" where
  "drain_secure 0 env st = st"
| "drain_secure (Suc n) env st =
     (let (rc, st1) = process_received_ice_packet env st in
      if rc \<noteq> 0 then if cd_ice_active st1 then fail_chat_session env st1 else st1
      else drain_secure n env st1)"

definition announce_secure :: "('h, 's) denv \<Rightarrow> 's chatd_state_t \<Rightarrow> 's chatd_state_t" where
  "announce_secure env st =
     (let response = ''ENCRYPTED_SESSION '' @ cd_ice_peer st @ '' ''
            @ (if cd_ice_selected_pair_is_relayed st then ''relay'' else ''direct'') @ [newline]
      in if cd_lookup_client_fd st \<ge> 0 \<and> snprintf_fits CHAT_IPC_MAX_RESPONSE response
         then snd (write_ipc_line (cd_lookup_client_fd st) response env st) else st)"

text \<open>The end of \<open>service_crypto_session\<close>: the session becomes secure once the keys are
  derived and both stream headers were exchanged.\<close>

definition become_secure :: "('h, 's) denv \<Rightarrow> 's chatd_state_t \<Rightarrow> 's chatd_state_t" where
  "become_secure env st =
     (if cd_crypto_keys_ready st \<and> cd_crypto_stream_header_sent st \<and> cd_crypto_stream_header_received st
      then announce_secure env
             (chatd_set_session_state CHATD_SESSION_SECURE (st\<lparr>cd_encrypted_session_ready := True\<rparr>))
      else st)"

definition service_crypto_session :: "('h, 's) denv \<Rightarrow> 's chatd_state_t \<Rightarrow> 's chatd_state_t" where
  "service_crypto_session env st =
     (if \<not> is_ready (cd_ice st) then st
      else if cd_encrypted_session_ready st then drain_secure CHAT_ICE_RECV_QUEUE_CAPACITY env st
      else
        (let now = de_time env Time_crypto_service in
         if \<not> cd_has_remote_identity_pk st then fail_chat_session env st
         else if cd_crypto_deadline_at st \<noteq> 0 \<and> now \<ge> cd_crypto_deadline_at st then fail_chat_session env st
         else
           (let (rc1, st1) =
                  (if \<not> cd_crypto_handshake_sent st
                      \<or> (\<not> cd_crypto_stream_header_received st \<and> now \<ge> cd_crypto_next_handshake_at st)
                   then start_crypto_handshake env st else (0, st))
            in if rc1 \<noteq> 0 then fail_chat_session env st1
            else
              (let (rc2, st2) = process_received_ice_packet env st1 in
               if rc2 \<noteq> 0 then fail_chat_session env st2
               else
                 (let (rc3, st3) =
                        (if cd_crypto_keys_ready st2
                            \<and> (\<not> cd_crypto_stream_header_sent st2
                               \<or> (\<not> cd_encrypted_session_ready st2 \<and> now \<ge> cd_crypto_next_stream_header_at st2))
                         then send_stream_header env st2 else (0, st2))
                  in if rc3 \<noteq> 0 then fail_chat_session env st3
                  else
                    (let (rc4, st4) = process_received_ice_packet env st3 in
                     if rc4 \<noteq> 0 then fail_chat_session env st4 else become_secure env st4))))))"

fun ice_event_step :: "nice \<Rightarrow> chat_ice_session_t \<Rightarrow> ice_event \<Rightarrow> chat_ice_session_t" where
  "ice_event_step nice ice (Ice_gathering_done stream_id) = on_candidate_gathering_done stream_id ice"
| "ice_event_step nice ice (Ice_state_changed agent stream_id component_id state) =
     on_component_state_changed nice agent stream_id component_id state ice"
| "ice_event_step nice ice (Ice_received buf) = on_recv buf ice"

text \<open>\<open>chat_ice_poll\<close> runs the GLib callbacks that are due.\<close>

definition chat_ice_poll :: "('h, 's) denv \<Rightarrow> 's chatd_state_t \<Rightarrow> 's chatd_state_t" where
  "chat_ice_poll env st = st\<lparr>cd_ice := foldl (ice_event_step (de_nice env)) (cd_ice st) (de_ice_events env)\<rparr>"

definition note_ice_ready :: "('h, 's) denv \<Rightarrow> 's chatd_state_t \<Rightarrow> 's chatd_state_t" where
  "note_ice_ready env st =
     (if cd_ice_cli_notified st then st
      else chatd_set_session_state CHATD_SESSION_ICE_CONNECTED
             (st\<lparr>cd_ice_selected_pair_is_relayed :=
                   (case chat_ice_selected_pair_is_relayed (cd_ice st) of
                      None \<Rightarrow> cd_ice_selected_pair_is_relayed st | Some r \<Rightarrow> r),
                 cd_ice_cli_notified := True,
                 cd_crypto_deadline_at := de_time env Time_ice_connected + CHATD_CRYPTO_TIMEOUT_SECONDS\<rparr>))"

definition service_ice_session :: "('h, 's) denv \<Rightarrow> 's chatd_state_t \<Rightarrow> 's chatd_state_t" where
  "service_ice_session env st0 =
     (if \<not> cd_ice_active st0 then st0
      else
        (let st = chat_ice_poll env st0; now = de_time env Time_ice_service in
         if cd_crypto_deadline_at st \<noteq> 0 \<and> \<not> cd_encrypted_session_ready st \<and> now \<ge> cd_crypto_deadline_at st
         then fail_chat_session env st
         else
           (let (rc1, st1) =
                  (if is_gathering_done (cd_ice st) \<and> cd_has_pending_remote_ice_sdp st
                   then (let (rc, s) = apply_remote_ice_sdp (cd_pending_remote_ice_sdp st) env st in
                         if rc \<noteq> 0 then (rc, s)
                         else (0, s\<lparr>cd_pending_remote_ice_sdp := [], cd_has_pending_remote_ice_sdp := False\<rparr>))
                   else (0, st))
            in if rc1 \<noteq> 0 then fail_chat_session env st1
            else
              (let (rc2, st2) =
                     (if is_gathering_done (cd_ice st1) \<and> \<not> cd_ice_local_sdp_sent st1
                         \<and> cd_control_wsi st1 \<noteq> None \<and> \<not> has_pending_control_message st1
                      then queue_local_ice_sdp env st1 else (0, st1))
               in if rc2 \<noteq> 0 \<and> cd_pending_len st2 = 0 then fail_chat_session env st2
               else if is_failed (cd_ice st2) then fail_chat_session env st2
               else if is_ready (cd_ice st2) then service_crypto_session env (note_ice_ready env st2)
               else if now \<ge> cd_ice_deadline_at st2 then fail_chat_session env st2
               else st2))))"

section \<open>Messages from the control server\<close>

definition handle_chat_request :: "string \<Rightarrow> ('h, 's) daemon_op" where
  "handle_chat_request json env st =
     (case (json_get_string json ''from'' (CHAT_USERNAME_MAX_LEN + 1),
            json_get_string json ''to'' (CHAT_USERNAME_MAX_LEN + 1),
            json_get_string json ''session_id'' CHATD_SESSION_ID_HEX_LEN,
            json_get_string json ''public_key'' CHATD_HEX_PUBLIC_KEY_LEN) of
        (Some from, Some to_name, Some session_id, Some public_key_hex) \<Rightarrow>
          if to_name \<noteq> id_username (cd_identity st) \<or> \<not> valid_username from \<or> session_id = [] then (0, st)
          else
            (case hex_to_bin (de_sod env) public_key_hex crypto_sign_PUBLICKEYBYTES of
               None \<Rightarrow> (0, st)
             | Some remote_identity_pk \<Rightarrow>
                 (let (contact_result, is_new, contacts) =
                        chat_contacts_verify_or_pin (de_sod env) (de_contacts env) (Some from)
                          (Some remote_identity_pk) (cd_contacts_db st);
                      st1 = st\<lparr>cd_contacts_db := contacts\<rparr>
                  in if contact_result \<noteq> CHAT_CONTACTS_OK then (0, st1)
                  else
                    (let st2 = chatd_set_session_state CHATD_SESSION_REQUESTING st1;
                         (rc, st3) = queue_chat_accept from session_id env st2
                     in if rc \<noteq> 0 then (rc, st3)
                        else (0, snd (begin_ice_session from session_id False remote_identity_pk env st3)))))
      | _ \<Rightarrow> (0, st))"

definition handle_user_status :: "string \<Rightarrow> ('h, 's) daemon_op" where
  "handle_user_status json env st =
     (if cd_lookup_client_fd st < 0 then (0, st)
      else case json_get_string json ''username'' (CHAT_USERNAME_MAX_LEN + 1) of
             None \<Rightarrow> (0, st)
           | Some username \<Rightarrow>
               if username \<noteq> cd_lookup_peer st then (0, st)
               else if \<not> json_bool_is_true json ''known'' \<or> \<not> json_bool_is_true json ''online''
                 then (0, write_lookup_response ''USER_OFFLINE'' username env st)
               else (0, write_lookup_response ''USER_ONLINE'' username env st))"

text \<open>The branch of \<open>handle_receive\<close> for \<open>chat_accept\<close>.\<close>

definition handle_chat_accept :: "string \<Rightarrow> ('h, 's) daemon_op" where
  "handle_chat_accept json env st =
     (case (json_get_string json ''from'' (CHAT_USERNAME_MAX_LEN + 1),
            json_get_string json ''to'' (CHAT_USERNAME_MAX_LEN + 1),
            json_get_string json ''session_id'' CHATD_SESSION_ID_HEX_LEN,
            Option.bind (json_get_string json ''public_key'' CHATD_HEX_PUBLIC_KEY_LEN)
              (\<lambda>hex. hex_to_bin (de_sod env) hex crypto_sign_PUBLICKEYBYTES)) of
        (Some from, Some to_name, Some session_id, Some remote_identity_pk) \<Rightarrow>
          if cd_lookup_client_fd st < 0 \<or> from \<noteq> cd_lookup_peer st \<or> to_name \<noteq> id_username (cd_identity st)
             \<or> session_id \<noteq> cd_ice_session_id st then (0, st)
          else
            (let (contact_result, is_new, contacts) =
                   chat_contacts_verify_or_pin (de_sod env) (de_contacts env) (Some from)
                     (Some remote_identity_pk) (cd_contacts_db st);
                 st1 = st\<lparr>cd_contacts_db := contacts\<rparr>
             in if contact_result = CHAT_CONTACTS_ERR_MISMATCH then
                  (0, write_lookup_response ''IDENTITY_MISMATCH'' from env
                        (snd (queue_chat_cancel from session_id env st1)))
                else if contact_result \<noteq> CHAT_CONTACTS_OK then
                  (0, write_lookup_response ''ERROR'' ''contact_verification_failed'' env st1)
                else
                  (let (rc, st2) = begin_ice_session from session_id True remote_identity_pk env st1
                   in if rc \<noteq> 0 then (0, write_lookup_response ''ICE_FAILED'' from env st2) else (0, st2)))
      | _ \<Rightarrow> (0, st))"

text \<open>The branch of \<open>handle_receive\<close> for \<open>chat_cancel\<close>.\<close>

definition handle_chat_cancel :: "string \<Rightarrow> ('h, 's) daemon_op" where
  "handle_chat_cancel json env st =
     (case (json_get_string json ''from'' (CHAT_USERNAME_MAX_LEN + 1),
            json_get_string json ''to'' (CHAT_USERNAME_MAX_LEN + 1),
            json_get_string json ''session_id'' CHATD_SESSION_ID_HEX_LEN) of
        (Some from, Some to_name, Some session_id) \<Rightarrow>
          if cd_ice_active st \<and> from = cd_ice_peer st \<and> to_name = id_username (cd_identity st)
             \<and> session_id = cd_ice_session_id st
          then (0, chatd_set_session_state CHATD_SESSION_CLOSED (reset_ice_session env st))
          else (0, st)
      | _ \<Rightarrow> (0, st))"

text \<open>The branch of \<open>handle_receive\<close> for \<open>error\<close>.\<close>

definition handle_server_error :: "string \<Rightarrow> ('h, 's) daemon_op" where
  "handle_server_error json env st =
     (let code = (case json_get_string json ''code'' 128 of None \<Rightarrow> ''unknown'' | Some c \<Rightarrow> c) in
      if cd_phase st = CHATD_PHASE_REGISTER \<and> code = ''user already exists''
      then queue_hello env (st\<lparr>cd_phase := CHATD_PHASE_HELLO\<rparr>)
      else if cd_lookup_client_fd st \<ge> 0 \<and> code = ''peer_offline''
      then (0, write_lookup_response ''USER_OFFLINE'' (cd_lookup_peer st) env st)
      else
        (let st1 = (if cd_lookup_client_fd st \<ge> 0 then write_lookup_response ''ERROR'' code env st else st)
         in (-1, st1\<lparr>cd_phase := CHATD_PHASE_FAILED\<rparr>)))"

text \<open>The branch of \<open>handle_receive\<close> for \<open>auth_challenge\<close>. When decoding the challenge fails
  the phase becomes \<open>CHATD_PHASE_FAILED\<close> and the main loop ends, so what is left in the
  challenge buffer is not modelled.\<close>

definition handle_auth_challenge :: "string \<Rightarrow> ('h, 's) daemon_op" where
  "handle_auth_challenge json env st =
     (case Option.bind (json_get_string json ''challenge'' CHATD_HEX_CHALLENGE_LEN)
             (\<lambda>hex. hex_to_bin (de_sod env) hex CHATD_CHALLENGE_BYTES) of
        None \<Rightarrow> (-1, st\<lparr>cd_phase := CHATD_PHASE_FAILED\<rparr>)
      | Some challenge \<Rightarrow>
          queue_auth_response env
            (st\<lparr>cd_challenge := challenge, cd_has_challenge := True, cd_phase := CHATD_PHASE_AUTH_RESPONSE\<rparr>))"

definition handle_receive :: "string \<Rightarrow> ('h, 's) daemon_op" where
  "handle_receive json env st =
     (case json_get_string json ''type'' 32 of
        None \<Rightarrow> (0, st)
      | Some type \<Rightarrow>
          if type = ''error'' then handle_server_error json env st
          else if cd_phase st = CHATD_PHASE_REGISTER \<and> type = ''register_ok''
            then queue_hello env (st\<lparr>cd_phase := CHATD_PHASE_HELLO\<rparr>)
          else if cd_phase st = CHATD_PHASE_HELLO \<and> type = ''auth_challenge''
            then handle_auth_challenge json env st
          else if cd_phase st = CHATD_PHASE_AUTH_RESPONSE \<and> type = ''auth_ok''
            then (0, st\<lparr>cd_challenge := replicate CHATD_CHALLENGE_BYTES 0, cd_has_challenge := False,
                        cd_phase := CHATD_PHASE_ONLINE\<rparr>)
          else if type = ''user_status'' then handle_user_status json env st
          else if type = ''chat_request'' then handle_chat_request json env st
          else if type = ''chat_accept'' then handle_chat_accept json env st
          else if type = ''ice_credentials'' then handle_ice_credentials json env st
          else if type = ''chat_cancel'' then handle_chat_cancel json env st
          else (0, st))"

section \<open>The websocket callback\<close>

datatype client_callback =
    LWS_CALLBACK_CLIENT_ESTABLISHED nat
  | LWS_CALLBACK_CLIENT_RECEIVE string nat bool
  | LWS_CALLBACK_CLIENT_WRITEABLE int
  | LWS_CALLBACK_CLIENT_CONNECTION_ERROR
  | LWS_CALLBACK_CLIENT_CLOSED
  | LWS_CALLBACK_CLIENT_OTHER

definition lose_connection :: "string \<Rightarrow> ('h, 's) denv \<Rightarrow> 's chatd_state_t \<Rightarrow> 's chatd_state_t" where
  "lose_connection reason env st =
     (let st1 = st\<lparr>cd_control_wsi := None, cd_connected := False, cd_should_reconnect := True,
                   cd_next_reconnect_at := de_time env Time_reconnect + CHATD_RECONNECT_SECONDS\<rparr>
      in if cd_lookup_client_fd st1 \<ge> 0 \<and> \<not> cd_encrypted_session_ready st1
         then write_lookup_response ''ERROR'' reason env st1 else st1)"

fun callback_chatd_control :: "client_callback \<Rightarrow> ('h, 's) daemon_op" where
  "callback_chatd_control (LWS_CALLBACK_CLIENT_ESTABLISHED wsi) env st =
     queue_register env (st\<lparr>cd_control_wsi := Some wsi, cd_connected := True, cd_phase := CHATD_PHASE_REGISTER\<rparr>)"
| "callback_chatd_control (LWS_CALLBACK_CLIENT_RECEIVE inp remaining final) env st =
     (if length inp \<ge> CHATD_MAX_JSON_SIZE \<or> remaining \<noteq> 0 \<or> \<not> final
      then (-1, st\<lparr>cd_phase := CHATD_PHASE_FAILED\<rparr>)
      else handle_receive (cstr inp) env st)"
| "callback_chatd_control (LWS_CALLBACK_CLIENT_WRITEABLE written) env st =
     (if cd_pending_len st = 0 then (0, st)
      else if written < int (cd_pending_len st) then (-1, st\<lparr>cd_phase := CHATD_PHASE_FAILED\<rparr>)
      else (0, st\<lparr>cd_pending_len := 0,
                  cd_control_out := cd_control_out st @ [take (cd_pending_len st) (cd_pending st)]\<rparr>))"
| "callback_chatd_control LWS_CALLBACK_CLIENT_CONNECTION_ERROR env st =
     (0, lose_connection ''server_unavailable'' env st)"
| "callback_chatd_control LWS_CALLBACK_CLIENT_CLOSED env st =
     (let st1 = lose_connection ''server_disconnected'' env st in
      (0, if cd_has_challenge st1
          then st1\<lparr>cd_challenge := replicate CHATD_CHALLENGE_BYTES 0, cd_has_challenge := False\<rparr> else st1))"
| "callback_chatd_control LWS_CALLBACK_CLIENT_OTHER env st = (0, st)"

end
