(* ===== verification/Daemon_Ipc.thy ===== *)
theory Daemon_Ipc
  imports Daemon_Control
begin

text \<open>
  \<open>daemon/main.c\<close>, fourth part: the commands of the local client, and one round of the main
  loop. A function that returns whether to keep the client's descriptor open returns that
  code with the state.
\<close>

section \<open>Client commands\<close>

definition write_ipc_status :: "int \<Rightarrow> ('h, 's) denv \<Rightarrow> 's chatd_state_t \<Rightarrow> 's chatd_state_t" where
  "write_ipc_status client_fd env st =
     (let status = (if cd_phase st = CHATD_PHASE_ONLINE then ''ONLINE''
                    else if cd_connected st then ''CONNECTING'' else ''OFFLINE'');
          username = snprintf_store (CHAT_USERNAME_MAX_LEN + 1) (id_username (cd_identity st));
          response = status @ '' '' @ username @ [newline]
      in if \<not> snprintf_fits CHAT_IPC_MAX_RESPONSE response then st
         else snd (write_ipc_line client_fd response env st))"

definition handle_open_chat_command :: "int \<Rightarrow> string \<Rightarrow> ('h, 's) daemon_op" where
  "handle_open_chat_command client_fd peer env st =
     (if \<not> valid_username peer
      then (0, snd (write_ipc_line client_fd (''ERROR invalid_username'' @ [newline]) env st))
      else if \<not> (cd_phase st = CHATD_PHASE_ONLINE \<and> cd_control_wsi st \<noteq> None)
      then (0, snd (write_ipc_line client_fd (''ERROR daemon_not_online'' @ [newline]) env st))
      else if peer = id_username (cd_identity st)
      then (0, if snprintf_fits CHAT_IPC_MAX_RESPONSE (''USER_ONLINE '' @ peer @ [newline])
               then snd (write_ipc_line client_fd (''USER_ONLINE '' @ peer @ [newline]) env st) else st)
      else if cd_ice_active st \<and> cd_encrypted_session_ready st \<and> peer = cd_ice_peer st
              \<and> cd_lookup_client_fd st < 0
      then (1, announce_secure env (st\<lparr>cd_lookup_client_fd := client_fd\<rparr>))
      else if cd_lookup_client_fd st \<ge> 0 \<or> has_pending_control_message st
      then (0, snd (write_ipc_line client_fd (''ERROR busy'' @ [newline]) env st))
      else if \<not> snprintf_fits (CHAT_USERNAME_MAX_LEN + 1) peer
      then (0, snd (write_ipc_line client_fd (''ERROR invalid_username'' @ [newline]) env
                     (st\<lparr>cd_lookup_peer := snprintf_store (CHAT_USERNAME_MAX_LEN + 1) peer\<rparr>)))
      else
        (let st1 = chatd_set_session_state CHATD_SESSION_REQUESTING
                     (st\<lparr>cd_lookup_peer := peer, cd_lookup_client_fd := client_fd, cd_chat_retry_count := 0\<rparr>);
             (rc, st2) = queue_chat_request peer env st1
         in if rc \<noteq> 0 then (0, write_lookup_response ''ERROR'' ''chat_request_failed'' env st2)
            else (1, st2)))"

definition line_char :: "char \<Rightarrow> bool" where
  "line_char c \<longleftrightarrow> c \<noteq> CHR 0x0D \<and> c \<noteq> newline"

definition end_chat :: "chatd_session_state_t \<Rightarrow> ('h, 's) denv \<Rightarrow> 's chatd_state_t \<Rightarrow> 's chatd_state_t" where
  "end_chat final_state env st =
     chatd_set_session_state final_state (reset_ice_session env (close_lookup_client st))"

lemma cursor_shrinks: "cursor \<noteq> [] \<Longrightarrow> length (dropWhile p (drop (Suc n) cursor)) < length cursor"
  using length_dropWhile_le [of p "drop (Suc n) cursor"] by (cases cursor) auto

text \<open>The loop over the lines of a command; \<open>cursor\<close> is the rest of the text.\<close>

function chat_client_loop :: "string \<Rightarrow> ('h, 's) denv \<Rightarrow> 's chatd_state_t \<Rightarrow> 's chatd_state_t" where
  "chat_client_loop cursor env st =
     (if cursor = [] \<or> cd_lookup_client_fd st < 0 \<or> \<not> cd_ice_active st then st
      else
        (let line = takeWhile line_char cursor in
         if line = ''CLOSE_CHAT'' then end_chat CHATD_SESSION_CLOSED env (snd (send_encrypted_chat_close env st))
         else
           (let st1 =
                  (if prefix ''SEND_MESSAGE '' line then
                     (let (rc, s) = send_encrypted_chat_message (drop (length ''SEND_MESSAGE '') line) env st
                      in if rc \<noteq> 0
                         then snd (write_ipc_line (cd_lookup_client_fd s) (''ERROR send_failed'' @ [newline]) env s)
                         else s)
                   else if line \<noteq> []
                     then snd (write_ipc_line (cd_lookup_client_fd st) (''ERROR unknown_command'' @ [newline]) env st)
                   else st)
            in if length line = length cursor then st1
               else chat_client_loop (dropWhile (\<lambda>c. \<not> line_char c) (drop (length line + 1) cursor)) env st1)))"
  by pat_completeness auto
termination
  by (relation "measure (\<lambda>(cursor, env, st). length cursor)") (auto simp: cursor_shrinks)

declare chat_client_loop.simps [simp del]

definition service_active_chat_client :: "('h, 's) denv \<Rightarrow> 's chatd_state_t \<Rightarrow> 's chatd_state_t" where
  "service_active_chat_client env st =
     (if cd_lookup_client_fd st < 0 \<or> \<not> cd_encrypted_session_ready st then st
      else case de_ipc_read env (cd_lookup_client_fd st) of
             Read_again \<Rightarrow> st
           | Read_error \<Rightarrow> end_chat CHATD_SESSION_FAILED env st
           | Read_eof \<Rightarrow> end_chat CHATD_SESSION_CLOSED env (snd (send_encrypted_chat_close env st))
           | Read_data command \<Rightarrow> chat_client_loop (cstr command) env st)"

definition handle_ipc_client :: "int \<Rightarrow> ('h, 's) daemon_op" where
  "handle_ipc_client client_fd env st =
     (case de_ipc_read env client_fd of
        Read_data data \<Rightarrow>
          (let command = cstr data in
           if command = ''STATUS'' @ [newline] \<or> command = ''STATUS'' then (0, write_ipc_status client_fd env st)
           else if prefix ''OPEN_CHAT'' command \<and> scan_word 33 (drop (length ''OPEN_CHAT'') command) \<noteq> None then
             handle_open_chat_command client_fd
               (fst (the (scan_word 33 (drop (length ''OPEN_CHAT'') command)))) env st
           else (0, snd (write_ipc_line client_fd (''ERROR unknown_command'' @ [newline]) env st)))
      | _ \<Rightarrow> (0, st))"

text \<open>The second half of \<open>service_ipc\<close>, with a client waiting.\<close>

definition service_pending_client :: "('h, 's) denv \<Rightarrow> 's chatd_state_t \<Rightarrow> 's chatd_state_t" where
  "service_pending_client env st =
     (if de_poll_ready env < 0 \<or> (de_poll_ready env > 0 \<and> de_poll_error env)
         \<or> de_time env Time_ipc_poll \<ge> cd_pending_ipc_deadline_at st
      then st\<lparr>cd_closed_fds := cd_closed_fds st @ [cd_pending_ipc_client_fd st],
              cd_pending_ipc_client_fd := -1, cd_pending_ipc_deadline_at := 0\<rparr>
      else if de_poll_ready env = 0 \<or> \<not> de_poll_in env then st
      else
        (let client_fd = cd_pending_ipc_client_fd st;
             (keep_open, st1) = handle_ipc_client client_fd env
               (st\<lparr>cd_pending_ipc_client_fd := -1, cd_pending_ipc_deadline_at := 0\<rparr>)
         in if keep_open = 0 then st1\<lparr>cd_closed_fds := cd_closed_fds st1 @ [client_fd]\<rparr> else st1))"

definition service_ipc :: "('h, 's) denv \<Rightarrow> 's chatd_state_t \<Rightarrow> 's chatd_state_t" where
  "service_ipc env st =
     (if cd_pending_ipc_client_fd st < 0 then
        if de_accept env < 0 then st
        else service_pending_client env
               (st\<lparr>cd_pending_ipc_client_fd := de_accept env,
                   cd_pending_ipc_deadline_at := de_time env Time_ipc_accept + 5\<rparr>)
      else service_pending_client env st)"

section \<open>The main loop\<close>

text \<open>The state \<open>main\<close> sets up before it connects.\<close>

definition chatd_initial ::
  "('h, 's) sodium \<Rightarrow> chat_identity_t \<Rightarrow> chat_ice_config_t \<Rightarrow> contacts_file \<Rightarrow> 's chatd_state_t" where
  "chatd_initial sod identity config contacts =
     \<lparr>cd_identity = identity, cd_control_wsi = None, cd_phase = CHATD_PHASE_REGISTER,
      cd_session_state = CHATD_SESSION_IDLE, cd_challenge = replicate CHATD_CHALLENGE_BYTES 0,
      cd_has_challenge = False, cd_connected = False, cd_should_reconnect = False, cd_next_reconnect_at = 0,
      cd_ipc_fd = -1, cd_pending_ipc_client_fd = -1, cd_pending_ipc_deadline_at = 0,
      cd_lookup_client_fd = -1, cd_lookup_peer = [], cd_chat_retry_count = 0, cd_ice_peer = [],
      cd_ice_session_id = [], cd_ice_config = config, cd_ice = chat_ice_session_init, cd_ice_active = False,
      cd_ice_controlling = False, cd_ice_local_sdp_sent = False, cd_ice_cli_notified = False,
      cd_ice_selected_pair_is_relayed = False, cd_ice_deadline_at = 0, cd_pending_remote_ice_sdp = [],
      cd_has_pending_remote_ice_sdp = False, cd_remote_identity_pk = replicate crypto_sign_PUBLICKEYBYTES 0,
      cd_has_remote_identity_pk = False, cd_crypto_role = 0, cd_crypto_handshake = chat_crypto_handshake_wipe,
      cd_crypto_keys = chat_crypto_session_keys_wipe, cd_crypto_stream = chat_crypto_secretstream_init sod,
      cd_crypto_local_handshake_message = replicate CHAT_CRYPTO_KX_MESSAGE_BYTES 0,
      cd_crypto_local_stream_header = replicate CHAT_CRYPTO_STREAM_HEADER_BYTES 0, cd_crypto_deadline_at = 0,
      cd_crypto_handshake_sent = False, cd_crypto_next_handshake_at = 0, cd_crypto_keys_ready = False,
      cd_crypto_stream_header_sent = False, cd_crypto_next_stream_header_at = 0,
      cd_crypto_stream_header_received = False, cd_encrypted_session_ready = False,
      cd_pending = replicate CHATD_MAX_JSON_SIZE nul, cd_pending_len = 0, cd_contacts_db = contacts,
      cd_ipc_out = [], cd_closed_fds = [], cd_ice_out = [], cd_control_out = [], cd_nice_calls = []\<rparr>"

text \<open>What the loop runs: its three service functions, the websocket callbacks libwebsockets
  makes from \<open>lws_service\<close>, and the new connection attempt.\<close>

datatype chatd_event =
    Service_ipc
  | Service_active_chat_client
  | Service_ice_session
  | Control_callback client_callback
  | Reconnect

fun chatd_event_step :: "chatd_event \<Rightarrow> ('h, 's) denv \<Rightarrow> 's chatd_state_t \<Rightarrow> 's chatd_state_t" where
  "chatd_event_step Service_ipc env st = service_ipc env st"
| "chatd_event_step Service_active_chat_client env st = service_active_chat_client env st"
| "chatd_event_step Service_ice_session env st = service_ice_session env st"
| "chatd_event_step (Control_callback reason) env st = snd (callback_chatd_control reason env st)"
| "chatd_event_step Reconnect env st =
     (if cd_should_reconnect st \<and> \<not> cd_connected st \<and> de_time env Time_loop \<ge> cd_next_reconnect_at st
      then (let st1 = st\<lparr>cd_should_reconnect := False\<rparr> in
            if de_connect env then st1
            else st1\<lparr>cd_next_reconnect_at := de_time env Time_reconnect + CHATD_RECONNECT_SECONDS\<rparr>)
      else st)"

text \<open>The loop ends when the phase is \<open>CHATD_PHASE_FAILED\<close>; the relation allows events after
  that, since the callbacks of one round come before the test.\<close>

text \<open>The states reachable from the start with the given contacts file, when every call finds
  an outside world that satisfies \<open>good\<close>.\<close>

inductive chatd_reachable ::
  "(('h, 's) denv \<Rightarrow> bool) \<Rightarrow> ('h, 's) sodium \<Rightarrow> chat_identity_t \<Rightarrow> contacts_file \<Rightarrow> 's chatd_state_t \<Rightarrow> bool"
  for good :: "('h, 's) denv \<Rightarrow> bool" and sod :: "('h, 's) sodium" and identity :: chat_identity_t
    and contacts :: contacts_file where
  chatd_start: "chatd_reachable good sod identity contacts (chatd_initial sod identity config contacts)"
| chatd_step: "chatd_reachable good sod identity contacts st \<Longrightarrow> de_sod env = sod \<Longrightarrow> good env \<Longrightarrow>
     chatd_reachable good sod identity contacts (chatd_event_step event env st)"

end
