(* ===== verification/Daemon_Loops.thy ===== *)
theory Daemon_Loops
  imports Daemon_Ipc
begin

text \<open>
  The loops of the daemon that handle the client's socket: \<open>write_ipc_line\<close> ends whatever \<open>write\<close>
  answers as long as it does not ask to be repeated forever, and the loop over the received
  commands is the same as running the lines of the text one by one. The locale
  \<open>daemon_invariant\<close> is the contract of an invariant of the daemon's events.
\<close>

section \<open>Lines to the client\<close>

text \<open>A call that does not only ask to be repeated.\<close>

definition write_counts :: "write_outcome \<Rightarrow> bool" where
  "write_counts a \<longleftrightarrow> a \<noteq> Write_eintr \<and> a \<noteq> Write_eagain"

lemma write_loop_result:
  "write_ipc_loop outcomes line = Some (rc, out) \<Longrightarrow> prefix out line \<and> (rc = 0 \<longleftrightarrow> out = line) \<and> (rc = 0 \<or> rc = -1)"
proof (induction outcomes line arbitrary: rc out rule: write_ipc_loop.induct)
  case (7 n outcomes c cs)
  obtain out' where rec: "write_ipc_loop outcomes (drop (Suc n) (c # cs)) = Some (rc, out')" "out = take (Suc n) (c # cs) @ out'"
    using "7.prems" by auto
  have "prefix out' (drop (Suc n) (c # cs)) \<and> (rc = 0 \<longleftrightarrow> out' = drop (Suc n) (c # cs)) \<and> (rc = 0 \<or> rc = -1)"
    using "7.IH" [OF rec(1)] .
  moreover have "c # cs = take (Suc n) (c # cs) @ drop (Suc n) (c # cs)" by simp
  ultimately show ?case using rec(2) by (metis same_append_eq same_prefix_prefix)
qed auto

lemma write_loop_ends:
  "length line \<le> length (filter write_counts outcomes) \<Longrightarrow> \<exists>r. write_ipc_loop outcomes line = Some r"
proof (induction outcomes line rule: write_ipc_loop.induct)
  case (7 n outcomes c cs)
  moreover have "write_counts (Written (Suc n))" by (simp add: write_counts_def)
  ultimately have "length (drop (Suc n) (c # cs)) \<le> length (filter write_counts outcomes)" by simp
  then show ?case using "7.IH" by auto
qed (simp_all add: write_counts_def)

text \<open>
  C26. Writing a line to the client ends: each call that writes something, fails or writes nothing
  brings the loop forward, so after at most as many of them as the line has bytes, however often
  the calls in between were interrupted or would have blocked, it has returned; it returns 0
  exactly when the whole line was delivered, and otherwise -1 with only a beginning of the line
  delivered.
\<close>

theorem ipc_write_terminates:
  assumes "length line \<le> length (filter write_counts outcomes)"
  shows "\<exists>rc out. write_ipc_loop outcomes line = Some (rc, out) \<and> prefix out line \<and> (rc = 0 \<longleftrightarrow> out = line) \<and> rc \<in> {0, -1}"
proof -
  obtain r where r: "write_ipc_loop outcomes line = Some r" using write_loop_ends [OF assms] by blast
  then show ?thesis using write_loop_result [of outcomes line] by (cases r) auto
qed

theorem ipc_write_terminates_witness:
  "write_ipc_loop [Write_eagain, Written 2, Write_eintr, Written 5] ''ONLIN'' = Some (0, ''ONLIN'')
   \<and> (\<exists>rc out. write_ipc_loop [Written 1, Write_eintr, Write_failed, Written 9] ''abc'' = Some (rc, out) \<and> prefix out ''abc'' \<and> rc \<in> {0, -1})"
  using ipc_write_terminates [of "''abc''" "[Written 1, Write_eintr, Write_failed, Written 9]"]
  by (auto simp: write_counts_def eval_nat_numeral)

section \<open>Commands of the client\<close>

text \<open>A reference for \<open>chat_client_loop\<close>: the non-empty lines of a text, run one after the other
  until the chat ends.\<close>

function text_lines :: "string \<Rightarrow> string list" where
  "text_lines s =
     (let rest = dropWhile (\<lambda>c. \<not> line_char c) s in
      if rest = [] then [] else takeWhile line_char rest # text_lines (dropWhile line_char rest))"
  by pat_completeness auto
termination
proof (relation "measure length")
  fix s :: string and rest assume rest: "rest = dropWhile (\<lambda>c. \<not> line_char c) s" "rest \<noteq> []"
  have "line_char (hd rest)" using hd_dropWhile [of "\<lambda>c. \<not> line_char c" s] rest by simp
  then have "length (dropWhile line_char rest) < length rest" using rest(2) by (cases rest) (auto simp: le_imp_less_Suc length_dropWhile_le)
  moreover have "length rest \<le> length s" unfolding rest(1) by (rule length_dropWhile_le)
  ultimately show "(dropWhile line_char rest, s) \<in> measure length" by simp
qed simp

declare text_lines.simps [simp del]

definition run_line :: "string \<Rightarrow> ('h, 's) denv \<Rightarrow> 's chatd_state_t \<Rightarrow> 's chatd_state_t" where
  "run_line line env st =
     (if prefix ''SEND_MESSAGE '' line then
        (let (rc, s) = send_encrypted_chat_message (drop (length ''SEND_MESSAGE '') line) env st in
         if rc \<noteq> 0 then snd (write_ipc_line (cd_lookup_client_fd s) (''ERROR send_failed'' @ [newline]) env s) else s)
      else snd (write_ipc_line (cd_lookup_client_fd st) (''ERROR unknown_command'' @ [newline]) env st))"

fun run_lines :: "string list \<Rightarrow> ('h, 's) denv \<Rightarrow> 's chatd_state_t \<Rightarrow> 's chatd_state_t" where
  "run_lines [] env st = st"
| "run_lines (l # ls) env st =
     (if cd_lookup_client_fd st < 0 \<or> \<not> cd_ice_active st then st
      else if l = ''CLOSE_CHAT'' then end_chat CHATD_SESSION_CLOSED env (snd (send_encrypted_chat_close env st))
      else run_lines ls env (run_line l env st))"

lemma dropWhile_twice: "dropWhile P (dropWhile P s) = dropWhile P s"
  by (induction s) auto

lemma text_lines_skip: "text_lines (dropWhile (\<lambda>c. \<not> line_char c) s) = text_lines s"
  by (subst (1 2) text_lines.simps) (simp add: dropWhile_twice)

lemma text_lines_split:
  "text_lines s = (if takeWhile line_char s = [] then [] else [takeWhile line_char s])
     @ text_lines (dropWhile (\<lambda>c. \<not> line_char c) (drop (length (takeWhile line_char s) + 1) s))"
proof -
  let ?l = "takeWhile line_char s"
  have rest: "text_lines (dropWhile line_char s) = text_lines (drop (length ?l + 1) s)"
  proof (cases "dropWhile line_char s")
    case Nil
    then have "length ?l = length s" by (metis append_Nil2 takeWhile_dropWhile_id)
    then show ?thesis unfolding Nil by simp
  next
    case (Cons c cs)
    then have "\<not> line_char c" using hd_dropWhile [of line_char s] by simp
    moreover have "drop (length ?l + 1) s = cs" using Cons dropWhile_eq_drop [of line_char s] by (metis drop_Suc tl_drop list.sel(3) Suc_eq_plus1)
    ultimately show ?thesis unfolding Cons using text_lines_skip [of "c # cs"] text_lines_skip [of cs] by simp
  qed
  show ?thesis
  proof (cases "s = [] \<or> \<not> line_char (hd s)")
    case True
    then have none: "?l = []" by (cases s) auto
    then have "dropWhile line_char s = s" by (metis append_Nil takeWhile_dropWhile_id)
    then show ?thesis using rest none by (simp add: text_lines_skip)
  next
    case False
    then have "dropWhile (\<lambda>c. \<not> line_char c) s = s" "?l \<noteq> []" by (cases s, auto)+
    then show ?thesis using rest False by (subst text_lines.simps) (simp add: text_lines_skip)
  qed
qed

lemma client_loop_lines: "chat_client_loop cursor env st = run_lines (text_lines cursor) env st"
proof (induction cursor env st rule: chat_client_loop.induct)
  case (1 cursor env st)
  let ?line = "takeWhile line_char cursor"
  let ?rest = "dropWhile (\<lambda>c. \<not> line_char c) (drop (length ?line + 1) cursor)"
  define st1 where "st1 =
                  (if prefix ''SEND_MESSAGE '' ?line then
                     (let (rc, s) = send_encrypted_chat_message (drop (length ''SEND_MESSAGE '') ?line) env st
                      in if rc \<noteq> 0
                         then snd (write_ipc_line (cd_lookup_client_fd s) (''ERROR send_failed'' @ [newline]) env s)
                         else s)
                   else if ?line \<noteq> []
                     then snd (write_ipc_line (cd_lookup_client_fd st) (''ERROR unknown_command'' @ [newline]) env st)
                   else st)"
  have step: "st1 = (if ?line = [] then st else run_line ?line env st)"
    by (auto simp: st1_def run_line_def)
  show ?case
  proof (cases "cursor = [] \<or> cd_lookup_client_fd st < 0 \<or> \<not> cd_ice_active st")
    case True
    then show ?thesis
      by (cases "text_lines cursor") (auto simp: chat_client_loop.simps [of cursor] text_lines.simps [of "[]"])
  next
    case False
    have IH: "chat_client_loop ?rest env st1 = run_lines (text_lines ?rest) env st1"
      if "?line \<noteq> ''CLOSE_CHAT''" "length ?line \<noteq> length cursor"
      using "1.IH" [OF False refl that(1) st1_def that(2)] .
    have none: "text_lines ?rest = []" if "length ?line = length cursor"
      using that by (simp add: text_lines.simps [of "[]"])
    have loop: "chat_client_loop cursor env st =
      (if ?line = ''CLOSE_CHAT'' then end_chat CHATD_SESSION_CLOSED env (snd (send_encrypted_chat_close env st))
       else if length ?line = length cursor then st1 else chat_client_loop ?rest env st1)"
      unfolding chat_client_loop.simps [of cursor env st] Let_def st1_def [unfolded Let_def, symmetric] using False by auto
    show ?thesis
      unfolding loop text_lines_split [of cursor] using False IH none by (auto simp: step)
  qed
qed

lemma client_loop_keeps:
  assumes "P st" and "\<And>l s. P s \<Longrightarrow> P (run_line l env s)"
    and "\<And>s. P s \<Longrightarrow> P (end_chat CHATD_SESSION_CLOSED env (snd (send_encrypted_chat_close env s)))"
  shows "P (chat_client_loop cursor env st)"
proof -
  have "P (run_lines ls env s)" if "P s" for ls s
    using that by (induction ls arbitrary: s) (auto intro: assms(2,3))
  then show ?thesis unfolding client_loop_lines using assms(1) .
qed

text \<open>
  C25. The daemon's loop over the text of the client is the run of its non-empty lines in order:
  whatever line ends separate them, each line is executed once on the state the lines before it
  left, and nothing after a line that ended the chat is.
\<close>

theorem client_loop_by_lines:
  "chat_client_loop cursor env st = run_lines (text_lines cursor) env st"
  using client_loop_lines .

section \<open>Invariants of the daemon\<close>

text \<open>The contract of an invariant: every event keeps it when the outside world is \<open>good\<close>. What
  follows for the reachable states is proved here, what follows for the rounds of the main
  loop in \<open>Daemon_Main\<close>.\<close>

locale daemon_invariant =
  fixes good :: "('h, 's) denv \<Rightarrow> bool" and inv :: "'s chatd_state_t \<Rightarrow> bool"
  assumes event_keeps: "good env \<Longrightarrow> inv st \<Longrightarrow> inv (chatd_event_step event env st)"
begin

lemma reachable_keeps:
  assumes "chatd_reachable world sod identity f st" and "\<And>env. de_sod env = sod \<Longrightarrow> world env \<Longrightarrow> good env"
    and "\<And>config. inv (chatd_initial sod identity config f)"
  shows "inv st"
  using assms(1)
proof induction
  case (chatd_start config)
  show ?case by (rule assms(3))
next
  case (chatd_step st env event)
  then show ?case by (intro event_keeps assms(2))
qed

lemma callbacks_keep:
  "good env \<Longrightarrow> inv st \<Longrightarrow> inv (foldl (\<lambda>s c. chatd_event_step (Control_callback c) env s) st callbacks)"
  by (induction callbacks arbitrary: st) (simp_all add: event_keeps del: chatd_event_step.simps)

end

end
