(* ===== verification/Daemon_Safety.thy ===== *)
theory Daemon_Safety
  imports Daemon_Loops
begin

text \<open>
  The security invariant of a daemon's chat session: what must have happened before the
  daemon treats a session as encrypted and exchanges messages with the peer.
\<close>

section \<open>The invariant\<close>

text \<open>A finished handshake: some received message carried a signature that verifies under the
  remote identity key over the transcript, and the session keys come from its ephemeral key.\<close>

definition peer_verified :: "('h, 's) sodium \<Rightarrow> chat_crypto_handshake_t \<Rightarrow> chat_crypto_session_keys_t \<Rightarrow> bool" where
  "peer_verified sod hs keys \<longleftrightarrow>
     (\<exists>msg digest kx_sk.
        hash_chunks sod
          (transcript_chunks (chat_crypto_opposite_role (hs_role hs)) (hs_remote_identity_pk hs)
             (hs_local_identity_pk hs) (take (hs_session_id_len hs) (hs_session_id hs)) (take 32 msg)) = Some digest
        \<and> crypto_sign_verify_detached sod (take 64 (drop 32 msg)) digest (hs_remote_identity_pk hs)
        \<and> (if hs_role hs = CHAT_CRYPTO_ROLE_INITIATOR then crypto_kx_client_session_keys sod
           else crypto_kx_server_session_keys sod) (hs_local_kx_pk hs) kx_sk (take 32 msg)
            = Some (ck_rx keys, ck_tx keys))"

definition session_inv :: "('h, 's) sodium \<Rightarrow> chat_identity_t \<Rightarrow> 's chatd_state_t \<Rightarrow> bool" where
  "session_inv sod identity st \<longleftrightarrow>
     contacts_inv sod (cd_contacts_db st) \<and> cd_identity st = identity
     \<and> (cd_has_remote_identity_pk st \<longrightarrow>
          pinned sod (cd_contacts_db st) (cd_ice_peer st) = Some (cd_remote_identity_pk st))
     \<and> (hs_initialized (cd_crypto_handshake st) \<longrightarrow> cd_has_remote_identity_pk st \<and> cd_crypto_handshake_sent st
          \<and> hs_remote_identity_pk (cd_crypto_handshake st) = cd_remote_identity_pk st
          \<and> hs_local_identity_pk (cd_crypto_handshake st) = id_public_key identity)
     \<and> (cd_crypto_keys_ready st \<longrightarrow> hs_initialized (cd_crypto_handshake st)
          \<and> peer_verified sod (cd_crypto_handshake st) (cd_crypto_keys st))
     \<and> (cd_crypto_stream_header_sent st \<longrightarrow> cd_crypto_keys_ready st \<and> st_push_initialized (cd_crypto_stream st))
     \<and> (cd_crypto_stream_header_received st \<longrightarrow> cd_crypto_keys_ready st \<and> st_pull_initialized (cd_crypto_stream st))
     \<and> (cd_encrypted_session_ready st \<longrightarrow> cd_crypto_stream_header_sent st \<and> cd_crypto_stream_header_received st)"

text \<open>What survives a reset: the contacts file and the identity.\<close>

definition base_inv :: "('h, 's) sodium \<Rightarrow> chat_identity_t \<Rightarrow> 's chatd_state_t \<Rightarrow> bool" where
  "base_inv sod identity st \<longleftrightarrow> contacts_inv sod (cd_contacts_db st) \<and> cd_identity st = identity"

lemma session_base: "session_inv sod identity st \<Longrightarrow> base_inv sod identity st"
  by (simp add: session_inv_def base_inv_def)

section \<open>Functions that do not touch the session\<close>

lemma set_state_inv [simp]:
  "session_inv sod identity (chatd_set_session_state x st) = session_inv sod identity st"
  "base_inv sod identity (chatd_set_session_state x st) = base_inv sod identity st"
  by (simp_all add: chatd_set_session_state_def session_inv_def base_inv_def)

lemma queue_inv [simp]:
  "session_inv sod identity (snd (queue_printed sz json st)) = session_inv sod identity st"
  "base_inv sod identity (snd (queue_printed sz json st)) = base_inv sod identity st"
  by (simp_all add: queue_printed_def queue_json_def session_inv_def base_inv_def)

lemma queue_ops_inv [simp]:
  "session_inv sod identity (snd (queue_register env st)) = session_inv sod identity st"
  "session_inv sod identity (snd (queue_hello env st)) = session_inv sod identity st"
  "session_inv sod identity (snd (queue_chat_accept p i env st)) = session_inv sod identity st"
  "session_inv sod identity (snd (queue_chat_cancel p i env st)) = session_inv sod identity st"
  "session_inv sod identity (snd (queue_auth_response env st)) = session_inv sod identity st"
  by (simp_all add: queue_register_def queue_hello_def queue_chat_accept_def queue_chat_cancel_def
      queue_auth_response_def split: option.splits)

lemma field_inv [simp]:
  "session_inv sod identity (st\<lparr>cd_ice_session_id := x\<rparr>) = session_inv sod identity st"
  "base_inv sod identity (st\<lparr>cd_ice_session_id := x\<rparr>) = base_inv sod identity st"
  by (simp_all add: session_inv_def base_inv_def)

lemma queue_chat_request_inv [simp]:
  "session_inv sod identity (snd (queue_chat_request p env st)) = session_inv sod identity st"
  "base_inv sod identity (snd (queue_chat_request p env st)) = base_inv sod identity st"
  by (simp_all add: queue_chat_request_def Let_def)

lemma write_ipc_inv [simp]:
  "session_inv sod identity (snd (write_ipc_line fd l env st)) = session_inv sod identity st"
  "base_inv sod identity (snd (write_ipc_line fd l env st)) = base_inv sod identity st"
  by (simp_all add: write_ipc_line_def session_inv_def base_inv_def)

lemma close_lookup_inv [simp]:
  "session_inv sod identity (close_lookup_client st) = session_inv sod identity st"
  "base_inv sod identity (close_lookup_client st) = base_inv sod identity st"
  by (simp_all add: close_lookup_client_def session_inv_def base_inv_def Let_def)

lemma lookup_response_inv [simp]:
  "session_inv sod identity (write_lookup_response p u env st) = session_inv sod identity st"
  "base_inv sod identity (write_lookup_response p u env st) = base_inv sod identity st"
  by (simp_all add: write_lookup_response_def Let_def)

lemma send_packet_inv [simp]:
  "session_inv sod identity (snd (send_ice_packet t p env st)) = session_inv sod identity st"
  "base_inv sod identity (snd (send_ice_packet t p env st)) = base_inv sod identity st"
  by (auto simp: send_ice_packet_def session_inv_def base_inv_def Let_def split: prod.splits option.splits)

section \<open>Ending a session\<close>

lemma reset_inv [simp]: "session_inv sod identity (reset_ice_session env st) = base_inv sod identity st"
  by (simp add: reset_ice_session_def session_inv_def base_inv_def chat_crypto_handshake_wipe_def split: prod.splits)

lemma reset_base [simp]: "base_inv sod identity (reset_ice_session env st) = base_inv sod identity st"
  by (simp add: reset_ice_session_def base_inv_def case_prod_unfold Let_def)

lemma retry_count_inv [simp]: "base_inv sod identity (st\<lparr>cd_chat_retry_count := n\<rparr>) = base_inv sod identity st"
  by (simp add: base_inv_def)

lemma retry_base [simp]:
  "base_inv sod identity (snd (retry_outgoing_chat_session env st)) = base_inv sod identity st"
  by (simp add: retry_outgoing_chat_session_def Let_def case_prod_unfold)

lemma retry_inv:
  "fst (retry_outgoing_chat_session env st) = 0 \<Longrightarrow> base_inv sod identity st \<Longrightarrow>
     session_inv sod identity (snd (retry_outgoing_chat_session env st))"
  by (simp add: retry_outgoing_chat_session_def Let_def case_prod_unfold split: if_splits)

lemma fail_inv: "base_inv sod identity st \<Longrightarrow> session_inv sod identity (fail_chat_session env st)"
proof (cases "fst (retry_outgoing_chat_session env st) = 0")
  case True
  then show "base_inv sod identity st \<Longrightarrow> ?thesis"
    using retry_inv [OF True] by (simp add: fail_chat_session_def Let_def case_prod_unfold)
next
  case False
  then show "base_inv sod identity st \<Longrightarrow> ?thesis"
    by (simp add: fail_chat_session_def Let_def case_prod_unfold)
qed

section \<open>The key exchange\<close>

lemma ice_inv [simp]:
  "session_inv sod identity (st\<lparr>cd_ice := x\<rparr>) = session_inv sod identity st"
  "base_inv sod identity (st\<lparr>cd_ice := x\<rparr>) = base_inv sod identity st"
  by (simp_all add: session_inv_def base_inv_def)

lemma handshake_init_facts:
  assumes "chat_crypto_handshake_init sod rnd h0 (Some ident) (Some remote) role sid = (res, hs, msg)"
  shows "hs_initialized hs \<and> res = CHAT_CRYPTO_OK \<longrightarrow>
      hs_remote_identity_pk hs = remote \<and> hs_local_identity_pk hs = id_public_key ident"
  using assms
  by (auto simp: chat_crypto_handshake_init_def Let_def transcript_hash_error split: option.splits if_splits prod.splits sum.splits)

text \<open>Starting a handshake on a session with a known remote key. Before the first message is
  sent there is nothing derived from an older handshake.\<close>

lemma start_handshake_inv:
  assumes "session_inv sod identity st" "cd_has_remote_identity_pk st"
    and "start_crypto_handshake env st = (rc, st')"
  shows "base_inv sod identity st'" and "rc = 0 \<Longrightarrow> session_inv sod identity st'"
proof -
  let ?st1 = "chatd_set_session_state CHATD_SESSION_CRYPTO_HANDSHAKE st"
  have st1: "session_inv sod identity ?st1" "cd_has_remote_identity_pk ?st1" "cd_crypto_handshake_sent ?st1 = cd_crypto_handshake_sent st"
    using assms(1,2) by simp_all (simp_all add: chatd_set_session_state_def)
  obtain res st2 where st2: "(if \<not> cd_crypto_handshake_sent ?st1 then
               (let (result, hs, msg) =
                      chat_crypto_handshake_init (de_sod env) (de_kx_seed env) (cd_crypto_handshake ?st1)
                        (Some (cd_identity ?st1)) (Some (cd_remote_identity_pk ?st1)) (cd_crypto_role ?st1)
                        (Some (map byte_of_char (cd_ice_session_id ?st1)))
                in (result, ?st1\<lparr>cd_crypto_handshake := hs,
                                cd_crypto_local_handshake_message :=
                                  (case msg of None \<Rightarrow> cd_crypto_local_handshake_message ?st1 | Some m \<Rightarrow> m)\<rparr>))
             else (CHAT_CRYPTO_OK, ?st1)) = (res, st2)" by force
  have base: "base_inv sod identity st2"
    using st2 session_base [OF st1(1)] by (auto simp: base_inv_def split: if_splits prod.splits)
  have inv: "session_inv sod identity (st2\<lparr>cd_crypto_next_handshake_at := t, cd_crypto_handshake_sent := True\<rparr>)"
    if "res = CHAT_CRYPTO_OK" for t
  proof (cases "cd_crypto_handshake_sent ?st1")
    case True
    then show ?thesis using st2 st1(1) by (simp add: session_inv_def)
  next
    case False
    obtain hs msg where init: "chat_crypto_handshake_init (de_sod env) (de_kx_seed env) (cd_crypto_handshake ?st1)
        (Some (cd_identity ?st1)) (Some (cd_remote_identity_pk ?st1)) (cd_crypto_role ?st1)
        (Some (map byte_of_char (cd_ice_session_id ?st1))) = (res, hs, msg)"
      and eq: "st2 = ?st1\<lparr>cd_crypto_handshake := hs, cd_crypto_local_handshake_message :=
                  (case msg of None \<Rightarrow> cd_crypto_local_handshake_message ?st1 | Some m \<Rightarrow> m)\<rparr>"
      using st2 False by (auto split: prod.splits)
    have "\<not> cd_crypto_keys_ready ?st1" "cd_identity ?st1 = identity"
      using st1(1) False by (auto simp: session_inv_def)
    then show ?thesis
      using handshake_init_facts [OF init] that st1(1,2) unfolding eq by (auto simp: session_inv_def)
  qed
  show "base_inv sod identity st'"
    using assms(3) base send_packet_inv(2) [of sod identity CHAT_PKT_HANDSHAKE "cd_crypto_local_handshake_message st2" env st2]
    unfolding start_crypto_handshake_def Let_def st2 [unfolded Let_def]
    by (auto simp: base_inv_def split: if_splits prod.splits)
  show "session_inv sod identity st'" if rc0: "rc = 0"
  proof -
    obtain st3 where st3: "send_ice_packet CHAT_PKT_HANDSHAKE (cd_crypto_local_handshake_message st2) env st2 = (0, st3)"
      "res = CHAT_CRYPTO_OK"
      "st' = st3\<lparr>cd_crypto_next_handshake_at := de_time env Time_handshake_sent + 1, cd_crypto_handshake_sent := True\<rparr>"
      using assms(3) rc0 unfolding start_crypto_handshake_def Let_def st2 [unfolded Let_def]
      by (auto split: if_splits prod.splits)
    have "\<exists>out. st3 = st2\<lparr>cd_ice_out := out\<rparr>"
      using st3(1) by (auto simp: send_ice_packet_def Let_def split: if_splits prod.splits option.splits)
    then show ?thesis using inv [OF st3(2)] st3(3) by (auto simp: session_inv_def)
  qed
qed

lemma finish_peer_verified:
  assumes "chat_crypto_handshake_finish sod hs (Some msg) keys0 = (CHAT_CRYPTO_OK, hs', keys)"
  shows "peer_verified sod hs' keys \<and> hs_initialized hs' \<and> hs_remote_identity_pk hs' = hs_remote_identity_pk hs
     \<and> hs_local_identity_pk hs' = hs_local_identity_pk hs"
proof -
  have hs': "hs' = hs\<lparr>hs_local_kx_sk := replicate 32 0, hs_finished := True\<rparr>" "hs_initialized hs"
    using assms
    by (auto simp: chat_crypto_handshake_finish_def Let_def transcript_hash_error split: if_splits option.splits sum.splits)
  note auth = finish_authentic [OF assms, of "[]" keys]
  then obtain digest where "hash_chunks sod
      (transcript_chunks (chat_crypto_opposite_role (hs_role hs)) (hs_remote_identity_pk hs)
         (hs_local_identity_pk hs) (take (hs_session_id_len hs) (hs_session_id hs)) (take 32 msg)) = Some digest"
    "crypto_sign_verify_detached sod (take 64 (drop 32 msg)) digest (hs_remote_identity_pk hs)" by blast
  then have "peer_verified sod hs' keys"
    using auth unfolding peer_verified_def hs'(1)
    by - (rule exI [of _ msg], rule exI [of _ digest], rule exI [of _ "hs_local_kx_sk hs"], simp)
  then show ?thesis using hs' by simp
qed

lemma finish_error_facts:
  assumes "chat_crypto_handshake_finish sod hs (Some msg) keys0 = (res, hs', keys)"
  shows "hs_initialized hs' = hs_initialized hs \<and> hs_remote_identity_pk hs' = hs_remote_identity_pk hs
     \<and> hs_local_identity_pk hs' = hs_local_identity_pk hs"
  using assms by (auto simp: chat_crypto_handshake_finish_def Let_def split: if_splits option.splits sum.splits)

lemma finish_handshake_inv:
  assumes "session_inv sod identity st" "de_sod env = sod" "\<not> cd_crypto_keys_ready st"
  shows "session_inv sod identity (snd (finish_crypto_handshake payload env st))"
proof -
  obtain res hs keys where f: "chat_crypto_handshake_finish sod (cd_crypto_handshake st) (Some payload) (cd_crypto_keys st) = (res, hs, keys)"
    using prod_cases3 by blast
  show ?thesis
  proof (cases "res = CHAT_CRYPTO_OK")
    case True
    then have "peer_verified sod hs keys" "hs_initialized hs" using finish_peer_verified f by blast+
    then show ?thesis
      using finish_error_facts [OF f] assms f True by (auto simp: finish_crypto_handshake_def Let_def session_inv_def)
  next
    case False
    then show ?thesis
      using finish_error_facts [OF f] assms f by (auto simp: finish_crypto_handshake_def Let_def session_inv_def)
  qed
qed

lemma send_header_inv:
  assumes "session_inv sod identity st" "cd_crypto_keys_ready st"
  shows "session_inv sod identity (snd (send_stream_header env st))"
proof -
  obtain res st1 where st1: "(if \<not> cd_crypto_stream_header_sent st then
               (let (result, stream, header) =
                      chat_crypto_secretstream_init_push (de_sod env) (de_stream_seed env) (cd_crypto_stream st)
                        (ck_tx (cd_crypto_keys st))
                in (result, st\<lparr>cd_crypto_stream := stream,
                               cd_crypto_local_stream_header :=
                                 (case header of None \<Rightarrow> cd_crypto_local_stream_header st | Some h \<Rightarrow> h)\<rparr>))
             else (CHAT_CRYPTO_OK, st)) = (res, st1)" by force
  have inv1: "session_inv sod identity st1"
    and push: "res = CHAT_CRYPTO_OK \<Longrightarrow> st_push_initialized (cd_crypto_stream st1) \<and> cd_crypto_keys_ready st1"
    using st1 assms
    by (auto simp: session_inv_def chat_crypto_secretstream_init_push_def split: if_splits option.splits prod.splits)
  obtain rc st2 where send: "send_ice_packet CHAT_PKT_STREAM_HEADER (cd_crypto_local_stream_header st1) env st1 = (rc, st2)" by force
  have "\<exists>out. st2 = st1\<lparr>cd_ice_out := out\<rparr>"
    using send by (auto simp: send_ice_packet_def Let_def split: if_splits prod.splits option.splits) (metis chatd_state_t.surjective chatd_state_t.update_convs(49))+
  then obtain out where st2: "st2 = st1\<lparr>cd_ice_out := out\<rparr>" by blast
  show ?thesis
    using inv1 push send unfolding send_stream_header_def Let_def st1 [unfolded Let_def] st2
    by (auto simp: session_inv_def)
qed

lemma receive_header_inv:
  assumes "session_inv sod identity st" "cd_crypto_keys_ready st"
  shows "session_inv sod identity (snd (receive_stream_header payload env st))"
  using assms by (auto simp: receive_stream_header_def chat_crypto_secretstream_init_pull_def session_inv_def
      split: option.splits)

lemma stream_inv:
  assumes "session_inv sod identity st"
    and "st_push_initialized stream = st_push_initialized (cd_crypto_stream st)"
    and "st_pull_initialized stream = st_pull_initialized (cd_crypto_stream st)"
  shows "session_inv sod identity (st\<lparr>cd_crypto_stream := stream\<rparr>)"
  using assms by (simp add: session_inv_def)

lemma encrypt_flags:
  "chat_crypto_secretstream_encrypt sod s p f n = (r, s', c) \<Longrightarrow>
     st_push_initialized s' = st_push_initialized s \<and> st_pull_initialized s' = st_pull_initialized s"
  by (auto simp: chat_crypto_secretstream_encrypt_def split: if_splits option.splits)

lemma decrypt_flags:
  "chat_crypto_secretstream_decrypt sod s c n = (r, s', p, tag) \<Longrightarrow>
     st_push_initialized s' = st_push_initialized s \<and> st_pull_initialized s' = st_pull_initialized s"
  by (auto simp: chat_crypto_secretstream_decrypt_def split: if_splits option.splits)

section \<open>Packets\<close>

lemma encrypted_payload_inv:
  assumes "session_inv sod identity st"
  shows "session_inv sod identity (snd (send_encrypted_chat_payload t p f env st))"
proof -
  obtain r s c where e: "chat_crypto_secretstream_encrypt (de_sod env) (cd_crypto_stream st) p f CHAT_MAX_MESSAGE_SIZE = (r, s, c)"
    using prod_cases3 by blast
  have "session_inv sod identity (st\<lparr>cd_crypto_stream := s\<rparr>)"
    using encrypt_flags [OF e] by (intro stream_inv [OF assms]) auto
  then show ?thesis using assms e by (simp add: send_encrypted_chat_payload_def Let_def)
qed

lemma encrypted_ops_inv:
  assumes "session_inv sod identity st"
  shows "session_inv sod identity (snd (send_encrypted_chat_message x env st))"
    and "session_inv sod identity (snd (send_encrypted_chat_close env st))"
  using assms by (auto simp: send_encrypted_chat_message_def send_encrypted_chat_close_def
      intro!: encrypted_payload_inv)

lemma message_to_cli_inv [simp]:
  "session_inv sod identity (snd (write_chat_message_to_cli p env st)) = session_inv sod identity st"
  by (simp add: write_chat_message_to_cli_def)

lemma decrypt_payload_inv:
  assumes "session_inv sod identity st"
  shows "session_inv sod identity (snd (decrypt_chat_payload t p env st))"
proof -
  obtain r s pt tag where d: "chat_crypto_secretstream_decrypt (de_sod env) (cd_crypto_stream st) p CHAT_MAX_MESSAGE_SIZE = (r, s, pt, tag)"
    using prod_cases4 by blast
  have inv: "session_inv sod identity (st\<lparr>cd_crypto_stream := s\<rparr>)"
    using decrypt_flags [OF d] by (intro stream_inv [OF assms]) auto
  from session_base [OF this] inv show ?thesis
    using d by (simp add: decrypt_chat_payload_def Let_def)
qed

lemma app_packet_inv:
  assumes "session_inv sod identity st" "de_sod env = sod"
  shows "session_inv sod identity (snd (handle_ice_app_packet packet env st))"
  using assms finish_handshake_inv [OF assms] receive_header_inv [OF assms(1)] decrypt_payload_inv [OF assms(1)]
  by (auto simp: handle_ice_app_packet_def Let_def split: prod.splits option.splits)

lemma process_received_inv:
  assumes "session_inv sod identity st" "de_sod env = sod"
  shows "session_inv sod identity (snd (process_received_ice_packet env st))"
  using assms app_packet_inv [of sod identity "st\<lparr>cd_ice := i\<rparr>" env for i]
  by (auto simp: process_received_ice_packet_def Let_def split: prod.splits)

section \<open>Servicing the session\<close>

lemma drain_inv:
  assumes "de_sod env = sod"
  shows "session_inv sod identity st \<Longrightarrow> session_inv sod identity (drain_secure n env st)"
proof (induction n arbitrary: st)
  case (Suc n)
  have inv: "session_inv sod identity (snd (process_received_ice_packet env st))"
    using process_received_inv [OF Suc.prems assms] .
  then show ?case
    using Suc.IH [OF inv] fail_inv [OF session_base [OF inv], of env] by (auto simp: case_prod_unfold Let_def)
qed simp

lemma announce_inv [simp]: "session_inv sod identity (announce_secure env st) = session_inv sod identity st"
  by (simp add: announce_secure_def Let_def)

lemma become_secure_inv:
  "session_inv sod identity st \<Longrightarrow> session_inv sod identity (become_secure env st)"
  by (auto simp: become_secure_def) (simp add: session_inv_def)

lemma service_crypto_inv:
  assumes "session_inv sod identity st" "de_sod env = sod"
  shows "session_inv sod identity (service_crypto_session env st)"
proof -
  define sent where "sent = (\<not> cd_crypto_handshake_sent st
     \<or> (\<not> cd_crypto_stream_header_received st \<and> de_time env Time_crypto_service \<ge> cd_crypto_next_handshake_at st))"
  obtain rc1 st1 where 1: "(if sent then start_crypto_handshake env st else (0, st)) = (rc1, st1)" by force
  obtain rc2 st2 where 2: "process_received_ice_packet env st1 = (rc2, st2)" by force
  obtain rc3 st3 where 3: "(if cd_crypto_keys_ready st2
      \<and> (\<not> cd_crypto_stream_header_sent st2
         \<or> (\<not> cd_encrypted_session_ready st2 \<and> de_time env Time_crypto_service \<ge> cd_crypto_next_stream_header_at st2))
      then send_stream_header env st2 else (0, st2)) = (rc3, st3)" by force
  obtain rc4 st4 where 4: "process_received_ice_packet env st3 = (rc4, st4)" by force
  have fail: "session_inv sod identity (fail_chat_session env x)" if "session_inv sod identity x" for x
    using fail_inv [OF session_base [OF that]] .
  have base1: "base_inv sod identity st1" and inv1: "rc1 = 0 \<Longrightarrow> session_inv sod identity st1"
    if "cd_has_remote_identity_pk st"
    using 1 start_handshake_inv [OF assms(1) that] assms(1) session_base [OF assms(1)] by (auto split: if_splits)
  have inv2: "session_inv sod identity st2" if "session_inv sod identity st1"
    using process_received_inv [OF that assms(2)] 2 by simp
  have inv3: "session_inv sod identity st3" if "session_inv sod identity st2"
    using that send_header_inv [OF that, of env] 3 by (auto split: if_splits)
  have inv4: "session_inv sod identity st4" if "session_inv sod identity st3"
    using process_received_inv [OF that assms(2)] 4 by simp
  have tail: "session_inv sod identity
      (if rc1 \<noteq> 0 then fail_chat_session env st1
       else if rc2 \<noteq> 0 then fail_chat_session env st2
       else if rc3 \<noteq> 0 then fail_chat_session env st3
       else if rc4 \<noteq> 0 then fail_chat_session env st4 else become_secure env st4)" if "cd_has_remote_identity_pk st"
    using base1 [OF that] inv1 [OF that] inv2 inv3 inv4 fail fail_inv become_secure_inv by auto
  show ?thesis
    using drain_inv [OF assms(2,1)] fail [OF assms(1)] tail assms(1)
    unfolding service_crypto_session_def Let_def 1 [unfolded sent_def] 2 3 4 prod.case
    by auto
qed

section \<open>Polling ICE\<close>

lemma poll_inv [simp]:
  "session_inv sod identity (chat_ice_poll env st) = session_inv sod identity st"
  by (simp add: chat_ice_poll_def)

lemma field_inv2 [simp]:
  "session_inv sod identity (st\<lparr>cd_pending_remote_ice_sdp := x\<rparr>) = session_inv sod identity st"
  "session_inv sod identity (st\<lparr>cd_has_pending_remote_ice_sdp := b\<rparr>) = session_inv sod identity st"
  "session_inv sod identity (st\<lparr>cd_ice_local_sdp_sent := b\<rparr>) = session_inv sod identity st"
  "session_inv sod identity (st\<lparr>cd_phase := ph\<rparr>) = session_inv sod identity st"
  "session_inv sod identity (st\<lparr>cd_challenge := c\<rparr>) = session_inv sod identity st"
  "session_inv sod identity (st\<lparr>cd_has_challenge := b\<rparr>) = session_inv sod identity st"
  "session_inv sod identity (st\<lparr>cd_lookup_client_fd := fd\<rparr>) = session_inv sod identity st"
  "session_inv sod identity (st\<lparr>cd_lookup_peer := x\<rparr>) = session_inv sod identity st"
  "session_inv sod identity (st\<lparr>cd_chat_retry_count := n\<rparr>) = session_inv sod identity st"
  "session_inv sod identity (st\<lparr>cd_pending_len := n\<rparr>) = session_inv sod identity st"
  "session_inv sod identity (st\<lparr>cd_control_out := cs\<rparr>) = session_inv sod identity st"
  "session_inv sod identity (st\<lparr>cd_control_wsi := w\<rparr>) = session_inv sod identity st"
  "session_inv sod identity (st\<lparr>cd_connected := b\<rparr>) = session_inv sod identity st"
  "session_inv sod identity (st\<lparr>cd_should_reconnect := b\<rparr>) = session_inv sod identity st"
  "session_inv sod identity (st\<lparr>cd_next_reconnect_at := n\<rparr>) = session_inv sod identity st"
  "session_inv sod identity (st\<lparr>cd_closed_fds := fds\<rparr>) = session_inv sod identity st"
  "session_inv sod identity (st\<lparr>cd_pending_ipc_client_fd := fd\<rparr>) = session_inv sod identity st"
  "session_inv sod identity (st\<lparr>cd_pending_ipc_deadline_at := n\<rparr>) = session_inv sod identity st"
  by (simp_all add: session_inv_def)

lemma sdp_inv [simp]:
  "session_inv sod identity (snd (apply_remote_ice_sdp sdp env st)) = session_inv sod identity st"
  "session_inv sod identity (snd (queue_local_ice_sdp env st)) = session_inv sod identity st"
  "session_inv sod identity (snd (handle_ice_credentials json env st)) = session_inv sod identity st"
  by (auto simp: apply_remote_ice_sdp_def queue_local_ice_sdp_def handle_ice_credentials_def Let_def case_prod_unfold
      split: option.splits)

lemma note_ready_inv [simp]: "session_inv sod identity (note_ice_ready env st) = session_inv sod identity st"
proof -
  have "session_inv sod identity (st\<lparr>cd_ice_selected_pair_is_relayed := r, cd_ice_cli_notified := True, cd_crypto_deadline_at := t\<rparr>)
     = session_inv sod identity st" for r t by (simp add: session_inv_def)
  then show ?thesis by (simp add: note_ice_ready_def)
qed

lemma service_ice_inv:
  assumes "session_inv sod identity st" "de_sod env = sod"
  shows "session_inv sod identity (service_ice_session env st)"
proof -
  have fail: "session_inv sod identity (fail_chat_session env x)" if "session_inv sod identity x" for x
    using fail_inv [OF session_base [OF that]] .
  have crypto: "session_inv sod identity (service_crypto_session env (note_ice_ready env x))" if "session_inv sod identity x" for x
    using service_crypto_inv [OF _ assms(2)] that by simp
  define st1 where "st1 = chat_ice_poll env st"
  obtain rc2 st2 where 2: "(if is_gathering_done (cd_ice st1) \<and> cd_has_pending_remote_ice_sdp st1
     then (case apply_remote_ice_sdp (cd_pending_remote_ice_sdp st1) env st1 of (rc, s) \<Rightarrow>
           if rc \<noteq> 0 then (rc, s) else (0, s\<lparr>cd_pending_remote_ice_sdp := [], cd_has_pending_remote_ice_sdp := False\<rparr>))
     else (0, st1)) = (rc2, st2)" by force
  obtain rc3 st3 where 3: "(if is_gathering_done (cd_ice st2) \<and> \<not> cd_ice_local_sdp_sent st2
       \<and> cd_control_wsi st2 \<noteq> None \<and> \<not> has_pending_control_message st2
     then queue_local_ice_sdp env st2 else (0, st2)) = (rc3, st3)" by force
  have inv1: "session_inv sod identity st1" using assms(1) by (simp add: st1_def)
  have inv2: "session_inv sod identity st2"
    using inv1 unfolding snd_conv [of rc2 st2, unfolded 2 [symmetric], symmetric] by (simp add: case_prod_unfold)
  have inv3: "session_inv sod identity st3"
    using inv2 unfolding snd_conv [of rc3 st3, unfolded 3 [symmetric], symmetric] by simp
  show ?thesis
    using assms(1) fail [OF inv1] fail [OF inv2] fail [OF inv3] crypto [OF inv3] inv3
    unfolding service_ice_session_def Let_def st1_def [symmetric] 2 3 prod.case by auto
qed

section \<open>Contacts\<close>

lemma pin_inv:
  assumes "contacts_inv sod f" "io_ok io" "length pk = 32"
    and "chat_contacts_verify_or_pin sod io (Some u) (Some pk) f = (r, new, f')"
  shows "contacts_inv sod f'" "pinned sod f v = Some k \<Longrightarrow> pinned sod f' v = Some k"
    "r = CHAT_CONTACTS_OK \<Longrightarrow> pinned sod f' u = Some pk"
proof -
  have "contacts_inv sod f' \<and> (pinned sod f v = Some k \<longrightarrow> pinned sod f' v = Some k)
      \<and> (r = CHAT_CONTACTS_OK \<longrightarrow> pinned sod f' u = Some pk)"
  proof (cases "valid_username u")
    case False
    then show ?thesis using assms(1,4) by (auto simp: chat_contacts_verify_or_pin_def)
  next
    case True
    then show ?thesis
      using assms(1,4) verify_known [OF assms(1,2) True, of _ pk] verify_new [OF assms(1,2) True assms(3)]
      by (cases "pinned sod f u") (auto split: if_splits)
  qed
  then show "contacts_inv sod f'" "pinned sod f v = Some k \<Longrightarrow> pinned sod f' v = Some k"
    "r = CHAT_CONTACTS_OK \<Longrightarrow> pinned sod f' u = Some pk" by blast+
qed

lemma hex_to_bin_length: "hex_to_bin sod hex n = Some b \<Longrightarrow> length b = n"
  by (auto simp: hex_to_bin_def split: option.splits if_splits)

lemma contacts_change_inv:
  assumes "session_inv sod identity st" "contacts_inv sod f'"
    and "\<And>v k. pinned sod (cd_contacts_db st) v = Some k \<Longrightarrow> pinned sod f' v = Some k"
  shows "session_inv sod identity (st\<lparr>cd_contacts_db := f'\<rparr>)"
  using assms by (auto simp: session_inv_def)

lemma begin_ice_inv:
  assumes "base_inv sod identity st" "pinned sod (cd_contacts_db st) peer = Some pk"
  shows "session_inv sod identity (snd (begin_ice_session peer sid ctl pk env st))"
proof -
  have fail: "session_inv sod identity (fail_chat_session env x)" if "cd_contacts_db x = cd_contacts_db st" "cd_identity x = cd_identity st" for x
    using fail_inv [of sod identity x] assms(1) that by (simp add: base_inv_def)
  show ?thesis
    using assms
    by (auto simp: begin_ice_session_def Let_def case_prod_unfold chatd_set_session_state_def reset_ice_session_def
        snprintf_store_fits intro!: fail)
       (simp_all add: session_inv_def base_inv_def chat_crypto_handshake_wipe_def snprintf_store_fits)
qed

section \<open>Messages from the control server\<close>

lemma pin_step_inv:
  assumes "session_inv sod identity st" "io_ok io" "length pk = 32"
    and "chat_contacts_verify_or_pin sod io (Some u) (Some pk) (cd_contacts_db st) = (r, new, f')"
  shows "session_inv sod identity (st\<lparr>cd_contacts_db := f'\<rparr>)"
    "r = CHAT_CONTACTS_OK \<Longrightarrow> pinned sod f' u = Some pk"
proof -
  have "contacts_inv sod (cd_contacts_db st)" using assms(1) by (simp add: session_inv_def)
  note pin = pin_inv [OF this assms(2-4)]
  show "session_inv sod identity (st\<lparr>cd_contacts_db := f'\<rparr>)"
    using pin(1,2) by (intro contacts_change_inv [OF assms(1)]) auto
  show "r = CHAT_CONTACTS_OK \<Longrightarrow> pinned sod f' u = Some pk" using pin(3) .
qed

lemma queue_db [simp]:
  "cd_contacts_db (snd (queue_chat_accept p i env st)) = cd_contacts_db st"
  "cd_contacts_db (chatd_set_session_state x st) = cd_contacts_db st"
  by (simp_all add: queue_chat_accept_def queue_printed_def queue_json_def chatd_set_session_state_def)

lemma pin_session_inv:
  fixes env :: "('h, 's) denv" and st :: "'s chatd_state_t"
  defines "pin u pk \<equiv> chat_contacts_verify_or_pin (de_sod env) (de_contacts env) (Some u) (Some pk) (cd_contacts_db st)"
  assumes "session_inv sod identity st" "io_ok (de_contacts env)" "de_sod env = sod" "length pk = 32"
  shows "session_inv sod identity (st\<lparr>cd_contacts_db := snd (snd (pin u pk))\<rparr>)"
    and "fst (pin u pk) = CHAT_CONTACTS_OK \<Longrightarrow>
       session_inv sod identity (snd (begin_ice_session u sid True pk env (st\<lparr>cd_contacts_db := snd (snd (pin u pk))\<rparr>)))"
    and "fst (pin u pk) = CHAT_CONTACTS_OK \<Longrightarrow>
       session_inv sod identity (snd (begin_ice_session u sid False pk env (snd (queue_chat_accept u sid env
         (chatd_set_session_state CHATD_SESSION_REQUESTING (st\<lparr>cd_contacts_db := snd (snd (pin u pk))\<rparr>))))))"
proof -
  obtain r new f where v: "pin u pk = (r, new, f)" using prod_cases3 by blast
  note inv = pin_step_inv [OF assms(2,3,5) v [unfolded pin_def assms(4)]]
  show "session_inv sod identity (st\<lparr>cd_contacts_db := snd (snd (pin u pk))\<rparr>)" using inv(1) v by simp
  show "fst (pin u pk) = CHAT_CONTACTS_OK \<Longrightarrow>
       session_inv sod identity (snd (begin_ice_session u sid True pk env (st\<lparr>cd_contacts_db := snd (snd (pin u pk))\<rparr>)))"
    using inv v by (auto intro!: begin_ice_inv session_base)
  show "fst (pin u pk) = CHAT_CONTACTS_OK \<Longrightarrow>
       session_inv sod identity (snd (begin_ice_session u sid False pk env (snd (queue_chat_accept u sid env
         (chatd_set_session_state CHATD_SESSION_REQUESTING (st\<lparr>cd_contacts_db := snd (snd (pin u pk))\<rparr>))))))"
    using inv v by (auto intro!: begin_ice_inv session_base)
qed

lemma chat_request_inv:
  assumes "session_inv sod identity st" "io_ok (de_contacts env)" "de_sod env = sod"
  shows "session_inv sod identity (snd (handle_chat_request json env st))"
  using assms(1) pin_session_inv [OF assms]
  by (auto simp: handle_chat_request_def Let_def case_prod_unfold split: option.splits dest!: hex_to_bin_length)

lemma chat_accept_inv:
  assumes "session_inv sod identity st" "io_ok (de_contacts env)" "de_sod env = sod"
  shows "session_inv sod identity (snd (handle_chat_accept json env st))"
  using assms(1) pin_session_inv [OF assms]
  by (auto simp: handle_chat_accept_def Let_def case_prod_unfold bind_eq_Some_conv split: option.splits dest!: hex_to_bin_length)

lemma receive_inv:
  assumes "session_inv sod identity st" "io_ok (de_contacts env)" "de_sod env = sod"
  shows "session_inv sod identity (snd (handle_receive json env st))"
  using assms chat_request_inv [OF assms] chat_accept_inv [OF assms] session_base [OF assms(1)]
  by (simp add: handle_receive_def handle_server_error_def handle_auth_challenge_def handle_user_status_def
      handle_chat_cancel_def Let_def split: option.splits)

lemma callback_inv:
  assumes "session_inv sod identity st" "io_ok (de_contacts env)" "de_sod env = sod"
  shows "session_inv sod identity (snd (callback_chatd_control reason env st))"
  using assms receive_inv [OF assms] by (cases reason) (simp_all add: lose_connection_def Let_def)

section \<open>The local client\<close>

lemma end_chat_inv: "session_inv sod identity st \<Longrightarrow> session_inv sod identity (end_chat x env st)"
  by (simp add: end_chat_def session_base)

lemma client_loop_inv:
  "session_inv sod identity st \<Longrightarrow> session_inv sod identity (chat_client_loop cursor env st)"
  by (erule client_loop_keeps)
    (simp_all add: run_line_def Let_def case_prod_unfold encrypted_ops_inv end_chat_inv)

lemma active_client_inv:
  assumes "session_inv sod identity st"
  shows "session_inv sod identity (service_active_chat_client env st)"
  using assms end_chat_inv encrypted_ops_inv(2) [OF assms, of env] client_loop_inv [OF assms]
  by (auto simp: service_active_chat_client_def split: read_result.splits)

lemma open_chat_inv:
  assumes "session_inv sod identity st"
  shows "session_inv sod identity (snd (handle_open_chat_command fd peer env st))"
  using assms by (simp add: handle_open_chat_command_def Let_def case_prod_unfold)

lemma service_ipc_inv:
  assumes "session_inv sod identity st"
  shows "session_inv sod identity (service_ipc env st)"
proof -
  have client: "session_inv sod identity (snd (handle_ipc_client fd env s))" if "session_inv sod identity s" for fd s
    using that
    by (simp add: handle_ipc_client_def write_ipc_status_def Let_def open_chat_inv [OF that] split: read_result.splits)
  have pending: "session_inv sod identity (service_pending_client env s)" if "session_inv sod identity s" for s
    using that client [of "s\<lparr>cd_pending_ipc_client_fd := -1, cd_pending_ipc_deadline_at := 0\<rparr>"]
    by (simp add: service_pending_client_def Let_def case_prod_unfold)
  show ?thesis using assms pending by (simp add: service_ipc_def)
qed

section \<open>Reachable states\<close>

lemma event_inv:
  assumes "session_inv sod identity st" "io_ok (de_contacts env)" "de_sod env = sod"
  shows "session_inv sod identity (chatd_event_step event env st)"
  using service_ipc_inv [OF assms(1)] active_client_inv [OF assms(1)] service_ice_inv [OF assms(1,3)]
    callback_inv [OF assms] assms(1)
  by (cases event) (simp_all add: Let_def)

lemma initial_inv: "contacts_inv sod f \<Longrightarrow> session_inv sod identity (chatd_initial sod identity config f)"
  by (simp add: chatd_initial_def session_inv_def chat_crypto_handshake_wipe_def)

interpretation secure: daemon_invariant "\<lambda>env. de_sod env = sod \<and> io_ok (de_contacts env)" "session_inv sod identity"
  for sod identity
  by unfold_locales (simp add: event_inv del: chatd_event_step.simps)

lemma reachable_inv:
  assumes "chatd_reachable (\<lambda>env. io_ok (de_contacts env)) sod identity f st" "contacts_inv sod f"
  shows "session_inv sod identity st"
  by (rule secure.reachable_keeps [OF assms(1)]) (simp_all add: initial_inv [OF assms(2)])

end
