(* ===== verification/Daemon_Exchange.thy ===== *)
theory Daemon_Exchange
  imports Daemon_Safety
begin

text \<open>
  Two daemons at work: how the functions of \<open>daemon/main.c\<close> behave when the other side runs the
  same program. Packets are followed from \<open>send_ice_packet\<close> of one daemon through the receive
  ring to \<open>handle_ice_app_packet\<close> of the other, first for the key exchange, then for messages.
\<close>

section \<open>Packets on the wire\<close>

definition wire_packet :: "chat_packet_type_t \<Rightarrow> bytes \<Rightarrow> bytes" where
  "wire_packet ty payload =
     CHAT_PROTOCOL_VERSION # ucast ty # chat_write_u32_be (word_of_nat (length payload)) @ payload"

lemma wire_packet_length [simp]: "length (wire_packet ty payload) = 6 + length payload"
  by (simp add: wire_packet_def)

lemma wire_packet_nonempty [simp]: "wire_packet ty payload \<noteq> []"
  by (simp add: wire_packet_def)

lemma unat_word_of_nat32: "n \<le> 65536 \<Longrightarrow> unat (word_of_nat n :: 32 word) = n"
  by (simp add: unsigned_of_nat take_bit_eq_mod)

text \<open>An ICE session on which packets can be sent.\<close>

definition link_up :: "('h, 's) denv \<Rightarrow> 's chatd_state_t \<Rightarrow> bool" where
  "link_up env st \<longleftrightarrow> is_ready (cd_ice st) \<and>
     (\<exists>agent. is_agent (cd_ice st) = Some agent \<and>
        (\<forall>d. nice_agent_send (de_nice env) agent (is_stream_id (cd_ice st)) (is_component_id (cd_ice st)) d = int (length d)))"

lemma send_ice_packet_ok:
  assumes "link_up env st" "length payload \<le> 4090" "1 \<le> unat (ucast ty :: byte)" "unat (ucast ty :: byte) \<le> 6"
  shows "send_ice_packet ty payload env st = (0, st\<lparr>cd_ice_out := cd_ice_out st @ [wire_packet ty payload]\<rparr>)"
  using assms
  by (auto simp: send_ice_packet_def chat_packet_encode_header_def packet_type_valid_iff unat_word_of_nat32
      link_up_def chat_ice_send_def wire_packet_def Let_def)

text \<open>A packet longer than the ICE buffer is refused, whatever the link.\<close>

lemma send_ice_packet_too_long:
  "4090 < length payload \<Longrightarrow> send_ice_packet ty payload env st = (-1, st)"
  by (simp add: send_ice_packet_def)

lemma decode_wire_packet:
  assumes "length payload \<le> 65536" "1 \<le> unat (ucast ty :: byte)" "unat (ucast ty :: byte) \<le> 6"
  shows "chat_packet_decode_header (Some (wire_packet ty payload)) (Some h) =
     (CHAT_PROTOCOL_OK, Some (h\<lparr>hdr_version := CHAT_PROTOCOL_VERSION, hdr_type := ucast (ucast ty :: byte),
        hdr_length := word_of_nat (length payload)\<rparr>))"
  using assms by (auto simp: chat_packet_decode_header_def wire_packet_def packet_type_valid_iff unat_word_of_nat32
      read_write_u32 Let_def)

lemma chat_packet_types [simp]:
  "ucast (ucast CHAT_PKT_HANDSHAKE :: byte) = CHAT_PKT_HANDSHAKE" "unat (ucast CHAT_PKT_HANDSHAKE :: byte) = 1"
  "ucast (ucast CHAT_PKT_STREAM_HEADER :: byte) = CHAT_PKT_STREAM_HEADER" "unat (ucast CHAT_PKT_STREAM_HEADER :: byte) = 2"
  "ucast (ucast CHAT_PKT_MESSAGE :: byte) = CHAT_PKT_MESSAGE" "unat (ucast CHAT_PKT_MESSAGE :: byte) = 3"
  "ucast (ucast CHAT_PKT_CLOSE :: byte) = CHAT_PKT_CLOSE" "unat (ucast CHAT_PKT_CLOSE :: byte) = 4"
  "CHAT_PKT_STREAM_HEADER \<noteq> CHAT_PKT_HANDSHAKE" "CHAT_PKT_MESSAGE \<noteq> CHAT_PKT_HANDSHAKE"
  "CHAT_PKT_MESSAGE \<noteq> CHAT_PKT_STREAM_HEADER" "CHAT_PKT_CLOSE \<noteq> CHAT_PKT_HANDSHAKE"
  "CHAT_PKT_CLOSE \<noteq> CHAT_PKT_STREAM_HEADER" "CHAT_PKT_CLOSE \<noteq> CHAT_PKT_MESSAGE"
  by (simp_all add: packet_types)

lemma set_state_update: "chatd_set_session_state x st = st\<lparr>cd_session_state := x\<rparr>"
  by (simp add: chatd_set_session_state_def)

section \<open>Taking packets from the ring\<close>

lemma process_none:
  "ring_inv (cd_ice st) \<Longrightarrow> ring_packets (cd_ice st) = [] \<Longrightarrow> process_received_ice_packet env st = (0, st)"
  by (simp add: process_received_ice_packet_def take_received_packets)

lemma process_packet:
  "ring_inv (cd_ice st) \<Longrightarrow> ring_packets (cd_ice st) = p # ps \<Longrightarrow> p \<noteq> [] \<Longrightarrow>
   process_received_ice_packet env st = handle_ice_app_packet p env (st\<lparr>cd_ice := drop_head (cd_ice st)\<rparr>)"
  by (simp add: process_received_ice_packet_def take_received_packets)

lemma drop_head_fields [simp]:
  "is_ready (drop_head s) = is_ready s" "is_agent (drop_head s) = is_agent s" "is_failed (drop_head s) = is_failed s"
  "is_stream_id (drop_head s) = is_stream_id s" "is_component_id (drop_head s) = is_component_id s"
  "is_gathering_done (drop_head s) = is_gathering_done s"
  by (simp_all add: drop_head_def Let_def)

lemma drop_head_ring:
  assumes "ring_inv s" "ring_packets s = p # ps"
  shows "ring_inv (drop_head s)" "ring_packets (drop_head s) = ps"
  using assms drop_head_inv [OF assms(1)] drop_head_packets [OF assms(1)] ring_packets_length [of s] by auto

lemma handle_handshake:
  assumes "length m = 96" "cd_session_state st = CHATD_SESSION_CRYPTO_HANDSHAKE" "\<not> cd_crypto_keys_ready st"
  shows "handle_ice_app_packet (wire_packet CHAT_PKT_HANDSHAKE m) env st = finish_crypto_handshake m env st"
  using assms by (simp add: handle_ice_app_packet_def decode_wire_packet unat_word_of_nat32)
    (simp add: wire_packet_def)

lemma handle_stream_header:
  assumes "length h = 24" "cd_session_state st = CHATD_SESSION_CRYPTO_HANDSHAKE" "cd_crypto_keys_ready st"
    "\<not> cd_crypto_stream_header_received st"
  shows "handle_ice_app_packet (wire_packet CHAT_PKT_STREAM_HEADER h) env st = receive_stream_header h env st"
  using assms by (simp add: handle_ice_app_packet_def decode_wire_packet unat_word_of_nat32)
    (simp add: wire_packet_def)

lemma handle_chat_packet:
  assumes "ty = CHAT_PKT_MESSAGE \<or> ty = CHAT_PKT_CLOSE" "17 \<le> length c" "length c \<le> 65536"
    "cd_session_state st = CHATD_SESSION_SECURE" "cd_encrypted_session_ready st"
  shows "handle_ice_app_packet (wire_packet ty c) env st = decrypt_chat_payload ty c env st"
  using assms by (auto simp: handle_ice_app_packet_def decode_wire_packet unat_word_of_nat32)
    (simp_all add: wire_packet_def)

section \<open>Rounds of the key exchange\<close>

text \<open>A session that is connected and whose crypto deadline has not passed at time \<open>t\<close>, which
  is also the time of every clock reading of the round.\<close>

definition crypto_round :: "('h, 's) denv \<Rightarrow> nat \<Rightarrow> 's chatd_state_t \<Rightarrow> bool" where
  "crypto_round env t st \<longleftrightarrow> link_up env st \<and> ring_inv (cd_ice st) \<and> de_time env = (\<lambda>_. t)
     \<and> cd_has_remote_identity_pk st \<and> \<not> cd_encrypted_session_ready st
     \<and> (cd_crypto_deadline_at st = 0 \<or> t < cd_crypto_deadline_at st)"

lemma crypto_roundD:
  assumes "crypto_round env t st"
  shows "is_ready (cd_ice st)" "ring_inv (cd_ice st)" "de_time env site = t" "cd_has_remote_identity_pk st"
    "\<not> cd_encrypted_session_ready st" "\<not> (cd_crypto_deadline_at st \<noteq> 0 \<and> t \<ge> cd_crypto_deadline_at st)" "link_up env st"
  using assms by (auto simp: crypto_round_def link_up_def)

lemma service_crypto_round:
  assumes "crypto_round env t st"
    and "(if \<not> cd_crypto_handshake_sent st \<or> (\<not> cd_crypto_stream_header_received st \<and> t \<ge> cd_crypto_next_handshake_at st)
          then start_crypto_handshake env st else (0, st)) = (0, st1)"
    and "process_received_ice_packet env st1 = (0, st2)"
    and "(if cd_crypto_keys_ready st2 \<and> (\<not> cd_crypto_stream_header_sent st2
             \<or> (\<not> cd_encrypted_session_ready st2 \<and> t \<ge> cd_crypto_next_stream_header_at st2))
          then send_stream_header env st2 else (0, st2)) = (0, st3)"
    and "process_received_ice_packet env st3 = (0, st4)"
  shows "service_crypto_session env st = become_secure env st4"
  using crypto_roundD(1,4-6) [OF assms(1)]
  unfolding service_crypto_session_def Let_def crypto_roundD(3) [OF assms(1)] assms(2-5) prod.case by auto


text \<open>The state after the own message of the key exchange was sent.\<close>

definition greeted :: "nat \<Rightarrow> chat_crypto_handshake_t \<Rightarrow> bytes \<Rightarrow> 's chatd_state_t \<Rightarrow> 's chatd_state_t" where
  "greeted t hs m st =
     st\<lparr>cd_session_state := CHATD_SESSION_CRYPTO_HANDSHAKE, cd_crypto_handshake := hs,
        cd_crypto_local_handshake_message := m,
        cd_ice_out := cd_ice_out st @ [wire_packet CHAT_PKT_HANDSHAKE m],
        cd_crypto_next_handshake_at := t + 1, cd_crypto_handshake_sent := True\<rparr>"

lemma round_first:
  assumes "crypto_round env t st" "ring_packets (cd_ice st) = []" "\<not> cd_crypto_handshake_sent st" "\<not> cd_crypto_keys_ready st"
    and "chat_crypto_handshake_init (de_sod env) (de_kx_seed env) (cd_crypto_handshake st) (Some (cd_identity st))
           (Some (cd_remote_identity_pk st)) (cd_crypto_role st) (Some (map byte_of_char (cd_ice_session_id st)))
         = (CHAT_CRYPTO_OK, hs, Some m)" and "length m = 96"
  shows "service_crypto_session env st = greeted t hs m st" (is "_ = ?st1")
proof -
  have link: "link_up env (st\<lparr>cd_session_state := CHATD_SESSION_CRYPTO_HANDSHAKE, cd_crypto_handshake := hs,
        cd_crypto_local_handshake_message := m\<rparr>)"
    using crypto_roundD(7) [OF assms(1)] by (simp add: link_up_def)
  have start: "start_crypto_handshake env st = (0, ?st1)"
    using assms send_ice_packet_ok [OF link, of m CHAT_PKT_HANDSHAKE]
    by (simp add: start_crypto_handshake_def set_state_update crypto_round_def greeted_def)
  have none: "process_received_ice_packet env ?st1 = (0, ?st1)"
    using crypto_roundD(2) [OF assms(1)] assms(2) by (intro process_none) (simp_all add: greeted_def)
  have "service_crypto_session env st = become_secure env ?st1"
    using assms(3,4) start none by (intro service_crypto_round [OF assms(1) _ none _ none]) (simp_all add: greeted_def)
  then show ?thesis using assms(4) by (simp add: become_secure_def greeted_def)
qed

text \<open>Finishing on the peer's message and sending the own stream header; \<open>rest\<close> are the
  packets behind it.\<close>

definition keyed ::
  "nat \<Rightarrow> chat_crypto_handshake_t \<Rightarrow> chat_crypto_session_keys_t \<Rightarrow> 's chat_crypto_secretstream_t \<Rightarrow> bytes \<Rightarrow>
   's chatd_state_t \<Rightarrow> 's chatd_state_t" where
  "keyed t hs keys stream h st =
     st\<lparr>cd_ice := drop_head (cd_ice st), cd_crypto_handshake := hs, cd_crypto_keys := keys, cd_crypto_keys_ready := True,
        cd_crypto_stream := stream, cd_crypto_local_stream_header := h,
        cd_ice_out := cd_ice_out st @ [wire_packet CHAT_PKT_STREAM_HEADER h],
        cd_crypto_next_stream_header_at := t + 1, cd_crypto_stream_header_sent := True\<rparr>"

lemma round_keys:
  assumes "crypto_round env t st" "ring_packets (cd_ice st) = wire_packet CHAT_PKT_HANDSHAKE m # rest" "length m = 96"
    and "cd_crypto_handshake_sent st" "t < cd_crypto_next_handshake_at st" "\<not> cd_crypto_keys_ready st"
    "\<not> cd_crypto_stream_header_sent st" "cd_session_state st = CHATD_SESSION_CRYPTO_HANDSHAKE"
    and "chat_crypto_handshake_finish (de_sod env) (cd_crypto_handshake st) (Some m) (cd_crypto_keys st) = (CHAT_CRYPTO_OK, hs, keys)"
    and "chat_crypto_secretstream_init_push (de_sod env) (de_stream_seed env) (cd_crypto_stream st) (ck_tx keys)
         = (CHAT_CRYPTO_OK, stream, Some h)" and "length h = 24"
    and "process_received_ice_packet env (keyed t hs keys stream h st) = (0, st4)"
  shows "service_crypto_session env st = become_secure env st4"
proof -
  let ?st2 = "st\<lparr>cd_ice := drop_head (cd_ice st), cd_crypto_handshake := hs, cd_crypto_keys := keys, cd_crypto_keys_ready := True\<rparr>"
  have "process_received_ice_packet env st = finish_crypto_handshake m env (st\<lparr>cd_ice := drop_head (cd_ice st)\<rparr>)"
    using assms process_packet [OF crypto_roundD(2) [OF assms(1)] assms(2)] by (simp add: handle_handshake)
  then have 2: "process_received_ice_packet env st = (0, ?st2)"
    using assms(9) by (simp add: finish_crypto_handshake_def)
  have "link_up env (?st2\<lparr>cd_crypto_stream := stream, cd_crypto_local_stream_header := h\<rparr>)"
    using crypto_roundD(7) [OF assms(1)] by (simp add: link_up_def)
  from send_ice_packet_ok [OF this, of h CHAT_PKT_STREAM_HEADER]
  have 3: "send_stream_header env ?st2 = (0, keyed t hs keys stream h st)"
    using assms(7,10,11) crypto_roundD(3) [OF assms(1)] by (simp add: send_stream_header_def keyed_def)
  show ?thesis
    using assms(4,5,7) 3 by (intro service_crypto_round [OF assms(1) _ 2 _ assms(12)]) simp_all
qed

lemma process_stream_header:
  assumes "ring_inv (cd_ice st)" "ring_packets (cd_ice st) = wire_packet CHAT_PKT_STREAM_HEADER h # rest" "length h = 24"
    and "cd_session_state st = CHATD_SESSION_CRYPTO_HANDSHAKE" "cd_crypto_keys_ready st" "\<not> cd_crypto_stream_header_received st"
    and "chat_crypto_secretstream_init_pull (de_sod env) (cd_crypto_stream st) (ck_rx (cd_crypto_keys st)) h = (CHAT_CRYPTO_OK, stream)"
  shows "process_received_ice_packet env st =
    (0, st\<lparr>cd_ice := drop_head (cd_ice st), cd_crypto_stream := stream, cd_crypto_stream_header_received := True\<rparr>)"
  using assms(3-7) process_packet [OF assms(1,2) wire_packet_nonempty, of env]
  by (simp add: handle_stream_header receive_stream_header_def)

text \<open>The last round of the side that already has its keys and has sent its header.\<close>

lemma round_header:
  assumes "crypto_round env t st" "ring_packets (cd_ice st) = [wire_packet CHAT_PKT_STREAM_HEADER h]" "length h = 24"
    and "cd_crypto_handshake_sent st" "t < cd_crypto_next_handshake_at st" "cd_session_state st = CHATD_SESSION_CRYPTO_HANDSHAKE"
    and "cd_crypto_keys_ready st" "cd_crypto_stream_header_sent st" "t < cd_crypto_next_stream_header_at st"
    "\<not> cd_crypto_stream_header_received st"
    and "chat_crypto_secretstream_init_pull (de_sod env) (cd_crypto_stream st) (ck_rx (cd_crypto_keys st)) h = (CHAT_CRYPTO_OK, stream)"
  shows "service_crypto_session env st = become_secure env
    (st\<lparr>cd_ice := drop_head (cd_ice st), cd_crypto_stream := stream, cd_crypto_stream_header_received := True\<rparr>)"
    (is "_ = become_secure env ?st2")
proof -
  have 2: "process_received_ice_packet env st = (0, ?st2)"
    using process_stream_header [OF crypto_roundD(2) [OF assms(1)] assms(2,3,6,7,10,11)] .
  have 4: "process_received_ice_packet env ?st2 = (0, ?st2)"
    using drop_head_ring [OF crypto_roundD(2) [OF assms(1)] assms(2)] by (intro process_none) simp_all
  show ?thesis
    using assms(4,5,7-9) by (intro service_crypto_round [OF assms(1) _ 2 _ 4]) simp_all
qed

lemma announce_secure_out: "\<exists>out. announce_secure env st = st\<lparr>cd_ipc_out := out\<rparr>"
  by (cases "announce_secure env st = st") (auto simp: announce_secure_def write_ipc_line_def Let_def intro: exI [of _ "cd_ipc_out st"])

lemma become_secure_fields:
  assumes "cd_crypto_keys_ready st" "cd_crypto_stream_header_sent st" "cd_crypto_stream_header_received st"
  shows "\<exists>out. become_secure env st =
     st\<lparr>cd_encrypted_session_ready := True, cd_session_state := CHATD_SESSION_SECURE, cd_ipc_out := out\<rparr>"
  using assms announce_secure_out by (simp add: become_secure_def set_state_update)

section \<open>Delivery of packets\<close>

text \<open>One call of \<open>service_ice_session\<close> during which libnice delivers the given packets.\<close>

definition service_with :: "('h, 's) denv \<Rightarrow> bytes list \<Rightarrow> 's chatd_state_t \<Rightarrow> 's chatd_state_t" where
  "service_with env packets st =
     service_ice_session (env\<lparr>de_ice_events := map (\<lambda>p. Ice_received (Some p)) packets\<rparr>) st"

definition sent_since :: "'s chatd_state_t \<Rightarrow> 's chatd_state_t \<Rightarrow> bytes list" where
  "sent_since st st' = drop (length (cd_ice_out st)) (cd_ice_out st')"

definition receive_all :: "bytes list \<Rightarrow> chat_ice_session_t \<Rightarrow> chat_ice_session_t" where
  "receive_all packets ice = foldl (\<lambda>s p. on_recv (Some p) s) ice packets"

lemma poll_received: "foldl (ice_event_step nice) ice (map (\<lambda>p. Ice_received (Some p)) packets) = receive_all packets ice"
  unfolding receive_all_def by (induction packets arbitrary: ice) simp_all

lemma on_recv_fields [simp]:
  "length p \<le> 4096 \<Longrightarrow> is_ready (on_recv (Some p) s) = is_ready s"
  "length p \<le> 4096 \<Longrightarrow> is_agent (on_recv (Some p) s) = is_agent s"
  "length p \<le> 4096 \<Longrightarrow> is_failed (on_recv (Some p) s) = is_failed s"
  "length p \<le> 4096 \<Longrightarrow> is_stream_id (on_recv (Some p) s) = is_stream_id s"
  "length p \<le> 4096 \<Longrightarrow> is_component_id (on_recv (Some p) s) = is_component_id s"
  "length p \<le> 4096 \<Longrightarrow> is_gathering_done (on_recv (Some p) s) = is_gathering_done s"
  by (simp_all add: on_recv_push push_slot_def Let_def)

lemma receive_all_props:
  assumes "ring_inv ice" "\<forall>p \<in> set packets. length p \<le> 4096" "length (ring_packets ice) + length packets \<le> 8"
  shows "ring_inv (receive_all packets ice) \<and> ring_packets (receive_all packets ice) = ring_packets ice @ packets
    \<and> is_ready (receive_all packets ice) = is_ready ice \<and> is_agent (receive_all packets ice) = is_agent ice
    \<and> is_failed (receive_all packets ice) = is_failed ice \<and> is_stream_id (receive_all packets ice) = is_stream_id ice
    \<and> is_component_id (receive_all packets ice) = is_component_id ice"
  using assms
proof (induction packets arbitrary: ice)
  case (Cons p packets)
  then show ?case
    using Cons.IH [of "on_recv (Some p) ice"] on_recv_inv [of ice p] on_recv_packets [of ice p]
    by (simp add: receive_all_def)
qed (simp add: receive_all_def)

text \<open>The same ICE session with an empty ring.\<close>

definition quiet_link :: "chat_ice_session_t \<Rightarrow> chat_ice_session_t \<Rightarrow> bool" where
  "quiet_link ice ice' \<longleftrightarrow> ring_inv ice' \<and> ring_packets ice' = [] \<and> is_ready ice' = is_ready ice \<and> is_agent ice' = is_agent ice
    \<and> is_failed ice' = is_failed ice \<and> is_stream_id ice' = is_stream_id ice \<and> is_component_id ice' = is_component_id ice"

lemma receive_one_quiet:
  assumes "ring_inv ice" "ring_packets ice = []" "length p \<le> 4096"
  shows "quiet_link ice (drop_head (receive_all [p] ice))"
  using receive_all_props [OF assms(1), of "[p]"] assms drop_head_ring [of "receive_all [p] ice" p "[]"]
  by (simp add: quiet_link_def)

lemma receive_two_quiet:
  assumes "ring_inv ice" "ring_packets ice = []" "length p \<le> 4096" "length q \<le> 4096"
  shows "quiet_link ice (drop_head (drop_head (receive_all [p, q] ice)))"
  using receive_all_props [OF assms(1), of "[p, q]"] assms drop_head_ring [of "receive_all [p, q] ice" p "[q]"]
    drop_head_ring [of "drop_head (receive_all [p, q] ice)" q "[]"]
  by (simp add: quiet_link_def)

text \<open>A session past the exchange of session descriptions.\<close>

definition connected :: "'s chatd_state_t \<Rightarrow> bool" where
  "connected st \<longleftrightarrow> cd_ice_active st \<and> cd_ice_cli_notified st \<and> \<not> cd_has_pending_remote_ice_sdp st
     \<and> (cd_ice_local_sdp_sent st \<or> cd_control_wsi st = None) \<and> \<not> is_failed (cd_ice st)"

definition crypto_in_time :: "('h, 's) denv \<Rightarrow> 's chatd_state_t \<Rightarrow> bool" where
  "crypto_in_time env st \<longleftrightarrow> cd_encrypted_session_ready st \<or> cd_crypto_deadline_at st = 0
     \<or> de_time env Time_ice_service < cd_crypto_deadline_at st"

lemma service_with_crypto:
  assumes "connected st" "ring_inv (cd_ice st)" "link_up env st" "crypto_in_time env st"
    and "\<forall>p \<in> set packets. length p \<le> 4096" "length (ring_packets (cd_ice st)) + length packets \<le> 8"
  shows "service_with env packets st =
    service_crypto_session (env\<lparr>de_ice_events := map (\<lambda>p. Ice_received (Some p)) packets\<rparr>)
      (st\<lparr>cd_ice := receive_all packets (cd_ice st)\<rparr>)"
proof -
  have "\<not> (cd_crypto_deadline_at st \<noteq> 0 \<and> \<not> cd_encrypted_session_ready st
      \<and> de_time env Time_ice_service \<ge> cd_crypto_deadline_at st)"
    using assms(4) by (auto simp: crypto_in_time_def)
  then show ?thesis
    using assms receive_all_props [OF assms(2,5,6)]
    by (auto simp: service_with_def service_ice_session_def chat_ice_poll_def poll_received connected_def link_up_def
        note_ice_ready_def Let_def)
qed

section \<open>The key exchange of two daemons\<close>

definition fresh :: "'s chatd_state_t \<Rightarrow> bool" where
  "fresh st \<longleftrightarrow> ring_packets (cd_ice st) = [] \<and> \<not> cd_crypto_handshake_sent st \<and> \<not> cd_crypto_keys_ready st
     \<and> \<not> cd_crypto_stream_header_sent st \<and> \<not> cd_crypto_stream_header_received st"

definition secure :: "'s chatd_state_t \<Rightarrow> bool" where
  "secure st \<longleftrightarrow> cd_encrypted_session_ready st \<and> cd_session_state st = CHATD_SESSION_SECURE"

text \<open>A secure session on a working link, with no packet waiting.\<close>

definition chatting :: "('h, 's) denv \<Rightarrow> 's chatd_state_t \<Rightarrow> bool" where
  "chatting env st \<longleftrightarrow> secure st \<and> connected st \<and> link_up env st \<and> ring_inv (cd_ice st) \<and> ring_packets (cd_ice st) = []"

definition streams_match :: "('s \<Rightarrow> 's \<Rightarrow> bool) \<Rightarrow> 's chatd_state_t \<Rightarrow> 's chatd_state_t \<Rightarrow> bool" where
  "streams_match sync st st' \<longleftrightarrow> st_push_initialized (cd_crypto_stream st) \<and> st_pull_initialized (cd_crypto_stream st')
     \<and> sync (st_push (cd_crypto_stream st)) (st_pull (cd_crypto_stream st'))"

text \<open>Who talks to whom stays as it is.\<close>

definition same_chat :: "'s chatd_state_t \<Rightarrow> 's chatd_state_t \<Rightarrow> bool" where
  "same_chat st st' \<longleftrightarrow> cd_identity st' = cd_identity st \<and> cd_ice_peer st' = cd_ice_peer st
     \<and> cd_ice_session_id st' = cd_ice_session_id st \<and> cd_remote_identity_pk st' = cd_remote_identity_pk st
     \<and> cd_crypto_role st' = cd_crypto_role st \<and> cd_contacts_db st' = cd_contacts_db st
     \<and> cd_lookup_client_fd st' = cd_lookup_client_fd st \<and> cd_phase st' = cd_phase st \<and> cd_control_wsi st' = cd_control_wsi st"

lemma same_chat_trans: "same_chat a b \<Longrightarrow> same_chat b c \<Longrightarrow> same_chat a c"
  by (simp add: same_chat_def)

text \<open>Both daemons run; every packet one has sent reaches the other before its next call.\<close>

definition finish_exchange ::
  "('h, 's) denv \<Rightarrow> ('h, 's) denv \<Rightarrow> 's chatd_state_t \<Rightarrow> 's chatd_state_t \<Rightarrow> 's chatd_state_t \<Rightarrow> 's chatd_state_t
    \<Rightarrow> 's chatd_state_t \<times> 's chatd_state_t" where
  "finish_exchange envA envB stA stA1 stB stB1 =
     (let stA2 = service_with envA (sent_since stB stB1) stA1;
          stB2 = service_with envB (sent_since stA stA2) stB1;
          stA3 = service_with envA (sent_since stB1 stB2) stA2
      in (stA3, stB2))"

definition key_exchange ::
  "('h, 's) denv \<Rightarrow> ('h, 's) denv \<Rightarrow> 's chatd_state_t \<Rightarrow> 's chatd_state_t \<Rightarrow> 's chatd_state_t \<times> 's chatd_state_t" where
  "key_exchange envA envB stA stB =
     finish_exchange envA envB stA (service_with envA [] stA) stB (service_with envB [] stB)"

lemma crypto_round_deliver:
  assumes "crypto_round env t st" "\<forall>p \<in> set packets. length p \<le> 4096" "length (ring_packets (cd_ice st)) + length packets \<le> 8"
  shows "crypto_round (env\<lparr>de_ice_events := events\<rparr>) t (st\<lparr>cd_ice := receive_all packets (cd_ice st)\<rparr>)"
    "ring_packets (receive_all packets (cd_ice st)) = ring_packets (cd_ice st) @ packets"
  using assms receive_all_props [OF crypto_roundD(2) [OF assms(1)] assms(2,3)]
  by (simp_all add: crypto_round_def link_up_def)

lemma round_service:
  assumes "connected st" "crypto_round env t st" "\<forall>p \<in> set packets. length p \<le> 4096"
    "length (ring_packets (cd_ice st)) + length packets \<le> 8"
  shows "service_with env packets st =
    service_crypto_session (env\<lparr>de_ice_events := map (\<lambda>p. Ice_received (Some p)) packets\<rparr>)
      (st\<lparr>cd_ice := receive_all packets (cd_ice st)\<rparr>)"
proof -
  have "crypto_in_time env st" using assms(2) by (auto simp: crypto_in_time_def crypto_round_def)
  then show ?thesis
    using service_with_crypto [OF assms(1) crypto_roundD(2,7) [OF assms(2)] _ assms(3,4)] by blast
qed

lemma receive_none [simp]: "receive_all [] ice = ice"
  by (simp add: receive_all_def)

text \<open>The three kinds of rounds, with delivery.\<close>

lemma serve_first:
  assumes "connected st" "crypto_round env t st" "fresh st"
    and "chat_crypto_handshake_init (de_sod env) (de_kx_seed env) (cd_crypto_handshake st) (Some (cd_identity st))
           (Some (cd_remote_identity_pk st)) (cd_crypto_role st) (Some (map byte_of_char (cd_ice_session_id st)))
         = (CHAT_CRYPTO_OK, hs, Some m)" and "length m = 96"
  shows "service_with env [] st = greeted t hs m st"
proof -
  have r: "crypto_round (env\<lparr>de_ice_events := []\<rparr>) t st"
    using assms(2) by (simp add: crypto_round_def link_up_def)
  have "service_with env [] st = service_crypto_session (env\<lparr>de_ice_events := []\<rparr>) st"
    using round_service [OF assms(1,2), of "[]"] assms(3) by (simp add: fresh_def)
  then show ?thesis using round_first [OF r _ _ _ _ assms(5)] assms(3,4) by (simp add: fresh_def)
qed

text \<open>A side that has sent its message and waits for the peer's.\<close>

definition waiting :: "nat \<Rightarrow> 's chatd_state_t \<Rightarrow> bool" where
  "waiting t st \<longleftrightarrow> ring_packets (cd_ice st) = [] \<and> cd_crypto_handshake_sent st \<and> t < cd_crypto_next_handshake_at st
     \<and> \<not> cd_crypto_keys_ready st \<and> \<not> cd_crypto_stream_header_sent st \<and> \<not> cd_crypto_stream_header_received st
     \<and> cd_session_state st = CHATD_SESSION_CRYPTO_HANDSHAKE"

lemma serve_keys:
  fixes env :: "('h, 's) denv"
  assumes "connected st" "crypto_round env t st" "waiting t st" "length m = 96"
    and "chat_crypto_handshake_finish (de_sod env) (cd_crypto_handshake st) (Some m) (cd_crypto_keys st) = (CHAT_CRYPTO_OK, hs, keys)"
    and "chat_crypto_secretstream_init_push (de_sod env) (de_stream_seed env) (cd_crypto_stream st) (ck_tx keys)
         = (CHAT_CRYPTO_OK, stream, Some h)" and "length h = 24"
  shows "service_with env [wire_packet CHAT_PKT_HANDSHAKE m] st =
    keyed t hs keys stream h (st\<lparr>cd_ice := receive_all [wire_packet CHAT_PKT_HANDSHAKE m] (cd_ice st)\<rparr>)"
    (is "service_with env ?ps st = keyed t hs keys stream h ?st")
proof -
  let ?env = "env\<lparr>de_ice_events := map (\<lambda>p. Ice_received (Some p)) ?ps\<rparr>"
  have ps: "\<forall>p \<in> set ?ps. length p \<le> 4096" "length (ring_packets (cd_ice st)) + length ?ps \<le> 8"
    using assms(3,4) by (simp_all add: waiting_def)
  note r = crypto_round_deliver(1) [OF assms(2) ps, of "map (\<lambda>p. Ice_received (Some p)) ?ps"] crypto_round_deliver(2) [OF assms(2) ps]
  have ring: "ring_packets (cd_ice ?st) = wire_packet CHAT_PKT_HANDSHAKE m # []"
    using r(2) assms(3) by (simp add: waiting_def)
  have none: "process_received_ice_packet ?env (keyed t hs keys stream h ?st) = (0, keyed t hs keys stream h ?st)"
    using drop_head_ring [OF crypto_roundD(2) [OF r(1)] ring] by (intro process_none) (simp_all add: keyed_def)
  have "service_crypto_session ?env ?st = become_secure ?env (keyed t hs keys stream h ?st)"
    using assms(3-7) none by (intro round_keys [OF r(1) ring]) (simp_all add: waiting_def)
  then show ?thesis
    using round_service [OF assms(1,2) ps] assms(3) by (simp add: become_secure_def keyed_def waiting_def)
qed

lemma serve_keys_header:
  fixes env :: "('h, 's) denv"
  assumes "connected st" "crypto_round env t st" "waiting t st" "length m = 96"
    and "chat_crypto_handshake_finish (de_sod env) (cd_crypto_handshake st) (Some m) (cd_crypto_keys st) = (CHAT_CRYPTO_OK, hs, keys)"
    and "chat_crypto_secretstream_init_push (de_sod env) (de_stream_seed env) (cd_crypto_stream st) (ck_tx keys)
         = (CHAT_CRYPTO_OK, stream, Some h)" and "length h = 24"
    and "chat_crypto_secretstream_init_pull (de_sod env) stream (ck_rx keys) h' = (CHAT_CRYPTO_OK, stream')" and "length h' = 24"
  shows "\<exists>ice out. service_with env [wire_packet CHAT_PKT_HANDSHAKE m, wire_packet CHAT_PKT_STREAM_HEADER h'] st =
    keyed t hs keys stream h st
      \<lparr>cd_ice := ice, cd_crypto_stream := stream', cd_crypto_stream_header_received := True,
       cd_encrypted_session_ready := True, cd_session_state := CHATD_SESSION_SECURE, cd_ipc_out := out\<rparr>
    \<and> quiet_link (cd_ice st) ice"
proof -
  let ?ps = "[wire_packet CHAT_PKT_HANDSHAKE m, wire_packet CHAT_PKT_STREAM_HEADER h']"
  let ?st = "st\<lparr>cd_ice := receive_all ?ps (cd_ice st)\<rparr>"
  let ?env = "env\<lparr>de_ice_events := map (\<lambda>p. Ice_received (Some p)) ?ps\<rparr>"
  let ?k = "keyed t hs keys stream h ?st"
  let ?k' = "?k\<lparr>cd_ice := drop_head (cd_ice ?k), cd_crypto_stream := stream', cd_crypto_stream_header_received := True\<rparr>"
  have ps: "\<forall>p \<in> set ?ps. length p \<le> 4096" "length (ring_packets (cd_ice st)) + length ?ps \<le> 8"
    using assms(3,4,9) by (simp_all add: waiting_def)
  note r = crypto_round_deliver(1) [OF assms(2) ps, of "map (\<lambda>p. Ice_received (Some p)) ?ps"] crypto_round_deliver(2) [OF assms(2) ps]
  have ring: "ring_packets (cd_ice ?st) = wire_packet CHAT_PKT_HANDSHAKE m # [wire_packet CHAT_PKT_STREAM_HEADER h']"
    using r(2) assms(3) by (simp add: waiting_def)
  have hdr: "process_received_ice_packet ?env ?k = (0, ?k')"
    using drop_head_ring [OF crypto_roundD(2) [OF r(1)] ring] assms(3,8,9)
    by (intro process_stream_header [where h = h' and rest = "[]"]) (simp_all add: keyed_def waiting_def)
  have "service_crypto_session ?env ?st = become_secure ?env ?k'"
    using assms(3-7) hdr by (intro round_keys [OF r(1) ring]) (simp_all add: waiting_def)
  moreover obtain out where "become_secure ?env ?k' =
     ?k'\<lparr>cd_encrypted_session_ready := True, cd_session_state := CHATD_SESSION_SECURE, cd_ipc_out := out\<rparr>"
    using become_secure_fields [of ?k' ?env] by (auto simp: keyed_def)
  ultimately have "service_with env ?ps st =
     ?k'\<lparr>cd_encrypted_session_ready := True, cd_session_state := CHATD_SESSION_SECURE, cd_ipc_out := out\<rparr>"
    using round_service [OF assms(1,2) ps] by simp
  moreover have "quiet_link (cd_ice st) (drop_head (cd_ice ?k))"
    using receive_two_quiet [OF crypto_roundD(2) [OF assms(2)]] assms(3,4,9) by (simp add: keyed_def waiting_def)
  ultimately show ?thesis
    by - (rule exI [of _ "drop_head (cd_ice ?k)"], rule exI [of _ out], simp add: keyed_def)
qed

lemma serve_header:
  fixes env :: "('h, 's) denv"
  assumes "connected st" "crypto_round env t st" "ring_packets (cd_ice st) = []" "cd_crypto_handshake_sent st"
    "t < cd_crypto_next_handshake_at st" "cd_session_state st = CHATD_SESSION_CRYPTO_HANDSHAKE"
    "cd_crypto_keys_ready st" "cd_crypto_stream_header_sent st" "t < cd_crypto_next_stream_header_at st"
    "\<not> cd_crypto_stream_header_received st"
    and "chat_crypto_secretstream_init_pull (de_sod env) (cd_crypto_stream st) (ck_rx (cd_crypto_keys st)) h = (CHAT_CRYPTO_OK, stream)"
    and "length h = 24"
  shows "\<exists>ice out. service_with env [wire_packet CHAT_PKT_STREAM_HEADER h] st =
    st\<lparr>cd_ice := ice, cd_crypto_stream := stream, cd_crypto_stream_header_received := True,
       cd_encrypted_session_ready := True, cd_session_state := CHATD_SESSION_SECURE, cd_ipc_out := out\<rparr>
    \<and> quiet_link (cd_ice st) ice"
proof -
  let ?ps = "[wire_packet CHAT_PKT_STREAM_HEADER h]"
  let ?st = "st\<lparr>cd_ice := receive_all ?ps (cd_ice st)\<rparr>"
  let ?env = "env\<lparr>de_ice_events := map (\<lambda>p. Ice_received (Some p)) ?ps\<rparr>"
  let ?st' = "?st\<lparr>cd_ice := drop_head (cd_ice ?st), cd_crypto_stream := stream, cd_crypto_stream_header_received := True\<rparr>"
  have ps: "\<forall>p \<in> set ?ps. length p \<le> 4096" "length (ring_packets (cd_ice st)) + length ?ps \<le> 8"
    using assms(3,12) by simp_all
  note r = crypto_round_deliver(1) [OF assms(2) ps, of "map (\<lambda>p. Ice_received (Some p)) ?ps"] crypto_round_deliver(2) [OF assms(2) ps]
  have "service_crypto_session ?env ?st = become_secure ?env ?st'"
    using assms(3-12) r(2) by (intro round_header [OF r(1)]) simp_all
  moreover obtain out where "become_secure ?env ?st' =
     ?st'\<lparr>cd_encrypted_session_ready := True, cd_session_state := CHATD_SESSION_SECURE, cd_ipc_out := out\<rparr>"
    using become_secure_fields [of ?st' ?env] assms(7,8) by auto
  ultimately have "service_with env ?ps st =
     ?st'\<lparr>cd_encrypted_session_ready := True, cd_session_state := CHATD_SESSION_SECURE, cd_ipc_out := out\<rparr>"
    using round_service [OF assms(1,2) ps] by simp
  moreover have "quiet_link (cd_ice st) (drop_head (cd_ice ?st))"
    using receive_one_quiet [OF crypto_roundD(2) [OF assms(2)] assms(3)] assms(12) by simp
  ultimately show ?thesis
    by - (rule exI [of _ "drop_head (cd_ice ?st)"], rule exI [of _ out], simp)
qed

text \<open>A stream that one side opens for writing and the other, with the header, for reading.\<close>

definition stream_opens :: "('h, 's) sodium \<Rightarrow> ('s \<Rightarrow> 's \<Rightarrow> bool) \<Rightarrow> bytes \<Rightarrow> bytes \<Rightarrow> bytes \<Rightarrow> bytes \<Rightarrow> 's \<Rightarrow> 's \<Rightarrow> bool" where
  "stream_opens sod sync rnd tx rx head push pull \<longleftrightarrow> length head = 24 \<and> sync push pull
     \<and> (\<forall>stream. chat_crypto_secretstream_init_push sod rnd stream tx =
          (CHAT_CRYPTO_OK, stream\<lparr>st_push := push, st_push_initialized := True\<rparr>, Some head))
     \<and> (\<forall>stream. chat_crypto_secretstream_init_pull sod stream rx head =
          (CHAT_CRYPTO_OK, stream\<lparr>st_pull := pull, st_pull_initialized := True\<rparr>))"

lemma stream_open:
  assumes "stream_laws sod sync"
  shows "\<exists>head push pull. stream_opens sod sync rnd key key head push pull"
proof -
  obtain push head pull where "secretstream_init_push sod rnd key = Some (push, head)" "length head = 24"
    "secretstream_init_pull sod head key = Some pull" "sync push pull"
    using assms by (fastforce simp: stream_laws_def)
  then have "stream_opens sod sync rnd key key head push pull"
    by (simp add: stream_opens_def chat_crypto_secretstream_init_push_def chat_crypto_secretstream_init_pull_def)
  then show ?thesis by blast
qed

text \<open>What one side must have before the exchange: the identity, the peer's key, the session id
  and the role.\<close>

definition session_with :: "chat_identity_t \<Rightarrow> bytes \<Rightarrow> string \<Rightarrow> chat_crypto_role_t \<Rightarrow> 's chatd_state_t \<Rightarrow> bool" where
  "session_with identity remote sid role st \<longleftrightarrow> cd_identity st = identity \<and> cd_remote_identity_pk st = remote
     \<and> cd_ice_session_id st = sid \<and> cd_crypto_role st = role \<and> connected st \<and> fresh st"

definition crypto_laws :: "('h, 's) sodium \<Rightarrow> ('s \<Rightarrow> 's \<Rightarrow> bool) \<Rightarrow> bool" where
  "crypto_laws sod sync \<longleftrightarrow> hash_laws sod \<and> sign_laws sod \<and> kx_laws sod \<and> stream_laws sod sync \<and> 0 \<le> sodium_init sod"

text \<open>What both sides have once the messages are made: the results of finishing on the other's
  message, and streams that match.\<close>

definition material ::
  "('h, 's) sodium \<Rightarrow> ('s \<Rightarrow> 's \<Rightarrow> bool) \<Rightarrow> bytes \<Rightarrow> bytes \<Rightarrow> chat_crypto_session_keys_t \<Rightarrow> chat_crypto_session_keys_t \<Rightarrow>
   chat_crypto_handshake_t \<Rightarrow> bytes \<Rightarrow> chat_crypto_handshake_t \<Rightarrow> bytes \<Rightarrow> bool" where
  "material sod sync seedA seedB keysA keysB hA msgA hB msgB \<longleftrightarrow> length msgA = 96 \<and> length msgB = 96 \<and>
    (\<exists>hA' kA hB' kB headA pushA pullA headB pushB pullB.
      chat_crypto_handshake_finish sod hA (Some msgB) keysA = (CHAT_CRYPTO_OK, hA', kA)
    \<and> chat_crypto_handshake_finish sod hB (Some msgA) keysB = (CHAT_CRYPTO_OK, hB', kB)
    \<and> stream_opens sod sync seedA (ck_tx kA) (ck_rx kB) headA pushA pullA
    \<and> stream_opens sod sync seedB (ck_tx kB) (ck_rx kA) headB pushB pullB)"

lemma exchange_material:
  fixes sod :: "('h, 's) sodium"
  assumes "crypto_laws sod sync"
    and "crypto_sign_keypair sod seedA = (id_public_key A, id_secret_key A)"
    and "crypto_sign_keypair sod seedB = (id_public_key B, id_secret_key B)"
    and "sid \<noteq> []" and "length sid \<le> 32"
  obtains hA msgA hB msgB where
    "chat_crypto_handshake_init sod kxA oldA (Some A) (Some (id_public_key B)) CHAT_CRYPTO_ROLE_INITIATOR
       (Some (map byte_of_char sid)) = (CHAT_CRYPTO_OK, hA, Some msgA)"
    "chat_crypto_handshake_init sod kxB oldB (Some B) (Some (id_public_key A)) CHAT_CRYPTO_ROLE_RESPONDER
       (Some (map byte_of_char sid)) = (CHAT_CRYPTO_OK, hB, Some msgB)"
    "material sod sync seedPA seedPB keysA keysB hA msgA hB msgB"
proof -
  note laws = assms(1) [unfolded crypto_laws_def]
  let ?sid = "map byte_of_char sid"
  obtain resA hA mA where initA: "chat_crypto_handshake_init sod kxA oldA (Some A)
      (Some (id_public_key B)) CHAT_CRYPTO_ROLE_INITIATOR (Some ?sid) = (resA, hA, mA)" using prod_cases3 by blast
  obtain resB hB mB where initB: "chat_crypto_handshake_init sod kxB oldB (Some B)
      (Some (id_public_key A)) CHAT_CRYPTO_ROLE_RESPONDER (Some ?sid) = (resB, hB, mB)" using prod_cases3 by blast
  have sid: "?sid \<noteq> []" "length ?sid \<le> CHAT_CRYPTO_SESSION_ID_MAX" using assms(4,5) by simp_all
  obtain msgA msgB hA' kA hB' kB where pair: "resA = CHAT_CRYPTO_OK" "resB = CHAT_CRYPTO_OK" "mA = Some msgA" "length msgA = 96"
    "mB = Some msgB" "length msgB = 96"
    "chat_crypto_handshake_finish sod hA (Some msgB) keysA = (CHAT_CRYPTO_OK, hA', kA)"
    "chat_crypto_handshake_finish sod hB (Some msgA) keysB = (CHAT_CRYPTO_OK, hB', kB)"
    "ck_tx kA = ck_rx kB" "ck_rx kA = ck_tx kB"
    using handshake_pair [of sod seedA A seedB B ?sid kxA oldA resA hA mA kxB oldB resB hB mB keysA keysB]
      laws assms(2,3) sid initA initB by blast
  have streams: "stream_laws sod sync" using laws by blast
  have "material sod sync seedPA seedPB keysA keysB hA msgA hB msgB"
    using pair(4,6-8) stream_open [OF streams, of seedPA "ck_tx kA"] stream_open [OF streams, of seedPB "ck_tx kB"] pair(9,10)
    unfolding material_def by metis
  then show thesis by (rule that [OF initA [unfolded pair(1,3)] initB [unfolded pair(2,5)]])
qed

text \<open>A side that is connected and has sent its message.\<close>

definition greeting :: "('h, 's) denv \<Rightarrow> nat \<Rightarrow> 's chatd_state_t \<Rightarrow> bool" where
  "greeting env t st \<longleftrightarrow> connected st \<and> crypto_round env t st \<and> waiting t st"

lemma greeted_greeting:
  "connected st \<Longrightarrow> crypto_round env t st \<Longrightarrow> fresh st \<Longrightarrow> greeting env t (greeted t hs m st)"
  by (simp add: greeting_def greeted_def connected_def crypto_round_def link_up_def waiting_def fresh_def)

lemma keyed_next:
  fixes hs keys stream h
  assumes "greeting env t st" "length m = 96"
  defines "st' \<equiv> keyed t hs keys stream h (st\<lparr>cd_ice := receive_all [wire_packet CHAT_PKT_HANDSHAKE m] (cd_ice st)\<rparr>)"
  shows "connected st'" "crypto_round env t st'" "ring_packets (cd_ice st') = []"
proof -
  note g = assms(1) [unfolded greeting_def]
  let ?ice = "receive_all [wire_packet CHAT_PKT_HANDSHAKE m] (cd_ice st)"
  have ps: "\<forall>p \<in> set [wire_packet CHAT_PKT_HANDSHAKE m]. length p \<le> 4096"
    "length (ring_packets (cd_ice st)) + length [wire_packet CHAT_PKT_HANDSHAKE m] \<le> 8"
    using g assms(2) by (simp_all add: waiting_def)
  have ring: "ring_inv ?ice" "ring_packets ?ice = wire_packet CHAT_PKT_HANDSHAKE m # []" "is_ready ?ice = is_ready (cd_ice st)"
    "is_agent ?ice = is_agent (cd_ice st)" "is_failed ?ice = is_failed (cd_ice st)"
    "is_stream_id ?ice = is_stream_id (cd_ice st)" "is_component_id ?ice = is_component_id (cd_ice st)"
    using receive_all_props [OF crypto_roundD(2) ps, of env t] g by (simp_all add: waiting_def)
  show "connected st'" "crypto_round env t st'" "ring_packets (cd_ice st') = []"
    using g ring drop_head_ring [OF ring(1,2)]
    by (simp_all add: st'_def connected_def crypto_round_def link_up_def keyed_def)
qed

text \<open>The rest of the exchange, from the moment both messages were sent.\<close>

lemma finish_exchange_secure:
  fixes envA envB :: "('h, 's) denv"
  assumes "material sod sync (de_stream_seed envA) (de_stream_seed envB) (cd_crypto_keys stA) (cd_crypto_keys stB) hA msgA hB msgB"
    and "de_sod envA = sod" "de_sod envB = sod"
    and "greeting envA t (greeted t hA msgA stA)" "greeting envB t (greeted t hB msgB stB)"
    and "finish_exchange envA envB stA (greeted t hA msgA stA) stB (greeted t hB msgB stB) = (stA', stB')"
  shows "chatting envA stA' \<and> chatting envB stB' \<and> streams_match sync stA' stB' \<and> streams_match sync stB' stA'
    \<and> same_chat stA stA' \<and> same_chat stB stB'"
proof -
  obtain hA' kA hB' kB headA pushA pullA headB pushB pullB where
    pair: "length msgA = 96" "length msgB = 96"
    "chat_crypto_handshake_finish sod hA (Some msgB) (cd_crypto_keys stA) = (CHAT_CRYPTO_OK, hA', kA)"
    "chat_crypto_handshake_finish sod hB (Some msgA) (cd_crypto_keys stB) = (CHAT_CRYPTO_OK, hB', kB)"
    and opens: "stream_opens sod sync (de_stream_seed envA) (ck_tx kA) (ck_rx kB) headA pushA pullA"
    "stream_opens sod sync (de_stream_seed envB) (ck_tx kB) (ck_rx kA) headB pushB pullB"
    using assms(1) unfolding material_def by blast
  note A = opens(1) [unfolded stream_opens_def] and B = opens(2) [unfolded stream_opens_def]
  let ?A1 = "greeted t hA msgA stA" and ?B1 = "greeted t hB msgB stB"
  let ?strA = "(cd_crypto_stream stA)\<lparr>st_push := pushA, st_push_initialized := True\<rparr>"
  let ?strB = "(cd_crypto_stream stB)\<lparr>st_push := pushB, st_push_initialized := True\<rparr>"
  let ?A2 = "keyed t hA' kA ?strA headA (?A1\<lparr>cd_ice := receive_all [wire_packet CHAT_PKT_HANDSHAKE msgB] (cd_ice ?A1)\<rparr>)"
  note gA = assms(4) [unfolded greeting_def] and gB = assms(5) [unfolded greeting_def]
  have A2: "service_with envA (sent_since stB ?B1) ?A1 = ?A2"
    using pair A assms(2) gA by (simp add: sent_since_def greeted_def [of t hB]) (intro serve_keys; simp add: greeted_def)
  have toB: "sent_since stA ?A2 = [wire_packet CHAT_PKT_HANDSHAKE msgA, wire_packet CHAT_PKT_STREAM_HEADER headA]"
    by (simp add: sent_since_def keyed_def greeted_def)
  have "\<exists>ice out. service_with envB (sent_since stA ?A2) ?B1 = keyed t hB' kB ?strB headB ?B1
      \<lparr>cd_ice := ice, cd_crypto_stream := ?strB\<lparr>st_pull := pullA, st_pull_initialized := True\<rparr>, cd_crypto_stream_header_received := True,
       cd_encrypted_session_ready := True, cd_session_state := CHATD_SESSION_SECURE, cd_ipc_out := out\<rparr> \<and> quiet_link (cd_ice ?B1) ice"
    unfolding toB using pair A B assms(3) gB by (intro serve_keys_header) (simp_all add: greeted_def)
  then obtain ice out where B2: "service_with envB (sent_since stA ?A2) ?B1 = keyed t hB' kB ?strB headB ?B1
      \<lparr>cd_ice := ice, cd_crypto_stream := ?strB\<lparr>st_pull := pullA, st_pull_initialized := True\<rparr>, cd_crypto_stream_header_received := True,
       cd_encrypted_session_ready := True, cd_session_state := CHATD_SESSION_SECURE, cd_ipc_out := out\<rparr>" (is "_ = ?B2")
    and quietB: "quiet_link (cd_ice ?B1) ice" by blast
  have toA: "sent_since ?B1 ?B2 = [wire_packet CHAT_PKT_STREAM_HEADER headB]" by (simp add: sent_since_def keyed_def)
  note A2_next = keyed_next [OF assms(4) pair(2), of hA' kA ?strA headA]
  have "\<exists>ice out. service_with envA (sent_since ?B1 ?B2) ?A2 =
     ?A2\<lparr>cd_ice := ice, cd_crypto_stream := ?strA\<lparr>st_pull := pullB, st_pull_initialized := True\<rparr>, cd_crypto_stream_header_received := True,
       cd_encrypted_session_ready := True, cd_session_state := CHATD_SESSION_SECURE, cd_ipc_out := out\<rparr> \<and> quiet_link (cd_ice ?A2) ice"
    unfolding toA using A2_next(3) gA B assms(2)
    by (intro serve_header [OF A2_next(1,2)]) (simp_all add: keyed_def waiting_def greeted_def)
  then obtain iceA outA where A3: "service_with envA (sent_since ?B1 ?B2) ?A2 =
     ?A2\<lparr>cd_ice := iceA, cd_crypto_stream := ?strA\<lparr>st_pull := pullB, st_pull_initialized := True\<rparr>, cd_crypto_stream_header_received := True,
       cd_encrypted_session_ready := True, cd_session_state := CHATD_SESSION_SECURE, cd_ipc_out := outA\<rparr>" (is "_ = ?A3")
    and quietA: "quiet_link (cd_ice ?A2) iceA" by blast
  have res: "stA' = ?A3" "stB' = ?B2"
    using assms(6) unfolding finish_exchange_def Let_def A2 B2 A3 by simp_all
  have "chatting envA ?A3"
    using A2_next quietA by (simp add: chatting_def secure_def connected_def link_up_def quiet_link_def crypto_round_def)
  moreover have "chatting envB ?B2"
    using gB quietB by (simp add: chatting_def secure_def connected_def link_up_def quiet_link_def crypto_round_def keyed_def)
  moreover have "streams_match sync ?A3 ?B2" "streams_match sync ?B2 ?A3"
    using A B by (simp_all add: streams_match_def)
  moreover have "same_chat stA ?A3" "same_chat stB ?B2" by (simp_all add: same_chat_def keyed_def greeted_def)
  ultimately show ?thesis unfolding res by blast
qed

lemma key_exchange_secure:
  fixes envA envB :: "('h, 's) denv"
  assumes "crypto_laws sod sync" "de_sod envA = sod" "de_sod envB = sod"
    and "crypto_sign_keypair sod seedA = (id_public_key A, id_secret_key A)"
    and "crypto_sign_keypair sod seedB = (id_public_key B, id_secret_key B)"
    and "sid \<noteq> []" and "length sid \<le> 32"
    and "session_with A (id_public_key B) sid CHAT_CRYPTO_ROLE_INITIATOR stA" "crypto_round envA t stA"
    and "session_with B (id_public_key A) sid CHAT_CRYPTO_ROLE_RESPONDER stB" "crypto_round envB t stB"
    and "key_exchange envA envB stA stB = (stA', stB')"
  shows "chatting envA stA' \<and> chatting envB stB' \<and> streams_match sync stA' stB' \<and> streams_match sync stB' stA'"
proof -
  note sA = assms(8) [unfolded session_with_def] and sB = assms(10) [unfolded session_with_def]
  obtain hA msgA hB msgB where
    initA: "chat_crypto_handshake_init sod (de_kx_seed envA) (cd_crypto_handshake stA) (Some A) (Some (id_public_key B))
       CHAT_CRYPTO_ROLE_INITIATOR (Some (map byte_of_char sid)) = (CHAT_CRYPTO_OK, hA, Some msgA)"
    and initB: "chat_crypto_handshake_init sod (de_kx_seed envB) (cd_crypto_handshake stB) (Some B) (Some (id_public_key A))
       CHAT_CRYPTO_ROLE_RESPONDER (Some (map byte_of_char sid)) = (CHAT_CRYPTO_OK, hB, Some msgB)"
    and m: "material sod sync (de_stream_seed envA) (de_stream_seed envB) (cd_crypto_keys stA) (cd_crypto_keys stB) hA msgA hB msgB"
    by (rule exchange_material [OF assms(1,4-7)])
  have len: "length msgA = 96" "length msgB = 96" using m by (simp_all add: material_def)
  have A1: "service_with envA [] stA = greeted t hA msgA stA"
    using sA initA assms(2) len by (intro serve_first [OF _ assms(9)]) auto
  have B1: "service_with envB [] stB = greeted t hB msgB stB"
    using sB initB assms(3) len by (intro serve_first [OF _ assms(11)]) auto
  have "greeting envA t (greeted t hA msgA stA)" "greeting envB t (greeted t hB msgB stB)"
    using assms(9,11) sA sB by (auto intro: greeted_greeting)
  from finish_exchange_secure [OF m assms(2,3) this] assms(12) show ?thesis unfolding key_exchange_def A1 B1 by blast
qed

section \<open>Messages\<close>

text \<open>The text the client of the receiver reads.\<close>

definition message_line :: "string \<Rightarrow> string \<Rightarrow> string" where
  "message_line peer chat_text = ''MESSAGE '' @ peer @ '' '' @ chat_text @ [newline]"

lemma cli_char_byte: "c \<noteq> CHR 0x0D \<Longrightarrow> c \<noteq> newline \<Longrightarrow> c \<noteq> nul \<Longrightarrow> cli_char (byte_of_char c) = c"
  by (simp add: cli_char_def)

lemma cli_text: "chat_text_is_valid t \<Longrightarrow> map cli_char (map byte_of_char t) = t"
  unfolding map_map by (rule map_idI) (simp add: chat_text_is_valid_def cli_char_byte)

lemma drain_none: "ring_inv (cd_ice st) \<Longrightarrow> ring_packets (cd_ice st) = [] \<Longrightarrow> drain_secure n env st = st"
  by (induction n) (simp_all add: process_none)

text \<open>What is sent for a text, and what happens when it arrives.\<close>

lemma send_message_ok:
  assumes "chatting env st" "chat_text_is_valid t" "length t \<le> 4073"
    and "st_push_initialized (cd_crypto_stream st)"
    and "secretstream_push (de_sod env) (st_push (cd_crypto_stream st)) (map byte_of_char t) secretstream_TAG_MESSAGE = Some (push, c)"
    and "length c = length t + 17"
  shows "send_encrypted_chat_message t env st =
    (0, st\<lparr>cd_crypto_stream := (cd_crypto_stream st)\<lparr>st_push := push\<rparr>,
           cd_ice_out := cd_ice_out st @ [wire_packet CHAT_PKT_MESSAGE c]\<rparr>)"
proof -
  let ?st = "st\<lparr>cd_crypto_stream := (cd_crypto_stream st)\<lparr>st_push := push\<rparr>\<rparr>"
  have "link_up env ?st" using assms(1) by (simp add: chatting_def link_up_def)
  then have "send_ice_packet CHAT_PKT_MESSAGE c env ?st = (0, ?st\<lparr>cd_ice_out := cd_ice_out ?st @ [wire_packet CHAT_PKT_MESSAGE c]\<rparr>)"
    using assms(3,6) by (intro send_ice_packet_ok) simp_all
  then show ?thesis
    using assms by (simp add: send_encrypted_chat_message_def send_encrypted_chat_payload_def chatting_def secure_def
        chat_crypto_secretstream_encrypt_def)
qed

lemma receive_message_ok:
  assumes "chatting env st" "st_pull_initialized (cd_crypto_stream st)" "0 \<le> cd_lookup_client_fd st"
    and "secretstream_pull (de_sod env) (st_pull (cd_crypto_stream st)) c = Some (pull, map byte_of_char t, secretstream_TAG_MESSAGE)"
    and "length c = length t + 17" "chat_text_is_valid t" "length t + length (cd_ice_peer st) + 11 \<le> 4096" "length t \<le> 4073"
    and "de_ipc_write env (cd_lookup_client_fd st) (message_line (cd_ice_peer st) t)"
  shows "\<exists>ice. service_with env [wire_packet CHAT_PKT_MESSAGE c] st =
      st\<lparr>cd_ice := ice, cd_crypto_stream := (cd_crypto_stream st)\<lparr>st_pull := pull\<rparr>,
         cd_ipc_out := cd_ipc_out st @ [(cd_lookup_client_fd st, message_line (cd_ice_peer st) t)]\<rparr>
    \<and> quiet_link (cd_ice st) ice"
proof -
  let ?ps = "[wire_packet CHAT_PKT_MESSAGE c]"
  let ?env = "env\<lparr>de_ice_events := map (\<lambda>p. Ice_received (Some p)) ?ps\<rparr>"
  let ?ice = "receive_all ?ps (cd_ice st)"
  let ?st1 = "st\<lparr>cd_ice := drop_head ?ice\<rparr>"
  let ?st2 = "?st1\<lparr>cd_crypto_stream := (cd_crypto_stream st)\<lparr>st_pull := pull\<rparr>,
     cd_ipc_out := cd_ipc_out st @ [(cd_lookup_client_fd st, message_line (cd_ice_peer st) t)]\<rparr>"
  note ch = assms(1) [unfolded chatting_def secure_def]
  have ps: "\<forall>p \<in> set ?ps. length p \<le> 4096" "length (ring_packets (cd_ice st)) + length ?ps \<le> 8"
    using ch assms(5,8) by simp_all
  have "crypto_in_time env st" using ch by (simp add: crypto_in_time_def)
  then have svc: "service_with env ?ps st = service_crypto_session ?env (st\<lparr>cd_ice := ?ice\<rparr>)"
    using service_with_crypto [OF _ _ _ _ ps] ch by blast

  have ring: "ring_inv ?ice" "ring_packets ?ice = wire_packet CHAT_PKT_MESSAGE c # []" and ready: "is_ready ?ice"
    using receive_all_props [OF _ ps] ch by (auto simp: link_up_def)
  note after = drop_head_ring [OF ring]
  have "write_chat_message_to_cli (map byte_of_char t) ?env (?st1\<lparr>cd_crypto_stream := (cd_crypto_stream st)\<lparr>st_pull := pull\<rparr>\<rparr>) = (0, ?st2)"
    using assms(3,7,9) cli_text [OF assms(6)]
    by (simp add: write_chat_message_to_cli_def write_ipc_line_def snprintf_fits_def message_line_def)
  then have "handle_ice_app_packet (wire_packet CHAT_PKT_MESSAGE c) ?env ?st1 = (0, ?st2)"
    using ch assms(2,4,5,8) by (simp add: handle_chat_packet decrypt_chat_payload_def chat_crypto_secretstream_decrypt_def Let_def)
  then have "process_received_ice_packet ?env (st\<lparr>cd_ice := ?ice\<rparr>) = (0, ?st2)"
    using process_packet [of "st\<lparr>cd_ice := ?ice\<rparr>" "wire_packet CHAT_PKT_MESSAGE c" "[]" ?env] ring by simp
  moreover have "drain_secure 7 ?env ?st2 = ?st2" using after by (intro drain_none) simp_all
  ultimately have "drain_secure 8 ?env (st\<lparr>cd_ice := ?ice\<rparr>) = ?st2"
    using drain_secure.simps(2) [of 7 ?env "st\<lparr>cd_ice := ?ice\<rparr>"] by (simp add: eval_nat_numeral)
  then have "service_with env ?ps st = ?st2"
    using svc ready ch by (simp add: service_crypto_session_def)
  then show ?thesis
    using receive_one_quiet [of "cd_ice st" "wire_packet CHAT_PKT_MESSAGE c"] ps ch
    by - (rule exI [of _ "drop_head ?ice"], simp)
qed

text \<open>One side sends the texts one after the other; each packet reaches the other side, which is
  then serviced.\<close>

fun conversation ::
  "('h, 's) denv \<Rightarrow> ('h, 's) denv \<Rightarrow> string list \<Rightarrow> 's chatd_state_t \<Rightarrow> 's chatd_state_t \<Rightarrow>
   int list \<times> 's chatd_state_t \<times> 's chatd_state_t" where
  "conversation envA envB [] stA stB = ([], stA, stB)"
| "conversation envA envB (t # ts) stA stB =
     (let (rc, stA1) = send_encrypted_chat_message t envA stA;
          stB1 = service_with envB (sent_since stA stA1) stB;
          (rcs, stA2, stB2) = conversation envA envB ts stA1 stB1
      in (rc # rcs, stA2, stB2))"

definition deliverable :: "('h, 's) denv \<Rightarrow> 's chatd_state_t \<Rightarrow> string \<Rightarrow> bool" where
  "deliverable env st t \<longleftrightarrow> chat_text_is_valid t \<and> length t \<le> 4073
     \<and> length t + length (cd_ice_peer st) + 11 \<le> CHAT_IPC_MAX_RESPONSE
     \<and> de_ipc_write env (cd_lookup_client_fd st) (message_line (cd_ice_peer st) t)"

lemma message_step:
  assumes laws: "stream_laws sod sync" and sod: "de_sod envA = sod" "de_sod envB = sod"
    and A: "chatting envA stA" and B: "chatting envB stB" "0 \<le> cd_lookup_client_fd stB"
    and match: "streams_match sync stA stB" and t: "deliverable envB stB t"
  obtains push packet pull ice where
    "send_encrypted_chat_message t envA stA =
       (0, stA\<lparr>cd_crypto_stream := (cd_crypto_stream stA)\<lparr>st_push := push\<rparr>, cd_ice_out := cd_ice_out stA @ [packet]\<rparr>)"
    "service_with envB [packet] stB =
       stB\<lparr>cd_ice := ice, cd_crypto_stream := (cd_crypto_stream stB)\<lparr>st_pull := pull\<rparr>,
          cd_ipc_out := cd_ipc_out stB @ [(cd_lookup_client_fd stB, message_line (cd_ice_peer stB) t)]\<rparr>"
    "quiet_link (cd_ice stB) ice" "sync push pull"
proof -
  have d: "chat_text_is_valid t" "length t \<le> 4073" "length t + length (cd_ice_peer stB) + 11 \<le> 4096"
    "de_ipc_write envB (cd_lookup_client_fd stB) (message_line (cd_ice_peer stB) t)"
    using t by (simp_all add: deliverable_def)
  note m = match [unfolded streams_match_def]
  obtain push c pull where s:
    "secretstream_push sod (st_push (cd_crypto_stream stA)) (map byte_of_char t) secretstream_TAG_MESSAGE = Some (push, c)"
    "length c = length t + 17"
    "secretstream_pull sod (st_pull (cd_crypto_stream stB)) c = Some (pull, map byte_of_char t, secretstream_TAG_MESSAGE)"
    "sync push pull"
    using laws m by (fastforce simp: stream_laws_def)
  have sent: "send_encrypted_chat_message t envA stA =
       (0, stA\<lparr>cd_crypto_stream := (cd_crypto_stream stA)\<lparr>st_push := push\<rparr>, cd_ice_out := cd_ice_out stA @ [wire_packet CHAT_PKT_MESSAGE c]\<rparr>)"
    using m s sod(1) by (intro send_message_ok [OF A d(1,2)]) simp_all
  obtain ice where recv: "service_with envB [wire_packet CHAT_PKT_MESSAGE c] stB =
      stB\<lparr>cd_ice := ice, cd_crypto_stream := (cd_crypto_stream stB)\<lparr>st_pull := pull\<rparr>,
         cd_ipc_out := cd_ipc_out stB @ [(cd_lookup_client_fd stB, message_line (cd_ice_peer stB) t)]\<rparr>"
    and ice: "quiet_link (cd_ice stB) ice"
    using receive_message_ok [OF B(1) _ B(2) _ s(2) d(1,3,2,4), of pull] m s(3) sod(2) by auto
  show ?thesis using that [OF sent recv ice s(4)] .
qed

lemma message_step_kept:
  assumes "chatting envA stA" "chatting envB stB" "streams_match sync stA stB" "quiet_link (cd_ice stB) ice" "sync push pull"
  shows "chatting envA (stA\<lparr>cd_crypto_stream := (cd_crypto_stream stA)\<lparr>st_push := push\<rparr>, cd_ice_out := outA\<rparr>)"
    "chatting envB (stB\<lparr>cd_ice := ice, cd_crypto_stream := (cd_crypto_stream stB)\<lparr>st_pull := pull\<rparr>, cd_ipc_out := outB\<rparr>)"
    "streams_match sync (stA\<lparr>cd_crypto_stream := (cd_crypto_stream stA)\<lparr>st_push := push\<rparr>, cd_ice_out := outA\<rparr>)
       (stB\<lparr>cd_ice := ice, cd_crypto_stream := (cd_crypto_stream stB)\<lparr>st_pull := pull\<rparr>, cd_ipc_out := outB\<rparr>)"
  using assms by (simp_all add: chatting_def secure_def connected_def link_up_def quiet_link_def streams_match_def)

lemma conversation_delivers:
  assumes laws: "stream_laws sod sync" and sod: "de_sod envA = sod" "de_sod envB = sod"
  shows "chatting envA stA \<Longrightarrow> chatting envB stB \<Longrightarrow> streams_match sync stA stB \<Longrightarrow> 0 \<le> cd_lookup_client_fd stB \<Longrightarrow>
    \<forall>t \<in> set ts. deliverable envB stB t \<Longrightarrow> conversation envA envB ts stA stB = (rcs, stA', stB') \<Longrightarrow>
    rcs = replicate (length ts) 0 \<and> chatting envA stA' \<and> chatting envB stB' \<and> streams_match sync stA' stB'
    \<and> cd_ipc_out stB' = cd_ipc_out stB @ map (\<lambda>t. (cd_lookup_client_fd stB, message_line (cd_ice_peer stB) t)) ts"
proof (induction ts arbitrary: stA stB rcs)
  case (Cons t ts)
  have t: "deliverable envB stB t" using Cons.prems(5) by simp
  obtain push packet pull ice where
    sent: "send_encrypted_chat_message t envA stA =
       (0, stA\<lparr>cd_crypto_stream := (cd_crypto_stream stA)\<lparr>st_push := push\<rparr>, cd_ice_out := cd_ice_out stA @ [packet]\<rparr>)" (is "_ = (0, ?stA1)")
    and recv: "service_with envB [packet] stB =
       stB\<lparr>cd_ice := ice, cd_crypto_stream := (cd_crypto_stream stB)\<lparr>st_pull := pull\<rparr>,
          cd_ipc_out := cd_ipc_out stB @ [(cd_lookup_client_fd stB, message_line (cd_ice_peer stB) t)]\<rparr>" (is "_ = ?stB1")
    and kept: "quiet_link (cd_ice stB) ice" "sync push pull"
    by (rule message_step [OF laws sod Cons.prems(1,2,4,3) t])
  have since: "sent_since stA ?stA1 = [packet]" by (simp add: sent_since_def)
  obtain rcs' where rest: "conversation envA envB ts ?stA1 ?stB1 = (rcs', stA', stB')" "rcs = 0 # rcs'"
    using Cons.prems(6) by (auto simp: sent since recv split: prod.splits)
  note next1 = message_step_kept [OF Cons.prems(1-3) kept]
  have "\<forall>t \<in> set ts. deliverable envB ?stB1 t" using Cons.prems(5) by (simp add: deliverable_def)
  then show ?case using Cons.IH [OF next1 _ _ rest(1)] Cons.prems(4) rest(2) by simp
qed simp

end
