(* ===== verification/Daemon_Signaling.thy ===== *)
theory Daemon_Signaling
  imports Daemon_Exchange
begin

text \<open>
  How two daemons agree on a session through the control server: the \<open>OPEN_CHAT\<close> command, the
  texts of \<open>chat_request\<close> and \<open>chat_accept\<close> and what each daemon does with the other's text.
  The lemmas compute the state after each step.
\<close>

section \<open>Starting ICE\<close>

definition begun ::
  "string \<Rightarrow> string \<Rightarrow> bool \<Rightarrow> bytes \<Rightarrow> chat_ice_session_t \<Rightarrow> nice_call list \<Rightarrow> ('h, 's) denv \<Rightarrow> 's chatd_state_t \<Rightarrow> 's chatd_state_t" where
  "begun peer sid controlling pk ice calls env st =
     (reset_ice_session env st)
       \<lparr>cd_session_state := CHATD_SESSION_ICE_NEGOTIATING, cd_ice_peer := peer, cd_ice_session_id := sid,
        cd_remote_identity_pk := pk, cd_has_remote_identity_pk := True,
        cd_crypto_role := (if controlling then CHAT_CRYPTO_ROLE_INITIATOR else CHAT_CRYPTO_ROLE_RESPONDER),
        cd_ice_controlling := controlling, cd_crypto_stream := chat_crypto_secretstream_init (de_sod env),
        cd_ice := ice, cd_nice_calls := cd_nice_calls (reset_ice_session env st) @ calls, cd_ice_active := True,
        cd_ice_deadline_at := de_time env Time_ice_start + CHATD_ICE_TIMEOUT_SECONDS\<rparr>"

lemma reset_fields [simp]:
  "cd_ice (reset_ice_session env st) = chat_ice_session_init"
  "cd_ice_config (reset_ice_session env st) = cd_ice_config st"
  "cd_identity (reset_ice_session env st) = cd_identity st"
  "cd_control_wsi (reset_ice_session env st) = cd_control_wsi st"
  "cd_pending (reset_ice_session env st) = cd_pending st"
  "cd_pending_len (reset_ice_session env st) = cd_pending_len st"
  "cd_contacts_db (reset_ice_session env st) = cd_contacts_db st"
  "cd_lookup_client_fd (reset_ice_session env st) = cd_lookup_client_fd st"
  "cd_lookup_peer (reset_ice_session env st) = cd_lookup_peer st"
  "cd_phase (reset_ice_session env st) = cd_phase st"
  "cd_ipc_out (reset_ice_session env st) = cd_ipc_out st"
  "cd_ice_out (reset_ice_session env st) = cd_ice_out st"
  "\<not> cd_ice_active (reset_ice_session env st)"
  "\<not> cd_encrypted_session_ready (reset_ice_session env st)"
  "cd_crypto_keys (reset_ice_session env st) = chat_crypto_session_keys_wipe"
  "cd_crypto_handshake (reset_ice_session env st) = chat_crypto_handshake_wipe"
  "\<not> cd_ice_cli_notified (reset_ice_session env st)" "\<not> cd_has_pending_remote_ice_sdp (reset_ice_session env st)"
  "\<not> cd_ice_local_sdp_sent (reset_ice_session env st)" "cd_crypto_deadline_at (reset_ice_session env st) = 0"
  "\<not> cd_crypto_handshake_sent (reset_ice_session env st)" "\<not> cd_crypto_keys_ready (reset_ice_session env st)"
  "\<not> cd_crypto_stream_header_sent (reset_ice_session env st)" "\<not> cd_crypto_stream_header_received (reset_ice_session env st)"
  "\<not> cd_has_remote_identity_pk (reset_ice_session env st)" "\<not> cd_ice_selected_pair_is_relayed (reset_ice_session env st)"
  by (simp_all add: reset_ice_session_def chat_ice_session_close_def)

lemma begin_ice_ok:
  assumes "chat_ice_session_start (de_nice env) controlling (Some (cd_ice_config st)) chat_ice_session_init = (CHAT_ICE_OK, ice, calls)"
    and "length peer \<le> 32" "length sid \<le> 32"
  shows "begin_ice_session peer sid controlling pk env st = (0, begun peer sid controlling pk ice calls env st)"
  using assms
  by (simp add: begin_ice_session_def begun_def set_state_update snprintf_fits_def snprintf_store_fits Let_def)

section \<open>Queued texts\<close>

definition queued :: "string \<Rightarrow> 's chatd_state_t \<Rightarrow> bool" where
  "queued json st \<longleftrightarrow> cd_pending_len st = length json \<and> take (length json) (cd_pending st) = json"

lemma queue_printed_ok:
  assumes "cd_pending_len st = 0" "length json < sz" "sz \<le> CHATD_MAX_JSON_SIZE"
  shows "queue_printed sz json st = (0, st\<lparr>cd_pending := json @ drop (length json) (cd_pending st), cd_pending_len := length json\<rparr>)"
  using assms by (simp add: queue_printed_def queue_json_def snprintf_fits_def)

section \<open>Signaling messages\<close>

text \<open>A name that is not also one of the keys searched for behind it.\<close>

definition signal_name :: "string \<Rightarrow> bool" where
  "signal_name u \<longleftrightarrow> valid_username u \<and> u \<noteq> ''session_id'' \<and> u \<noteq> ''public_key''"

definition signal_id :: "string \<Rightarrow> bool" where
  "signal_id sid \<longleftrightarrow> sid \<noteq> [] \<and> length sid \<le> 32 \<and> plain sid \<and> sid \<noteq> ''public_key'' \<and> sid \<noteq> ''sdp''"

definition signal_msg :: "('h, 's) sodium \<Rightarrow> string \<Rightarrow> string \<Rightarrow> string \<Rightarrow> string \<Rightarrow> bytes \<Rightarrow> string" where
  "signal_msg sod ty u v sid pk = json_object [(''type'', JStr ty), (''from'', JStr u), (''to'', JStr v),
     (''session_id'', JStr sid), (''public_key'', JStr (sodium_bin2hex sod pk))]"

lemma signal_msg_fields:
  assumes "hex_laws sod" "ty = ''chat_request'' \<or> ty = ''chat_accept''" "signal_name u" "signal_name v" "signal_id sid" "length pk = 32"
  shows "json_get_string (signal_msg sod ty u v sid pk) ''type'' 32 = Some ty"
    and "json_get_string (signal_msg sod ty u v sid pk) ''from'' 33 = Some u"
    and "json_get_string (signal_msg sod ty u v sid pk) ''to'' 33 = Some v"
    and "json_get_string (signal_msg sod ty u v sid pk) ''session_id'' 33 = Some sid"
    and "json_get_string (signal_msg sod ty u v sid pk) ''public_key'' 65 = Some (sodium_bin2hex sod pk)"
    and "cstr (signal_msg sod ty u v sid pk) = signal_msg sod ty u v sid pk"
    and "length (signal_msg sod ty u v sid pk) < 512"
proof -
  have ty: "plain ty" using assms(2) by (auto simp: plain_literal)
  have pf: "plain_fields [(''type'', JStr ty), (''from'', JStr u), (''to'', JStr v),
     (''session_id'', JStr sid), (''public_key'', JStr (sodium_bin2hex sod pk))]"
    using plain_hex [OF assms(1)] ty assms(3-5) plain_username
    by (simp add: plain_literal signal_name_def signal_id_def)
  have len: "length u < 33" "length v < 33" "length sid < 33" "u \<noteq> ''to''" "3 \<le> length u"
    using assms(3-5) by (auto simp: signal_name_def signal_id_def valid_username_iff)
  note fields = signal_msg_def json_get_string_object key_literal
  show "json_get_string (signal_msg sod ty u v sid pk) ''type'' 32 = Some ty"
    "json_get_string (signal_msg sod ty u v sid pk) ''from'' 33 = Some u"
    "json_get_string (signal_msg sod ty u v sid pk) ''to'' 33 = Some v"
    "json_get_string (signal_msg sod ty u v sid pk) ''session_id'' 33 = Some sid"
    using pf len assms(2-5) by (auto simp: fields signal_name_def)
  show "json_get_string (signal_msg sod ty u v sid pk) ''public_key'' 65 = Some (sodium_bin2hex sod pk)"
    using pf assms(2-6) hex_lawsD(1) [OF assms(1), of pk] by (auto simp: fields signal_name_def signal_id_def)
  show "cstr (signal_msg sod ty u v sid pk) = signal_msg sod ty u v sid pk"
    unfolding signal_msg_def by (rule cstr_json_object [OF pf])
  show "length (signal_msg sod ty u v sid pk) < 512"
    using len hex_lawsD(1) [OF assms(1), of pk] assms(2,6) by (auto simp: signal_msg_def json_object_def)
qed

definition trusted :: "('h, 's) sodium \<Rightarrow> contacts_file \<Rightarrow> string \<Rightarrow> bytes \<Rightarrow> bool" where
  "trusted sod f u pk \<longleftrightarrow> pinned sod f u = None \<or> pinned sod f u = Some pk"

lemma pin_trusted:
  assumes "contacts_inv sod f" "io_ok io" "valid_username u" "length pk = 32" "trusted sod f u pk"
  shows "\<exists>new f'. chat_contacts_verify_or_pin sod io (Some u) (Some pk) f = (CHAT_CONTACTS_OK, new, f')
     \<and> contacts_inv sod f' \<and> pinned sod f' u = Some pk"
proof (cases "pinned sod f u")
  case None
  then show ?thesis using verify_new [OF assms(1-4) None] by auto
next
  case (Some k)
  then show ?thesis using assms(1,5) verify_known [OF assms(1-3) Some, of pk] by (auto simp: trusted_def)
qed

text \<open>What a daemon needs to take part: its name and key, the contacts file and a free slot
  for a control message.\<close>

definition signaling_ready :: "('h, 's) denv \<Rightarrow> chat_identity_t \<Rightarrow> 's chatd_state_t \<Rightarrow> bool" where
  "signaling_ready env me st \<longleftrightarrow> hex_laws (de_sod env) \<and> cd_identity st = me \<and> signal_name (id_username me)
     \<and> length (id_public_key me) = 32 \<and> contacts_inv (de_sod env) (cd_contacts_db st) \<and> io_ok (de_contacts env)
     \<and> cd_pending_len st = 0"

lemma chat_accept_queued:
  assumes "signaling_ready env me st" "signal_name u" "signal_id sid"
  shows "queue_chat_accept u sid env (st\<lparr>cd_contacts_db := f, cd_session_state := x\<rparr>) =
    (0, st\<lparr>cd_contacts_db := f, cd_session_state := x,
          cd_pending := signal_msg (de_sod env) ''chat_accept'' (id_username me) u sid (id_public_key me)
            @ drop (length (signal_msg (de_sod env) ''chat_accept'' (id_username me) u sid (id_public_key me))) (cd_pending st),
          cd_pending_len := length (signal_msg (de_sod env) ''chat_accept'' (id_username me) u sid (id_public_key me))\<rparr>)"
proof -
  have "length (signal_msg (de_sod env) ''chat_accept'' (id_username me) u sid (id_public_key me)) < 512"
    using assms by (intro signal_msg_fields) (simp_all add: signaling_ready_def)
  then show ?thesis
    using assms(1) queue_printed_ok [of "st\<lparr>cd_contacts_db := f, cd_session_state := x\<rparr>"
        "signal_msg (de_sod env) ''chat_accept'' (id_username me) u sid (id_public_key me)" 512]
    by (simp add: queue_chat_accept_def signal_msg_def signaling_ready_def)
qed

lemma request_received:
  assumes "signaling_ready env me st" "signal_name u" "signal_id sid" "length pk = 32"
    and "trusted (de_sod env) (cd_contacts_db st) u pk"
    and "chat_ice_session_start (de_nice env) False (Some (cd_ice_config st)) chat_ice_session_init = (CHAT_ICE_OK, ice, calls)"
  shows "\<exists>f st1. callback_chatd_control
       (LWS_CALLBACK_CLIENT_RECEIVE (signal_msg (de_sod env) ''chat_request'' u (id_username me) sid pk) 0 True) env st =
       (0, begun u sid False pk ice calls env st1)
     \<and> pinned (de_sod env) f u = Some pk
     \<and> st1 = st\<lparr>cd_contacts_db := f, cd_session_state := CHATD_SESSION_REQUESTING,
          cd_pending := signal_msg (de_sod env) ''chat_accept'' (id_username me) u sid (id_public_key me)
            @ drop (length (signal_msg (de_sod env) ''chat_accept'' (id_username me) u sid (id_public_key me))) (cd_pending st),
          cd_pending_len := length (signal_msg (de_sod env) ''chat_accept'' (id_username me) u sid (id_public_key me))\<rparr>"
proof -
  note r = assms(1) [unfolded signaling_ready_def]
  let ?msg = "signal_msg (de_sod env) ''chat_request'' u (id_username me) sid pk"
  note m = signal_msg_fields [of "de_sod env" "''chat_request''" u "id_username me" sid pk]
  have u: "valid_username u" "length u \<le> 32" "length sid \<le> 32" "sid \<noteq> []"
    using assms(2,3) by (auto simp: signal_name_def signal_id_def valid_username_iff)
  obtain new f where pin: "chat_contacts_verify_or_pin (de_sod env) (de_contacts env) (Some u) (Some pk) (cd_contacts_db st) = (CHAT_CONTACTS_OK, new, f)"
    "pinned (de_sod env) f u = Some pk"
    using pin_trusted [OF _ _ u(1) assms(4,5)] r by blast
  let ?st = "st\<lparr>cd_contacts_db := f, cd_session_state := CHATD_SESSION_REQUESTING\<rparr>"
  obtain st1 where acc: "queue_chat_accept u sid env ?st = (0, st1)" using chat_accept_queued [OF assms(1-3)] by blast
  have st1: "st1 = st\<lparr>cd_contacts_db := f, cd_session_state := CHATD_SESSION_REQUESTING,
          cd_pending := signal_msg (de_sod env) ''chat_accept'' (id_username me) u sid (id_public_key me)
            @ drop (length (signal_msg (de_sod env) ''chat_accept'' (id_username me) u sid (id_public_key me))) (cd_pending st),
          cd_pending_len := length (signal_msg (de_sod env) ''chat_accept'' (id_username me) u sid (id_public_key me))\<rparr>"
    using acc chat_accept_queued [OF assms(1-3), where f = f and x = CHATD_SESSION_REQUESTING] by simp
  have "begin_ice_session u sid False pk env st1 = (0, begun u sid False pk ice calls env st1)"
    using assms(6) u by (intro begin_ice_ok) (simp_all add: st1)
  then have "handle_chat_request ?msg env st = (0, begun u sid False pk ice calls env st1)"
    using m r assms(2-4) u pin(1) acc hex_to_bin_hex [of "de_sod env" pk 32]
    by (simp add: handle_chat_request_def set_state_update)
  then have "callback_chatd_control (LWS_CALLBACK_CLIENT_RECEIVE ?msg 0 True) env st = (0, begun u sid False pk ice calls env st1)"
    using m r assms(2-4) by (simp add: handle_receive_def)
  then show ?thesis using pin(2) st1 by blast
qed

lemma accept_received:
  assumes "signaling_ready env me st" "signal_name u" "signal_id sid" "length pk = 32"
    and "trusted (de_sod env) (cd_contacts_db st) u pk"
    and "0 \<le> cd_lookup_client_fd st" "cd_lookup_peer st = u" "cd_ice_session_id st = sid"
    and "chat_ice_session_start (de_nice env) True (Some (cd_ice_config st)) chat_ice_session_init = (CHAT_ICE_OK, ice, calls)"
  shows "\<exists>f. callback_chatd_control
       (LWS_CALLBACK_CLIENT_RECEIVE (signal_msg (de_sod env) ''chat_accept'' u (id_username me) sid pk) 0 True) env st =
       (0, begun u sid True pk ice calls env (st\<lparr>cd_contacts_db := f\<rparr>))
     \<and> pinned (de_sod env) f u = Some pk"
proof -
  note r = assms(1) [unfolded signaling_ready_def]
  let ?msg = "signal_msg (de_sod env) ''chat_accept'' u (id_username me) sid pk"
  note m = signal_msg_fields [of "de_sod env" "''chat_accept''" u "id_username me" sid pk]
  have u: "valid_username u" "length u \<le> 32" "length sid \<le> 32"
    using assms(2,3) by (auto simp: signal_name_def signal_id_def valid_username_iff)
  obtain new f where pin: "chat_contacts_verify_or_pin (de_sod env) (de_contacts env) (Some u) (Some pk) (cd_contacts_db st) = (CHAT_CONTACTS_OK, new, f)"
    "pinned (de_sod env) f u = Some pk"
    using pin_trusted [OF _ _ u(1) assms(4,5)] r by blast
  have "begin_ice_session u sid True pk env (st\<lparr>cd_contacts_db := f\<rparr>) = (0, begun u sid True pk ice calls env (st\<lparr>cd_contacts_db := f\<rparr>))"
    using assms(9) u by (intro begin_ice_ok) simp_all
  then have "handle_chat_accept ?msg env st = (0, begun u sid True pk ice calls env (st\<lparr>cd_contacts_db := f\<rparr>))"
    using m r assms(2-8) pin(1) hex_to_bin_hex [of "de_sod env" pk 32] by (simp add: handle_chat_accept_def)
  then have "callback_chatd_control (LWS_CALLBACK_CLIENT_RECEIVE ?msg 0 True) env st = (0, begun u sid True pk ice calls env (st\<lparr>cd_contacts_db := f\<rparr>))"
    using m r assms(2-4) by (simp add: handle_receive_def)
  then show ?thesis using pin(2) by blast
qed

text \<open>The command that opens a chat, for a peer there is no session with yet.\<close>

lemma open_chat_ok:
  fixes env :: "('h, 's) denv"
  defines "sid \<equiv> sodium_bin2hex (de_sod env) (de_session_id env)"
  assumes "signaling_ready env me st" "signal_name u" "u \<noteq> id_username me" "length (de_session_id env) = 16"
    and "cd_phase st = CHATD_PHASE_ONLINE" "cd_control_wsi st \<noteq> None" "cd_lookup_client_fd st < 0" "\<not> cd_ice_active st"
  shows "signal_id sid" "handle_open_chat_command fd u env st = (1,
    st\<lparr>cd_lookup_peer := u, cd_lookup_client_fd := fd, cd_chat_retry_count := 0, cd_session_state := CHATD_SESSION_REQUESTING,
       cd_ice_session_id := sid,
       cd_pending := signal_msg (de_sod env) ''chat_request'' (id_username me) u sid (id_public_key me)
         @ drop (length (signal_msg (de_sod env) ''chat_request'' (id_username me) u sid (id_public_key me))) (cd_pending st),
       cd_pending_len := length (signal_msg (de_sod env) ''chat_request'' (id_username me) u sid (id_public_key me))\<rparr>)"
proof -
  note r = assms(2) [unfolded signaling_ready_def]
  have len: "length sid = 32" using hex_lawsD(1) [of "de_sod env" "de_session_id env"] r assms(5) by (simp add: sid_def)
  then show sid: "signal_id sid" using plain_hex r by (auto simp: signal_id_def sid_def)
  have u: "valid_username u" "length u \<le> 32" using assms(3) by (auto simp: signal_name_def valid_username_iff)
  let ?st1 = "st\<lparr>cd_lookup_peer := u, cd_lookup_client_fd := fd, cd_chat_retry_count := 0,
     cd_session_state := CHATD_SESSION_REQUESTING, cd_ice_session_id := sid\<rparr>"
  have "length (signal_msg (de_sod env) ''chat_request'' (id_username me) u sid (id_public_key me)) < 512"
    using r assms(3) sid by (intro signal_msg_fields) simp_all
  then have q: "queue_printed 512 (signal_msg (de_sod env) ''chat_request'' (id_username me) u sid (id_public_key me)) ?st1 =
      (0, ?st1\<lparr>cd_pending := signal_msg (de_sod env) ''chat_request'' (id_username me) u sid (id_public_key me)
         @ drop (length (signal_msg (de_sod env) ''chat_request'' (id_username me) u sid (id_public_key me))) (cd_pending ?st1),
       cd_pending_len := length (signal_msg (de_sod env) ''chat_request'' (id_username me) u sid (id_public_key me))\<rparr>)"
    using r by (intro queue_printed_ok) simp_all
  show "handle_open_chat_command fd u env st = (1,
    st\<lparr>cd_lookup_peer := u, cd_lookup_client_fd := fd, cd_chat_retry_count := 0, cd_session_state := CHATD_SESSION_REQUESTING,
       cd_ice_session_id := sid,
       cd_pending := signal_msg (de_sod env) ''chat_request'' (id_username me) u sid (id_public_key me)
         @ drop (length (signal_msg (de_sod env) ''chat_request'' (id_username me) u sid (id_public_key me))) (cd_pending st),
       cd_pending_len := length (signal_msg (de_sod env) ''chat_request'' (id_username me) u sid (id_public_key me))\<rparr>)"
    using r assms(4-9) u q
    by (simp add: handle_open_chat_command_def has_pending_control_message_def queue_chat_request_def set_state_update
        snprintf_fits_def signal_msg_def sid_def Let_def)
qed

section \<open>Two daemons agree on a session\<close>

text \<open>The client of the first daemon opens a chat; the request and the answer travel as the
  texts the daemons write to their control connections.\<close>

definition flush :: "('h, 's) denv \<Rightarrow> 's chatd_state_t \<Rightarrow> 's chatd_state_t" where
  "flush env st = snd (callback_chatd_control (LWS_CALLBACK_CLIENT_WRITEABLE (int (cd_pending_len st))) env st)"

definition receive_text :: "('h, 's) denv \<Rightarrow> string \<Rightarrow> 's chatd_state_t \<Rightarrow> 's chatd_state_t" where
  "receive_text env inp st = snd (callback_chatd_control (LWS_CALLBACK_CLIENT_RECEIVE inp 0 True) env st)"

definition open_session ::
  "('h, 's) denv \<Rightarrow> ('h, 's) denv \<Rightarrow> int \<Rightarrow> string \<Rightarrow> 's chatd_state_t \<Rightarrow> 's chatd_state_t \<Rightarrow> 's chatd_state_t \<times> 's chatd_state_t" where
  "open_session envA envB fd v stA stB =
     (let stA1 = flush envA (snd (handle_open_chat_command fd v envA stA));
          stB1 = flush envB (receive_text envB (last (cd_control_out stA1)) stB);
          stA2 = receive_text envA (last (cd_control_out stB1)) stA1
      in (stA2, stB1))"

lemma flush_queued:
  "cd_pending st = json @ rest \<Longrightarrow> cd_pending_len st = length json \<Longrightarrow> json \<noteq> [] \<Longrightarrow>
   flush env st = st\<lparr>cd_pending_len := 0, cd_control_out := cd_control_out st @ [json]\<rparr>"
  by (simp add: flush_def)

text \<open>A chat with a peer whose key is pinned, and the same while its connection is negotiated.\<close>

definition chat_between ::
  "('h, 's) sodium \<Rightarrow> chat_identity_t \<Rightarrow> chat_identity_t \<Rightarrow> string \<Rightarrow> chat_crypto_role_t \<Rightarrow> 's chatd_state_t \<Rightarrow> bool" where
  "chat_between sod me peer sid role st \<longleftrightarrow> cd_identity st = me \<and> cd_ice_peer st = id_username peer
     \<and> cd_ice_session_id st = sid \<and> cd_remote_identity_pk st = id_public_key peer
     \<and> pinned sod (cd_contacts_db st) (id_username peer) = Some (id_public_key peer) \<and> cd_crypto_role st = role"

definition negotiating ::
  "('h, 's) sodium \<Rightarrow> chat_identity_t \<Rightarrow> chat_identity_t \<Rightarrow> string \<Rightarrow> chat_crypto_role_t \<Rightarrow> 's chatd_state_t \<Rightarrow> bool" where
  "negotiating sod me peer sid role st \<longleftrightarrow> chat_between sod me peer sid role st \<and> cd_ice_active st
     \<and> cd_session_state st = CHATD_SESSION_ICE_NEGOTIATING \<and> cd_has_remote_identity_pk st"

lemma chat_between_same: "same_chat st st' \<Longrightarrow> chat_between sod me peer sid role st \<Longrightarrow> chat_between sod me peer sid role st'"
  by (simp add: same_chat_def chat_between_def)

lemma signal_msg_nonempty [simp]: "signal_msg sod ty u v sid pk \<noteq> []"
  by (simp add: signal_msg_def json_object_def)

lemma begun_fields [simp]:
  "cd_identity (begun u sid c pk ice calls env st) = cd_identity st"
  "cd_pending (begun u sid c pk ice calls env st) = cd_pending st"
  "cd_pending_len (begun u sid c pk ice calls env st) = cd_pending_len st"
  "cd_contacts_db (begun u sid c pk ice calls env st) = cd_contacts_db st"
  "cd_phase (begun u sid c pk ice calls env st) = cd_phase st"
  "cd_lookup_client_fd (begun u sid c pk ice calls env st) = cd_lookup_client_fd st"
  by (simp_all add: begun_def)

lemma begun_negotiating:
  assumes "cd_identity st = me" "pinned sod (cd_contacts_db st) (id_username peer) = Some (id_public_key peer)"
  shows "negotiating sod me peer sid (if c then CHAT_CRYPTO_ROLE_INITIATOR else CHAT_CRYPTO_ROLE_RESPONDER)
     (begun (id_username peer) sid c (id_public_key peer) ice calls env st\<lparr>cd_pending_len := n, cd_control_out := out\<rparr>)"
    "negotiating sod me peer sid (if c then CHAT_CRYPTO_ROLE_INITIATOR else CHAT_CRYPTO_ROLE_RESPONDER)
     (begun (id_username peer) sid c (id_public_key peer) ice calls env st)"
  using assms by (simp_all add: negotiating_def chat_between_def begun_def)

definition can_gather :: "('h, 's) denv \<Rightarrow> bool \<Rightarrow> 's chatd_state_t \<Rightarrow> bool" where
  "can_gather env controlling st \<longleftrightarrow>
     fst (chat_ice_session_start (de_nice env) controlling (Some (cd_ice_config st)) chat_ice_session_init) = CHAT_ICE_OK"

text \<open>A session whose ICE agent runs and is not connected yet, as long as its time lasts.\<close>

definition agent_runs :: "nice \<Rightarrow> chat_ice_session_t \<Rightarrow> bool" where
  "agent_runs nice ice \<longleftrightarrow> is_agent ice = nice_agent_new_full nice \<and> is_agent ice \<noteq> None
     \<and> is_stream_id ice = nice_agent_add_stream nice (the (is_agent ice)) \<and> is_component_id ice = NICE_COMPONENT_TYPE_RTP"

definition linking :: "('h, 's) denv \<Rightarrow> nat \<Rightarrow> 's chatd_state_t \<Rightarrow> bool" where
  "linking env t st \<longleftrightarrow> cd_ice_active st \<and> \<not> cd_ice_cli_notified st \<and> cd_crypto_deadline_at st = 0 \<and> t < cd_ice_deadline_at st
     \<and> cd_control_wsi st \<noteq> None \<and> fresh st \<and> \<not> cd_encrypted_session_ready st \<and> cd_has_remote_identity_pk st
     \<and> ring_inv (cd_ice st) \<and> \<not> is_ready (cd_ice st) \<and> \<not> is_failed (cd_ice st) \<and> agent_runs (de_nice env) (cd_ice st)"

definition ungathered :: "'s chatd_state_t \<Rightarrow> bool" where
  "ungathered st \<longleftrightarrow> \<not> is_gathering_done (cd_ice st) \<and> \<not> cd_ice_local_sdp_sent st
     \<and> \<not> cd_has_pending_remote_ice_sdp st \<and> cd_pending_len st = 0"

lemma ice_start_ok:
  assumes "chat_ice_session_start nice c config session = (CHAT_ICE_OK, ice, calls)"
  obtains agent where "nice_agent_new_full nice = Some agent"
    "ice = chat_ice_session_init\<lparr>is_agent := Some agent, is_stream_id := nice_agent_add_stream nice agent, is_component_id := NICE_COMPONENT_TYPE_RTP\<rparr>"
  using assms
  by (auto simp: chat_ice_session_start_def chat_ice_session_close_def start_failed_def Let_def split: option.splits if_splits)

lemma begun_linking:
  assumes "chat_ice_session_start (de_nice env) c config session = (CHAT_ICE_OK, ice, calls)"
    and "cd_control_wsi st \<noteq> None" "t < de_time env Time_ice_start + CHATD_ICE_TIMEOUT_SECONDS"
  shows "linking env t (begun peer sid c pk ice calls env st\<lparr>cd_pending_len := n, cd_control_out := out\<rparr>)"
    "ungathered (begun peer sid c pk ice calls env st\<lparr>cd_pending_len := 0, cd_control_out := out\<rparr>)"
    "linking env t (begun peer sid c pk ice calls env st)"
    "cd_pending_len st = 0 \<Longrightarrow> ungathered (begun peer sid c pk ice calls env st)"
proof -
  obtain agent where agent: "nice_agent_new_full (de_nice env) = Some agent"
    "ice = chat_ice_session_init\<lparr>is_agent := Some agent, is_stream_id := nice_agent_add_stream (de_nice env) agent, is_component_id := NICE_COMPONENT_TYPE_RTP\<rparr>"
    by (rule ice_start_ok [OF assms(1)])
  have ring: "ring_inv ice" "ring_packets ice = []"
    using session_init_ring by (simp_all add: agent(2) ring_inv_def ring_packets_def ring_slot_def)
  have flags: "\<not> is_ready ice" "\<not> is_failed ice" "\<not> is_gathering_done ice"
    by (simp_all add: agent(2)) (simp_all add: chat_ice_session_init_def)
  have runs: "agent_runs (de_nice env) ice" using agent(1) by (simp add: agent_runs_def agent(2))
  show "linking env t (begun peer sid c pk ice calls env st\<lparr>cd_pending_len := n, cd_control_out := out\<rparr>)"
    "linking env t (begun peer sid c pk ice calls env st)"
    using assms(2,3) ring flags runs by (simp_all add: linking_def begun_def fresh_def)
  show "ungathered (begun peer sid c pk ice calls env st\<lparr>cd_pending_len := 0, cd_control_out := out\<rparr>)"
    "cd_pending_len st = 0 \<Longrightarrow> ungathered (begun peer sid c pk ice calls env st)"
    using flags by (simp_all add: ungathered_def begun_def)
qed

text \<open>The two halves: the request that leaves the first daemon, and the answer of the second.\<close>

lemma opened_flushed:
  assumes "signaling_ready env me st" "signal_name u" "u \<noteq> id_username me" "length (de_session_id env) = 16"
    and "cd_phase st = CHATD_PHASE_ONLINE" "cd_control_wsi st \<noteq> None" "cd_lookup_client_fd st < 0" "\<not> cd_ice_active st"
  defines "req \<equiv> signal_msg (de_sod env) ''chat_request'' (id_username me) u (sodium_bin2hex (de_sod env) (de_session_id env)) (id_public_key me)"
  shows "flush env (snd (handle_open_chat_command fd u env st)) =
    st\<lparr>cd_lookup_peer := u, cd_lookup_client_fd := fd, cd_chat_retry_count := 0, cd_session_state := CHATD_SESSION_REQUESTING,
       cd_ice_session_id := sodium_bin2hex (de_sod env) (de_session_id env),
       cd_pending := req @ drop (length req) (cd_pending st), cd_pending_len := 0, cd_control_out := cd_control_out st @ [req]\<rparr>"
  unfolding open_chat_ok(2) [OF assms(1-8)] req_def snd_conv
  by (subst flush_queued [where json = req and rest = "drop (length req) (cd_pending st)"]) (simp_all add: req_def)

lemma request_answered:
  assumes "signaling_ready env me st" "signal_name u" "signal_id sid" "length pk = 32"
    and "trusted (de_sod env) (cd_contacts_db st) u pk" "can_gather env False st" "cd_control_wsi st \<noteq> None"
    and "t < de_time env Time_ice_start + CHATD_ICE_TIMEOUT_SECONDS" "u = id_username peer" "pk = id_public_key peer"
  defines "acc \<equiv> signal_msg (de_sod env) ''chat_accept'' (id_username me) u sid (id_public_key me)"
    and "st' \<equiv> flush env (receive_text env (signal_msg (de_sod env) ''chat_request'' u (id_username me) sid pk) st)"
  shows "negotiating (de_sod env) me peer sid CHAT_CRYPTO_ROLE_RESPONDER st' \<and> linking env t st' \<and> ungathered st'
    \<and> last (cd_control_out st') = acc \<and> cd_phase st' = cd_phase st \<and> cd_lookup_client_fd st' = cd_lookup_client_fd st"
proof -
  obtain ice calls where start: "chat_ice_session_start (de_nice env) False (Some (cd_ice_config st)) chat_ice_session_init = (CHAT_ICE_OK, ice, calls)"
    using assms(6) by (cases "chat_ice_session_start (de_nice env) False (Some (cd_ice_config st)) chat_ice_session_init") (simp add: can_gather_def)
  obtain f st1 where recv: "callback_chatd_control
       (LWS_CALLBACK_CLIENT_RECEIVE (signal_msg (de_sod env) ''chat_request'' u (id_username me) sid pk) 0 True) env st =
       (0, begun u sid False pk ice calls env st1)"
    "pinned (de_sod env) f u = Some pk"
    "st1 = st\<lparr>cd_contacts_db := f, cd_session_state := CHATD_SESSION_REQUESTING,
          cd_pending := acc @ drop (length acc) (cd_pending st), cd_pending_len := length acc\<rparr>"
    using request_received [OF assms(1-5) start] unfolding acc_def by blast
  have st': "st' = begun u sid False pk ice calls env st1
      \<lparr>cd_pending_len := 0, cd_control_out := cd_control_out (begun u sid False pk ice calls env st1) @ [acc]\<rparr>"
    unfolding st'_def receive_text_def recv(1) snd_conv
    by (subst flush_queued [where json = acc and rest = "drop (length acc) (cd_pending st)"]) (simp_all add: recv(3) acc_def)
  have "cd_control_wsi st1 \<noteq> None" "cd_identity st1 = me" "cd_phase st1 = cd_phase st" "cd_lookup_client_fd st1 = cd_lookup_client_fd st"
    using assms(1,7) by (simp_all add: recv(3) signaling_ready_def)
  moreover have "pinned (de_sod env) (cd_contacts_db st1) (id_username peer) = Some (id_public_key peer)"
    using recv(2) assms(9,10) by (simp add: recv(3))
  ultimately show ?thesis
    using begun_linking [OF start _ assms(8)] begun_negotiating(1) [of st1 me "de_sod env" peer sid False] assms(9,10)
    unfolding st' by simp
qed

lemma accept_answered:
  assumes "signaling_ready env me st" "signal_name u" "signal_id sid" "length pk = 32"
    and "trusted (de_sod env) (cd_contacts_db st) u pk" "can_gather env True st" "cd_control_wsi st \<noteq> None"
    and "0 \<le> cd_lookup_client_fd st" "cd_lookup_peer st = u" "cd_ice_session_id st = sid"
    and "t < de_time env Time_ice_start + CHATD_ICE_TIMEOUT_SECONDS" "u = id_username peer" "pk = id_public_key peer"
  defines "st' \<equiv> receive_text env (signal_msg (de_sod env) ''chat_accept'' u (id_username me) sid pk) st"
  shows "negotiating (de_sod env) me peer sid CHAT_CRYPTO_ROLE_INITIATOR st' \<and> linking env t st' \<and> ungathered st'
    \<and> cd_lookup_client_fd st' = cd_lookup_client_fd st"
proof -
  obtain ice calls where start: "chat_ice_session_start (de_nice env) True (Some (cd_ice_config st)) chat_ice_session_init = (CHAT_ICE_OK, ice, calls)"
    using assms(6) by (cases "chat_ice_session_start (de_nice env) True (Some (cd_ice_config st)) chat_ice_session_init") (simp add: can_gather_def)
  obtain g where recv: "callback_chatd_control
       (LWS_CALLBACK_CLIENT_RECEIVE (signal_msg (de_sod env) ''chat_accept'' u (id_username me) sid pk) 0 True) env st =
       (0, begun u sid True pk ice calls env (st\<lparr>cd_contacts_db := g\<rparr>))" (is "_ = (0, ?begun)")
    "pinned (de_sod env) g u = Some pk"
    using accept_received [OF assms(1-5,8-10) start] by blast
  have "linking env t ?begun" "ungathered ?begun"
    using begun_linking(3,4) [OF start _ assms(11), of "st\<lparr>cd_contacts_db := g\<rparr>"] assms(1,7) by (simp_all add: signaling_ready_def)
  moreover have "negotiating (de_sod env) me peer sid CHAT_CRYPTO_ROLE_INITIATOR ?begun"
    using begun_negotiating(2) [of "st\<lparr>cd_contacts_db := g\<rparr>" me "de_sod env" peer sid True] recv(2) assms(1,12,13)
    by (simp add: signaling_ready_def)
  ultimately show ?thesis by (simp add: st'_def receive_text_def recv(1) del: callback_chatd_control.simps)
qed

lemma open_session_negotiates:
  fixes envA envB :: "('h, 's) denv"
  assumes "de_sod envA = sod" "de_sod envB = sod" "signaling_ready envA A stA" "signaling_ready envB B stB"
    and "id_username B \<noteq> id_username A" "length (de_session_id envA) = 16"
    and "cd_phase stA = CHATD_PHASE_ONLINE" "cd_control_wsi stA \<noteq> None" "cd_lookup_client_fd stA < 0" "\<not> cd_ice_active stA"
    and "0 \<le> fd" "trusted sod (cd_contacts_db stA) (id_username B) (id_public_key B)"
    and "trusted sod (cd_contacts_db stB) (id_username A) (id_public_key A)"
    and "can_gather envA True stA" "can_gather envB False stB" "cd_control_wsi stB \<noteq> None"
    and "t < de_time envA Time_ice_start + CHATD_ICE_TIMEOUT_SECONDS" "t < de_time envB Time_ice_start + CHATD_ICE_TIMEOUT_SECONDS"
    and "open_session envA envB fd (id_username B) stA stB = (stA', stB')"
  shows "\<exists>sid. signal_id sid \<and> negotiating sod A B sid CHAT_CRYPTO_ROLE_INITIATOR stA' \<and> linking envA t stA' \<and> ungathered stA'
     \<and> negotiating sod B A sid CHAT_CRYPTO_ROLE_RESPONDER stB' \<and> linking envB t stB' \<and> ungathered stB'
     \<and> last (cd_control_out (flush envA (snd (handle_open_chat_command fd (id_username B) envA stA)))) =
         signal_msg sod ''chat_request'' (id_username A) (id_username B) sid (id_public_key A)
     \<and> last (cd_control_out stB') = signal_msg sod ''chat_accept'' (id_username B) (id_username A) sid (id_public_key B)
     \<and> cd_lookup_client_fd stA' = fd \<and> cd_phase stB' = cd_phase stB \<and> cd_lookup_client_fd stB' = cd_lookup_client_fd stB"
proof -
  let ?sid = "sodium_bin2hex sod (de_session_id envA)"
  let ?req = "signal_msg sod ''chat_request'' (id_username A) (id_username B) ?sid (id_public_key A)"
  let ?acc = "signal_msg sod ''chat_accept'' (id_username B) (id_username A) ?sid (id_public_key B)"
  have names: "signal_name (id_username A)" "signal_name (id_username B)" "length (id_public_key A) = 32" "length (id_public_key B) = 32"
    using assms(3,4) by (auto simp: signaling_ready_def)
  have sid: "signal_id ?sid" using open_chat_ok(1) [OF assms(3) names(2) assms(5-10)] unfolding assms(1) .
  define stA1 where "stA1 = flush envA (snd (handle_open_chat_command fd (id_username B) envA stA))"
  note A1 = opened_flushed [OF assms(3) names(2) assms(5-10), of fd, unfolded assms(1), folded stA1_def]
  define stB1 where "stB1 = flush envB (receive_text envB ?req stB)"
  have B1: "negotiating sod B A ?sid CHAT_CRYPTO_ROLE_RESPONDER stB1 \<and> linking envB t stB1 \<and> ungathered stB1 \<and> last (cd_control_out stB1) = ?acc
      \<and> cd_phase stB1 = cd_phase stB \<and> cd_lookup_client_fd stB1 = cd_lookup_client_fd stB"
    using request_answered [OF assms(4) names(1) sid names(3) _ assms(15,16,18), of A] assms(13) unfolding assms(2) stB1_def by simp
  have "signaling_ready envA A stA1" "can_gather envA True stA1" using assms(3,14) by (simp_all add: A1 signaling_ready_def can_gather_def)
  then have A2: "negotiating sod A B ?sid CHAT_CRYPTO_ROLE_INITIATOR (receive_text envA ?acc stA1)
      \<and> linking envA t (receive_text envA ?acc stA1) \<and> ungathered (receive_text envA ?acc stA1)
      \<and> cd_lookup_client_fd (receive_text envA ?acc stA1) = fd"
    using accept_answered [of envA A stA1 "id_username B" ?sid "id_public_key B" t B] names sid assms(1,8,11,12,17) by (simp add: A1)
  have lastA: "last (cd_control_out stA1) = ?req" by (simp add: A1)
  have "stA' = receive_text envA ?acc stA1" "stB' = stB1"
    using assms(19) B1 unfolding open_session_def Let_def stA1_def [symmetric] lastA stB1_def [symmetric] by auto
  then show ?thesis using sid A2 B1 lastA unfolding stA1_def by blast
qed

end
