(* ===== verification/Daemon_Negotiation.thy ===== *)
theory Daemon_Negotiation
  imports Daemon_Signaling
begin

text \<open>
  How two daemons connect once they have agreed on a session: each gathers its candidates, sends
  its session description as \<open>ice_credentials\<close>, takes over the description of the other, and starts
  the key exchange when libnice reports the connection.
\<close>

section \<open>Session descriptions as texts\<close>

definition sdp_ok :: "string \<Rightarrow> bool" where
  "sdp_ok sdp \<longleftrightarrow> sdp \<noteq> [] \<and> length sdp \<le> CHATD_ICE_SDP_MAX \<and> nul \<notin> set sdp"

lemma base64_len_bound: "n \<le> 2048 \<Longrightarrow> base64_encoded_len n \<le> 2732"
proof -
  assume "n \<le> 2048"
  then have "n div 3 * 4 \<le> 2728" by simp
  moreover have "n mod 3 + 1 \<le> 3" by simp
  ultimately show ?thesis by (simp add: base64_encoded_len_def)
qed

lemma sdp_roundtrip:
  assumes "base64_laws sod" "sdp_ok sdp"
  defines "enc \<equiv> sodium_bin2base64 sod (map byte_of_char sdp)"
  shows "base64_encode_sdp sod sdp (base64_encoded_len CHATD_ICE_SDP_MAX) = Some enc"
    "base64_decode_sdp sod enc (CHATD_ICE_SDP_MAX + 1) = Some sdp"
    "length enc < base64_encoded_len CHATD_ICE_SDP_MAX" "length enc < 2732" "plain enc"
proof -
  have max: "base64_encoded_len 2048 = 2732" by (simp add: base64_encoded_len_def)
  have len: "Suc (length enc) \<le> 2732"
    using base64_lawsD(1) [OF assms(1), of "map byte_of_char sdp"] base64_len_bound [of "length sdp"] assms(2)
    by (simp add: sdp_ok_def enc_def)
  show "base64_encode_sdp sod sdp (base64_encoded_len CHATD_ICE_SDP_MAX) = Some enc"
    using assms(2) base64_len_bound [of "length sdp"] by (simp add: base64_encode_sdp_def max enc_def sdp_ok_def)
  have "cstr (map char_of_byte (map byte_of_char sdp)) = sdp" using assms(2) by (simp add: sdp_ok_def comp_def cstr_id)
  then show "base64_decode_sdp sod enc (CHATD_ICE_SDP_MAX + 1) = Some sdp"
    using base64_lawsD(3) [OF assms(1), of "map byte_of_char sdp" 2048] assms(2)
    by (simp add: base64_decode_sdp_def enc_def sdp_ok_def)
  show "length enc < base64_encoded_len CHATD_ICE_SDP_MAX" "length enc < 2732" using len by (simp_all add: max)
  show "plain enc" using plain_base64 [OF assms(1)] by (simp add: enc_def)
qed

text \<open>A name that is none of the keys searched for behind it in this message.\<close>

definition link_name :: "string \<Rightarrow> bool" where
  "link_name u \<longleftrightarrow> signal_name u \<and> u \<noteq> ''sdp''"

definition ice_msg :: "('h, 's) sodium \<Rightarrow> string \<Rightarrow> string \<Rightarrow> string \<Rightarrow> string \<Rightarrow> string" where
  "ice_msg sod u v sid sdp = json_object [(''type'', JStr ''ice_credentials''), (''from'', JStr u), (''to'', JStr v),
     (''session_id'', JStr sid), (''sdp'', JStr (sodium_bin2base64 sod (map byte_of_char sdp)))]"

lemma ice_msg_fields:
  assumes "base64_laws sod" "link_name u" "link_name v" "signal_id sid" "sdp_ok sdp"
  shows "json_get_string (ice_msg sod u v sid sdp) ''type'' 32 = Some ''ice_credentials''"
    and "json_get_string (ice_msg sod u v sid sdp) ''from'' 33 = Some u"
    and "json_get_string (ice_msg sod u v sid sdp) ''to'' 33 = Some v"
    and "json_get_string (ice_msg sod u v sid sdp) ''session_id'' 33 = Some sid"
    and "json_get_string (ice_msg sod u v sid sdp) ''sdp'' (base64_encoded_len 2048) =
           Some (sodium_bin2base64 sod (map byte_of_char sdp))"
    and "cstr (ice_msg sod u v sid sdp) = ice_msg sod u v sid sdp"
    and "length (ice_msg sod u v sid sdp) < 4096" and "ice_msg sod u v sid sdp \<noteq> []"
proof -
  note enc = sdp_roundtrip(3-5) [OF assms(1,5)]
  have pf: "plain_fields [(''type'', JStr ''ice_credentials''), (''from'', JStr u), (''to'', JStr v),
     (''session_id'', JStr sid), (''sdp'', JStr (sodium_bin2base64 sod (map byte_of_char sdp)))]"
    using enc(3) assms(2-4) plain_username by (simp add: plain_literal signal_name_def link_name_def signal_id_def)
  have len: "length u < 33" "length v < 33" "length sid < 33" "u \<noteq> ''to''" "3 \<le> length u"
    using assms(2-4) by (auto simp: signal_name_def link_name_def signal_id_def valid_username_iff)
  note fields = ice_msg_def json_get_string_object key_literal
  show "json_get_string (ice_msg sod u v sid sdp) ''type'' 32 = Some ''ice_credentials''"
    "json_get_string (ice_msg sod u v sid sdp) ''from'' 33 = Some u"
    "json_get_string (ice_msg sod u v sid sdp) ''to'' 33 = Some v"
    "json_get_string (ice_msg sod u v sid sdp) ''session_id'' 33 = Some sid"
    using pf len assms(2-4) by (auto simp: fields signal_name_def link_name_def)
  show "json_get_string (ice_msg sod u v sid sdp) ''sdp'' (base64_encoded_len 2048) =
       Some (sodium_bin2base64 sod (map byte_of_char sdp))"
    using pf assms(2-4) enc(1) by (auto simp: fields link_name_def signal_id_def)
  show "cstr (ice_msg sod u v sid sdp) = ice_msg sod u v sid sdp"
    unfolding ice_msg_def by (rule cstr_json_object [OF pf])
  show "length (ice_msg sod u v sid sdp) < 4096" using len enc(2) by (simp add: ice_msg_def json_object_def)
  show "ice_msg sod u v sid sdp \<noteq> []" by (simp add: ice_msg_def json_object_def)
qed

section \<open>Gathering\<close>

text \<open>What the running agent of a session does: it gives the description \<open>mine\<close>, accepts \<open>theirs\<close>
  and sends whole packets once connected.\<close>

definition agent_links :: "nice \<Rightarrow> string \<Rightarrow> string \<Rightarrow> bool" where
  "agent_links nice mine theirs \<longleftrightarrow> (\<forall>a. nice_agent_new_full nice = Some a \<longrightarrow>
     nice_agent_generate_local_sdp nice a = Some mine \<and> 0 < nice_agent_parse_remote_sdp nice a theirs
     \<and> (\<forall>d. nice_agent_send nice a (nice_agent_add_stream nice a) NICE_COMPONENT_TYPE_RTP d = int (length d)))"

definition service_events :: "('h, 's) denv \<Rightarrow> ice_event list \<Rightarrow> 's chatd_state_t \<Rightarrow> 's chatd_state_t" where
  "service_events env events st = service_ice_session (env\<lparr>de_ice_events := events\<rparr>) st"

definition gathered :: "'s chatd_state_t \<Rightarrow> ice_event" where
  "gathered st = Ice_gathering_done (is_stream_id (cd_ice st))"

definition link_ready :: "'s chatd_state_t \<Rightarrow> ice_event" where
  "link_ready st = Ice_state_changed (the (is_agent (cd_ice st))) (is_stream_id (cd_ice st)) (is_component_id (cd_ice st))
     NICE_COMPONENT_STATE_READY"

text \<open>A session that has sent its description.\<close>

definition described :: "'s chatd_state_t \<Rightarrow> bool" where
  "described st \<longleftrightarrow> is_gathering_done (cd_ice st) \<and> cd_ice_local_sdp_sent st \<and> \<not> cd_has_pending_remote_ice_sdp st
     \<and> cd_pending_len st = 0"

definition in_session :: "chat_identity_t \<Rightarrow> string \<Rightarrow> string \<Rightarrow> 's chatd_state_t \<Rightarrow> bool" where
  "in_session me peer sid st \<longleftrightarrow> cd_identity st = me \<and> cd_ice_peer st = peer \<and> cd_ice_session_id st = sid
     \<and> link_name (id_username me) \<and> link_name peer \<and> signal_id sid"

lemma in_session_same: "same_chat st st' \<Longrightarrow> in_session me peer sid st \<Longrightarrow> in_session me peer sid st'"
  by (simp add: in_session_def same_chat_def)

lemma linking_agent:
  assumes "linking env t st" "agent_links (de_nice env) mine theirs"
  obtains a where "is_agent (cd_ice st) = Some a" "nice_agent_generate_local_sdp (de_nice env) a = Some mine"
    "0 < nice_agent_parse_remote_sdp (de_nice env) a theirs"
    "\<And>d. nice_agent_send (de_nice env) a (is_stream_id (cd_ice st)) (is_component_id (cd_ice st)) d = int (length d)"
proof -
  obtain a where "is_agent (cd_ice st) = Some a" "nice_agent_new_full (de_nice env) = Some a"
    using assms(1) by (cases "nice_agent_new_full (de_nice env)") (auto simp: linking_def agent_runs_def)
  then show thesis using that [of a] assms by (simp add: linking_def agent_runs_def agent_links_def)
qed

lemma ice_flags [simp]:
  "ring_inv (ice\<lparr>is_gathering_done := b\<rparr>) = ring_inv ice" "ring_inv (ice\<lparr>is_remote_set := b\<rparr>) = ring_inv ice"
  "ring_packets (ice\<lparr>is_gathering_done := b\<rparr>) = ring_packets ice" "ring_packets (ice\<lparr>is_remote_set := b\<rparr>) = ring_packets ice"
  "agent_runs nice (ice\<lparr>is_gathering_done := b\<rparr>) = agent_runs nice ice" "agent_runs nice (ice\<lparr>is_remote_set := b\<rparr>) = agent_runs nice ice"
  by (simp_all add: ring_inv_def ring_packets_def ring_slot_def agent_runs_def)

text \<open>The description is queued once the candidates are gathered, after a description that waits
  was taken over.\<close>

lemma sdp_queued:
  assumes "linking env t st" "agent_links (de_nice env) mine theirs" "base64_laws (de_sod env)" "sdp_ok mine"
    "in_session me peer sid st" "is_gathering_done (cd_ice st)" "cd_pending_len st = 0"
  defines "msg \<equiv> ice_msg (de_sod env) (id_username me) peer sid mine"
  shows "queue_local_ice_sdp env st = (0, st\<lparr>cd_pending := msg @ drop (length msg) (cd_pending st),
     cd_pending_len := length msg, cd_ice_local_sdp_sent := True\<rparr>)"
proof -
  obtain a where a: "is_agent (cd_ice st) = Some a" "nice_agent_generate_local_sdp (de_nice env) a = Some mine"
    by (rule linking_agent [OF assms(1,2)])
  note s = assms(5) [unfolded in_session_def]
  have "length msg < 4096" unfolding msg_def using s assms(3,4) by (intro ice_msg_fields) simp_all
  then have "queue_printed 4096 msg st = (0, st\<lparr>cd_pending := msg @ drop (length msg) (cd_pending st), cd_pending_len := length msg\<rparr>)"
    using assms(7) by (intro queue_printed_ok) simp_all
  then show ?thesis
    using a s assms(4,6) sdp_roundtrip(1) [OF assms(3,4)]
    by (simp add: queue_local_ice_sdp_def chat_ice_session_generate_local_sdp_def sdp_ok_def msg_def ice_msg_def)
qed

lemma gather_step:
  assumes "linking env t st" "agent_links (de_nice env) mine theirs" "base64_laws (de_sod env)" "sdp_ok mine"
    "in_session me peer sid st" "de_time env = (\<lambda>_. t)" "\<not> cd_ice_local_sdp_sent st" "cd_pending_len st = 0"
    and "cd_has_pending_remote_ice_sdp st \<Longrightarrow> cd_pending_remote_ice_sdp st = theirs"
  defines "st' \<equiv> flush env (service_events env [gathered st] st)"
  shows "linking env t st' \<and> described st' \<and> same_chat st st' \<and> cd_control_out st' = cd_control_out st @ [ice_msg (de_sod env) (id_username me) peer sid mine]"
proof -
  let ?msg = "ice_msg (de_sod env) (id_username me) peer sid mine"
  let ?env = "env\<lparr>de_ice_events := [gathered st]\<rparr>"
  define st1 where "st1 = (if cd_has_pending_remote_ice_sdp st
     then st\<lparr>cd_ice := (cd_ice st)\<lparr>is_gathering_done := True, is_remote_set := True\<rparr>,
             cd_pending_remote_ice_sdp := [], cd_has_pending_remote_ice_sdp := False\<rparr>
     else st\<lparr>cd_ice := (cd_ice st)\<lparr>is_gathering_done := True\<rparr>\<rparr>)"
  note l = assms(1) [unfolded linking_def]
  obtain a where a: "is_agent (cd_ice st) = Some a" "0 < nice_agent_parse_remote_sdp (de_nice env) a theirs"
    by (rule linking_agent [OF assms(1,2)])
  have st1: "linking ?env t st1" "in_session me peer sid st1" "is_gathering_done (cd_ice st1)" "cd_pending_len st1 = 0"
    "\<not> cd_ice_local_sdp_sent st1" "same_chat st st1" "\<not> cd_has_pending_remote_ice_sdp st1" "cd_control_out st1 = cd_control_out st"
    using assms(1,5,7,8)
    by (simp_all add: st1_def linking_def fresh_def in_session_def same_chat_def)
  let ?st2 = "st1\<lparr>cd_pending := ?msg @ drop (length ?msg) (cd_pending st1), cd_pending_len := length ?msg, cd_ice_local_sdp_sent := True\<rparr>"
  have queue: "queue_local_ice_sdp ?env st1 = (0, ?st2)"
    using sdp_queued [OF st1(1) _ _ assms(4) st1(2-4)] assms(2,3) by simp
  note l1 = st1(1) [unfolded linking_def]
  have "service_events env [gathered st] st = ?st2"
  proof (cases "cd_has_pending_remote_ice_sdp st")
    case True
    then have "st1 = st\<lparr>cd_ice := (cd_ice st)\<lparr>is_gathering_done := True, is_remote_set := True\<rparr>,
             cd_pending_remote_ice_sdp := [], cd_has_pending_remote_ice_sdp := False\<rparr>" by (simp add: st1_def)
    then show ?thesis
      using queue l l1 st1(3-5) True a assms(6,9)
      by (simp add: service_events_def service_ice_session_def chat_ice_poll_def gathered_def on_candidate_gathering_done_def
          has_pending_control_message_def apply_remote_ice_sdp_def chat_ice_session_set_remote_sdp_def Let_def)
  next
    case False
    then have "st1 = st\<lparr>cd_ice := (cd_ice st)\<lparr>is_gathering_done := True\<rparr>\<rparr>" by (simp add: st1_def)
    then show ?thesis
      using queue l l1 st1(3-5) False assms(6)
      by (simp add: service_events_def service_ice_session_def chat_ice_poll_def gathered_def on_candidate_gathering_done_def
          has_pending_control_message_def Let_def)
  qed
  then have "st' = ?st2\<lparr>cd_pending_len := 0, cd_control_out := cd_control_out st @ [?msg]\<rparr>"
    using ice_msg_fields(8) [of "de_sod env" "id_username me" peer sid mine] assms(3-5) st1(8)
    unfolding st'_def by (subst flush_queued [where json = ?msg and rest = "drop (length ?msg) (cd_pending st1)"]) (simp_all add: in_session_def)
  then show ?thesis
    using st1 by (simp add: linking_def described_def same_chat_def fresh_def)
qed

section \<open>The description of the other side\<close>

text \<open>A description that comes before the own candidates are gathered waits; one that comes later
  is given to the agent at once.\<close>

lemma credentials_received:
  assumes "linking env t st" "agent_links (de_nice env) mine theirs" "base64_laws (de_sod env)" "sdp_ok theirs"
    "in_session me peer sid st"
  defines "st' \<equiv> receive_text env (ice_msg (de_sod env) peer (id_username me) sid theirs) st"
  shows "st' = (if is_gathering_done (cd_ice st) then st\<lparr>cd_ice := (cd_ice st)\<lparr>is_remote_set := True\<rparr>\<rparr>
     else st\<lparr>cd_pending_remote_ice_sdp := theirs, cd_has_pending_remote_ice_sdp := True\<rparr>)"
proof -
  note s = assms(5) [unfolded in_session_def]
  let ?msg = "ice_msg (de_sod env) peer (id_username me) sid theirs"
  have m: "json_get_string ?msg ''type'' 32 = Some ''ice_credentials''" "json_get_string ?msg ''from'' 33 = Some peer"
    "json_get_string ?msg ''to'' 33 = Some (id_username me)" "json_get_string ?msg ''session_id'' 33 = Some sid"
    "json_get_string ?msg ''sdp'' (base64_encoded_len 2048) = Some (sodium_bin2base64 (de_sod env) (map byte_of_char theirs))"
    "cstr ?msg = ?msg" "length ?msg < 4096"
    using ice_msg_fields [of "de_sod env" peer "id_username me" sid theirs] s assms(3,4) by simp_all
  obtain a where a: "is_agent (cd_ice st) = Some a" "0 < nice_agent_parse_remote_sdp (de_nice env) a theirs"
    by (rule linking_agent [OF assms(1,2)])
  have fits: "snprintf_fits 2049 theirs" using assms(4) by (simp add: sdp_ok_def snprintf_fits_def)
  have "handle_ice_credentials ?msg env st = (0, if is_gathering_done (cd_ice st)
      then st\<lparr>cd_ice := (cd_ice st)\<lparr>is_remote_set := True\<rparr>\<rparr>
      else st\<lparr>cd_pending_remote_ice_sdp := theirs, cd_has_pending_remote_ice_sdp := True\<rparr>)"
    using assms(1) s m sdp_roundtrip(2) [OF assms(3,4)] a fits
    by (simp add: handle_ice_credentials_def linking_def apply_remote_ice_sdp_def chat_ice_session_set_remote_sdp_def)
  then show ?thesis using m by (simp add: st'_def receive_text_def handle_receive_def)
qed

lemma credentials_kept:
  assumes "linking env t st" "agent_links (de_nice env) mine theirs" "base64_laws (de_sod env)" "sdp_ok theirs"
    "in_session me peer sid st"
  defines "st' \<equiv> receive_text env (ice_msg (de_sod env) peer (id_username me) sid theirs) st"
  shows "linking env t st'" "same_chat st st'" "described st \<Longrightarrow> described st'"
    "ungathered st \<Longrightarrow> \<not> cd_ice_local_sdp_sent st' \<and> cd_pending_len st' = 0 \<and> cd_pending_remote_ice_sdp st' = theirs"
    "cd_control_out st' = cd_control_out st"
  unfolding st'_def credentials_received [OF assms(1-5)]
  using assms(1) by (simp_all add: linking_def fresh_def same_chat_def described_def ungathered_def)

section \<open>The connection\<close>

text \<open>The state in which the key exchange starts.\<close>

definition noted :: "('h, 's) denv \<Rightarrow> 's chatd_state_t \<Rightarrow> 's chatd_state_t" where
  "noted env st = note_ice_ready env (st\<lparr>cd_ice := ice_event_step (de_nice env) (cd_ice st) (link_ready st)\<rparr>)"

lemma link_ready_ice:
  "\<exists>known relayed. ice_event_step nice (cd_ice st) (link_ready st) =
     (cd_ice st)\<lparr>is_ready := True, is_selected_pair_known := known, is_selected_pair_is_relayed := relayed\<rparr>"
proof (cases "nice_agent_get_selected_pair nice (the (is_agent (cd_ice st))) (is_stream_id (cd_ice st)) (is_component_id (cd_ice st))")
  case None
  then show ?thesis
    by (intro exI [of _ "is_selected_pair_known (cd_ice st)"] exI [of _ "is_selected_pair_is_relayed (cd_ice st)"])
      (simp add: link_ready_def on_component_state_changed_def)
next
  case (Some pair)
  then show ?thesis by (cases pair) (auto simp: link_ready_def on_component_state_changed_def)
qed

lemma noted_props:
  assumes "linking env t st" "described st" "agent_links (de_nice env) mine theirs" "de_time env = (\<lambda>_. t)"
  shows "connected (noted env st)" "crypto_round env t (noted env st)" "fresh (noted env st)" "same_chat st (noted env st)"
    "cd_ice_out (noted env st) = cd_ice_out st"
proof -
  obtain a where a: "is_agent (cd_ice st) = Some a"
    "\<And>d. nice_agent_send (de_nice env) a (is_stream_id (cd_ice st)) (is_component_id (cd_ice st)) d = int (length d)"
    by (rule linking_agent [OF assms(1,3)]) blast
  obtain known relayed where ice: "ice_event_step (de_nice env) (cd_ice st) (link_ready st) =
     (cd_ice st)\<lparr>is_ready := True, is_selected_pair_known := known, is_selected_pair_is_relayed := relayed\<rparr>"
    using link_ready_ice by blast
  have ring: "ring_inv ((cd_ice st)\<lparr>is_ready := True, is_selected_pair_known := known, is_selected_pair_is_relayed := relayed\<rparr>)"
    "ring_packets ((cd_ice st)\<lparr>is_ready := True, is_selected_pair_known := known, is_selected_pair_is_relayed := relayed\<rparr>) = []"
    using assms(1) by (simp_all add: linking_def fresh_def ring_inv_def ring_packets_def ring_slot_def)
  note n = noted_def ice note_ice_ready_def set_state_update
  show "connected (noted env st)" "crypto_round env t (noted env st)" "fresh (noted env st)" "same_chat st (noted env st)"
    "cd_ice_out (noted env st) = cd_ice_out st"
    using assms ring a
    by (simp_all add: n linking_def described_def connected_def crypto_round_def link_up_def fresh_def same_chat_def)
qed

lemma ready_step:
  assumes "linking env t st" "described st" "agent_links (de_nice env) mine theirs" "de_time env = (\<lambda>_. t)"
    and "chat_crypto_handshake_init (de_sod env) (de_kx_seed env) (cd_crypto_handshake (noted env st)) (Some (cd_identity st))
           (Some (cd_remote_identity_pk st)) (cd_crypto_role st) (Some (map byte_of_char (cd_ice_session_id st)))
         = (CHAT_CRYPTO_OK, hs, Some m)" and "length m = 96"
  shows "service_events env [link_ready st] st = greeted t hs m (noted env st)"
proof -
  let ?env = "env\<lparr>de_ice_events := [link_ready st]\<rparr>"
  note n = noted_props [OF assms(1-4)]
  obtain known relayed where ice: "ice_event_step (de_nice env) (cd_ice st) (link_ready st) =
     (cd_ice st)\<lparr>is_ready := True, is_selected_pair_known := known, is_selected_pair_is_relayed := relayed\<rparr>"
    using link_ready_ice by blast
  have same: "note_ice_ready ?env s = note_ice_ready env s" for s by (simp add: note_ice_ready_def)
  have "service_events env [link_ready st] st = service_crypto_session ?env (noted env st)"
    using assms(1,2,4)
    by (simp add: service_events_def service_ice_session_def chat_ice_poll_def ice linking_def described_def noted_def same Let_def)
  also have "\<dots> = greeted t hs m (noted env st)"
    using n(2,3,4) assms(5,6)
    by (intro round_first) (simp_all add: crypto_round_def link_up_def fresh_def same_chat_def)
  finally show ?thesis .
qed

section \<open>Both daemons\<close>

text \<open>The first daemon gathers and sends its description, which the second takes over when it has
  gathered too; its own description goes back.\<close>

definition describe_both ::
  "('h, 's) denv \<Rightarrow> ('h, 's) denv \<Rightarrow> 's chatd_state_t \<Rightarrow> 's chatd_state_t \<Rightarrow> 's chatd_state_t \<times> 's chatd_state_t" where
  "describe_both envA envB stA stB =
     (let stA1 = flush envA (service_events envA [gathered stA] stA);
          stB1 = receive_text envB (last (cd_control_out stA1)) stB;
          stB2 = flush envB (service_events envB [gathered stB1] stB1)
      in (receive_text envA (last (cd_control_out stB2)) stA1, stB2))"

lemma describe_both_ok:
  assumes "de_sod envA = sod" "de_sod envB = sod" "base64_laws sod" "sdp_ok sdpA" "sdp_ok sdpB"
    and A: "linking envA t stA" "ungathered stA" "agent_links (de_nice envA) sdpA sdpB" "in_session A (id_username B) sid stA" "de_time envA = (\<lambda>_. t)"
    and B: "linking envB t stB" "ungathered stB" "agent_links (de_nice envB) sdpB sdpA" "in_session B (id_username A) sid stB" "de_time envB = (\<lambda>_. t)"
    and "describe_both envA envB stA stB = (stA', stB')"
  shows "linking envA t stA' \<and> described stA' \<and> same_chat stA stA' \<and> linking envB t stB' \<and> described stB' \<and> same_chat stB stB'
    \<and> last (cd_control_out (flush envA (service_events envA [gathered stA] stA))) = ice_msg sod (id_username A) (id_username B) sid sdpA
    \<and> last (cd_control_out stB') = ice_msg sod (id_username B) (id_username A) sid sdpB"
proof -
  let ?msgA = "ice_msg sod (id_username A) (id_username B) sid sdpA" and ?msgB = "ice_msg sod (id_username B) (id_username A) sid sdpB"
  define stA1 where "stA1 = flush envA (service_events envA [gathered stA] stA)"
  have A1: "linking envA t stA1 \<and> described stA1 \<and> same_chat stA stA1 \<and> cd_control_out stA1 = cd_control_out stA @ [?msgA]"
    using gather_step [OF A(1,3) _ assms(4) A(4,5)] A(2) assms(1,3) unfolding stA1_def by (simp add: ungathered_def)
  define stB1 where "stB1 = receive_text envB ?msgA stB"
  note B1 = credentials_kept [OF B(1,3) _ assms(4) B(4), unfolded assms(2), folded stB1_def, OF assms(3)]
  define stB2 where "stB2 = flush envB (service_events envB [gathered stB1] stB1)"
  have B2: "linking envB t stB2 \<and> described stB2 \<and> same_chat stB1 stB2 \<and> cd_control_out stB2 = cd_control_out stB1 @ [?msgB]"
    using gather_step [OF B1(1) B(3) _ assms(5) in_session_same [OF B1(2) B(4)] B(5)] B1(4) B(2) assms(2,3) unfolding stB2_def by simp
  note A2 = credentials_kept [OF A1 [THEN conjunct1] A(3) _ assms(5) in_session_same [OF _ A(4)], unfolded assms(1), OF assms(3)]
  have "stA' = receive_text envA ?msgB stA1" "stB' = stB2"
    using assms(16) A1 B2 unfolding describe_both_def Let_def stA1_def [symmetric] by (auto simp: stB1_def stB2_def)
  then show ?thesis using A1 A2 B1 B2 same_chat_trans unfolding stA1_def [symmetric] by auto
qed

text \<open>Both daemons are told that the connection stands, and exchange keys.\<close>

definition connect_both ::
  "('h, 's) denv \<Rightarrow> ('h, 's) denv \<Rightarrow> 's chatd_state_t \<Rightarrow> 's chatd_state_t \<Rightarrow> 's chatd_state_t \<times> 's chatd_state_t" where
  "connect_both envA envB stA stB =
     finish_exchange envA envB stA (service_events envA [link_ready stA] stA) stB (service_events envB [link_ready stB] stB)"

lemma finish_exchange_cong:
  assumes "cd_ice_out stA = cd_ice_out stA'" "cd_ice_out stB = cd_ice_out stB'"
  shows "finish_exchange envA envB stA stA1 stB stB1 = finish_exchange envA envB stA' stA1 stB' stB1"
  using assms by (simp add: finish_exchange_def sent_since_def)

lemma connect_both_secure:
  fixes envA envB :: "('h, 's) denv"
  assumes "crypto_laws sod sync" "de_sod envA = sod" "de_sod envB = sod"
    and "crypto_sign_keypair sod seedA = (id_public_key A, id_secret_key A)"
    and "crypto_sign_keypair sod seedB = (id_public_key B, id_secret_key B)"
    and A: "linking envA t stA" "described stA" "agent_links (de_nice envA) sdpA sdpB" "de_time envA = (\<lambda>_. t)"
    and B: "linking envB t stB" "described stB" "agent_links (de_nice envB) sdpB sdpA" "de_time envB = (\<lambda>_. t)"
    and nA: "chat_between sod A B sid CHAT_CRYPTO_ROLE_INITIATOR stA" and nB: "chat_between sod B A sid CHAT_CRYPTO_ROLE_RESPONDER stB"
    and "signal_id sid" "connect_both envA envB stA stB = (stA', stB')"
  shows "chatting envA stA' \<and> chatting envB stB' \<and> streams_match sync stA' stB' \<and> streams_match sync stB' stA'
    \<and> same_chat stA stA' \<and> same_chat stB stB'"
proof -
  have sid: "sid \<noteq> []" "length sid \<le> 32" using assms(16) by (simp_all add: signal_id_def)
  note pA = noted_props [OF A] and pB = noted_props [OF B]
  obtain hA msgA hB msgB where
    initA: "chat_crypto_handshake_init sod (de_kx_seed envA) (cd_crypto_handshake (noted envA stA)) (Some A) (Some (id_public_key B))
       CHAT_CRYPTO_ROLE_INITIATOR (Some (map byte_of_char sid)) = (CHAT_CRYPTO_OK, hA, Some msgA)"
    and initB: "chat_crypto_handshake_init sod (de_kx_seed envB) (cd_crypto_handshake (noted envB stB)) (Some B) (Some (id_public_key A))
       CHAT_CRYPTO_ROLE_RESPONDER (Some (map byte_of_char sid)) = (CHAT_CRYPTO_OK, hB, Some msgB)"
    and m: "material sod sync (de_stream_seed envA) (de_stream_seed envB) (cd_crypto_keys (noted envA stA))
       (cd_crypto_keys (noted envB stB)) hA msgA hB msgB"
    by (rule exchange_material [OF assms(1,4,5) sid])
  have len: "length msgA = 96" "length msgB = 96" using m by (simp_all add: material_def)
  have A1: "service_events envA [link_ready stA] stA = greeted t hA msgA (noted envA stA)"
    using initA nA len(1) assms(2) by (intro ready_step [OF A]) (simp_all add: chat_between_def)
  have B1: "service_events envB [link_ready stB] stB = greeted t hB msgB (noted envB stB)"
    using initB nB len(2) assms(3) by (intro ready_step [OF B]) (simp_all add: chat_between_def)
  have run: "finish_exchange envA envB (noted envA stA) (greeted t hA msgA (noted envA stA)) (noted envB stB)
      (greeted t hB msgB (noted envB stB)) = (stA', stB')"
    using assms(17) unfolding connect_both_def A1 B1 by (subst finish_exchange_cong [OF pA(5) pB(5)])
  from finish_exchange_secure [OF m assms(2,3) greeted_greeting [OF pA(1-3)] greeted_greeting [OF pB(1-3)] run]
  show ?thesis using same_chat_trans pA(4) pB(4) by blast
qed

end
