(* ===== verification/Daemon_Properties.thy ===== *)
theory Daemon_Properties
  imports Daemon_Negotiation
begin

text \<open>
  The properties of the chat daemon, with a concrete libnice, a concrete outside world and a
  concrete run that reaches an encrypted session.
\<close>

section \<open>A concrete daemon\<close>

definition demo_nice :: nice where
  "demo_nice =
     \<lparr>nice_agent_new_full = Some 5, nice_agent_add_stream = (\<lambda>a. 1),
      nice_agent_set_stream_name = (\<lambda>a st n. True), nice_address_set_from_string = (\<lambda>a. True),
      nice_agent_add_local_address = (\<lambda>a l. True),
      nice_agent_set_relay_info = (\<lambda>a st c h p u pw. True),
      nice_agent_attach_recv = (\<lambda>a st c. True), nice_agent_gather_candidates = (\<lambda>a st. True),
      nice_agent_generate_local_sdp = (\<lambda>a. Some ''v=0''), nice_agent_parse_remote_sdp = (\<lambda>a t. 1),
      nice_agent_send = (\<lambda>a st c d. int (length d)), nice_agent_get_selected_pair = (\<lambda>a st c. None)\<rparr>"

definition demo_env :: "(bytes, bytes \<times> nat) denv" where
  "demo_env =
     \<lparr>de_sod = demo, de_nice = demo_nice, de_contacts = good_io, de_time = (\<lambda>site. 100),
      de_session_id = replicate 16 3, de_kx_seed = [1], de_stream_seed = [2],
      de_ipc_write = (\<lambda>fd line. True), de_ipc_read = (\<lambda>fd. Read_again), de_ice_events = [],
      de_connect = True, de_accept = -1, de_poll_ready = 0, de_poll_error = False, de_poll_in = False\<rparr>"

definition demo_ice :: chat_ice_session_t where
  "demo_ice = chat_ice_session_init\<lparr>is_agent := Some 5, is_stream_id := 1, is_ready := True\<rparr>"

definition demo_session :: "chat_identity_t \<Rightarrow> chat_identity_t \<Rightarrow> chat_crypto_role_t \<Rightarrow> (bytes \<times> nat) chatd_state_t" where
  "demo_session me peer role =
     (chatd_initial demo me chat_ice_config_init None)
       \<lparr>cd_ice := demo_ice, cd_ice_active := True, cd_ice_cli_notified := True, cd_ice_peer := id_username peer,
        cd_ice_session_id := ''00ff'', cd_remote_identity_pk := id_public_key peer, cd_has_remote_identity_pk := True,
        cd_crypto_role := role, cd_crypto_deadline_at := 130, cd_lookup_client_fd := 7\<rparr>"

lemma demo_not_failed: "\<not> is_failed demo_ice"
  by (simp add: demo_ice_def chat_ice_session_init_def)

lemma demo_ring: "ring_inv demo_ice" "ring_packets demo_ice = []"
  using session_init_ring by (simp_all add: demo_ice_def ring_inv_def ring_packets_def ring_slot_def)

lemma demo_crypto_laws: "crypto_laws demo (=)"
  by (simp add: crypto_laws_def demo_hash_laws demo_sign_laws demo_kx_laws demo_stream_laws) (simp add: demo_def)

lemma demo_session_ok:
  "session_with me (id_public_key peer) ''00ff'' role (demo_session me peer role)"
  "crypto_round demo_env 100 (demo_session me peer role)"
  by (simp_all add: session_with_def demo_session_def chatd_initial_def connected_def fresh_def crypto_round_def
      link_up_def demo_ring demo_not_failed demo_env_def demo_nice_def) (simp_all add: demo_ice_def)

lemma demo_start: "chat_ice_session_start demo_nice c (Some chat_ice_config_init) chat_ice_session_init =
   (CHAT_ICE_OK, chat_ice_session_init\<lparr>is_agent := Some 5, is_stream_id := 1\<rparr>,
    [Nice_new 5, Nice_set_mode 5 c False, Nice_set_software 5 ''ProntoChat'', Nice_connect 5 ''candidate-gathering-done'',
     Nice_connect 5 ''component-state-changed''])"
  by (simp add: chat_ice_session_start_def chat_ice_session_close_def demo_nice_def ice_local_address_refused_def
      ice_relay_refused_def chat_ice_config_init_def Let_def) (simp add: chat_ice_session_init_def)

lemma demo_ice_fields [simp]:
  "is_ready demo_ice" "\<not> is_gathering_done demo_ice" "is_agent demo_ice = Some 5" "is_stream_id demo_ice = 1"
  "\<not> is_selected_pair_known demo_ice" "\<not> is_failed demo_ice"
  by (simp_all add: demo_ice_def chat_ice_session_init_def)

definition bob_daemon :: "(bytes \<times> nat) chatd_state_t" where
  "bob_daemon = chatd_initial demo (sample_identity ''bob'' 8) chat_ice_config_init None"

lemma bob_ready: "signaling_ready demo_env (sample_identity ''bob'' 8) bob_daemon"
proof -
  have "signal_name ''bob''" using contacts_names by (simp add: signal_name_def)
  moreover have "contacts_inv demo None" by (auto simp: contacts_inv_def demo_hex_laws)
  ultimately show ?thesis
    by (simp add: signaling_ready_def bob_daemon_def chatd_initial_def demo_env_def demo_hex_laws good_io_ok sample_identity_def)
qed

text \<open>The peer has logged in; the daemon whose states are followed has only connected.\<close>

definition alice_online :: "(bytes \<times> nat) chatd_state_t" where
  "alice_online = (chatd_initial demo (sample_identity ''alice'' 7) chat_ice_config_init None)
     \<lparr>cd_phase := CHATD_PHASE_ONLINE, cd_control_wsi := Some 1\<rparr>"

definition bob_connected :: "(bytes \<times> nat) chatd_state_t" where
  "bob_connected = flush demo_env (snd (callback_chatd_control (LWS_CALLBACK_CLIENT_ESTABLISHED 2) demo_env bob_daemon))"

lemma alice_online_ready: "signaling_ready demo_env (sample_identity ''alice'' 7) alice_online"
proof -
  have "signal_name ''alice''" using contacts_names by (simp add: signal_name_def)
  moreover have "contacts_inv demo None" by (auto simp: contacts_inv_def demo_hex_laws)
  ultimately show ?thesis
    by (simp add: signaling_ready_def alice_online_def chatd_initial_def demo_env_def demo_hex_laws good_io_ok sample_identity_def)
qed

lemma flush_fields [simp]:
  "cd_pending_len (flush env st) = 0" "cd_identity (flush env st) = cd_identity st" "cd_contacts_db (flush env st) = cd_contacts_db st"
  "cd_control_wsi (flush env st) = cd_control_wsi st" "cd_ice_config (flush env st) = cd_ice_config st"
  by (simp_all add: flush_def)

lemma bob_connected_fields:
  "cd_pending_len bob_connected = 0" "cd_identity bob_connected = cd_identity bob_daemon" "cd_contacts_db bob_connected = cd_contacts_db bob_daemon"
  "cd_control_wsi bob_connected = Some 2" "cd_ice_config bob_connected = cd_ice_config bob_daemon"
  by (auto simp: bob_connected_def queue_register_def queue_printed_def queue_json_def Let_def)

lemma bob_connected_ready: "signaling_ready demo_env (sample_identity ''bob'' 8) bob_connected"
  using bob_ready by (simp add: signaling_ready_def bob_connected_fields)

lemma demo_links: "agent_links (de_nice demo_env) ''v=0'' ''v=0''" "sdp_ok ''v=0''"
  by (simp_all add: agent_links_def demo_env_def demo_nice_def sdp_ok_def nul_def)

text \<open>The two daemons open a session, exchange their descriptions and connect.\<close>

definition demo_run :: "(bytes \<times> nat) chatd_state_t \<times> (bytes \<times> nat) chatd_state_t" where
  "demo_run =
     (let (stA, stB) = open_session demo_env demo_env 7 ''bob'' alice_online bob_connected;
          (stA1, stB1) = describe_both demo_env demo_env stA stB
      in connect_both demo_env demo_env stA1 stB1)"

lemma demo_run_secure: "secure (snd demo_run)" "cd_ice_peer (snd demo_run) = ''alice''"
proof -
  let ?A = "sample_identity ''alice'' 7" and ?B = "sample_identity ''bob'' 8"
  have env: "de_sod demo_env = demo" "de_time demo_env = (\<lambda>_. 100)" "length (de_session_id demo_env) = 16"
    "can_gather demo_env True alice_online" "can_gather demo_env False bob_connected"
    using demo_start
    by (simp_all add: demo_env_def can_gather_def alice_online_def bob_connected_fields(5) bob_daemon_def chatd_initial_def)
  have names: "id_username ?A = ''alice''" "id_username ?B = ''bob''" "link_name ''alice''" "link_name ''bob''"
    using contacts_names by (simp_all add: sample_identity_def link_name_def signal_name_def)
  have alice: "cd_phase alice_online = CHATD_PHASE_ONLINE" "cd_control_wsi alice_online \<noteq> None" "cd_lookup_client_fd alice_online < 0"
    "\<not> cd_ice_active alice_online" "trusted demo (cd_contacts_db alice_online) (id_username ?B) (id_public_key ?B)"
    "trusted demo (cd_contacts_db bob_connected) (id_username ?A) (id_public_key ?A)" "id_username ?B \<noteq> id_username ?A"
    by (simp_all add: alice_online_def chatd_initial_def trusted_def pinned_def bob_connected_fields(3) bob_daemon_def names)
  obtain stA stB where o: "open_session demo_env demo_env 7 ''bob'' alice_online bob_connected = (stA, stB)" by force
  obtain sid where n: "signal_id sid" "negotiating demo ?A ?B sid CHAT_CRYPTO_ROLE_INITIATOR stA" "linking demo_env 100 stA" "ungathered stA"
    "negotiating demo ?B ?A sid CHAT_CRYPTO_ROLE_RESPONDER stB" "linking demo_env 100 stB" "ungathered stB"
    using open_session_negotiates [OF env(1,1) alice_online_ready bob_connected_ready alice(7) env(3) alice(1-4) _ alice(5,6) env(4,5), of 7 100 stA stB] o
    by (auto simp: bob_connected_fields(4) env(2) names(2))
  obtain stA1 stB1 where d: "describe_both demo_env demo_env stA stB = (stA1, stB1)" by force
  have in_s: "in_session ?A (id_username ?B) sid stA" "in_session ?B (id_username ?A) sid stB"
    using n(1,2,5) names by (simp_all add: in_session_def negotiating_def chat_between_def)
  have d1: "linking demo_env 100 stA1" "described stA1" "same_chat stA stA1" "linking demo_env 100 stB1" "described stB1" "same_chat stB stB1"
    using describe_both_ok [OF env(1,1) demo_base64_laws demo_links(2,2) n(3,4) demo_links(1) in_s(1) env(2) n(6,7) demo_links(1) in_s(2) env(2) d] by blast+
  have b: "chat_between demo ?A ?B sid CHAT_CRYPTO_ROLE_INITIATOR stA1" "chat_between demo ?B ?A sid CHAT_CRYPTO_ROLE_RESPONDER stB1"
    using n(2,5) d1(3,6) by (auto simp: negotiating_def intro: chat_between_same)
  obtain stA2 stB2 where c: "connect_both demo_env demo_env stA1 stB1 = (stA2, stB2)" by force
  have "chatting demo_env stB2" "same_chat stB1 stB2"
    using connect_both_secure [OF demo_crypto_laws env(1,1) sample_identity_keys sample_identity_keys d1(1,2) demo_links(1) env(2)
        d1(4,5) demo_links(1) env(2) b n(1) c] by blast+
  moreover have "snd demo_run = stB2" by (simp add: demo_run_def o d c)
  ultimately show "secure (snd demo_run)" "cd_ice_peer (snd demo_run) = ''alice''"
    using b(2) names(1) by (simp_all add: chatting_def same_chat_def chat_between_def)
qed

lemma demo_secure_reachable:
  assumes good: "\<And>evs. good (demo_env\<lparr>de_ice_events := evs\<rparr>)"
  shows "\<exists>st. chatd_reachable good demo (sample_identity ''bob'' 8) None st
     \<and> secure st \<and> cd_ice_peer st = ''alice''"
proof -
  let ?reach = "chatd_reachable good demo (sample_identity ''bob'' 8) None"
  have step: "?reach (chatd_event_step e (demo_env\<lparr>de_ice_events := evs\<rparr>) st)" if "?reach st" for e evs st
    using chatd_step [OF that, of "demo_env\<lparr>de_ice_events := evs\<rparr>" e] good by (simp add: demo_env_def)
  have same: "demo_env\<lparr>de_ice_events := []\<rparr> = demo_env" by (simp add: demo_env_def)
  have callback: "?reach (snd (callback_chatd_control c demo_env st))" if "?reach st" for c st
    using step [OF that, of "Control_callback c" "[]"] by (simp add: same)
  have steps: "?reach (flush demo_env st)" "?reach (receive_text demo_env inp st)" "?reach (service_events demo_env evs st)"
    "?reach (service_with demo_env packets st)" if "?reach st" for st inp evs packets
    using callback [OF that] step [OF that, of Service_ice_session]
    by (simp_all add: flush_def receive_text_def service_events_def service_with_def del: callback_chatd_control.simps)
  have start: "?reach bob_connected"
    unfolding bob_connected_def bob_daemon_def by (intro steps(1) callback chatd_start)
  have "?reach (snd demo_run)"
    unfolding demo_run_def open_session_def describe_both_def connect_both_def finish_exchange_def Let_def prod.case snd_conv
    by (intro steps start)
  then show ?thesis using demo_run_secure by blast
qed

section \<open>Properties\<close>

text \<open>
  C1. An encrypted session is authenticated: in every reachable state in which the daemon treats
  the session as encrypted, the peer's name is pinned in the contacts file with exactly the
  identity key of the session, a message with a valid signature by that key over this
  handshake's transcript was received, the session keys are derived from the ephemeral key it
  carried, and both directions of the stream are initialised.
\<close>

theorem secure_session_authentic:
  assumes "chatd_reachable (\<lambda>env. io_ok (de_contacts env)) sod identity f st" and "contacts_inv sod f"
    and "cd_encrypted_session_ready st"
  shows "pinned sod (cd_contacts_db st) (cd_ice_peer st) = Some (cd_remote_identity_pk st)
    \<and> hs_remote_identity_pk (cd_crypto_handshake st) = cd_remote_identity_pk st
    \<and> hs_local_identity_pk (cd_crypto_handshake st) = id_public_key identity
    \<and> peer_verified sod (cd_crypto_handshake st) (cd_crypto_keys st)
    \<and> st_push_initialized (cd_crypto_stream st) \<and> st_pull_initialized (cd_crypto_stream st)"
  using reachable_inv [OF assms(1,2)] assms(3) by (auto simp: session_inv_def)

theorem secure_session_authentic_witness:
  "\<exists>st. chatd_reachable (\<lambda>env. io_ok (de_contacts env)) demo (sample_identity ''bob'' 8) None st
     \<and> cd_encrypted_session_ready st \<and> cd_ice_peer st = ''alice''
     \<and> pinned demo (cd_contacts_db st) ''alice'' = Some (cd_remote_identity_pk st)"
proof -
  obtain st where st: "chatd_reachable (\<lambda>env. io_ok (de_contacts env)) demo (sample_identity ''bob'' 8) None st"
    "cd_encrypted_session_ready st" "cd_ice_peer st = ''alice''"
    using demo_secure_reachable [of "\<lambda>env. io_ok (de_contacts env)"] by (auto simp: secure_def demo_env_def good_io_ok)
  have "contacts_inv demo None" by (auto simp: contacts_inv_def demo_hex_laws)
  from secure_session_authentic [OF st(1) this st(2)] st show ?thesis by auto
qed

text \<open>
  Key exchange: two daemons with connected ICE sessions, the same session id, opposite roles
  and each other's identity keys reach an encrypted session within five rounds of
  \<open>service_ice_session\<close> when every packet is delivered; their streams match in both
  directions and nothing is left in the receive rings.
\<close>

theorem daemons_establish_session:
  assumes "crypto_laws sod sync" and "de_sod envA = sod" and "de_sod envB = sod"
    and "crypto_sign_keypair sod seedA = (id_public_key A, id_secret_key A)"
    and "crypto_sign_keypair sod seedB = (id_public_key B, id_secret_key B)"
    and "sid \<noteq> []" and "length sid \<le> 32"
    and "session_with A (id_public_key B) sid CHAT_CRYPTO_ROLE_INITIATOR stA" and "crypto_round envA t stA"
    and "session_with B (id_public_key A) sid CHAT_CRYPTO_ROLE_RESPONDER stB" and "crypto_round envB t stB"
    and "key_exchange envA envB stA stB = (stA', stB')"
  shows "chatting envA stA' \<and> chatting envB stB' \<and> streams_match sync stA' stB' \<and> streams_match sync stB' stA'"
  using key_exchange_secure [OF assms] .

theorem daemons_establish_session_witness:
  "\<exists>stA stB. key_exchange demo_env demo_env
       (demo_session (sample_identity ''alice'' 7) (sample_identity ''bob'' 8) CHAT_CRYPTO_ROLE_INITIATOR)
       (demo_session (sample_identity ''bob'' 8) (sample_identity ''alice'' 7) CHAT_CRYPTO_ROLE_RESPONDER) = (stA, stB)
     \<and> secure stA \<and> secure stB"
proof -
  obtain stA stB where k: "key_exchange demo_env demo_env
       (demo_session (sample_identity ''alice'' 7) (sample_identity ''bob'' 8) CHAT_CRYPTO_ROLE_INITIATOR)
       (demo_session (sample_identity ''bob'' 8) (sample_identity ''alice'' 7) CHAT_CRYPTO_ROLE_RESPONDER) = (stA, stB)"
    by force
  have "de_sod demo_env = demo" "''00ff'' \<noteq> []" "length ''00ff'' \<le> 32" by (simp_all add: demo_env_def)
  from daemons_establish_session [OF demo_crypto_laws this(1,1) sample_identity_keys sample_identity_keys this(2,3)
      demo_session_ok demo_session_ok k] k
  show ?thesis by (auto simp: chatting_def)
qed

text \<open>
  Message delivery: on matching secure sessions every valid text of at most 4073 bytes that
  fits a response line is sent without error, and the client of the receiving daemon reads
  exactly these texts, in order, each as a line with the sender's name; the streams stay
  matched.
\<close>

theorem messages_delivered:
  assumes "stream_laws sod sync" and "de_sod envA = sod" and "de_sod envB = sod"
    and "chatting envA stA" and "chatting envB stB" and "streams_match sync stA stB"
    and "0 \<le> cd_lookup_client_fd stB" and "\<forall>t \<in> set ts. deliverable envB stB t"
    and "conversation envA envB ts stA stB = (rcs, stA', stB')"
  shows "rcs = replicate (length ts) 0 \<and> chatting envA stA' \<and> chatting envB stB' \<and> streams_match sync stA' stB'
    \<and> cd_ipc_out stB' = cd_ipc_out stB @ map (\<lambda>t. (cd_lookup_client_fd stB, message_line (cd_ice_peer stB) t)) ts"
  using conversation_delivers [OF assms] .

definition demo_secure :: "chat_identity_t \<Rightarrow> chat_identity_t \<Rightarrow> (bytes \<times> nat) chatd_state_t" where
  "demo_secure me peer =
     (demo_session me peer CHAT_CRYPTO_ROLE_INITIATOR)
       \<lparr>cd_session_state := CHATD_SESSION_SECURE, cd_encrypted_session_ready := True,
        cd_crypto_stream := \<lparr>st_push = ([1], 0), st_pull = ([1], 0), st_push_initialized = True, st_pull_initialized = True\<rparr>\<rparr>"

lemma demo_secure_ok: "chatting demo_env (demo_secure me peer)" "streams_match (=) (demo_secure me peer) (demo_secure peer me)"
  by (simp_all add: chatting_def secure_def connected_def link_up_def demo_secure_def demo_session_def demo_ring demo_not_failed
      streams_match_def demo_env_def demo_nice_def chatd_initial_def)

theorem messages_delivered_witness:
  "\<exists>rcs stA stB. conversation demo_env demo_env [''hi'', ''bye'']
       (demo_secure (sample_identity ''alice'' 7) (sample_identity ''bob'' 8))
       (demo_secure (sample_identity ''bob'' 8) (sample_identity ''alice'' 7)) = (rcs, stA, stB)
     \<and> rcs = [0, 0]
     \<and> cd_ipc_out stB = [(7, ''MESSAGE alice hi'' @ [newline]), (7, ''MESSAGE alice bye'' @ [newline])]"
proof -
  let ?A = "demo_secure (sample_identity ''alice'' 7) (sample_identity ''bob'' 8)"
  let ?B = "demo_secure (sample_identity ''bob'' 8) (sample_identity ''alice'' 7)"
  obtain rcs stA stB where c: "conversation demo_env demo_env [''hi'', ''bye''] ?A ?B = (rcs, stA, stB)" using prod_cases3 by blast
  have b: "cd_lookup_client_fd ?B = 7" "cd_ice_peer ?B = ''alice''" "cd_ipc_out ?B = []" "de_sod demo_env = demo"
    by (simp_all add: demo_secure_def demo_session_def sample_identity_def chatd_initial_def demo_env_def)
  have d: "\<forall>t \<in> set [''hi'', ''bye'']. deliverable demo_env ?B t"
    by (simp add: deliverable_def b chat_text_is_valid_def newline_def nul_def demo_env_def)
  from messages_delivered [OF demo_stream_laws b(4) b(4) demo_secure_ok(1) demo_secure_ok(1) demo_secure_ok(2) _ d c]
  show ?thesis using c by (simp add: b message_line_def numeral_2_eq_2)
qed

end
