(* ===== verification/System_Login.thy ===== *)
theory System_Login
  imports Server_Safety Daemon_Properties
begin

text \<open>
  The daemon of \<open>daemon/main.c\<close> logging in at the server of \<open>server/main.c\<close>: the texts one writes
  are the texts the other receives, in rounds of a write and an answer.
\<close>

section \<open>Rounds on the control connection\<close>

text \<open>The daemon writes what it has queued, the server handles it at connection \<open>w\<close> and writes its
  answer, and the daemon receives what was written to that connection.\<close>

definition control_round ::
  "('h, 's) denv \<Rightarrow> bytes \<Rightarrow> nat \<Rightarrow> 's chatd_state_t \<times> server \<Rightarrow> ('s chatd_state_t \<times> server) option" where
  "control_round env rnd w = (\<lambda>(st, s).
     let st1 = flush env st;
         inputs = map (\<lambda>m. Ev_receive w m 0 True rnd) (drop (length (cd_control_out st)) (cd_control_out st1))
     in map_option
          (\<lambda>s1. (fold (receive_text env) [m. (p, m) \<leftarrow> drop (length (sv_sent s)) (sv_sent s1), p = w] st1, s1))
          (server_run (de_sod env) (inputs @ [Ev_writeable w (int CHAT_SERVER_MAX_JSON_SIZE)]) s))"

text \<open>Both ends of a new connection, then three rounds. \<open>wsi\<close> is the daemon's handle of it.\<close>

definition daemon_login ::
  "('h, 's) denv \<Rightarrow> bytes \<Rightarrow> nat \<Rightarrow> nat \<Rightarrow> 's chatd_state_t \<Rightarrow> server \<Rightarrow> ('s chatd_state_t \<times> server) option" where
  "daemon_login env rnd wsi w st s =
     Option.bind (server_run (de_sod env) [Ev_established w] s) (\<lambda>s1.
     Option.bind (control_round env rnd w (snd (callback_chatd_control (LWS_CALLBACK_CLIENT_ESTABLISHED wsi) env st), s1)) (\<lambda>r1.
     Option.bind (control_round env rnd w r1) (control_round env rnd w)))"

lemma server_answers:
  assumes "server_callback sod (Ev_receive w msg 0 True rnd) s = Inr (0, queue_to p p sess json s0)"
    and "sv_sessions s w \<noteq> None" "length rnd = 32" "json \<noteq> []" "length json < 4096"
  obtains s1 where "server_run sod [Ev_receive w msg 0 True rnd, Ev_writeable p 4096] s = Some s1"
    "sv_users s1 = sv_users s0" "sv_sessions s1 = (sv_sessions s0)(p \<mapsto> (with_pending sess json)\<lparr>ss_pending_len := 0\<rparr>)"
    "sv_sent s1 = sv_sent s0 @ [(p, json)]"
proof -
  let ?s1 = "(queue_to p p sess json s0)
     \<lparr>sv_sessions := (sv_sessions s0)(p \<mapsto> (with_pending sess json)\<lparr>ss_pending_len := 0\<rparr>), sv_sent := sv_sent s0 @ [(p, json)]\<rparr>"
  have buf: "take (length json) (ss_pending (with_pending sess json)) = json" by (simp add: with_pending_def)
  have "callback_chat_control sod p (LWS_CALLBACK_SERVER_WRITEABLE 4096) (queue_to p p sess json s0) = Inr (0, ?s1)"
    using assms(4,5) by (simp add: buf)
  then have "server_callback sod (Ev_writeable p 4096) (queue_to p p sess json s0) = Inr (0, ?s1)"
    by (simp only: server_callback.simps)
  moreover have "event_enabled (Ev_writeable p 4096) (queue_to p p sess json s0)" by simp
  moreover have "event_enabled (Ev_receive w msg 0 True rnd) s" using assms(2,3) by simp
  ultimately have "server_run sod [Ev_receive w msg 0 True rnd, Ev_writeable p 4096] s = Some ?s1"
    by (simp only: server_run.simps assms(1) sum.case prod.case if_True)
  then show thesis by (rule that) simp_all
qed

text \<open>What the daemon has queued.\<close>

definition asking :: "chat_identity_t \<Rightarrow> chatd_phase_t \<Rightarrow> string \<Rightarrow> 's chatd_state_t \<Rightarrow> bool" where
  "asking me phase msg st \<longleftrightarrow> cd_identity st = me \<and> cd_phase st = phase \<and> queued msg st"

text \<open>What a login keeps of the daemon's state.\<close>

definition chat_kept :: "'s chatd_state_t \<Rightarrow> 's chatd_state_t \<Rightarrow> bool" where
  "chat_kept st st' \<longleftrightarrow> cd_contacts_db st' = cd_contacts_db st \<and> cd_lookup_client_fd st' = cd_lookup_client_fd st
     \<and> cd_ice_active st' = cd_ice_active st \<and> cd_ice_config st' = cd_ice_config st \<and> cd_control_wsi st' = cd_control_wsi st"

lemma chat_kept_trans: "chat_kept a b \<Longrightarrow> chat_kept b c \<Longrightarrow> chat_kept a c"
  by (simp add: chat_kept_def)

text \<open>A connection with nothing waiting to be written to it.\<close>

definition idle_at :: "nat \<Rightarrow> server \<Rightarrow> bool" where
  "idle_at w s \<longleftrightarrow> (\<exists>sess. sv_sessions s w = Some sess \<and> ss_pending_len sess = 0)"

lemma control_round_ok:
  assumes "asking me phase msg st" "msg \<noteq> []"
    and "server_callback (de_sod env) (Ev_receive w msg 0 True rnd) s = Inr (0, queue_to w w sess json s0)"
    and "sv_sessions s w \<noteq> None" "length rnd = 32" "json \<noteq> []" "length json < 4096" "sv_sent s0 = sv_sent s"
  obtains s1 st1 where "control_round env rnd w (st, s) = Some (receive_text env json st1, s1)"
    "cd_identity st1 = me" "cd_phase st1 = phase" "cd_pending_len st1 = 0" "chat_kept st st1"
    "sv_users s1 = sv_users s0" "sv_sessions s1 = (sv_sessions s0)(w \<mapsto> (with_pending sess json)\<lparr>ss_pending_len := 0\<rparr>)"
proof -
  obtain s1 where s1: "server_run (de_sod env) [Ev_receive w msg 0 True rnd, Ev_writeable w 4096] s = Some s1"
    "sv_users s1 = sv_users s0" "sv_sessions s1 = (sv_sessions s0)(w \<mapsto> (with_pending sess json)\<lparr>ss_pending_len := 0\<rparr>)"
    "sv_sent s1 = sv_sent s0 @ [(w, json)]"
    by (rule server_answers [OF assms(3-7)])
  let ?st1 = "st\<lparr>cd_pending_len := 0, cd_control_out := cd_control_out st @ [msg]\<rparr>"
  have "cd_pending st = msg @ drop (length msg) (cd_pending st)" "cd_pending_len st = length msg"
    using assms(1) append_take_drop_id [of "length msg" "cd_pending st"] by (simp_all add: asking_def queued_def)
  then have fl: "flush env st = ?st1" using flush_queued assms(2) by blast
  have "control_round env rnd w (st, s) = Some (receive_text env json ?st1, s1)"
    using s1(1,4) assms(8) by (simp add: control_round_def fl del: server_run.simps)
  then show thesis
    by (rule that [OF _ _ _ _ _ s1(2,3)]) (use assms(1) in \<open>simp_all add: asking_def chat_kept_def\<close>)
qed

section \<open>The daemon's side\<close>

definition register_ok_msg :: string where "register_ok_msg = json_object [(''type'', JStr ''register_ok'')]"
definition auth_ok_msg :: string where "auth_ok_msg = json_object [(''type'', JStr ''auth_ok'')]"
definition exists_msg :: string where
  "exists_msg = json_object [(''type'', JStr ''error''), (''code'', JStr ''user already exists'')]"

lemma length_json_object: "length (json_object fs) = Suc (length (json_fields_text fs))"
  by (simp add: json_object_def)

lemma receive_printed:
  assumes "plain_fields fs" "length (json_fields_text fs) < 4095"
  shows "receive_text env (json_object fs) st = snd (handle_receive (json_object fs) env st)"
  using assms(2) cstr_json_object [OF assms(1)] by (simp add: receive_text_def length_json_object)

lemma daemon_registers:
  assumes "cd_identity st = me" "cd_pending_len st = 0" "hex_laws (de_sod env)" "valid_username (id_username me)" "length (id_public_key me) = 32"
  shows "asking me CHATD_PHASE_REGISTER (register_msg (de_sod env) (id_username me) (id_public_key me))
     (snd (callback_chatd_control (LWS_CALLBACK_CLIENT_ESTABLISHED wsi) env st))"
    "chat_kept (st\<lparr>cd_control_wsi := Some wsi\<rparr>) (snd (callback_chatd_control (LWS_CALLBACK_CLIENT_ESTABLISHED wsi) env st))"
proof -
  have "length (register_msg (de_sod env) (id_username me) (id_public_key me)) < 512"
    using assms hex_lawsD(1) [OF assms(3)] by (simp add: register_msg_def json_object_def valid_username_iff)
  note q = queue_printed_ok [OF _ this]
  show "asking me CHATD_PHASE_REGISTER (register_msg (de_sod env) (id_username me) (id_public_key me))
     (snd (callback_chatd_control (LWS_CALLBACK_CLIENT_ESTABLISHED wsi) env st))"
    "chat_kept (st\<lparr>cd_control_wsi := Some wsi\<rparr>) (snd (callback_chatd_control (LWS_CALLBACK_CLIENT_ESTABLISHED wsi) env st))"
    using assms(1,2) by (simp_all add: asking_def queued_def chat_kept_def queue_register_def register_msg_def [symmetric] q)
qed

lemma hello_queued:
  assumes "cd_identity st = me" "cd_pending_len st = 0" "valid_username (id_username me)" "cd_phase st = phase"
  shows "asking me phase (hello_msg (id_username me)) (snd (queue_hello env st)) \<and> chat_kept st (snd (queue_hello env st))"
proof -
  have "length (hello_msg (id_username me)) < 128"
    using assms(3) by (simp add: hello_msg_def json_object_def valid_username_iff)
  then show ?thesis
    using assms(1,2,4) by (simp add: asking_def queued_def chat_kept_def queue_hello_def hello_msg_def [symmetric] queue_printed_ok)
qed

lemma daemon_greets:
  assumes "cd_identity st = me" "cd_pending_len st = 0" "valid_username (id_username me)" "cd_phase st = CHATD_PHASE_REGISTER"
    and "reply = register_ok_msg \<or> reply = exists_msg"
  shows "asking me CHATD_PHASE_HELLO (hello_msg (id_username me)) (receive_text env reply st) \<and> chat_kept st (receive_text env reply st)"
proof -
  have "receive_text env reply st = snd (queue_hello env (st\<lparr>cd_phase := CHATD_PHASE_HELLO\<rparr>))"
    using assms(5)
  proof
    assume "reply = register_ok_msg"
    then show ?thesis
      using assms(4) by (simp add: register_ok_msg_def receive_printed plain_literal handle_receive_def
          json_get_string_object key_literal)
  next
    assume "reply = exists_msg"
    then show ?thesis
      using assms(4) by (simp add: exists_msg_def receive_printed plain_literal handle_receive_def handle_server_error_def
          json_get_string_object key_literal)
  qed
  moreover have "chat_kept st (st\<lparr>cd_phase := CHATD_PHASE_HELLO\<rparr>)" by (simp add: chat_kept_def)
  ultimately show ?thesis
    using hello_queued [of "st\<lparr>cd_phase := CHATD_PHASE_HELLO\<rparr>" me CHATD_PHASE_HELLO env] assms(1-3) chat_kept_trans by auto
qed

lemma daemon_answers:
  assumes "cd_identity st = me" "cd_pending_len st = 0" "cd_phase st = CHATD_PHASE_HELLO" "hex_laws (de_sod env)" "length rnd = 32"
    and "crypto_sign_detached (de_sod env) rnd (id_secret_key me) = Some sig" "length sig = 64"
  shows "asking me CHATD_PHASE_AUTH_RESPONSE (auth_response_msg (de_sod env) sig)
     (receive_text env (auth_challenge_msg (de_sod env) rnd) st)
   \<and> chat_kept st (receive_text env (auth_challenge_msg (de_sod env) rnd) st)"
proof -
  have hex: "length (sodium_bin2hex (de_sod env) rnd) = 64" using hex_lawsD(1) [OF assms(4)] assms(5) by simp
  have pf: "plain_fields [(''type'', JStr ''auth_challenge''), (''challenge'', JStr (sodium_bin2hex (de_sod env) rnd))]"
    using plain_hex [OF assms(4)] by (simp add: plain_literal)
  have recv: "receive_text env (auth_challenge_msg (de_sod env) rnd) st =
      snd (queue_auth_response env (st\<lparr>cd_challenge := rnd, cd_has_challenge := True, cd_phase := CHATD_PHASE_AUTH_RESPONSE\<rparr>))"
    unfolding auth_challenge_msg_def
    using assms(3) pf hex hex_to_bin_hex [OF assms(4,5)]
    by (subst receive_printed [OF pf])
      (simp_all add: handle_receive_def handle_auth_challenge_def json_get_string_object key_literal)
  have "length (auth_response_msg (de_sod env) sig) < 256"
    using hex_lawsD(1) [OF assms(4)] assms(7) by (simp add: auth_response_msg_def json_object_def)
  then show ?thesis
    using assms(1,2,6)
    by (simp add: recv asking_def queued_def chat_kept_def queue_auth_response_def auth_response_msg_def [symmetric] queue_printed_ok)
qed

lemma daemon_online:
  assumes "cd_phase st = CHATD_PHASE_AUTH_RESPONSE"
  shows "receive_text env auth_ok_msg st =
     st\<lparr>cd_challenge := replicate 32 0, cd_has_challenge := False, cd_phase := CHATD_PHASE_ONLINE\<rparr>"
  using assms by (simp add: auth_ok_msg_def receive_printed plain_literal handle_receive_def json_get_string_object key_literal)

section \<open>The server's side\<close>

lemma register_known:
  assumes "hex_laws sod" "valid_username u" "u \<noteq> ''public_key''" "length pk = 32"
    and "sv_sessions s w = Some sess" "reg_lookup (sv_users s) u \<noteq> None" "reg_count (sv_users s) < 256"
  shows "server_callback sod (Ev_receive w (register_msg sod u pk) 0 True rnd) s = Inr (0, queue_to w w sess exists_msg s)"
proof -
  note msg = register_msg_fields [OF assms(1-4)]
  have "handle_register sod w (register_msg sod u pk) s = Inr (0, queue_to w w sess exists_msg s)"
    using assms(2,5,6,7)
    by (simp add: handle_register_def msg(2,3) hex_to_bin_hex assms(1,4) register_result send_error_def exists_msg_def
        snprintf_fits_def length_json_object send_json_queue)
  then show ?thesis
    by (simp only: receive_whole [OF msg(4,5)]) (simp add: handle_message_def msg(1))
qed

definition knows :: "server \<Rightarrow> string \<Rightarrow> bytes \<Rightarrow> bool" where
  "knows s u pk \<longleftrightarrow> (\<exists>x. reg_lookup (sv_users s) u = Some x \<and> su_identity_pk x = pk)"

text \<open>What a login leaves alone at the server.\<close>

definition others_kept :: "string \<Rightarrow> nat \<Rightarrow> server \<Rightarrow> server \<Rightarrow> bool" where
  "others_kept u w s s' \<longleftrightarrow> (\<forall>v. v \<noteq> u \<longrightarrow> reg_lookup (sv_users s') v = reg_lookup (sv_users s) v)
     \<and> (\<forall>p. p \<noteq> w \<longrightarrow> sv_sessions s' p = sv_sessions s p)"

lemma register_round:
  assumes "hex_laws sod" "valid_username u" "u \<noteq> ''public_key''" "length pk = 32"
    and "reg_invar (sv_users s)" "sv_sessions s w = Some sess" "reg_count (sv_users s) < 256"
    and "reg_lookup (sv_users s) u = None \<or> knows s u pk"
  obtains reply s0 where "server_callback sod (Ev_receive w (register_msg sod u pk) 0 True rnd) s = Inr (0, queue_to w w sess reply s0)"
    "reply = register_ok_msg \<or> reply = exists_msg" "reg_invar (sv_users s0)" "knows s0 u pk" "others_kept u w s s0"
    "sv_sent s0 = sv_sent s" "reg_count (sv_users s0) \<le> Suc (reg_count (sv_users s))"
proof (cases "reg_lookup (sv_users s) u")
  case None
  then obtain users' where reg: "reg_register (sv_users s) u pk = (CHAT_SERVER_USERS_OK, users')"
    and cb: "server_callback sod (Ev_receive w (register_msg sod u pk) 0 True rnd) s =
       Inr (0, queue_to w w sess register_ok_msg (s\<lparr>sv_users := users'\<rparr>))"
    using register_new [OF assms(1-4,6) _ assms(7)] by (auto simp: register_ok_msg_def)
  have count: "reg_count users' = Suc (reg_count (sv_users s))" using reg by (auto simp: register_result split: if_splits)
  show thesis
    using reg.register_lookup [OF assms(5) reg] reg.register_invar [OF assms(5) reg] count
    by (intro that [OF cb]) (simp_all add: knows_def others_kept_def new_user_def)
next
  case (Some x)
  then show thesis
    using assms(5,8) by (intro that [OF register_known [OF assms(1-4,6) _ assms(7)]]) (auto simp: others_kept_def)
qed

section \<open>The whole login\<close>

lemma msg_nonempty [simp]:
  "register_msg sod u pk \<noteq> []" "hello_msg u \<noteq> []" "auth_response_msg sod sig \<noteq> []" "auth_challenge_msg sod rnd \<noteq> []"
  "register_ok_msg \<noteq> []" "exists_msg \<noteq> []" "auth_ok_msg \<noteq> []"
  by (simp_all add: register_msg_def hello_msg_def auth_response_msg_def auth_challenge_msg_def register_ok_msg_def
      exists_msg_def auth_ok_msg_def json_object_def)

lemma reply_lengths:
  "length register_ok_msg < 4096" "length exists_msg < 4096" "length auth_ok_msg < 4096"
  "hex_laws sod \<Longrightarrow> length rnd = 32 \<Longrightarrow> length (auth_challenge_msg sod rnd) < 4096"
  by (simp_all add: register_ok_msg_def exists_msg_def auth_ok_msg_def auth_challenge_msg_def length_json_object hex_lawsD(1))

lemma others_kept_trans: "others_kept u w s s1 \<Longrightarrow> others_kept u w s1 s2 \<Longrightarrow> others_kept u w s s2"
  by (simp add: others_kept_def)

text \<open>The server holds an open connection and a consistent registry that knows the user, if only
  by the end of the first round.\<close>

definition connected_at :: "nat \<Rightarrow> server \<Rightarrow> bool" where
  "connected_at w s \<longleftrightarrow> reg_invar (sv_users s) \<and> sv_sessions s w \<noteq> None"

lemma round_register:
  assumes "hex_laws (de_sod env)" "valid_username u" "u \<noteq> ''public_key''" "length pk = 32" "length rnd = 32" "id_username me = u"
    and "asking me CHATD_PHASE_REGISTER (register_msg (de_sod env) u pk) st" "connected_at w s"
    and "reg_count (sv_users s) < 256" "reg_lookup (sv_users s) u = None \<or> knows s u pk"
  obtains st' s' where "control_round env rnd w (st, s) = Some (st', s')" "asking me CHATD_PHASE_HELLO (hello_msg u) st'"
    "connected_at w s'" "knows s' u pk" "others_kept u w s s'" "chat_kept st st'" "reg_count (sv_users s') \<le> Suc (reg_count (sv_users s))"
proof -
  obtain sess where sess: "sv_sessions s w = Some sess" and inv: "reg_invar (sv_users s)" using assms(8) by (auto simp: connected_at_def)
  obtain reply s0 where r: "server_callback (de_sod env) (Ev_receive w (register_msg (de_sod env) u pk) 0 True rnd) s =
      Inr (0, queue_to w w sess reply s0)" "reply = register_ok_msg \<or> reply = exists_msg"
    "reg_invar (sv_users s0)" "knows s0 u pk" "others_kept u w s s0" "sv_sent s0 = sv_sent s"
    "reg_count (sv_users s0) \<le> Suc (reg_count (sv_users s))"
    by (rule register_round [OF assms(1-4) inv sess assms(9,10)])
  have reply: "reply \<noteq> []" "length reply < 4096" using r(2) reply_lengths(1,2) msg_nonempty(5,6) by metis+
  have open_w: "sv_sessions s w \<noteq> None" using sess by simp
  obtain s1 st1 where c: "control_round env rnd w (st, s) = Some (receive_text env reply st1, s1)"
    "cd_identity st1 = me" "cd_phase st1 = CHATD_PHASE_REGISTER" "cd_pending_len st1 = 0" "chat_kept st st1"
    "sv_users s1 = sv_users s0" "sv_sessions s1 = (sv_sessions s0)(w \<mapsto> (with_pending sess reply)\<lparr>ss_pending_len := 0\<rparr>)"
    by (rule control_round_ok [OF assms(7) msg_nonempty(1) r(1) open_w assms(5) reply r(6)])
  have "asking me CHATD_PHASE_HELLO (hello_msg (id_username me)) (receive_text env reply st1) \<and> chat_kept st1 (receive_text env reply st1)"
    by (rule daemon_greets [OF c(2,4) _ c(3) r(2)]) (simp add: assms(2,6))
  then show thesis
    using c(6,7) r(3-5,7) assms(6) chat_kept_trans [OF c(5)] by (intro that [OF c(1)]) (simp_all add: connected_at_def knows_def others_kept_def)
qed

lemma round_hello:
  assumes "hex_laws (de_sod env)" "valid_username u" "length rnd = 32" "asking me CHATD_PHASE_HELLO (hello_msg u) st"
    and "connected_at w s" "knows s u pk"
    and "crypto_sign_detached (de_sod env) rnd (id_secret_key me) = Some sig" "length sig = 64"
  obtains st' s' where "control_round env rnd w (st, s) = Some (st', s')"
    "asking me CHATD_PHASE_AUTH_RESPONSE (auth_response_msg (de_sod env) sig) st'" "reg_invar (sv_users s')"
    "challenge_open s' u pk w rnd" "others_kept u w s s'" "chat_kept st st'" "reg_count (sv_users s') = reg_count (sv_users s)"
proof -
  let ?json = "auth_challenge_msg (de_sod env) rnd"
  obtain sess where sess: "sv_sessions s w = Some sess" and inv: "reg_invar (sv_users s)" using assms(5) by (auto simp: connected_at_def)
  let ?s0 = "s\<lparr>sv_sessions := (sv_sessions s)(w \<mapsto> challenged sess u rnd)\<rparr>"
  have r: "server_callback (de_sod env) (Ev_receive w (hello_msg u) 0 True rnd) s =
      Inr (0, queue_to w w (challenged sess u rnd) ?json ?s0)"
    using assms(6) by (intro hello_known [OF assms(1-3) sess]) (auto simp: knows_def)
  have open_w: "sv_sessions s w \<noteq> None" "sv_sent ?s0 = sv_sent s" using sess by simp_all
  obtain s1 st1 where c: "control_round env rnd w (st, s) = Some (receive_text env ?json st1, s1)"
    "cd_identity st1 = me" "cd_phase st1 = CHATD_PHASE_HELLO" "cd_pending_len st1 = 0" "chat_kept st st1"
    "sv_users s1 = sv_users ?s0" "sv_sessions s1 = (sv_sessions ?s0)(w \<mapsto> (with_pending (challenged sess u rnd) ?json)\<lparr>ss_pending_len := 0\<rparr>)"
    by (rule control_round_ok [OF assms(4) msg_nonempty(2) r open_w(1) assms(3) msg_nonempty(4) reply_lengths(4) [OF assms(1,3)] open_w(2)])
  note answer = daemon_answers [OF c(2,4,3) assms(1,3,7,8)]
  have chal: "challenge_open s1 u pk w rnd"
    using assms(6) c(6,7) by (simp add: knows_def challenge_open_def)
  show thesis
    by (rule that [OF c(1) _ _ chal])
      (use answer c(6,7) inv chat_kept_trans [OF c(5)] in \<open>simp_all add: others_kept_def\<close>)
qed

lemma round_auth:
  assumes "hex_laws (de_sod env)" "valid_username u" "length rnd = 32" "length sig = 64"
    and "crypto_sign_verify_detached (de_sod env) sig rnd pk"
    and "asking me CHATD_PHASE_AUTH_RESPONSE (auth_response_msg (de_sod env) sig) st"
    and "reg_invar (sv_users s)" "challenge_open s u pk w rnd"
  obtains st' s' where "control_round env rnd w (st, s) = Some (st', s')"
    "cd_phase st' = CHATD_PHASE_ONLINE" "\<not> cd_has_challenge st'" "cd_pending_len st' = 0" "online_at s' u pk w" "others_kept u w s s'"
    "chat_kept st st'" "cd_identity st' = me" "idle_at w s'" "reg_count (sv_users s') = reg_count (sv_users s)"
proof -
  obtain x sess where x: "reg_lookup (sv_users s) u = Some x" "su_identity_pk x = pk"
    and sess: "sv_sessions s w = Some sess" "ss_has_challenge sess" "ss_challenge sess = rnd" "ss_username sess = u"
    using assms(8) by (auto simp: challenge_open_def)
  have named: "u \<noteq> []" using assms(2) by (auto simp: valid_username_iff)
  let ?s0 = "s\<lparr>sv_users := snd (reg_set_online (sv_users s) u (Some w) (Some w)), sv_sessions := (sv_sessions s)(w \<mapsto> logged_in sess)\<rparr>"
  have r: "server_callback (de_sod env) (Ev_receive w (auth_response_msg (de_sod env) sig) 0 True rnd) s =
      Inr (0, queue_to w w (logged_in sess) auth_ok_msg ?s0)"
    using auth_response_valid [OF assms(1,4) sess(1,2), where user = x and rnd = rnd] sess(3,4) x assms(5) named
    by (simp add: auth_ok_msg_def del: server_callback.simps)
  have open_w: "sv_sessions s w \<noteq> None" "sv_sent ?s0 = sv_sent s" using sess by simp_all
  obtain s1 st1 where c: "control_round env rnd w (st, s) = Some (receive_text env auth_ok_msg st1, s1)"
    "cd_identity st1 = me" "cd_phase st1 = CHATD_PHASE_AUTH_RESPONSE" "cd_pending_len st1 = 0" "chat_kept st st1"
    "sv_users s1 = sv_users ?s0" "sv_sessions s1 = (sv_sessions ?s0)(w \<mapsto> (with_pending (logged_in sess) auth_ok_msg)\<lparr>ss_pending_len := 0\<rparr>)"
    by (rule control_round_ok [OF assms(6) msg_nonempty(3) r open_w(1) assms(3) msg_nonempty(7) reply_lengths(3) open_w(2)])
  have on: "online_at s1 u pk w" "others_kept u w s s1"
    using c(6,7) sess x by (simp_all add: online_at_def others_kept_def reg.online_lookup [OF assms(7)])
  have count: "reg_count (sv_users s1) = reg_count (sv_users s)" using c(6) by (simp add: set_online_result split: option.splits)
  have "chat_kept st1 (receive_text env auth_ok_msg st1)" by (simp add: daemon_online [OF c(3)] chat_kept_def)
  then show thesis
    using c(2,4,7) by (intro that [OF c(1) _ _ _ on chat_kept_trans [OF c(5)] _ _ count]) (simp_all add: daemon_online [OF c(3)] idle_at_def)
qed

text \<open>What holds after the login.\<close>

definition logged_in_as :: "chat_identity_t \<Rightarrow> nat \<Rightarrow> 's chatd_state_t \<Rightarrow> server \<Rightarrow> bool" where
  "logged_in_as me w st s \<longleftrightarrow> cd_identity st = me \<and> cd_phase st = CHATD_PHASE_ONLINE \<and> \<not> cd_has_challenge st
     \<and> cd_pending_len st = 0 \<and> online_at s (id_username me) (id_public_key me) w \<and> idle_at w s"

lemma daemon_login_run:
  assumes laws: "hex_laws (de_sod env)" "sign_laws (de_sod env)"
    and me: "crypto_sign_keypair (de_sod env) seed = (id_public_key me, id_secret_key me)" "valid_username (id_username me)"
      "id_username me \<noteq> ''public_key''"
    and st: "cd_identity st = me" "cd_pending_len st = 0"
    and s: "reg_invar (sv_users s)" "sv_sessions s w = None" "reg_count (sv_users s) < 256"
      "reg_lookup (sv_users s) (id_username me) = None \<or> knows s (id_username me) (id_public_key me)"
    and rnd: "length rnd = 32"
  obtains st' s' where "daemon_login env rnd wsi w st s = Some (st', s')" "logged_in_as me w st' s'"
    "others_kept (id_username me) w s s'" "chat_kept (st\<lparr>cd_control_wsi := Some wsi\<rparr>) st'"
    "reg_count (sv_users s') \<le> Suc (reg_count (sv_users s))"
proof -
  let ?u = "id_username me" and ?pk = "id_public_key me"
  obtain sig where sig: "crypto_sign_detached (de_sod env) rnd (id_secret_key me) = Some sig" "length sig = 64"
    "crypto_sign_verify_detached (de_sod env) sig rnd ?pk" and pk: "length ?pk = 32"
    using laws(2) me(1) by (fastforce simp: sign_laws_def)
  define s1 where "s1 = s\<lparr>sv_sessions := (sv_sessions s)(w \<mapsto> zero_session)\<rparr>"
  have est: "server_run (de_sod env) [Ev_established w] s = Some s1" using s(2) by (simp add: s1_def)
  have s1: "connected_at w s1" "reg_count (sv_users s1) < 256" "reg_lookup (sv_users s1) ?u = None \<or> knows s1 ?u ?pk"
    "others_kept ?u w s s1" "reg_count (sv_users s1) = reg_count (sv_users s)"
    using s by (simp_all add: s1_def connected_at_def knows_def others_kept_def)
  note a1 = daemon_registers [OF st laws(1) me(2) pk, of wsi]
  obtain st2 s2 where c1: "control_round env rnd w (snd (callback_chatd_control (LWS_CALLBACK_CLIENT_ESTABLISHED wsi) env st), s1) = Some (st2, s2)"
    "asking me CHATD_PHASE_HELLO (hello_msg ?u) st2" "connected_at w s2" "knows s2 ?u ?pk" "others_kept ?u w s1 s2"
    "chat_kept (snd (callback_chatd_control (LWS_CALLBACK_CLIENT_ESTABLISHED wsi) env st)) st2"
    "reg_count (sv_users s2) \<le> Suc (reg_count (sv_users s1))"
    by (rule round_register [OF laws(1) me(2,3) pk rnd refl a1(1) s1(1-3)])
  obtain st3 s3 where c2: "control_round env rnd w (st2, s2) = Some (st3, s3)"
    "asking me CHATD_PHASE_AUTH_RESPONSE (auth_response_msg (de_sod env) sig) st3" "reg_invar (sv_users s3)"
    "challenge_open s3 ?u ?pk w rnd" "others_kept ?u w s2 s3" "chat_kept st2 st3" "reg_count (sv_users s3) = reg_count (sv_users s2)"
    by (rule round_hello [OF laws(1) me(2) rnd c1(2-4) sig(1,2)])
  obtain st4 s4 where c3: "control_round env rnd w (st3, s3) = Some (st4, s4)"
    "cd_phase st4 = CHATD_PHASE_ONLINE" "\<not> cd_has_challenge st4" "cd_pending_len st4 = 0" "online_at s4 ?u ?pk w" "others_kept ?u w s3 s4"
    "chat_kept st3 st4" "cd_identity st4 = me" "idle_at w s4" "reg_count (sv_users s4) = reg_count (sv_users s3)"
    by (rule round_auth [OF laws(1) me(2) rnd sig(2,3) c2(2-4)])
  show thesis
  proof (rule that)
    show "daemon_login env rnd wsi w st s = Some (st4, s4)"
      by (simp only: daemon_login_def est c1(1) c2(1) c3(1) bind.simps)
    show "others_kept ?u w s s4" using s1(4) c1(5) c2(5) c3(6) others_kept_trans by blast
    show "chat_kept (st\<lparr>cd_control_wsi := Some wsi\<rparr>) st4" using a1(2) c1(6) c2(6) c3(7) chat_kept_trans by blast
  qed (use c1(7) c2(7) c3 s1(5) in \<open>simp_all add: logged_in_as_def\<close>)
qed

lemma daemon_login_reachable:
  assumes "daemon_login env rnd wsi w st s = Some (st', s')" "server_reachable (de_sod env) s"
  shows "server_reachable (de_sod env) s'"
proof -
  have round: "server_reachable (de_sod env) s2" if "control_round env rnd w (st1, s1) = Some (st2, s2)" "server_reachable (de_sod env) s1" for st1 s1 st2 s2
    using that server_run_reachable by (auto simp: control_round_def Let_def)
  show ?thesis
    using assms server_run_reachable [OF assms(2)]
    by (auto simp: daemon_login_def simp del: server_run.simps callback_chatd_control.simps dest!: round split: bind_splits)
qed

section \<open>Properties\<close>

text \<open>
  C5. Login: a daemon with nothing queued that connects to the server is online after three
  rounds, with its key at the server recorded as online at this connection and no other user or
  connection affected. This holds for a name the server has never seen and for one it has
  registered with the same key before, as after a reconnect, as long as a registry slot is free.
\<close>

theorem daemon_logs_in:
  assumes "hex_laws (de_sod env)" and "sign_laws (de_sod env)"
    and "crypto_sign_keypair (de_sod env) seed = (id_public_key me, id_secret_key me)"
    and "valid_username (id_username me)" and "id_username me \<noteq> ''public_key''"
    and "cd_identity st = me" and "cd_pending_len st = 0" and "length challenge = CHAT_SERVER_CHALLENGE_BYTES"
    and "server_reachable (de_sod env) s" and "sv_sessions s w = None" and "reg_count (sv_users s) < CHAT_SERVER_MAX_USERS"
    and "\<forall>x. chat_server_users_find (sv_users s) (Some (id_username me)) = Some x \<longrightarrow> su_identity_pk x = id_public_key me"
  shows "\<exists>st' s'. daemon_login env challenge wsi w st s = Some (st', s') \<and> logged_in_as me w st' s'
     \<and> others_kept (id_username me) w s s' \<and> server_reachable (de_sod env) s'"
proof -
  have "reg_lookup (sv_users s) (id_username me) = None \<or> knows s (id_username me) (id_public_key me)"
    using assms(12) by (auto simp: knows_def)
  moreover have "reg_count (sv_users s) < 256" "length challenge = 32"
    using assms(8,11) by (simp_all add: CHAT_SERVER_MAX_USERS_def)
  ultimately obtain st' s' where "daemon_login env challenge wsi w st s = Some (st', s')" "logged_in_as me w st' s'"
    "others_kept (id_username me) w s s'"
    using daemon_login_run [OF assms(1-7) server_invD(1) [OF server_reachable_inv [OF assms(9)]] assms(10)] by metis
  then show ?thesis using daemon_login_reachable assms(9) by blast
qed

theorem daemon_logs_in_witness:
  "\<exists>st' s'. daemon_login demo_env sample_challenge 1 1
       (chatd_initial demo (sample_identity ''alice'' 7) chat_ice_config_init None) idle_server = Some (st', s')
     \<and> logged_in_as (sample_identity ''alice'' 7) 1 st' s'"
proof -
  let ?me = "sample_identity ''alice'' 7" and ?st = "chatd_initial demo (sample_identity ''alice'' 7) chat_ice_config_init None"
  have sod: "de_sod demo_env = demo" by (simp add: demo_env_def)
  have laws: "hex_laws (de_sod demo_env)" "sign_laws (de_sod demo_env)" using demo_hex_laws demo_sign_laws by (simp_all add: sod)
  have kp: "crypto_sign_keypair (de_sod demo_env) (replicate 32 7) = (id_public_key ?me, id_secret_key ?me)"
    using sample_identity_keys by (simp add: sod)
  have me: "valid_username (id_username ?me)" "id_username ?me \<noteq> ''public_key''" "cd_identity ?st = ?me" "cd_pending_len ?st = 0"
    using valid_alice by (simp_all add: sample_identity_def chatd_initial_def)
  have s: "server_reachable (de_sod demo_env) idle_server" using idle_server_facts(1) by (simp add: sod)
  show ?thesis
    using daemon_logs_in [OF laws kp me, of sample_challenge idle_server 1 1] s idle_server_facts
    by (auto simp: sample_identity_def CHAT_SERVER_MAX_USERS_def)
qed

definition reconnect :: "nat \<Rightarrow> ('h, 's) denv \<Rightarrow> 's chatd_state_t \<Rightarrow> int \<times> 's chatd_state_t" where
  "reconnect wsi env st =
     callback_chatd_control (LWS_CALLBACK_CLIENT_ESTABLISHED wsi) env (snd (callback_chatd_control LWS_CALLBACK_CLIENT_CLOSED env st))"

lemma closed_keeps_pending [simp]:
  "cd_pending_len (snd (callback_chatd_control LWS_CALLBACK_CLIENT_CLOSED env st)) = cd_pending_len st"
  by (simp add: lose_connection_def write_lookup_response_def close_lookup_client_def write_ipc_line_def Let_def)

lemma reconnect_refused:
  assumes "cd_pending_len st \<noteq> 0"
  shows "fst (reconnect wsi env st) = -1" "cd_pending_len (snd (reconnect wsi env st)) = cd_pending_len st"
  using assms closed_keeps_pending [of env st]
  by (simp_all add: reconnect_def queue_register_def queue_printed_def queue_json_def snprintf_fits_def
      del: callback_chatd_control.simps(5))

text \<open>
  C36. Blocked reconnect: when the connection is lost while a message is queued, the message stays
  queued, so every later attempt to register is refused by \<open>queue_json\<close> and the daemon never logs
  in again, however often it reconnects.
\<close>

theorem reconnect_blocked:
  fixes st :: "'s chatd_state_t" and attempts :: "(nat \<times> ('h, 's) denv) list"
  assumes "cd_pending_len st \<noteq> 0" and "foldl (\<lambda>st (wsi, env). snd (reconnect wsi env st)) st attempts = st'"
  shows "fst (reconnect wsi env st') = -1 \<and> cd_pending_len st' \<noteq> 0"
proof -
  have "cd_pending_len (foldl (\<lambda>st (wsi, env). snd (reconnect wsi env st)) st attempts) = cd_pending_len st"
    if "cd_pending_len st \<noteq> 0" for st
    using that by (induction attempts arbitrary: st) (auto simp: reconnect_refused(2))
  then show ?thesis using assms reconnect_refused(1) by metis
qed

theorem reconnect_blocked_witness:
  "fst (reconnect 2 demo_env (foldl (\<lambda>st (wsi, env). snd (reconnect wsi env st))
     ((chatd_initial demo (sample_identity ''alice'' 7) chat_ice_config_init None)\<lparr>cd_pending := ''x'', cd_pending_len := 1\<rparr>)
     [(1, demo_env)])) = -1"
  using reconnect_blocked [OF _ refl, of "(chatd_initial demo (sample_identity ''alice'' 7) chat_ice_config_init None)
     \<lparr>cd_pending := ''x'', cd_pending_len := 1\<rparr>" 2 demo_env "[(1, demo_env)]"]
  by simp

end
