(* ===== verification/System_Chat.thy ===== *)
theory System_Chat
  imports System_Login
begin

text \<open>
  Two daemons and the server: both log in, the client of one opens a chat with the other, and the
  server carries the request and the answer.
\<close>

section \<open>A text through the server\<close>

text \<open>The server handles a text of connection \<open>w\<close> and writes what waits for connection \<open>p\<close>; the
  result are the texts written to \<open>p\<close>.\<close>

definition relay :: "('h, 's) sodium \<Rightarrow> bytes \<Rightarrow> nat \<Rightarrow> nat \<Rightarrow> string \<Rightarrow> server \<Rightarrow> (string list \<times> server) option" where
  "relay sod rnd w p msg s =
     map_option (\<lambda>s1. ([m. (q, m) \<leftarrow> drop (length (sv_sent s)) (sv_sent s1), q = p], s1))
       (server_run sod [Ev_receive w msg 0 True rnd, Ev_writeable p (int CHAT_SERVER_MAX_JSON_SIZE)] s)"

lemma signal_forwarded:
  assumes "hex_laws sod" "ty = ''chat_request'' \<or> ty = ''chat_accept''" "signal_name u" "signal_name v" "signal_id sid" "length pk = 32"
    and "online_at s u pk w"
  shows "server_callback sod (Ev_receive w (signal_msg sod ty u v sid pk) 0 True rnd) s =
     forward_to_target w v (signal_msg sod ty u v sid pk) s"
proof -
  note msg = signal_msg_fields [OF assms(1-6)]
  obtain x sess where on: "reg_lookup (sv_users s) u = Some x" "su_identity_pk x = pk" "sv_sessions s w = Some sess"
    "ss_authenticated sess" "ss_username sess = u"
    using assms(7) by (auto simp: online_at_def)
  have sid: "json_get_string (signal_msg sod ty u v sid pk) ''session_id'' 128 = Some sid"
    by (rule json_get_string_larger [OF msg(4)]) simp
  have short: "length (signal_msg sod ty u v sid pk) < 4096" using msg(7) by simp
  have valid: "valid_username u" "valid_username v" using assms(3,4) by (simp_all add: signal_name_def)
  have "handle_signaling_forward sod w (signal_msg sod ty u v sid pk) ty s = forward_to_target w v (signal_msg sod ty u v sid pk) s"
    using on valid assms(2,5) hex_to_bin_hex [OF assms(1,6)]
    by (auto simp: handle_signaling_forward_def msg(2,3,5) sid signal_id_def)
  then show ?thesis
    using assms(2)
    by (simp only: receive_whole [OF msg(6) short])
      (auto simp: handle_message_def msg(1) signaling_type_is_supported_def)
qed

text \<open>A text the server passes on reaches the target and changes nothing else.\<close>

lemma relay_forwarded:
  assumes "server_callback sod (Ev_receive w msg 0 True rnd) s = forward_to_target w v msg s" "length msg < 4096" "msg \<noteq> []"
    and "length rnd = 32" "online_at s u pk w" "online_at s v pk' p" "idle_at p s" "u \<noteq> v"
  obtains s1 where "relay sod rnd w p msg s = Some ([msg], s1)"
    "online_at s1 u pk w" "online_at s1 v pk' p" "idle_at p s1" "idle_at w s \<Longrightarrow> idle_at w s1"
proof -
  obtain x tsess where x: "reg_lookup (sv_users s) v = Some x" "su_online x" "su_wsi x = Some p" "su_session x = Some p"
    "sv_sessions s p = Some tsess" "ss_pending_len tsess = 0" "ss_username tsess = v"
    using assms(6,7) by (auto simp: online_at_def idle_at_def)
  obtain sess where sess: "sv_sessions s w = Some sess" "ss_username sess = u" using assms(5) by (auto simp: online_at_def)
  have diff: "w \<noteq> p" using x(5,7) sess assms(8) by auto
  have "server_callback sod (Ev_receive w msg 0 True rnd) s = Inr (0, queue_to p p tsess msg s)"
    using x assms(2) by (simp add: assms(1) forward_to_lookup send_json_queue del: server_callback.simps)
  moreover have "sv_sessions s w \<noteq> None" using sess by simp
  ultimately obtain s1 where s1: "server_run sod [Ev_receive w msg 0 True rnd, Ev_writeable p 4096] s = Some s1"
    "sv_users s1 = sv_users s" "sv_sessions s1 = (sv_sessions s)(p \<mapsto> (with_pending tsess msg)\<lparr>ss_pending_len := 0\<rparr>)"
    "sv_sent s1 = sv_sent s @ [(p, msg)]"
    using server_answers [of sod w msg rnd s p tsess msg s] assms(2-4) by metis
  show thesis
  proof (rule that)
    show "relay sod rnd w p msg s = Some ([msg], s1)" using s1(1,4) by (simp add: relay_def del: server_run.simps)
  qed (use assms(5,6) x s1(2,3) diff in \<open>auto simp: online_at_def idle_at_def\<close>)
qed

lemma relay_signal:
  assumes "hex_laws sod" "ty = ''chat_request'' \<or> ty = ''chat_accept''" "signal_name u" "signal_name v" "signal_id sid" "length pk = 32"
    and "length rnd = 32" "online_at s u pk w" "online_at s v pk' p" "idle_at p s" "u \<noteq> v"
  obtains s1 where "relay sod rnd w p (signal_msg sod ty u v sid pk) s = Some ([signal_msg sod ty u v sid pk], s1)"
    "online_at s1 u pk w" "online_at s1 v pk' p" "idle_at p s1" "idle_at w s \<Longrightarrow> idle_at w s1"
proof -
  have "length (signal_msg sod ty u v sid pk) < 4096" using signal_msg_fields(7) [OF assms(1-6)] by simp
  from relay_forwarded [OF signal_forwarded [OF assms(1-6,8)] this signal_msg_nonempty assms(7-11)] that show thesis by blast
qed

section \<open>A chat is opened\<close>

definition open_session_via ::
  "bytes \<Rightarrow> nat \<Rightarrow> nat \<Rightarrow> ('h, 's) denv \<Rightarrow> ('h, 's) denv \<Rightarrow> int \<Rightarrow> string \<Rightarrow> 's chatd_state_t \<Rightarrow> 's chatd_state_t \<Rightarrow> server \<Rightarrow>
   ('s chatd_state_t \<times> 's chatd_state_t \<times> server) option" where
  "open_session_via rnd wA wB envA envB fd v stA stB s =
     (let stA1 = flush envA (snd (handle_open_chat_command fd v envA stA)) in
      Option.bind (relay (de_sod envA) rnd wA wB (last (cd_control_out stA1)) s) (\<lambda>(inB, s1).
        let stB1 = flush envB (fold (receive_text envB) inB stB) in
        map_option (\<lambda>(inA, s2). (fold (receive_text envA) inA stA1, stB1, s2))
          (relay (de_sod envA) rnd wB wA (last (cd_control_out stB1)) s1)))"

lemma open_session_via_server:
  assumes "hex_laws (de_sod envA)" "signal_name (id_username A)" "signal_name (id_username B)" "length (id_public_key A) = 32"
    "length (id_public_key B) = 32" "length rnd = 32" "id_username B \<noteq> id_username A" "signal_id sid"
    and "online_at s (id_username A) (id_public_key A) wA" "online_at s (id_username B) (id_public_key B) wB" "idle_at wA s" "idle_at wB s"
    and texts: "last (cd_control_out (flush envA (snd (handle_open_chat_command fd v envA stA)))) =
        signal_msg (de_sod envA) ''chat_request'' (id_username A) (id_username B) sid (id_public_key A)"
      "last (cd_control_out stB') = signal_msg (de_sod envA) ''chat_accept'' (id_username B) (id_username A) sid (id_public_key B)"
    and "open_session envA envB fd v stA stB = (stA', stB')"
  obtains s' where "open_session_via rnd wA wB envA envB fd v stA stB s = Some (stA', stB', s')"
    "online_at s' (id_username A) (id_public_key A) wA" "online_at s' (id_username B) (id_public_key B) wB" "idle_at wA s'" "idle_at wB s'"
proof -
  let ?req = "signal_msg (de_sod envA) ''chat_request'' (id_username A) (id_username B) sid (id_public_key A)"
  let ?acc = "signal_msg (de_sod envA) ''chat_accept'' (id_username B) (id_username A) sid (id_public_key B)"
  obtain s1 where s1: "relay (de_sod envA) rnd wA wB ?req s = Some ([?req], s1)" "online_at s1 (id_username A) (id_public_key A) wA"
    "online_at s1 (id_username B) (id_public_key B) wB" "idle_at wB s1" "idle_at wA s1"
    using relay_signal [OF assms(1) _ assms(2,3,8,4,6,9,10,12), of "''chat_request''"] assms(7,11) by metis
  obtain s2 where s2: "relay (de_sod envA) rnd wB wA ?acc s1 = Some ([?acc], s2)" "online_at s2 (id_username B) (id_public_key B) wB"
    "online_at s2 (id_username A) (id_public_key A) wA" "idle_at wA s2" "idle_at wB s2"
    using relay_signal [OF assms(1) _ assms(3,2,8,5,6) s1(3,2,5), of "''chat_accept''"] assms(7) s1(4) by metis
  have st: "stB' = flush envB (receive_text envB ?req stB)"
    "stA' = receive_text envA ?acc (flush envA (snd (handle_open_chat_command fd v envA stA)))"
    using assms(15) texts by (auto simp: open_session_def Let_def)
  have "open_session_via rnd wA wB envA envB fd v stA stB s = Some (stA', stB', s2)"
    using texts s1(1) s2(1) by (simp add: open_session_via_def Let_def st)
  then show thesis using s2(2-5) that by blast
qed

section \<open>From two fresh daemons\<close>

definition fresh_daemon :: "('h, 's) denv \<Rightarrow> chat_identity_t \<Rightarrow> 's chatd_state_t \<Rightarrow> bool" where
  "fresh_daemon env me st \<longleftrightarrow> signal_name (id_username me) \<and> cd_identity st = me \<and> cd_pending_len st = 0
     \<and> cd_lookup_client_fd st < 0 \<and> \<not> cd_ice_active st \<and> contacts_inv (de_sod env) (cd_contacts_db st) \<and> io_ok (de_contacts env)
     \<and> (\<exists>seed. crypto_sign_keypair (de_sod env) seed = (id_public_key me, id_secret_key me))"

text \<open>The server does not know the name with another key.\<close>

definition name_free :: "server \<Rightarrow> chat_identity_t \<Rightarrow> bool" where
  "name_free s me \<longleftrightarrow> reg_lookup (sv_users s) (id_username me) = None \<or> knows s (id_username me) (id_public_key me)"

definition meet ::
  "bytes \<Rightarrow> ('h, 's) denv \<Rightarrow> nat \<Rightarrow> nat \<Rightarrow> 's chatd_state_t \<Rightarrow> ('h, 's) denv \<Rightarrow> nat \<Rightarrow> nat \<Rightarrow> 's chatd_state_t \<Rightarrow>
   int \<Rightarrow> string \<Rightarrow> server \<Rightarrow> ('s chatd_state_t \<times> 's chatd_state_t \<times> server) option" where
  "meet rnd envA wsiA wA stA envB wsiB wB stB fd v s =
     Option.bind (daemon_login envA rnd wsiA wA stA s) (\<lambda>(stA1, s1).
     Option.bind (daemon_login envB rnd wsiB wB stB s1) (\<lambda>(stB1, s2).
       open_session_via rnd wA wB envA envB fd v stA1 stB1 s2))"

lemma fresh_login:
  assumes "hex_laws (de_sod env)" "sign_laws (de_sod env)" "fresh_daemon env me st" "length rnd = 32"
    and "server_reachable (de_sod env) s" "sv_sessions s w = None" "reg_count (sv_users s) < 256" "name_free s me"
  obtains st' s' where "daemon_login env rnd wsi w st s = Some (st', s')" "logged_in_as me w st' s'"
    "others_kept (id_username me) w s s'" "signaling_ready env me st'" "chat_kept (st\<lparr>cd_control_wsi := Some wsi\<rparr>) st'"
    "server_reachable (de_sod env) s'" "reg_count (sv_users s') \<le> Suc (reg_count (sv_users s))"
proof -
  note f = assms(3) [unfolded fresh_daemon_def]
  obtain seed where seed: "crypto_sign_keypair (de_sod env) seed = (id_public_key me, id_secret_key me)" using f by blast
  have me: "valid_username (id_username me)" "id_username me \<noteq> ''public_key''" "cd_identity st = me" "cd_pending_len st = 0"
    using f by (simp_all add: signal_name_def)
  obtain st' s' where l: "daemon_login env rnd wsi w st s = Some (st', s')" "logged_in_as me w st' s'"
    "others_kept (id_username me) w s s'" "chat_kept (st\<lparr>cd_control_wsi := Some wsi\<rparr>) st'"
    "reg_count (sv_users s') \<le> Suc (reg_count (sv_users s))"
    by (rule daemon_login_run [OF assms(1,2) seed me server_invD(1) [OF server_reachable_inv [OF assms(5)]] assms(6,7)
          assms(8) [unfolded name_free_def] assms(4)])
  have "length (id_public_key me) = 32" using assms(2) seed by (fastforce simp: sign_laws_def)
  then have "signaling_ready env me st'"
    using f assms(1) l(2,4) by (simp add: signaling_ready_def logged_in_as_def chat_kept_def)
  then show thesis using that l daemon_login_reachable [OF l(1) assms(5)] by blast
qed

lemma login_keeps_other:
  assumes "others_kept u w s s'" "logged_in_as me p st s" "id_username me \<noteq> u" "p \<noteq> w"
  shows "online_at s' (id_username me) (id_public_key me) p" "idle_at p s'"
  using assms by (simp_all add: others_kept_def logged_in_as_def online_at_def idle_at_def)

text \<open>
  Opening a chat: two daemons connect to the server and log in, the client of one opens a chat
  with the user of the other, and the server carries the request and the answer. When neither
  has another key pinned for its peer, both daemons end in ICE negotiation with each other's name
  and pinned identity key, the same session id and opposite roles, and both users are online.
\<close>

lemma chat_opens_through_server:
  assumes "hex_laws sod" and "sign_laws sod" and "de_sod envA = sod" and "de_sod envB = sod"
    and "fresh_daemon envA A stA" and "fresh_daemon envB B stB" and "id_username B \<noteq> id_username A"
    and "length rnd = CHAT_SERVER_CHALLENGE_BYTES" and "length (de_session_id envA) = CHATD_SESSION_ID_BYTES"
    and "server_reachable sod s" and "sv_sessions s wA = None" and "sv_sessions s wB = None" and "wA \<noteq> wB"
    and "Suc (reg_count (sv_users s)) < CHAT_SERVER_MAX_USERS" and "name_free s A" and "name_free s B" and "0 \<le> fd"
    and "trusted sod (cd_contacts_db stA) (id_username B) (id_public_key B)"
    and "trusted sod (cd_contacts_db stB) (id_username A) (id_public_key A)"
    and "can_gather envA True stA" and "can_gather envB False stB" and "de_time envA = (\<lambda>_. t)" and "de_time envB = (\<lambda>_. t)"
  shows "\<exists>stA' stB' s' sid. meet rnd envA wsiA wA stA envB wsiB wB stB fd (id_username B) s = Some (stA', stB', s')
     \<and> signal_id sid \<and> negotiating sod A B sid CHAT_CRYPTO_ROLE_INITIATOR stA' \<and> linking envA t stA' \<and> ungathered stA'
     \<and> negotiating sod B A sid CHAT_CRYPTO_ROLE_RESPONDER stB' \<and> linking envB t stB' \<and> ungathered stB'
     \<and> online_at s' (id_username A) (id_public_key A) wA \<and> online_at s' (id_username B) (id_public_key B) wB
     \<and> idle_at wA s' \<and> idle_at wB s'
     \<and> cd_lookup_client_fd stA' = fd \<and> cd_phase stB' = CHATD_PHASE_ONLINE \<and> cd_lookup_client_fd stB' < 0"
proof -
  have rnd: "length rnd = 32" "length (de_session_id envA) = 16" "Suc (reg_count (sv_users s)) < 256"
    using assms(8,9,14) by (simp_all add: CHAT_SERVER_MAX_USERS_def)
  obtain stA1 s1 where a: "daemon_login envA rnd wsiA wA stA s = Some (stA1, s1)" "logged_in_as A wA stA1 s1"
    "others_kept (id_username A) wA s s1" "signaling_ready envA A stA1" "chat_kept (stA\<lparr>cd_control_wsi := Some wsiA\<rparr>) stA1"
    "server_reachable sod s1" "reg_count (sv_users s1) \<le> Suc (reg_count (sv_users s))"
    using fresh_login [of envA A stA rnd s wA wsiA] assms rnd by (metis Suc_lessD)
  have "sv_sessions s1 wB = None" "reg_count (sv_users s1) < 256" "name_free s1 B"
    using a(3,7) assms(7,12,13,16) rnd(3) by (simp_all add: others_kept_def name_free_def knows_def)
  then obtain stB1 s2 where b: "daemon_login envB rnd wsiB wB stB s1 = Some (stB1, s2)" "logged_in_as B wB stB1 s2"
    "others_kept (id_username B) wB s1 s2" "signaling_ready envB B stB1" "chat_kept (stB\<lparr>cd_control_wsi := Some wsiB\<rparr>) stB1"
    using fresh_login [of envB B stB rnd s1 wB wsiB] assms rnd a(6) by metis
  note other = login_keeps_other [OF b(3) a(2) assms(7) [symmetric] assms(13)]
  obtain stA' stB' where o: "open_session envA envB fd (id_username B) stA1 stB1 = (stA', stB')" by force
  have A: "cd_phase stA1 = CHATD_PHASE_ONLINE" "cd_control_wsi stA1 \<noteq> None" "cd_lookup_client_fd stA1 < 0" "\<not> cd_ice_active stA1"
    "trusted sod (cd_contacts_db stA1) (id_username B) (id_public_key B)" "can_gather envA True stA1"
    using a(2,5) assms(5,18,20) by (simp_all add: logged_in_as_def chat_kept_def fresh_daemon_def can_gather_def)
  have B: "trusted sod (cd_contacts_db stB1) (id_username A) (id_public_key A)" "can_gather envB False stB1" "cd_control_wsi stB1 \<noteq> None"
    "cd_phase stB1 = CHATD_PHASE_ONLINE" "cd_lookup_client_fd stB1 < 0"
    "t < de_time envA Time_ice_start + CHATD_ICE_TIMEOUT_SECONDS" "t < de_time envB Time_ice_start + CHATD_ICE_TIMEOUT_SECONDS"
    using b(2,5) assms(6,19,21-23) by (simp_all add: chat_kept_def can_gather_def logged_in_as_def fresh_daemon_def)
  obtain sid where n: "signal_id sid" "negotiating sod A B sid CHAT_CRYPTO_ROLE_INITIATOR stA' \<and> linking envA t stA' \<and> ungathered stA' \<and> cd_lookup_client_fd stA' = fd"
    "negotiating sod B A sid CHAT_CRYPTO_ROLE_RESPONDER stB' \<and> linking envB t stB' \<and> ungathered stB'
     \<and> cd_phase stB' = CHATD_PHASE_ONLINE \<and> cd_lookup_client_fd stB' < 0"
    "last (cd_control_out (flush envA (snd (handle_open_chat_command fd (id_username B) envA stA1)))) =
         signal_msg sod ''chat_request'' (id_username A) (id_username B) sid (id_public_key A)"
    "last (cd_control_out stB') = signal_msg sod ''chat_accept'' (id_username B) (id_username A) sid (id_public_key B)"
    using open_session_negotiates [OF assms(3,4) a(4) b(4) assms(7) rnd(2) A(1-4) assms(17) A(5) B(1) A(6) B(2,3,6,7) o] B(4,5) by auto
  have names: "signal_name (id_username A)" "signal_name (id_username B)" "length (id_public_key A) = 32" "length (id_public_key B) = 32"
    "online_at s2 (id_username B) (id_public_key B) wB" "idle_at wB s2"
    using a(4) b(2,4) by (simp_all add: signaling_ready_def logged_in_as_def)
  obtain s3 where "open_session_via rnd wA wB envA envB fd (id_username B) stA1 stB1 s2 = Some (stA', stB', s3)"
    "online_at s3 (id_username A) (id_public_key A) wA" "online_at s3 (id_username B) (id_public_key B) wB" "idle_at wA s3" "idle_at wB s3"
    by (rule open_session_via_server [OF assms(1) [folded assms(3)] names(1-4) rnd(1) assms(7) n(1) other(1) names(5) other(2) names(6)
          n(4,5) [folded assms(3)] o])
  then show ?thesis using a(1) b(1) n(1-3) by (auto simp: meet_def)
qed

end
