(* ===== verification/Files.thy ===== *)
theory Files
  imports Libc
begin

text \<open>
  The file system as the program uses it. A path is resolved to its components, without empty
  ones; a path names an object by its components and by whether it is absolute. Links and the
  components \<open>.\<close> and \<open>..\<close> are not resolved. A file has its text and the permissions it was
  created with. The answers of the system calls that do not follow from the state are fields
  of a record that the operations take as an argument.
\<close>

section \<open>Paths\<close>

fun path_split :: "string \<Rightarrow> string list" where
  "path_split [] = [[]]"
| "path_split (c # cs) =
     (if c = CHR ''/'' then [] # path_split cs
      else case path_split cs of [] \<Rightarrow> [[c]] | w # ws \<Rightarrow> (c # w) # ws)"

definition path_names :: "string \<Rightarrow> string list" where
  "path_names p = filter (\<lambda>w. w \<noteq> []) (path_split p)"

type_synonym path_key = "bool \<times> string list"

definition path_key :: "string \<Rightarrow> path_key" where
  "path_key p = (p \<noteq> [] \<and> hd p = CHR ''/'', path_names p)"

section \<open>State and answers\<close>

datatype fs_node = Fs_dir nat | Fs_file string nat

type_synonym fs = "path_key \<rightharpoonup> fs_node"

text \<open>The root and the working directory always exist.\<close>

definition fs_lookup :: "fs \<Rightarrow> path_key \<Rightarrow> fs_node option" where
  "fs_lookup fs k = (if snd k = [] then Some (Fs_dir 0) else fs k)"

definition dir_at :: "fs \<Rightarrow> path_key \<Rightarrow> bool" where
  "dir_at fs k = (case fs_lookup fs k of Some (Fs_dir m) \<Rightarrow> True | _ \<Rightarrow> False)"

definition parent_at :: "fs \<Rightarrow> path_key \<Rightarrow> bool" where
  "parent_at fs k = dir_at fs (fst k, butlast (snd k))"

text \<open>What one call of \<open>read\<close> or \<open>write\<close> does: a number of bytes (at most the ones asked for),
  an interruption, or another error. A list of them answers the calls of a loop one by one;
  when it is used up, a call takes everything.\<close>

datatype io_outcome = Io_count nat | Io_eintr | Io_error

text \<open>The fields say, by the path as the program passes it, whether a call fails with an error
  other than the ones that follow from the state; \<open>fi_print_fails\<close> is given the text that the
  call would leave in the stream.\<close>

record file_io =
  fi_getenv :: "string \<Rightarrow> string option"
  fi_mkdir_fails :: "string \<Rightarrow> bool"
  fi_stat_fails :: "string \<Rightarrow> bool"
  fi_access_fails :: "string \<Rightarrow> bool"
  fi_open_fails :: "string \<Rightarrow> bool"
  fi_read :: "string \<Rightarrow> io_outcome list"
  fi_write :: "string \<Rightarrow> io_outcome list"
  fi_stream_error :: "string \<Rightarrow> bool"
  fi_fsync_fails :: "string \<Rightarrow> bool"
  fi_close_fails :: "string \<Rightarrow> bool"
  fi_mkstemp :: "string option"
  fi_fchmod_fails :: bool
  fi_fdopen_fails :: bool
  fi_print_fails :: "string \<Rightarrow> bool"
  fi_fflush_fails :: bool
  fi_rename_fails :: bool
  fi_unlink_fails :: bool

section \<open>Lines\<close>

text \<open>\<open>getline\<close> delivers the next line with its newline, whatever its length.\<close>

definition getline :: "string \<Rightarrow> (string \<times> string) option" where
  "getline t =
     (if t = [] then None
      else let l = takeWhile (\<lambda>c. c \<noteq> CHR 0x0A) t;
               whole = (if length l < length t then l @ [CHR 0x0A] else l)
           in Some (whole, drop (length whole) t))"

lemma getline_progress: "getline t = Some (l, rest) \<Longrightarrow> length rest < length t"
  by (cases t) (auto simp: getline_def Let_def split: if_splits)

lemma getline_take:
  assumes "getline t = Some (l, rest)"
  shows "\<exists>n. l = take n t \<and> rest = drop n t"
proof -
  let ?n = "length (takeWhile (\<lambda>c. c \<noteq> CHR 0x0A) t)"
  have tw: "takeWhile (\<lambda>c. c \<noteq> CHR 0x0A) t = take ?n t" by (rule takeWhile_eq_take)
  show ?thesis
  proof (cases "?n < length t")
    case True
    then have "t ! ?n = CHR 0x0A" using nth_length_takeWhile [of "\<lambda>c. c \<noteq> CHR 0x0A" t] by blast
    then have "take (Suc ?n) t = takeWhile (\<lambda>c. c \<noteq> CHR 0x0A) t @ [CHR 0x0A]"
      using True tw by (simp add: take_Suc_conv_app_nth)
    moreover have "l = takeWhile (\<lambda>c. c \<noteq> CHR 0x0A) t @ [CHR 0x0A]" "rest = drop (Suc ?n) t"
      using assms True by (auto simp: getline_def Let_def split: if_splits)
    ultimately show ?thesis by (intro exI [of _ "Suc ?n"]) simp
  next
    case False
    then have "l = takeWhile (\<lambda>c. c \<noteq> CHR 0x0A) t" "rest = drop ?n t"
      using assms by (auto simp: getline_def Let_def split: if_splits)
    then show ?thesis using tw by (intro exI [of _ ?n]) simp
  qed
qed

lemma getline_parts: "getline t = Some (l, rest) \<Longrightarrow> l @ rest = t"
  using getline_take [of t l rest] by auto

section \<open>Facts on paths\<close>

lemma path_split_ne [simp]: "path_split p \<noteq> []"
  by (induction p) (auto split: list.splits)

lemma path_split_append: "path_split (d @ CHR ''/'' # f) = path_split d @ path_split f"
  by (induction d) (auto split: list.splits)

lemma path_split_word: "CHR ''/'' \<notin> set w \<Longrightarrow> path_split w = [w]"
  by (induction w) auto

lemma path_names_join: "path_names (d @ CHR ''/'' # f) = path_names d @ path_names f"
  by (simp add: path_names_def path_split_append)

lemma path_names_word: "CHR ''/'' \<notin> set w \<Longrightarrow> path_names w = (if w = [] then [] else [w])"
  by (simp add: path_names_def path_split_word)

lemma path_key_join:
  "d \<noteq> [] \<Longrightarrow> CHR ''/'' \<notin> set f \<Longrightarrow> f \<noteq> [] \<Longrightarrow> path_key (d @ CHR ''/'' # f) = (fst (path_key d), snd (path_key d) @ [f])"
  by (simp add: path_key_def path_names_join path_names_word)

end
