(* ===== verification/Identity_Files.thy ===== *)
theory Identity_Files
  imports Identity Files
begin

text \<open>
  \<open>common/identity.c\<close>, the file operations: making the configuration directory, writing and
  reading the key files, reading and rewriting the configuration, the fingerprint, and the
  operations on identities that are composed of them. After the definitions come the facts on
  directories and on the loops over \<open>read\<close> and \<open>write\<close>.
\<close>

section \<open>Directories and files\<close>

definition mode_0600 :: nat where "mode_0600 = 384"
definition mode_0644 :: nat where "mode_0644 = 420"
definition mode_0700 :: nat where "mode_0700 = 448"

definition chat_mkdir_one :: "file_io \<Rightarrow> string \<Rightarrow> nat \<Rightarrow> fs \<Rightarrow> chat_identity_result_t \<times> fs" where
  "chat_mkdir_one io path mode fs =
     (let k = path_key path in
      if fs_lookup fs k \<noteq> None then
        (if \<not> fi_stat_fails io path \<and> dir_at fs k then CHAT_IDENTITY_OK else CHAT_IDENTITY_ERR_IO, fs)
      else if fi_mkdir_fails io path \<or> \<not> parent_at fs k then (CHAT_IDENTITY_ERR_IO, fs)
      else (CHAT_IDENTITY_OK, fs(k \<mapsto> Fs_dir mode)))"

text \<open>The loop of \<open>chat_mkdir_p\<close>: \<open>seen\<close> is the text before the cursor.\<close>

fun mkdir_loop :: "file_io \<Rightarrow> nat \<Rightarrow> string \<Rightarrow> string \<Rightarrow> fs \<Rightarrow> chat_identity_result_t \<times> fs" where
  "mkdir_loop io mode seen [] fs = (CHAT_IDENTITY_OK, fs)"
| "mkdir_loop io mode seen (c # cs) fs =
     (if c \<noteq> CHR ''/'' then mkdir_loop io mode (seen @ [c]) cs fs
      else
        (let (result, fs1) = chat_mkdir_one io seen mode fs in
         if result \<noteq> CHAT_IDENTITY_OK then (result, fs1) else mkdir_loop io mode (seen @ [c]) cs fs1))"

definition chat_mkdir_p :: "file_io \<Rightarrow> string \<Rightarrow> nat \<Rightarrow> fs \<Rightarrow> chat_identity_result_t \<times> fs" where
  "chat_mkdir_p io path mode fs =
     (if path = [] then (CHAT_IDENTITY_ERR_IO, fs)
      else case chat_copy_string PATH_MAX path of
             Inl err \<Rightarrow> (err, fs)
           | Inr copied \<Rightarrow>
               (let tmp = (if length copied > 1 \<and> last copied = CHR ''/'' then butlast copied else copied);
                    (result, fs1) = mkdir_loop io mode (take 1 tmp) (drop 1 tmp) fs
                in if result \<noteq> CHAT_IDENTITY_OK then (result, fs1) else chat_mkdir_one io tmp mode fs1))"

text \<open>The result and what was written.\<close>

fun chat_write_all :: "io_outcome list \<Rightarrow> string \<Rightarrow> chat_identity_result_t \<times> string" where
  "chat_write_all outcomes [] = (CHAT_IDENTITY_OK, [])"
| "chat_write_all [] (c # cs) = (CHAT_IDENTITY_OK, c # cs)"
| "chat_write_all (Io_eintr # outcomes) (c # cs) = chat_write_all outcomes (c # cs)"
| "chat_write_all (Io_error # outcomes) (c # cs) = (CHAT_IDENTITY_ERR_IO, [])"
| "chat_write_all (Io_count 0 # outcomes) (c # cs) = (CHAT_IDENTITY_ERR_IO, [])"
| "chat_write_all (Io_count (Suc n) # outcomes) (c # cs) =
     (let (result, out) = chat_write_all outcomes (drop (Suc n) (c # cs)) in (result, take (Suc n) (c # cs) @ out))"

text \<open>The loop of \<open>chat_read_exact_file\<close> yields what it read, the rest of the file and the
  outcomes that are left.\<close>

fun read_exact_loop ::
  "io_outcome list \<Rightarrow> string \<Rightarrow> nat \<Rightarrow> chat_identity_result_t + string \<times> string \<times> io_outcome list" where
  "read_exact_loop outcomes left 0 = Inr ([], left, outcomes)"
| "read_exact_loop [] left (Suc n) =
     (if length left < Suc n then Inl CHAT_IDENTITY_ERR_BAD_FILE
      else Inr (take (Suc n) left, drop (Suc n) left, []))"
| "read_exact_loop (Io_eintr # outcomes) left (Suc n) = read_exact_loop outcomes left (Suc n)"
| "read_exact_loop (Io_error # outcomes) left (Suc n) = Inl CHAT_IDENTITY_ERR_IO"
| "read_exact_loop (Io_count k # outcomes) left (Suc n) =
     (let got = take k (take (Suc n) left) in
      if got = [] then Inl CHAT_IDENTITY_ERR_BAD_FILE
      else case read_exact_loop outcomes (drop (length got) left) (Suc n - length got) of
             Inl err \<Rightarrow> Inl err
           | Inr (got', rest) \<Rightarrow> Inr (got @ got', rest))"

definition chat_read_exact_file :: "file_io \<Rightarrow> string \<Rightarrow> nat \<Rightarrow> fs \<Rightarrow> chat_identity_result_t + string" where
  "chat_read_exact_file io path len fs =
     (if fi_open_fails io path then Inl CHAT_IDENTITY_ERR_IO
      else case fs_lookup fs (path_key path) of
             None \<Rightarrow> Inl CHAT_IDENTITY_ERR_NOT_FOUND
           | Some (Fs_dir m) \<Rightarrow> Inl CHAT_IDENTITY_ERR_IO
           | Some (Fs_file t m) \<Rightarrow>
               (case read_exact_loop (fi_read io path) t len of
                  Inl err \<Rightarrow> Inl err
                | Inr (got, left, []) \<Rightarrow> if left \<noteq> [] then Inl CHAT_IDENTITY_ERR_BAD_FILE else Inr got
                | Inr (got, left, Io_count k # outcomes) \<Rightarrow>
                    if take k (take 1 left) \<noteq> [] then Inl CHAT_IDENTITY_ERR_BAD_FILE else Inr got
                | Inr (got, left, outcome # outcomes) \<Rightarrow> Inl CHAT_IDENTITY_ERR_IO))"

definition chat_write_new_file ::
  "file_io \<Rightarrow> string \<Rightarrow> string \<Rightarrow> nat \<Rightarrow> fs \<Rightarrow> chat_identity_result_t \<times> fs" where
  "chat_write_new_file io path buffer mode fs =
     (let k = path_key path in
      if fi_open_fails io path then (CHAT_IDENTITY_ERR_IO, fs)
      else if fs_lookup fs k \<noteq> None then (CHAT_IDENTITY_ERR_ALREADY_EXISTS, fs)
      else if \<not> parent_at fs k then (CHAT_IDENTITY_ERR_IO, fs)
      else
        (let (result, out) = chat_write_all (fi_write io path) buffer;
             result1 = (if fi_fsync_fails io path \<and> result = CHAT_IDENTITY_OK then CHAT_IDENTITY_ERR_IO else result);
             result2 = (if fi_close_fails io path \<and> result1 = CHAT_IDENTITY_OK then CHAT_IDENTITY_ERR_IO else result1)
         in (result2, fs(k \<mapsto> Fs_file out mode))))"

definition CHAT_DEFAULT_SERVER_URL :: string where
  "CHAT_DEFAULT_SERVER_URL = ''wss://pronto-chat.duckdns.org''"

definition server_url_line :: "string \<Rightarrow> string" where
  "server_url_line url = ''server_url = '' @ [CHR 0x22] @ url @ [CHR 0x22, CHR 0x0A]"

definition config_text :: "string \<Rightarrow> string" where
  "config_text username = ''username = '' @ [CHR 0x22] @ username @ [CHR 0x22, CHR 0x0A]
     @ server_url_line CHAT_DEFAULT_SERVER_URL"

definition chat_write_config_file :: "file_io \<Rightarrow> string \<Rightarrow> string \<Rightarrow> fs \<Rightarrow> chat_identity_result_t \<times> fs" where
  "chat_write_config_file io path username fs =
     (if \<not> snprintf_fits 512 (config_text username) then (CHAT_IDENTITY_ERR_BUFFER, fs)
      else chat_write_new_file io path (config_text username) mode_0600 fs)"

section \<open>Reading the configuration\<close>

text \<open>\<open>fopen\<close> for reading: the text, and whether the stream is in error at its end. Reading a
  directory fails.\<close>

definition open_stream :: "file_io \<Rightarrow> string \<Rightarrow> fs \<Rightarrow> chat_identity_result_t + string \<times> bool" where
  "open_stream io path fs =
     (if fi_open_fails io path then Inl CHAT_IDENTITY_ERR_IO
      else case fs_lookup fs (path_key path) of
             None \<Rightarrow> Inl CHAT_IDENTITY_ERR_NOT_FOUND
           | Some (Fs_dir m) \<Rightarrow> Inr ([], True)
           | Some (Fs_file t m) \<Rightarrow> Inr (t, fi_stream_error io path))"

definition scan_literal :: "string \<Rightarrow> string \<Rightarrow> string option" where
  "scan_literal lit s = (if prefix lit s then Some (drop (length lit) s) else None)"

text \<open>The \<open>sscanf\<close> call of \<open>chat_load_username\<close>: blanks of the format match any white space,
  and the closing quote is not needed for the conversion to count.\<close>

definition scan_username :: "string \<Rightarrow> string option" where
  "scan_username line =
     Option.bind (scan_literal ''username'' line) (\<lambda>r1.
     Option.bind (scan_literal ''='' (scan_ws r1)) (\<lambda>r2.
     Option.bind (scan_literal [CHR 0x22] (scan_ws r2)) (\<lambda>r3.
       let name = take 32 (takeWhile username_char_ok r3) in if name = [] then None else Some name)))"

function load_username_loop :: "bool \<Rightarrow> string \<Rightarrow> chat_identity_result_t + string" where
  "load_username_loop stream_error left =
     (case fgets 128 left of
        None \<Rightarrow> Inl (if stream_error then CHAT_IDENTITY_ERR_IO else CHAT_IDENTITY_ERR_BAD_FILE)
      | Some (line, rest) \<Rightarrow>
          (case scan_username (cstr line) of
             None \<Rightarrow> load_username_loop stream_error rest
           | Some name \<Rightarrow>
               if \<not> valid_username name then Inl CHAT_IDENTITY_ERR_BAD_FILE
               else Inr (snprintf_store (CHAT_USERNAME_MAX_LEN + 1) name)))"
  by pat_completeness auto
termination by (relation "measure (\<lambda>(e, t). length t)") (auto dest: fgets_progress [rotated])

declare load_username_loop.simps [simp del]

definition chat_load_username :: "file_io \<Rightarrow> string \<Rightarrow> fs \<Rightarrow> chat_identity_result_t + string" where
  "chat_load_username io path fs =
     (case open_stream io path fs of
        Inl err \<Rightarrow> Inl err
      | Inr (t, stream_error) \<Rightarrow> load_username_loop stream_error t)"

function load_value_loop :: "bool \<Rightarrow> string \<Rightarrow> nat \<Rightarrow> string \<Rightarrow> chat_identity_result_t + string" where
  "load_value_loop stream_error prefix_text out_size left =
     (case fgets 512 left of
        None \<Rightarrow> Inl (if stream_error then CHAT_IDENTITY_ERR_IO else CHAT_IDENTITY_ERR_NOT_FOUND)
      | Some (raw, rest) \<Rightarrow>
          (let line = cstr raw in
           if \<not> prefix prefix_text line then load_value_loop stream_error prefix_text out_size rest
           else
             (let value = drop (length prefix_text) line in
              if CHR 0x22 \<notin> set value then Inl CHAT_IDENTITY_ERR_BAD_FILE
              else chat_copy_string out_size (takeWhile (\<lambda>c. c \<noteq> CHR 0x22) value))))"
  by pat_completeness auto
termination by (relation "measure (\<lambda>(e, p, n, t). length t)") (auto dest: fgets_progress [rotated])

declare load_value_loop.simps [simp del]

definition chat_load_quoted_config_value ::
  "file_io \<Rightarrow> string \<Rightarrow> string \<Rightarrow> nat \<Rightarrow> fs \<Rightarrow> chat_identity_result_t + string" where
  "chat_load_quoted_config_value io path key out_size fs =
     (case open_stream io path fs of
        Inl err \<Rightarrow> Inl err
      | Inr (t, stream_error) \<Rightarrow>
          (let prefix_text = key @ '' = '' @ [CHR 0x22] in
           if \<not> snprintf_fits 64 prefix_text then Inl CHAT_IDENTITY_ERR_BUFFER
           else load_value_loop stream_error prefix_text out_size t))"

definition config_blank :: "char \<Rightarrow> bool" where
  "config_blank c \<longleftrightarrow> c = CHR '' '' \<or> c = CHR 0x09"

definition chat_config_line_has_key :: "string \<Rightarrow> string \<Rightarrow> bool" where
  "chat_config_line_has_key line key =
     (let l = dropWhile config_blank line in
      if \<not> prefix key l then False
      else (let r = dropWhile config_blank (drop (length key) l) in r \<noteq> [] \<and> hd r = CHR ''=''))"

definition url_char_ok :: "char \<Rightarrow> bool" where
  "url_char_ok c \<longleftrightarrow> \<not> (char_code c \<le> 0x20 \<or> char_code c = 0x7f \<or> c = CHR 0x22 \<or> c = CHR 0x5C)"

definition chat_server_url_is_valid :: "string option \<Rightarrow> bool" where
  "chat_server_url_is_valid server_url =
     (case server_url of
        None \<Rightarrow> False
      | Some url \<Rightarrow>
          if length url = 0 \<or> length url \<ge> CHAT_IDENTITY_SERVER_URL_MAX then False
          else
            (let authority = (if prefix ''ws://'' url then Some (drop 5 url)
                              else if prefix ''wss://'' url then Some (drop 6 url) else None)
             in case authority of
                  None \<Rightarrow> False
                | Some a \<Rightarrow>
                    if a = [] \<or> hd a \<in> {CHR ''/'', CHR ''?'', CHR ''#''} then False
                    else list_all url_char_ok url))"

section \<open>Fingerprints\<close>

definition hex_digit_upper :: "nat \<Rightarrow> char" where
  "hex_digit_upper n = ''0123456789ABCDEF'' ! n"

definition hex_byte_upper :: "byte \<Rightarrow> string" where
  "hex_byte_upper b = [hex_digit_upper (unat b div 16), hex_digit_upper (unat b mod 16)]"

text \<open>The loop; \<open>out\<close> is the text printed so far, and the format has a colon except at the start.\<close>

fun fingerprint_loop :: "nat \<Rightarrow> string \<Rightarrow> bool \<Rightarrow> bytes \<Rightarrow> chat_identity_result_t + string" where
  "fingerprint_loop out_size out first [] = Inr out"
| "fingerprint_loop out_size out first (b # bs) =
     (let piece = (if first then [] else '':'') @ hex_byte_upper b in
      if \<not> snprintf_fits (out_size - length out) piece then Inl CHAT_IDENTITY_ERR_BUFFER
      else fingerprint_loop out_size (out @ piece) False bs)"

definition chat_identity_fingerprint ::
  "('h, 's) sodium \<Rightarrow> bytes \<Rightarrow> nat \<Rightarrow> chat_identity_result_t + string" where
  "chat_identity_fingerprint sod public_key out_size =
     (case crypto_generichash_once sod public_key of
        None \<Rightarrow> Inl CHAT_IDENTITY_ERR_SODIUM
      | Some digest \<Rightarrow>
          if out_size < length digest * 3 then Inl CHAT_IDENTITY_ERR_BUFFER
          else fingerprint_loop out_size [] True digest)"

section \<open>Creating and loading an identity\<close>

definition CHAT_IDENTITY_KEY_FILE :: string where "CHAT_IDENTITY_KEY_FILE = ''identity.key''"
definition CHAT_IDENTITY_PUB_FILE :: string where "CHAT_IDENTITY_PUB_FILE = ''identity.pub''"
definition CHAT_CONFIG_FILE :: string where "CHAT_CONFIG_FILE = ''config.toml''"

text \<open>The three paths, joined one after the other with an early return.\<close>

definition identity_paths :: "string \<Rightarrow> chat_identity_result_t + string \<times> string \<times> string" where
  "identity_paths config_dir =
     (case chat_join_path PATH_MAX config_dir CHAT_IDENTITY_KEY_FILE of
        Inl err \<Rightarrow> Inl err
      | Inr key_path \<Rightarrow>
     (case chat_join_path PATH_MAX config_dir CHAT_IDENTITY_PUB_FILE of
        Inl err \<Rightarrow> Inl err
      | Inr pub_path \<Rightarrow>
     (case chat_join_path PATH_MAX config_dir CHAT_CONFIG_FILE of
        Inl err \<Rightarrow> Inl err
      | Inr config_path \<Rightarrow> Inr (key_path, pub_path, config_path))))"

definition file_access :: "file_io \<Rightarrow> fs \<Rightarrow> string \<Rightarrow> bool" where
  "file_access io fs path \<longleftrightarrow> fs_lookup fs (path_key path) \<noteq> None \<and> \<not> fi_access_fails io path"

text \<open>The three files of a new identity, written one after the other.\<close>

definition write_identity_files ::
  "file_io \<Rightarrow> string \<times> string \<times> string \<Rightarrow> chat_identity_t \<Rightarrow> string \<Rightarrow> fs \<Rightarrow> chat_identity_result_t \<times> fs" where
  "write_identity_files io paths identity username fs =
     (let (key_path, pub_path, config_path) = paths;
          (result1, fs1) = chat_write_new_file io key_path (map char_of_byte (id_secret_key identity)) mode_0600 fs
      in if result1 \<noteq> CHAT_IDENTITY_OK then (result1, fs1)
      else
        (let (result2, fs2) = chat_write_new_file io pub_path (map char_of_byte (id_public_key identity)) mode_0644 fs1
         in if result2 \<noteq> CHAT_IDENTITY_OK then (result2, fs2)
         else chat_write_config_file io config_path username fs2))"

text \<open>\<open>seed\<close> is the randomness of the key pair, \<open>want_identity\<close> tells whether the pointer for the
  identity is given, and \<open>fingerprint_size\<close> the size of the buffer for the fingerprint, if there
  is one. The result is followed by the two outputs.\<close>

definition chat_identity_create ::
  "('h, 's) sodium \<Rightarrow> file_io \<Rightarrow> bytes \<Rightarrow> string \<Rightarrow> bool \<Rightarrow> nat option \<Rightarrow> fs \<Rightarrow>
   chat_identity_result_t \<times> fs \<times> chat_identity_t option \<times> string option" where
  "chat_identity_create sod io seed username want_identity fingerprint_size fs =
     (if \<not> valid_username username then (CHAT_IDENTITY_ERR_INVALID_USERNAME, fs, None, None)
      else if sodium_init sod < 0 then (CHAT_IDENTITY_ERR_SODIUM, fs, None, None)
      else case chat_identity_config_dir (fi_getenv io) PATH_MAX of
             Inl err \<Rightarrow> (err, fs, None, None)
           | Inr config_dir \<Rightarrow>
     (let (result, fs1) = chat_mkdir_p io config_dir mode_0700 fs in
      if result \<noteq> CHAT_IDENTITY_OK then (result, fs1, None, None)
      else case identity_paths config_dir of
             Inl err \<Rightarrow> (err, fs1, None, None)
           | Inr (key_path, pub_path, config_path) \<Rightarrow>
               if file_access io fs1 key_path \<or> file_access io fs1 pub_path \<or> file_access io fs1 config_path
               then (CHAT_IDENTITY_ERR_ALREADY_EXISTS, fs1, None, None)
               else
                 (let (pk, sk) = crypto_sign_keypair sod seed;
                      identity = \<lparr>id_username = snprintf_store (CHAT_USERNAME_MAX_LEN + 1) username,
                                  id_public_key = pk, id_secret_key = sk\<rparr>;
                      (result2, fs2) = write_identity_files io (key_path, pub_path, config_path) identity username fs1;
                      out_identity = (if want_identity then Some identity else None)
                  in if result2 \<noteq> CHAT_IDENTITY_OK then (result2, fs2, None, None)
                     else case fingerprint_size of
                            None \<Rightarrow> (CHAT_IDENTITY_OK, fs2, out_identity, None)
                          | Some fp_size \<Rightarrow>
                              (case chat_identity_fingerprint sod pk fp_size of
                                 Inl err \<Rightarrow> (err, fs2, None, None)
                               | Inr fingerprint \<Rightarrow> (CHAT_IDENTITY_OK, fs2, out_identity, Some fingerprint)))))"

definition chat_identity_load :: "('h, 's) sodium \<Rightarrow> file_io \<Rightarrow> fs \<Rightarrow> chat_identity_result_t + chat_identity_t" where
  "chat_identity_load sod io fs =
     (if sodium_init sod < 0 then Inl CHAT_IDENTITY_ERR_SODIUM
      else case chat_identity_config_dir (fi_getenv io) PATH_MAX of
             Inl err \<Rightarrow> Inl err
           | Inr config_dir \<Rightarrow>
     (case identity_paths config_dir of
        Inl err \<Rightarrow> Inl err
      | Inr (key_path, pub_path, config_path) \<Rightarrow>
     (case chat_load_username io config_path fs of
        Inl err \<Rightarrow> Inl err
      | Inr username \<Rightarrow>
     (case chat_read_exact_file io key_path crypto_sign_SECRETKEYBYTES fs of
        Inl err \<Rightarrow> Inl err
      | Inr secret_key \<Rightarrow>
     (case chat_read_exact_file io pub_path crypto_sign_PUBLICKEYBYTES fs of
        Inl err \<Rightarrow> Inl err
      | Inr public_key \<Rightarrow>
          Inr \<lparr>id_username = username, id_public_key = map byte_of_char public_key,
               id_secret_key = map byte_of_char secret_key\<rparr>)))))"

definition chat_identity_load_config_value ::
  "file_io \<Rightarrow> string \<Rightarrow> nat \<Rightarrow> fs \<Rightarrow> chat_identity_result_t + string" where
  "chat_identity_load_config_value io key out_size fs =
     (case chat_identity_config_dir (fi_getenv io) PATH_MAX of
        Inl err \<Rightarrow> Inl err
      | Inr config_dir \<Rightarrow>
     (case chat_join_path PATH_MAX config_dir CHAT_CONFIG_FILE of
        Inl err \<Rightarrow> Inl err
      | Inr config_path \<Rightarrow> chat_load_quoted_config_value io config_path key out_size fs))"

definition chat_identity_load_server_url :: "file_io \<Rightarrow> nat \<Rightarrow> fs \<Rightarrow> chat_identity_result_t + string" where
  "chat_identity_load_server_url io out_size fs = chat_identity_load_config_value io ''server_url'' out_size fs"

section \<open>Changing the server address\<close>

text \<open>The loop over the lines of the old file: its result, the text of the new file, whether the
  address was written, whether there was a line and whether the last one ended in a newline.\<close>

function config_copy_loop ::
  "file_io \<Rightarrow> string \<Rightarrow> string \<Rightarrow> string \<Rightarrow> bool \<Rightarrow> bool \<Rightarrow> bool \<Rightarrow> chat_identity_result_t \<times> string \<times> bool \<times> bool \<times> bool" where
  "config_copy_loop io url left out url_written had_content last_newline =
     (case getline left of
        None \<Rightarrow> (CHAT_IDENTITY_OK, out, url_written, had_content, last_newline)
      | Some (raw, rest) \<Rightarrow>
          (let line = cstr raw; ends = (line \<noteq> [] \<and> last line = CHR 0x0A) in
           if chat_config_line_has_key line ''server_url'' then
             if \<not> url_written \<and> fi_print_fails io (out @ server_url_line url)
             then (CHAT_IDENTITY_ERR_IO, out, url_written, True, ends)
             else config_copy_loop io url rest (if url_written then out else out @ server_url_line url) True True ends
           else if fi_print_fails io (out @ line) then (CHAT_IDENTITY_ERR_IO, out, url_written, True, ends)
           else config_copy_loop io url rest (out @ line) url_written True ends))"
  by pat_completeness auto
termination by (relation "measure (\<lambda>(io, u, t, out, a, b, c). length t)") (auto dest: getline_progress)

declare config_copy_loop.simps [simp del]

text \<open>The address is appended when no line had it.\<close>

definition config_append ::
  "file_io \<Rightarrow> string \<Rightarrow> string \<Rightarrow> bool \<Rightarrow> bool \<Rightarrow> chat_identity_result_t \<times> string" where
  "config_append io url out had_content last_newline =
     (let separator = had_content \<and> \<not> last_newline;
          out1 = (if separator then out @ [CHR 0x0A] else out)
      in if separator \<and> fi_print_fails io out1 then (CHAT_IDENTITY_ERR_IO, out)
         else if fi_print_fails io (out1 @ server_url_line url) then (CHAT_IDENTITY_ERR_IO, out1)
         else (CHAT_IDENTITY_OK, out1 @ server_url_line url))"

definition unlink_temp :: "file_io \<Rightarrow> path_key \<Rightarrow> fs \<Rightarrow> fs" where
  "unlink_temp io k fs = (if fi_unlink_fails io then fs else fs(k := None))"

text \<open>The part of \<open>chat_identity_set_server_url\<close> after the temporary file was opened.\<close>

definition rewrite_config ::
  "file_io \<Rightarrow> string \<Rightarrow> string \<Rightarrow> string \<Rightarrow> string \<Rightarrow> bool \<Rightarrow> fs \<Rightarrow> chat_identity_result_t \<times> fs" where
  "rewrite_config io url config_path temp_path t stream_error fs =
     (let (result, out, url_written, had_content, last_newline) = config_copy_loop io url t [] False False True;
          result1 = (if result = CHAT_IDENTITY_OK \<and> stream_error then CHAT_IDENTITY_ERR_IO else result);
          (result2, out2) = (if result1 = CHAT_IDENTITY_OK \<and> \<not> url_written
                             then config_append io url out had_content last_newline else (result1, out));
          closing = (fi_close_fails io config_path \<or> fi_fflush_fails io
                     \<or> fi_fsync_fails io temp_path \<or> fi_close_fails io temp_path);
          result3 = (if closing \<and> result2 = CHAT_IDENTITY_OK then CHAT_IDENTITY_ERR_IO else result2);
          result4 = (if result3 = CHAT_IDENTITY_OK \<and> fi_rename_fails io then CHAT_IDENTITY_ERR_IO else result3);
          temp_key = path_key temp_path;
          written = fs(temp_key \<mapsto> Fs_file out2 mode_0600)
      in if result4 \<noteq> CHAT_IDENTITY_OK then (result4, unlink_temp io temp_key written)
         else (CHAT_IDENTITY_OK, written(path_key config_path := written temp_key, temp_key := None)))"

text \<open>\<open>mkstemp\<close> answers with the six characters of the new name, which no file has.\<close>

definition temp_of :: "string \<Rightarrow> string \<Rightarrow> string" where
  "temp_of p unique = p @ ''.tmp.'' @ unique"

definition chat_identity_set_server_url ::
  "file_io \<Rightarrow> string option \<Rightarrow> fs \<Rightarrow> chat_identity_result_t \<times> fs" where
  "chat_identity_set_server_url io server_url fs =
     (if \<not> chat_server_url_is_valid server_url then (CHAT_IDENTITY_ERR_INVALID_SERVER_URL, fs)
      else case chat_identity_config_dir (fi_getenv io) PATH_MAX of
             Inl err \<Rightarrow> (err, fs)
           | Inr config_dir \<Rightarrow>
     (case chat_join_path PATH_MAX config_dir CHAT_CONFIG_FILE of
        Inl err \<Rightarrow> (err, fs)
      | Inr config_path \<Rightarrow>
     (case open_stream io config_path fs of
        Inl err \<Rightarrow> (err, fs)
      | Inr (t, stream_error) \<Rightarrow>
          if \<not> snprintf_fits PATH_MAX (config_path @ ''.tmp.XXXXXX'') then (CHAT_IDENTITY_ERR_BUFFER, fs)
          else
     (case fi_mkstemp io of
        None \<Rightarrow> (CHAT_IDENTITY_ERR_IO, fs)
      | Some unique \<Rightarrow>
          (let temp_path = temp_of config_path unique; temp_key = path_key temp_path;
               fs1 = fs(temp_key \<mapsto> Fs_file [] mode_0600)
           in if fs_lookup fs temp_key \<noteq> None \<or> \<not> parent_at fs temp_key then (CHAT_IDENTITY_ERR_IO, fs)
              else if fi_fchmod_fails io \<or> fi_fdopen_fails io then (CHAT_IDENTITY_ERR_IO, unlink_temp io temp_key fs1)
              else rewrite_config io (the server_url) config_path temp_path t stream_error fs1)))))"

section \<open>Directories\<close>

text \<open>Only directories on the way to \<open>k\<close> were added.\<close>

definition dirs_added :: "path_key \<Rightarrow> fs \<Rightarrow> fs \<Rightarrow> bool" where
  "dirs_added k fs fs' \<longleftrightarrow> (\<forall>j. fs' j = fs j
     \<or> fs j = None \<and> (\<exists>m. fs' j = Some (Fs_dir m)) \<and> fst j = fst k \<and> prefix (snd j) (snd k))"

text \<open>No file lies where a directory on the way to \<open>k\<close> has to be.\<close>

definition way_clear :: "path_key \<Rightarrow> fs \<Rightarrow> bool" where
  "way_clear k fs \<longleftrightarrow> (\<forall>ns t m. prefix ns (snd k) \<longrightarrow> fs (fst k, ns) \<noteq> Some (Fs_file t m))"

lemma dirs_added_refl [simp]: "dirs_added k fs fs"
  by (simp add: dirs_added_def)

lemma dirs_added_trans: "dirs_added k f g \<Longrightarrow> dirs_added k g h \<Longrightarrow> dirs_added k f h"
  unfolding dirs_added_def by metis

lemma dirs_added_way: "way_clear k fs \<Longrightarrow> dirs_added k fs fs' \<Longrightarrow> way_clear k fs'"
  unfolding way_clear_def dirs_added_def by (metis fs_node.distinct(1) option.inject)

definition dirs_ok :: "file_io \<Rightarrow> bool" where
  "dirs_ok io \<longleftrightarrow> (\<forall>p. \<not> fi_mkdir_fails io p \<and> \<not> fi_stat_fails io p)"

lemma mkdir_one_ok:
  assumes "dirs_ok io" "way_clear k fs" "fst (path_key p) = fst k" "prefix (snd (path_key p)) (snd k)"
    and "dir_at fs (path_key p) \<or> parent_at fs (path_key p)"
  shows "\<exists>fs'. chat_mkdir_one io p m fs = (CHAT_IDENTITY_OK, fs') \<and> dirs_added k fs fs' \<and> dir_at fs' (path_key p)"
proof (cases "fs_lookup fs (path_key p)")
  case None
  then have "\<not> dir_at fs (path_key p)" "snd (path_key p) \<noteq> []" "fs (path_key p) = None"
    by (auto simp: dir_at_def fs_lookup_def split: if_splits)
  then show ?thesis
    using None assms
    by (cases "path_key p") (auto simp: chat_mkdir_one_def dirs_ok_def Let_def dirs_added_def dir_at_def fs_lookup_def)
next
  case (Some node)
  have "\<not> (\<exists>t n. node = Fs_file t n)"
  proof
    assume "\<exists>t n. node = Fs_file t n"
    then obtain t n where "fs (path_key p) = Some (Fs_file t n)"
      using Some by (auto simp: fs_lookup_def split: if_splits)
    moreover have "path_key p = (fst k, snd (path_key p))" using assms(3) by (simp add: prod_eq_iff)
    ultimately have "fs (fst k, snd (path_key p)) = Some (Fs_file t n)" by simp
    then show False using assms(2,4) by (auto simp: way_clear_def)
  qed
  then obtain n where "node = Fs_dir n" by (cases node) auto
  then show ?thesis using Some assms(1) by (simp add: chat_mkdir_one_def dirs_ok_def Let_def dir_at_def)
qed

lemma split_snoc: "c \<noteq> CHR ''/'' \<Longrightarrow> path_split (s @ [c]) = butlast (path_split s) @ [last (path_split s) @ [c]]"
proof (induction s)
  case (Cons a s)
  then show ?case by (cases "path_split s") (auto split: list.splits)
qed simp

lemma split_last: "s \<noteq> [] \<Longrightarrow> (last (path_split s) = []) = (last s = CHR ''/'')"
proof (induction s rule: rev_induct)
  case (snoc c s)
  then show ?case by (cases "c = CHR ''/''") (simp_all add: split_snoc path_split_append [of s "[]", simplified])
qed simp

lemma names_slash: "path_names (s @ [CHR ''/'']) = path_names s"
  using path_names_join [of s "[]"] by (simp add: path_names_def)

lemma names_snoc:
  assumes "s \<noteq> []" "c \<noteq> CHR ''/''"
  shows "butlast (path_names (s @ [c])) = (if last s = CHR ''/'' then path_names s else butlast (path_names s))"
proof -
  have split: "path_split s = butlast (path_split s) @ [last (path_split s)]" by simp
  have "path_names s = filter (\<lambda>w. w \<noteq> []) (butlast (path_split s)) @ (if last s = CHR ''/'' then [] else [last (path_split s)])"
    unfolding path_names_def using split_last [OF assms(1)] by (subst split) (simp add: filter_append del: append_butlast_last_id)
  then show ?thesis by (simp add: path_names_def split_snoc [OF assms(2)])
qed

text \<open>The state of the loop: the directory of the last component seen exists.\<close>

definition loop_ready :: "fs \<Rightarrow> string \<Rightarrow> bool" where
  "loop_ready fs seen = (if last seen = CHR ''/'' then dir_at fs (path_key seen) else parent_at fs (path_key seen))"

lemma key_snoc: "s \<noteq> [] \<Longrightarrow> path_key (s @ [c]) = (fst (path_key s), path_names (s @ [c]))"
  by (simp add: path_key_def)

lemma ready_snoc: "s \<noteq> [] \<Longrightarrow> c \<noteq> CHR ''/'' \<Longrightarrow> loop_ready fs s \<Longrightarrow> loop_ready fs (s @ [c])"
  by (auto simp: loop_ready_def parent_at_def key_snoc names_snoc) (simp_all add: path_key_def)

lemma mkdir_loop_ok:
  assumes "dirs_ok io"
  shows "way_clear k fs \<Longrightarrow> seen \<noteq> [] \<Longrightarrow> path_key (seen @ rest) = k \<Longrightarrow> loop_ready fs seen \<Longrightarrow>
    \<exists>fs'. mkdir_loop io m seen rest fs = (CHAT_IDENTITY_OK, fs') \<and> dirs_added k fs fs' \<and> loop_ready fs' (seen @ rest)"
proof (induction rest arbitrary: seen fs)
  case (Cons c cs)
  show ?case
  proof (cases "c = CHR ''/''")
    case False
    then show ?thesis using Cons.IH [of fs "seen @ [c]"] Cons.prems ready_snoc by simp
  next
    case True
    have key: "fst (path_key seen) = fst k" "prefix (snd (path_key seen)) (snd k)"
      using Cons.prems(2,3) True by (auto simp: path_key_def path_names_join)
    have "dir_at fs (path_key seen) \<or> parent_at fs (path_key seen)"
      using Cons.prems(4) by (auto simp: loop_ready_def split: if_splits)
    from mkdir_one_ok [OF assms Cons.prems(1) key this] obtain fs1 where
      1: "chat_mkdir_one io seen m fs = (CHAT_IDENTITY_OK, fs1)" "dirs_added k fs fs1" "dir_at fs1 (path_key seen)"
      by blast
    have "loop_ready fs1 (seen @ [c])"
      using 1(3) True Cons.prems(2) by (simp add: loop_ready_def key_snoc names_slash) (simp add: path_key_def)
    then obtain fs2 where "mkdir_loop io m (seen @ [c]) cs fs1 = (CHAT_IDENTITY_OK, fs2)" "dirs_added k fs1 fs2"
      "loop_ready fs2 ((seen @ [c]) @ cs)"
      using Cons.IH [of fs1 "seen @ [c]"] Cons.prems dirs_added_way [OF Cons.prems(1) 1(2)] by auto
    then show ?thesis using 1 True dirs_added_trans by auto
  qed
qed simp

lemma mkdir_p_ok:
  assumes "dirs_ok io" "way_clear (path_key d) fs" "d \<noteq> []" "length d < 4096"
  shows "\<exists>fs'. chat_mkdir_p io d m fs = (CHAT_IDENTITY_OK, fs') \<and> dirs_added (path_key d) fs fs' \<and> dir_at fs' (path_key d)"
proof -
  define tmp where "tmp = (if length d > 1 \<and> last d = CHR ''/'' then butlast d else d)"
  have tmp: "tmp \<noteq> []" "path_key tmp = path_key d"
  proof -
    have stripped: "path_key (butlast d) = path_key d \<and> butlast d \<noteq> []" if "1 < length d" "last d = CHR ''/''"
    proof -
      have eq: "d = butlast d @ [CHR ''/'']" using assms(3) that(2) append_butlast_last_id [of d] by metis
      have "butlast d \<noteq> []" using that(1) by (cases d) auto
      moreover have "path_names (butlast d) = path_names d" using names_slash [of "butlast d"] eq by metis
      moreover have "hd (butlast d) = hd d" using calculation(1) eq hd_append2 by metis
      ultimately show ?thesis using assms(3) by (simp add: path_key_def)
    qed
    show "tmp \<noteq> []" "path_key tmp = path_key d" using stripped assms(3) by (auto simp: tmp_def)
  qed
  obtain c s where cs: "tmp = c # s" using tmp(1) by (cases tmp) auto
  have "loop_ready fs [c]"
    by (auto simp: loop_ready_def path_key_def path_names_def dir_at_def parent_at_def fs_lookup_def)
  from mkdir_loop_ok [OF assms(1,2) _ _ this, of s m] obtain fs1 where
    1: "mkdir_loop io m [c] s fs = (CHAT_IDENTITY_OK, fs1)" "dirs_added (path_key d) fs fs1" "loop_ready fs1 tmp"
    using tmp(2) cs by auto
  have "dir_at fs1 (path_key tmp) \<or> parent_at fs1 (path_key tmp)" using 1(3) by (auto simp: loop_ready_def split: if_splits)
  from mkdir_one_ok [OF assms(1) dirs_added_way [OF assms(2) 1(2)] _ _ this, of m] obtain fs2 where
    "chat_mkdir_one io tmp m fs1 = (CHAT_IDENTITY_OK, fs2)" "dirs_added (path_key d) fs1 fs2" "dir_at fs2 (path_key tmp)"
    using tmp(2) by auto
  moreover have "chat_mkdir_p io d m fs = (case mkdir_loop io m (take 1 tmp) (drop 1 tmp) fs of (result, fs1) \<Rightarrow>
     if result \<noteq> CHAT_IDENTITY_OK then (result, fs1) else chat_mkdir_one io tmp m fs1)"
    unfolding chat_mkdir_p_def chat_copy_string_def snprintf_fits_def tmp_def Let_def using assms(3,4) by simp
  ultimately show ?thesis using 1 cs tmp(2) dirs_added_trans [OF 1(2)] by simp
qed

section \<open>Files\<close>

text \<open>A file system that refuses nothing: writes may be short or interrupted, reads may be
  short.\<close>

definition files_ok :: "file_io \<Rightarrow> bool" where
  "files_ok io \<longleftrightarrow> dirs_ok io \<and> (\<forall>p. \<not> fi_open_fails io p \<and> \<not> fi_stream_error io p
     \<and> \<not> fi_fsync_fails io p \<and> \<not> fi_close_fails io p
     \<and> (\<forall>a \<in> set (fi_write io p). a \<noteq> Io_error \<and> a \<noteq> Io_count 0)
     \<and> (\<forall>a \<in> set (fi_read io p). \<exists>n. a = Io_count (Suc n)))"

lemma write_loop_ok: "\<forall>a \<in> set outs. a \<noteq> Io_error \<and> a \<noteq> Io_count 0 \<Longrightarrow> chat_write_all outs buf = (CHAT_IDENTITY_OK, buf)"
proof (induction outs buf rule: chat_write_all.induct)
  case (6 n outcomes c cs)
  then show ?case using append_take_drop_id [of "Suc n" "c # cs"] by simp
qed simp_all

lemma write_loop_prefix:
  "chat_write_all outs buf = (r, out) \<Longrightarrow> prefix out buf \<and> (r = CHAT_IDENTITY_OK \<longrightarrow> out = buf)"
proof (induction outs buf arbitrary: r out rule: chat_write_all.induct)
  case (6 n outcomes c cs)
  obtain r' out' where rec: "chat_write_all outcomes (drop (Suc n) (c # cs)) = (r', out')" by force
  have "prefix out' (drop (Suc n) (c # cs)) \<and> (r' = CHAT_IDENTITY_OK \<longrightarrow> out' = drop (Suc n) (c # cs))"
    using "6.IH" [OF rec] .
  moreover have "r = r'" "out = take (Suc n) (c # cs) @ out'" using "6.prems" rec by simp_all
  ultimately show ?case by (metis append_take_drop_id same_prefix_prefix)
qed auto

lemma read_loop_ok:
  "\<forall>a \<in> set outs. \<exists>n. a = Io_count (Suc n) \<Longrightarrow> len \<le> length left \<Longrightarrow>
   \<exists>outs'. read_exact_loop outs left len = Inr (take len left, drop len left, outs') \<and> set outs' \<subseteq> set outs"
proof (induction outs left len rule: read_exact_loop.induct)
  case (5 k outcomes left n)
  define got where "got = take k (take (Suc n) left)"
  have k: "k \<noteq> 0" using "5.prems"(1) by auto
  then have ne: "got \<noteq> []" using "5.prems"(2) by (cases left) (auto simp: got_def)
  have len: "length got \<le> Suc n" "length got \<le> length left" "got = take (length got) left"
    by (auto simp: got_def min_def)
  have "Suc n - length got \<le> length (drop (length got) left)" using "5.prems"(2) by simp
  then obtain outs' where rec: "read_exact_loop outcomes (drop (length got) left) (Suc n - length got) =
     Inr (take (Suc n - length got) (drop (length got) left), drop (Suc n - length got) (drop (length got) left), outs')"
     "set outs' \<subseteq> set outcomes"
    using "5.IH" [OF got_def ne] "5.prems"(1) by auto
  have "take (Suc n) left = take (length got) left @ take (Suc n - length got) (drop (length got) left)"
    using take_add [of "length got" "Suc n - length got" left] len(1) by simp
  moreover have "drop (Suc n - length got) (drop (length got) left) = drop (Suc n) left"
    using len(1) by simp
  ultimately have joined: "got @ take (Suc n - length got) (drop (length got) left) = take (Suc n) left"
    "drop (Suc n - length got) (drop (length got) left) = drop (Suc n) left" using len(3) by metis+
  have "read_exact_loop (Io_count k # outcomes) left (Suc n) = Inr (take (Suc n) left, drop (Suc n) left, outs')"
    unfolding read_exact_loop.simps Let_def got_def [symmetric] if_not_P [OF ne] rec(1) sum.case prod.case joined ..
  then show ?case using rec(2) by auto
qed auto

lemma write_new_ok:
  assumes "files_ok io" "fs_lookup fs (path_key p) = None" "parent_at fs (path_key p)"
  shows "chat_write_new_file io p buf m fs = (CHAT_IDENTITY_OK, fs(path_key p \<mapsto> Fs_file buf m))"
  using assms write_loop_ok [of "fi_write io p" buf] by (simp add: chat_write_new_file_def files_ok_def Let_def)

lemma read_file_ok:
  assumes "files_ok io" "fs_lookup fs (path_key p) = Some (Fs_file t m)"
  shows "chat_read_exact_file io p (length t) fs = Inr t"
proof -
  have outs: "\<forall>a \<in> set (fi_read io p). \<exists>n. a = Io_count (Suc n)" "\<not> fi_open_fails io p" using assms(1) by (auto simp: files_ok_def)
  obtain outs' where "read_exact_loop (fi_read io p) t (length t) = Inr (t, [], outs')" "set outs' \<subseteq> set (fi_read io p)"
    using read_loop_ok [OF outs(1), of "length t" t] by auto
  then show ?thesis
    using assms(2) outs by (cases outs') (auto simp: chat_read_exact_file_def)
qed

section \<open>Lines\<close>

lemma fgets_line:
  assumes "CHR 0x0A \<notin> set l" "length l + 1 < sz"
  shows "fgets sz (l @ CHR 0x0A # rest) = Some (l @ [CHR 0x0A], rest)"
proof -
  have "takeWhile (\<lambda>c. c \<noteq> CHR 0x0A) (l @ CHR 0x0A # rest) = l" by (rule takeWhile_stop) (use assms(1) in auto)
  then show ?thesis using assms(2) by (simp add: fgets_def)
qed

lemma quote_not_name: "\<not> username_char_ok (CHR 0x22)" "\<not> username_char_ok (CHR 0x0A)" "\<not> username_char_ok nul"
  by (simp_all add: username_char_ok_def is_alnum_def char_code_def nul_def Let_def)

definition username_line :: "string \<Rightarrow> string" where
  "username_line u = ''username = '' @ [CHR 0x22] @ u @ [CHR 0x22]"

lemma scan_username_line:
  assumes "valid_username u"
  shows "scan_username (username_line u @ [CHR 0x0A]) = Some u"
proof -
  have chars: "\<And>c. c \<in> set u \<Longrightarrow> username_char_ok c" "length u \<le> 32" "u \<noteq> []"
    using assms by (auto simp: valid_username_iff)
  have "takeWhile username_char_ok (u @ CHR 0x22 # [CHR 0x0A]) = u" by (rule takeWhile_stop) (use chars quote_not_name in auto)
  then show ?thesis
    using chars(2,3)
    by (simp add: scan_username_def scan_literal_def username_line_def scan_ws_def is_space_def char_code_def Let_def)
qed

lemma username_line_chars:
  assumes "valid_username u"
  shows "CHR 0x0A \<notin> set (username_line u)" "nul \<notin> set (username_line u)" "length (username_line u) \<le> 45"
  using assms quote_not_name by (auto simp: username_line_def valid_username_iff nul_def)

lemma load_username_text:
  assumes "valid_username u"
  shows "load_username_loop e (username_line u @ CHR 0x0A # rest) = Inr u"
proof -
  have "fgets 128 (username_line u @ CHR 0x0A # rest) = Some (username_line u @ [CHR 0x0A], rest)"
    using username_line_chars [OF assms] by (intro fgets_line) auto
  moreover have "cstr (username_line u @ [CHR 0x0A]) = username_line u @ [CHR 0x0A]"
    using username_line_chars(2) [OF assms] by (intro cstr_id) (simp add: nul_def)
  moreover have "length u \<le> 32" using assms by (simp add: valid_username_iff)
  ultimately show ?thesis
    using scan_username_line [OF assms] assms by (subst load_username_loop.simps) (simp add: snprintf_store_def)
qed

lemma config_text_lines: "config_text u = username_line u @ CHR 0x0A # server_url_line CHAT_DEFAULT_SERVER_URL"
  by (simp add: config_text_def username_line_def)

end
