(* ===== verification/Identity_Config.thy ===== *)
theory Identity_Config
  imports Identity_Files
begin

text \<open>
  The configuration file as a list of lines: the loops that read a value and copy the file are
  related to a lookup and a replacement on such lists. From this follow the properties of
  changing the server address.
\<close>

section \<open>The configuration as a list of lines\<close>

function config_lines :: "string \<Rightarrow> string list" where
  "config_lines t = (case getline t of None \<Rightarrow> [] | Some (l, rest) \<Rightarrow> l # config_lines rest)"
  by pat_completeness auto
termination by (relation "measure length") (auto dest: getline_progress)

declare config_lines.simps [simp del]

text \<open>The value of a line that has the prefix, and of the first such line.\<close>

definition line_value :: "string \<Rightarrow> nat \<Rightarrow> string \<Rightarrow> chat_identity_result_t + string" where
  "line_value p n line =
     (let value = drop (length p) line in
      if CHR 0x22 \<notin> set value then Inl CHAT_IDENTITY_ERR_BAD_FILE
      else chat_copy_string n (takeWhile (\<lambda>c. c \<noteq> CHR 0x22) value))"

definition lookup_lines :: "bool \<Rightarrow> string \<Rightarrow> nat \<Rightarrow> string list \<Rightarrow> chat_identity_result_t + string" where
  "lookup_lines e p n ls =
     (case List.find (prefix p) ls of
        None \<Rightarrow> Inl (if e then CHAT_IDENTITY_ERR_IO else CHAT_IDENTITY_ERR_NOT_FOUND)
      | Some l \<Rightarrow> line_value p n l)"

definition short_lines :: "nat \<Rightarrow> string \<Rightarrow> bool" where
  "short_lines n t \<longleftrightarrow> nul \<notin> set t \<and> (\<forall>l \<in> set (config_lines t). length l < n)"

lemma fgets_getline:
  assumes "getline t = Some (l, rest)" "length l < sz"
  shows "fgets sz t = Some (l, rest)"
  using assms unfolding getline_def fgets_def by (auto simp: Let_def split: if_splits)

lemma getline_None [simp]: "getline t = None \<longleftrightarrow> t = []"
  by (simp add: getline_def Let_def)

lemma getline_Nil [simp]: "getline [] = None"
  by simp

lemma config_lines_Nil [simp]: "config_lines [] = []"
  by (subst config_lines.simps) (simp del: getline_None)

lemma short_linesD:
  assumes "short_lines n t" "getline t = Some (l, rest)"
  shows "cstr l = l" "length l < n" "short_lines n rest" "config_lines t = l # config_lines rest"
proof -
  show lines: "config_lines t = l # config_lines rest" using assms(2) by (subst config_lines.simps) simp
  have "l @ rest = t" using getline_parts [OF assms(2)] .
  then have "nul \<notin> set l" "nul \<notin> set rest" using assms(1) by (auto simp: short_lines_def)
  then show "cstr l = l" "length l < n" "short_lines n rest"
    using assms(1) lines by (auto simp: short_lines_def cstr_id)
qed

lemma load_value_lines:
  "short_lines 512 t \<Longrightarrow> load_value_loop e p n t = lookup_lines e p n (config_lines t)"
proof (induction t rule: config_lines.induct)
  case (1 t)
  show ?case
  proof (cases "getline t")
    case None
    then show ?thesis
      by (simp add: load_value_loop.simps [of e p n "[]"] fgets_def lookup_lines_def)
  next
    case (Some a)
    obtain l rest where a: "a = (l, rest)" by force
    note d = short_linesD [OF "1.prems" Some [unfolded a]]
    have "fgets 512 t = Some (l, rest)" using fgets_getline [OF Some [unfolded a]] d(2) by simp
    then show ?thesis
      using "1.IH" [OF Some a [symmetric] d(3)] d(1,4)
      by (subst load_value_loop.simps) (simp add: lookup_lines_def line_value_def Let_def)
  qed
qed

text \<open>Lists of lines whose text splits back into them.\<close>

fun line_list :: "string list \<Rightarrow> bool" where
  "line_list [] = True"
| "line_list [l] = (l \<noteq> [] \<and> CHR 0x0A \<notin> set (butlast l))"
| "line_list (l # m # ls) = (l \<noteq> [] \<and> CHR 0x0A \<notin> set (butlast l) \<and> last l = CHR 0x0A \<and> line_list (m # ls))"

lemma line_list_Cons:
  "line_list (l # ls) \<longleftrightarrow> l \<noteq> [] \<and> CHR 0x0A \<notin> set (butlast l) \<and> (ls \<noteq> [] \<longrightarrow> last l = CHR 0x0A) \<and> line_list ls"
  by (cases ls) auto

lemma getline_terminated: "CHR 0x0A \<notin> set x \<Longrightarrow> getline (x @ CHR 0x0A # rest) = Some (x @ [CHR 0x0A], rest)"
proof -
  assume x: "CHR 0x0A \<notin> set x"
  have "takeWhile (\<lambda>c. c \<noteq> CHR 0x0A) (x @ CHR 0x0A # rest) = x" by (rule takeWhile_stop) (use x in auto)
  then show ?thesis by (simp add: getline_def)
qed

lemma getline_last: "x \<noteq> [] \<Longrightarrow> CHR 0x0A \<notin> set x \<Longrightarrow> getline x = Some (x, [])"
proof -
  assume x: "x \<noteq> []" "CHR 0x0A \<notin> set x"
  have tw: "takeWhile (\<lambda>c. c \<noteq> CHR 0x0A) x = x" by (rule takeWhile_id) (use x in auto)
  show ?thesis using x(1) unfolding getline_def Let_def tw by simp
qed

lemma getline_concat:
  assumes "line_list (l # ls)"
  shows "getline (concat (l # ls)) = Some (l, concat ls)"
proof (cases "last l = CHR 0x0A")
  case True
  have "l = butlast l @ [CHR 0x0A]" using assms True append_butlast_last_id [of l] by (simp add: line_list_Cons)
  then show ?thesis
    using getline_terminated [of "butlast l" "concat ls"] assms by (metis append.assoc append_Cons append_Nil concat.simps(2) line_list_Cons)
next
  case False
  then have "ls = []" using assms by (auto simp: line_list_Cons)
  moreover have "l = butlast l @ [last l]" using assms by (simp add: line_list_Cons)
  then have "CHR 0x0A \<notin> set l" using assms False by (metis Un_iff insert_iff empty_iff line_list_Cons list.set set_append)
  ultimately show ?thesis using getline_last [of l] assms by (simp add: line_list_Cons)
qed

lemma config_lines_concat: "line_list ls \<Longrightarrow> config_lines (concat ls) = ls"
proof (induction ls)
  case Nil
  then show ?case by simp
next
  case (Cons l ls)
  then show ?case by (subst config_lines.simps) (simp only: getline_concat, simp add: line_list_Cons)
qed

lemma getline_line:
  assumes "getline t = Some (l, rest)"
  shows "l \<noteq> [] \<and> CHR 0x0A \<notin> set (butlast l) \<and> (rest \<noteq> [] \<longrightarrow> last l = CHR 0x0A)"
proof -
  let ?tw = "takeWhile (\<lambda>c. c \<noteq> CHR 0x0A) t"
  have tw: "CHR 0x0A \<notin> set ?tw" by (auto dest: set_takeWhileD)
  show ?thesis
  proof (cases "length ?tw < length t")
    case True
    then have "l = ?tw @ [CHR 0x0A]" using assms unfolding getline_def Let_def if_P [OF True] by (simp split: if_splits)
    then show ?thesis using tw by simp
  next
    case False
    then have whole: "?tw = t" using takeWhile_eq_take [of "\<lambda>c. c \<noteq> CHR 0x0A" t] by (metis not_less take_all)
    have "l = t \<and> rest = [] \<and> t \<noteq> []" using assms unfolding getline_def Let_def whole by (simp split: if_splits)
    moreover have "CHR 0x0A \<notin> set t" using tw unfolding whole .
    ultimately show ?thesis using in_set_butlastD [of "CHR 0x0A" t] by blast
  qed
qed

lemma config_lines_list: "line_list (config_lines t)"
proof (induction t rule: config_lines.induct)
  case (1 t)
  show ?case
  proof (cases "getline t")
    case None
    then show ?thesis by simp
  next
    case (Some a)
    obtain l rest where a: "a = (l, rest)" by force
    have "config_lines rest = [] \<longleftrightarrow> rest = []" by (subst config_lines.simps) (auto split: option.split prod.split)
    then show ?thesis
      using "1.IH" [OF Some a [symmetric]] getline_line [OF Some [unfolded a]] Some a
      by (subst config_lines.simps) (simp add: line_list_Cons)
  qed
qed

lemma concat_config_lines: "concat (config_lines t) = t"
proof (induction t rule: config_lines.induct)
  case (1 t)
  show ?case
    using "1.IH" getline_parts [of t] by (subst config_lines.simps) (auto split: option.split)
qed

section \<open>The rewritten configuration\<close>

abbreviation url_key_line :: "string \<Rightarrow> bool" where
  "url_key_line l \<equiv> chat_config_line_has_key l ''server_url''"

text \<open>What the loop writes for a list of lines, and the whole new list.\<close>

fun replace_lines :: "string \<Rightarrow> bool \<Rightarrow> string list \<Rightarrow> string list" where
  "replace_lines url w [] = []"
| "replace_lines url w (l # ls) =
     (if url_key_line l then (if w then [] else [server_url_line url]) @ replace_lines url True ls
      else l # replace_lines url w ls)"

fun end_last :: "string list \<Rightarrow> string list" where
  "end_last [] = []"
| "end_last [l] = [if last l = CHR 0x0A then l else l @ [CHR 0x0A]]"
| "end_last (l # m # ls) = l # end_last (m # ls)"

definition new_lines :: "string \<Rightarrow> string list \<Rightarrow> string list" where
  "new_lines url ls =
     (if \<exists>l \<in> set ls. url_key_line l then replace_lines url False ls else end_last ls @ [server_url_line url])"

lemma copy_loop_lines:
  assumes "\<forall>out. \<not> fi_print_fails io out"
  shows "nul \<notin> set t \<Longrightarrow> config_copy_loop io url t out w had nl =
    (CHAT_IDENTITY_OK, out @ concat (replace_lines url w (config_lines t)), w \<or> (\<exists>l \<in> set (config_lines t). url_key_line l),
     had \<or> t \<noteq> [], if t = [] then nl else last (last (config_lines t)) = CHR 0x0A)"
proof (induction t arbitrary: out w had nl rule: config_lines.induct)
  case (1 t)
  show ?case
  proof (cases "getline t")
    case None
    then show ?thesis by (simp add: config_copy_loop.simps)
  next
    case (Some a)
    obtain l rest where a: "a = (l, rest)" by force
    have parts: "l @ rest = t" "l \<noteq> []" using getline_parts [of t l rest] getline_line [of t l rest] Some a by auto
    then have nul: "nul \<notin> set l" "nul \<notin> set rest" "t \<noteq> []" using "1.prems" by auto
    have lines: "config_lines t = l # config_lines rest" using Some a by (subst config_lines.simps) simp
    have empty: "config_lines rest = [] \<longleftrightarrow> rest = []" by (subst config_lines.simps) (auto split: option.split prod.split)
    note IH = "1.IH" [OF Some a [symmetric] nul(2)]
    show ?thesis
      unfolding config_copy_loop.simps [of io url t] Some a option.case prod.case Let_def IH lines
      using assms nul parts(2) by (simp add: cstr_id empty)
  qed
qed

lemma append_lines:
  assumes "\<forall>out. \<not> fi_print_fails io out" "line_list ls" "\<not> (\<exists>l \<in> set ls. url_key_line l)"
  shows "config_append io url (concat ls) (ls \<noteq> []) (ls = [] \<or> last (last ls) = CHR 0x0A) =
    (CHAT_IDENTITY_OK, concat (new_lines url ls))"
proof -
  have "concat (end_last ls) = concat ls @ (if ls = [] \<or> last (last ls) = CHR 0x0A then [] else [CHR 0x0A])"
    by (induction ls rule: end_last.induct) auto
  then show ?thesis using assms by (auto simp: config_append_def new_lines_def Let_def)
qed

text \<open>The new list of lines is one, and its lines are short when the old ones are.\<close>

lemma url_line_ok:
  assumes "list_all url_char_ok url"
  shows "line_list (server_url_line url # ls) = line_list ls" "nul \<notin> set (server_url_line url)"
proof -
  have "\<not> url_char_ok (CHR 0x0A)" "\<not> url_char_ok nul" by (simp_all add: url_char_ok_def char_code_def nul_def)
  then have "CHR 0x0A \<notin> set url" "nul \<notin> set url" using assms unfolding list_all_iff by blast+
  then show "line_list (server_url_line url # ls) = line_list ls" "nul \<notin> set (server_url_line url)"
    by (simp_all add: line_list_Cons server_url_line_def butlast_append nul_def)
qed

lemma replace_lines_list:
  assumes "list_all url_char_ok url"
  shows "line_list ls \<Longrightarrow> line_list (replace_lines url w ls)"
proof (induction ls arbitrary: w)
  case (Cons l ls)

  have "replace_lines url w ls \<noteq> [] \<Longrightarrow> ls \<noteq> []" by auto
  then show ?case using Cons url_line_ok(1) [OF assms] by (auto simp: line_list_Cons)
qed simp

lemma end_last_list: "line_list ls \<Longrightarrow> line_list (end_last ls @ [server_url_line url]) = line_list [server_url_line url]"
proof (induction ls rule: end_last.induct)
  case (2 l)
  then show ?case by (auto simp: line_list_Cons butlast_append dest: in_set_butlastD) (metis append_butlast_last_id set_append Un_iff list.set_intros(1) set_ConsD empty_iff list.set(1))
next
  case (3 l m ls)
  then show ?case by (cases ls) (auto simp: line_list_Cons)
qed simp

lemma new_lines_list:
  assumes "list_all url_char_ok url" "line_list ls"
  shows "line_list (new_lines url ls)"
  using replace_lines_list [OF assms] end_last_list [OF assms(2), of url] url_line_ok(1) [OF assms(1), of "[]"]
  by (simp add: new_lines_def)

lemma replace_lines_set: "set (replace_lines url w ls) \<subseteq> insert (server_url_line url) (set ls)"
  by (induction ls arbitrary: w) auto

lemma end_last_set: "l \<in> set (end_last ls) \<Longrightarrow> l \<in> set ls \<or> (\<exists>m \<in> set ls. l = m @ [CHR 0x0A])"
  by (induction ls rule: end_last.induct) (auto split: if_splits)

lemma new_lines_member:
  assumes "l \<in> set (new_lines url ls)"
  shows "l = server_url_line url \<or> l \<in> set ls \<or> (\<exists>m \<in> set ls. l = m @ [CHR 0x0A])"
  using assms replace_lines_set [of url False ls] end_last_set [of l ls] by (auto simp: new_lines_def split: if_splits)

lemma new_text_short:
  assumes "list_all url_char_ok url" "length url < 256" "short_lines 511 t"
  shows "short_lines 512 (concat (new_lines url (config_lines t)))"
proof -
  have old: "length l < 511 \<and> nul \<notin> set l" if "l \<in> set (config_lines t)" for l
    using assms(3) that concat_config_lines [of t] by (auto simp: short_lines_def) (metis UN_I set_concat)
  have "length l < 512 \<and> nul \<notin> set l" if "l \<in> set (new_lines url (config_lines t))" for l
    using new_lines_member [OF that]
  proof (elim disjE bexE)
    assume "l = server_url_line url"
    then show ?thesis using url_line_ok(2) [OF assms(1)] assms(2) by (simp add: server_url_line_def)
  next
    assume "l \<in> set (config_lines t)"
    then show ?thesis using old [of l] by simp
  next
    fix m assume "m \<in> set (config_lines t)" "l = m @ [CHR 0x0A]"
    then show ?thesis using old [of m] by (simp add: nul_def)
  qed
  then show ?thesis
    using config_lines_concat [OF new_lines_list [OF assms(1) config_lines_list]] by (auto simp: short_lines_def)
qed

section \<open>Looking up values\<close>

definition value_prefix :: "string \<Rightarrow> string" where
  "value_prefix key = key @ '' = '' @ [CHR 0x22]"

lemma key_line_iff:
  "url_key_line l \<longleftrightarrow> (\<exists>r. dropWhile config_blank l = ''server_url'' @ r \<and> dropWhile config_blank r \<noteq> []
     \<and> hd (dropWhile config_blank r) = CHR ''='')"
proof (cases "prefix ''server_url'' (dropWhile config_blank l)")
  case True
  then obtain r where r: "dropWhile config_blank l = ''server_url'' @ r" by (auto simp: prefix_def)
  show ?thesis unfolding chat_config_line_has_key_def r Let_def by simp
next
  case False
  then show ?thesis by (auto simp: chat_config_line_has_key_def prefix_def)
qed

lemma url_prefix_key: "prefix (value_prefix ''server_url'') l \<Longrightarrow> url_key_line l"
  by (auto simp: value_prefix_def chat_config_line_has_key_def config_blank_def prefix_def)

lemma find_replaced:
  "\<exists>l \<in> set ls. url_key_line l \<Longrightarrow>
   List.find (prefix (value_prefix ''server_url'')) (replace_lines url False ls) = Some (server_url_line url)"
proof (induction ls)
  case (Cons l ls)
  have "prefix (value_prefix ''server_url'') (server_url_line url)"
    by (simp add: value_prefix_def server_url_line_def)
  then show ?case using Cons url_prefix_key [of l] by auto
qed simp

lemma find_none: "\<forall>l \<in> set ls. \<not> P l \<Longrightarrow> List.find P ls = None"
  by (induction ls) auto

lemma key_line_ended: "url_key_line (l @ [CHR 0x0A]) \<Longrightarrow> url_key_line l"
proof -
  assume k: "url_key_line (l @ [CHR 0x0A])"
  have blank: "\<not> config_blank (CHR 0x0A)" by (simp add: config_blank_def)
  have drop_end: "dropWhile config_blank (s @ [CHR 0x0A]) = dropWhile config_blank s @ [CHR 0x0A]" for s
    using blank by (induction s) auto
  from k obtain r where r: "dropWhile config_blank l @ [CHR 0x0A] = ''server_url'' @ r"
    "hd (dropWhile config_blank r) = CHR ''=''" by (auto simp: key_line_iff drop_end)
  then obtain s where s: "r = s @ [CHR 0x0A]" "dropWhile config_blank l = ''server_url'' @ s"
    by (cases r rule: rev_cases) auto
  then have "dropWhile config_blank s \<noteq> []" "hd (dropWhile config_blank s) = CHR ''=''"
    using r(2) by (auto simp: drop_end hd_append split: if_splits)
  then show ?thesis using s(2) by (auto simp: key_line_iff)
qed

lemma find_new_url:
  "List.find (prefix (value_prefix ''server_url'')) (new_lines url ls) = Some (server_url_line url)"
proof (cases "\<exists>l \<in> set ls. url_key_line l")
  case False
  have "\<not> prefix (value_prefix ''server_url'') l" if "l \<in> set (end_last ls)" for l
    using end_last_set [OF that] False url_prefix_key [of l] key_line_ended by auto
  then have "List.find (prefix (value_prefix ''server_url'')) (end_last ls) = None" by (simp add: find_none)
  then show ?thesis using False by (simp add: new_lines_def find_append) (simp add: value_prefix_def server_url_line_def)
qed (simp add: new_lines_def find_replaced)

lemma url_value:
  assumes "list_all url_char_ok url" "length url < n"
  shows "lookup_lines e (value_prefix ''server_url'') n (new_lines url ls) = Inr url"
proof -
  have "\<not> url_char_ok (CHR 0x22)" by (simp add: url_char_ok_def)
  then have "CHR 0x22 \<notin> set url" using assms(1) unfolding list_all_iff by blast
  then have "takeWhile (\<lambda>c. c \<noteq> CHR 0x22) (url @ CHR 0x22 # [CHR 0x0A]) = url" by (intro takeWhile_stop) auto
  moreover have "drop (length (value_prefix ''server_url'')) (server_url_line url) = url @ [CHR 0x22, CHR 0x0A]"
    by (simp add: value_prefix_def server_url_line_def)
  ultimately show ?thesis
    using assms(2) unfolding lookup_lines_def find_new_url option.case line_value_def Let_def
    by (simp add: chat_copy_string_def snprintf_fits_def)
qed

text \<open>The other keys keep their value.\<close>

definition config_key :: "string \<Rightarrow> bool" where
  "config_key key \<longleftrightarrow> key \<noteq> [] \<and> key \<noteq> ''server_url''
     \<and> (\<forall>c \<in> set key. \<not> config_blank c \<and> c \<noteq> CHR ''='' \<and> c \<noteq> CHR 0x22 \<and> c \<noteq> CHR 0x0A)"

lemma other_key:
  assumes "config_key key" "prefix (value_prefix key) l"
  shows "\<not> url_key_line l"
proof
  assume k: "url_key_line l"
  obtain v where l: "l = key @ CHR '' '' # CHR ''='' # CHR '' '' # CHR 0x22 # v" using assms(2) by (auto simp: value_prefix_def prefix_def)
  have "dropWhile config_blank l = l" using assms(1) by (cases key) (auto simp: l config_key_def)
  with k obtain r where r: "l = ''server_url'' @ r" and eq: "hd (dropWhile config_blank r) = CHR ''=''"
    by (auto simp: key_line_iff)
  have "length key \<ge> 10"
  proof (rule ccontr)
    assume "\<not> 10 \<le> length key"
    then have "l ! length key = ''server_url'' ! length key" using nth_append [of "''server_url''" r "length key"] by (simp add: r del: append_Cons)
    then have "''server_url'' ! length key = CHR '' ''" by (simp add: l)
    moreover have "''server_url'' ! length key \<in> set ''server_url''" using \<open>\<not> 10 \<le> length key\<close> by (intro nth_mem) simp
    ultimately show False by simp
  qed
  then have "take 10 l = take 10 key" by (simp add: l)
  moreover have "take 10 l = ''server_url''" unfolding r by simp
  ultimately obtain s where key: "key = ''server_url'' @ s" by (metis append_take_drop_id)
  then have "s \<noteq> []" using assms(1) by (auto simp: config_key_def)
  then obtain c s' where s: "s = c # s'" by (cases s) auto
  then have "c \<in> set key" using key by simp
  then have "\<not> config_blank c" "c \<noteq> CHR ''=''" using assms(1) by (auto simp: config_key_def)
  then show False using eq r by (auto simp: l key s)
qed

lemma prefix_ended:
  assumes "config_key key"
  shows "prefix (value_prefix key) (m @ [CHR 0x0A]) = prefix (value_prefix key) m"
proof -
  have "last (value_prefix key) \<noteq> CHR 0x0A" by (simp add: value_prefix_def)
  then have "m @ [CHR 0x0A] \<noteq> value_prefix key" by (metis last_snoc)
  then show ?thesis by (auto simp: prefix_snoc)
qed

lemma line_value_ended:
  assumes "prefix p m"
  shows "line_value p n (m @ [CHR 0x0A]) = line_value p n m"
proof -
  obtain v where v: "m = p @ v" using assms by (auto simp: prefix_def)
  have "CHR 0x22 \<in> set v \<Longrightarrow> takeWhile (\<lambda>c. c \<noteq> CHR 0x22) (v @ [CHR 0x0A]) = takeWhile (\<lambda>c. c \<noteq> CHR 0x22) v"
    by (rule takeWhile_append1) auto
  then show ?thesis by (simp add: line_value_def v Let_def)
qed

lemma lookup_Cons: "lookup_lines e p n (l # ls) = (if prefix p l then line_value p n l else lookup_lines e p n ls)"
  by (simp add: lookup_lines_def)

lemma replace_other:
  assumes "config_key key"
  shows "lookup_lines e (value_prefix key) n (replace_lines url w ls) = lookup_lines e (value_prefix key) n ls"
proof -
  have url: "\<not> prefix (value_prefix key) (server_url_line url)"
  proof
    assume "prefix (value_prefix key) (server_url_line url)"
    moreover have "url_key_line (server_url_line url)"
      by (simp add: server_url_line_def chat_config_line_has_key_def config_blank_def)
    ultimately show False using other_key [OF assms] by blast
  qed
  show ?thesis
  proof (induction ls arbitrary: w)
    case (Cons l ls)
    then show ?case using other_key [OF assms, of l] url by (auto simp: lookup_Cons)
  qed simp
qed

lemma new_lines_other:
  assumes "config_key key"
  shows "lookup_lines e (value_prefix key) n (new_lines url ls) = lookup_lines e (value_prefix key) n ls"
proof (cases "\<exists>l \<in> set ls. url_key_line l")
  case False
  have "lookup_lines e (value_prefix key) n [server_url_line url] = lookup_lines e (value_prefix key) n []"
    using replace_other [OF assms, of e n url False "[server_url_line url]"]
    by (auto simp: lookup_Cons server_url_line_def chat_config_line_has_key_def config_blank_def dest: other_key [OF assms])
  then have "lookup_lines e (value_prefix key) n (end_last ls @ [server_url_line url]) = lookup_lines e (value_prefix key) n ls"
    by (induction ls rule: end_last.induct)
      (auto simp: lookup_Cons prefix_ended [OF assms] line_value_ended simp del: prefix_snoc)
  then show ?thesis using False by (simp add: new_lines_def)
qed (simp add: new_lines_def replace_other [OF assms])

section \<open>Rewriting the file\<close>

definition rewrite_ok :: "file_io \<Rightarrow> bool" where
  "rewrite_ok io \<longleftrightarrow> files_ok io \<and> \<not> fi_fchmod_fails io \<and> \<not> fi_fdopen_fails io \<and> \<not> fi_fflush_fails io
     \<and> \<not> fi_rename_fails io \<and> (\<forall>out. \<not> fi_print_fails io out)"

lemma replace_none: "\<not> (\<exists>l \<in> set ls. url_key_line l) \<Longrightarrow> replace_lines url w ls = ls"
  by (induction ls) auto

lemma rewrite_config_ok:
  assumes "rewrite_ok io" "nul \<notin> set t" "path_key p \<noteq> path_key q"
  shows "rewrite_config io url p q t False fs =
    (CHAT_IDENTITY_OK, fs(path_key p \<mapsto> Fs_file (concat (new_lines url (config_lines t))) mode_0600, path_key q := None))"
proof -
  let ?ls = "config_lines t"
  have prints: "\<forall>out. \<not> fi_print_fails io out" using assms(1) by (simp add: rewrite_ok_def)
  have empty: "(t = []) = (?ls = [])" using concat_config_lines [of t] by auto
  have copy: "config_copy_loop io url t [] False False True =
    (CHAT_IDENTITY_OK, concat (replace_lines url False ?ls), \<exists>l \<in> set ?ls. url_key_line l, ?ls \<noteq> [],
     ?ls = [] \<or> last (last ?ls) = CHR 0x0A)"
    using copy_loop_lines [OF prints assms(2), of url "[]" False False True] by (auto simp: empty)
  have same: "replace_lines url False ?ls = ?ls" if "\<not> (\<exists>l \<in> set ?ls. url_key_line l)"
    using replace_none that by blast
  show ?thesis
  proof (cases "\<exists>l \<in> set ?ls. url_key_line l")
    case True
    then show ?thesis
      unfolding rewrite_config_def copy Let_def prod.case
      using assms(1,3) by (simp add: rewrite_ok_def files_ok_def new_lines_def)
  next
    case False
    then show ?thesis
      using append_lines [OF prints config_lines_list [of t] False, of url] same [OF False]
      unfolding rewrite_config_def copy Let_def prod.case
      using assms(1,3) by (simp add: rewrite_ok_def files_ok_def)
  qed
qed

definition config_at :: "file_io \<Rightarrow> string \<Rightarrow> bool" where
  "config_at io p \<longleftrightarrow> (\<exists>d. chat_identity_config_dir (fi_getenv io) PATH_MAX = Inr d
     \<and> chat_join_path PATH_MAX d CHAT_CONFIG_FILE = Inr p)"

lemma split_word_append: "CHR ''/'' \<notin> set w \<Longrightarrow> \<exists>v vs. path_split (w @ s) = (w @ v) # vs"
proof (induction w)
  case Nil
  then show ?case by (cases "path_split s") auto
next
  case (Cons a w)
  then show ?case by auto
qed

lemma config_at_path: "config_at io p \<Longrightarrow> \<exists>d. p = d @ ''/config.toml''"
  by (auto simp: config_at_def chat_join_path_def CHAT_CONFIG_FILE_def split: if_splits)

lemma temp_key:
  assumes "config_at io p"
  shows "path_key (temp_of p unique) \<noteq> path_key p"
proof
  assume eq: "path_key (temp_of p unique) = path_key p"
  obtain d where p: "p = d @ CHR ''/'' # ''config.toml''" using config_at_path [OF assms] by auto
  obtain v vs where s: "path_split (''config.toml.tmp.'' @ unique) = (''config.toml.tmp.'' @ v) # vs"
    using split_word_append [of "''config.toml.tmp.''" unique] by auto
  have "path_names (temp_of p unique) = path_names d @ filter (\<lambda>w. w \<noteq> []) ((''config.toml.tmp.'' @ v) # vs)"
    using path_names_join [of d "''config.toml.tmp.'' @ unique"] s by (simp add: temp_of_def p path_names_def)
  moreover have "path_names p = path_names d @ [''config.toml'']"
    unfolding p path_names_join by (simp add: path_names_word)
  ultimately have "filter (\<lambda>w. w \<noteq> []) ((''config.toml.tmp.'' @ v) # vs) = [''config.toml'']"
    using eq by (simp add: path_key_def)
  then show False by simp
qed

lemma load_value_at:
  assumes "config_at io p" "\<not> fi_open_fails io p" "\<not> fi_stream_error io p"
    and "fs_lookup fs (path_key p) = Some (Fs_file t m)" "short_lines 512 t"
  shows "chat_identity_load_config_value io key n fs =
    (if length key < 60 then lookup_lines False (value_prefix key) n (config_lines t) else Inl CHAT_IDENTITY_ERR_BUFFER)"
  using assms
  by (auto simp: config_at_def chat_identity_load_config_value_def chat_load_quoted_config_value_def open_stream_def
      snprintf_fits_def load_value_lines value_prefix_def Let_def)

lemma config_key_nonempty: "config_at io p \<Longrightarrow> snd (path_key p) \<noteq> []"
  using config_at_path [of io p] path_names_join [of _ "''config.toml''"]
  by (auto simp: path_key_def path_names_word)

lemma set_url_ok:
  assumes "rewrite_ok io" "config_at io p" "length p < 4084" "fi_mkstemp io = Some unique"
    and "fs (path_key p) = Some (Fs_file t m)" "nul \<notin> set t" "chat_server_url_is_valid (Some url)"
    and "fs_lookup fs (path_key (temp_of p unique)) = None" "parent_at fs (path_key (temp_of p unique))"
  shows "chat_identity_set_server_url io (Some url) fs =
    (CHAT_IDENTITY_OK, fs(path_key p \<mapsto> Fs_file (concat (new_lines url (config_lines t))) mode_0600,
       path_key (temp_of p unique) := None))"
proof -
  have "\<not> fi_open_fails io p" "\<not> fi_stream_error io p" "\<not> fi_fchmod_fails io" "\<not> fi_fdopen_fails io"
    using assms(1) by (auto simp: rewrite_ok_def files_ok_def)
  moreover have "fs_lookup fs (path_key p) = Some (Fs_file t m)"
    using assms(5) config_key_nonempty [OF assms(2)] by (simp add: fs_lookup_def)
  ultimately show ?thesis
    using assms(2-4,7-9) rewrite_config_ok [OF assms(1,6) temp_key [OF assms(2), of unique, symmetric], of url] temp_key [OF assms(2), of unique]
    by (auto simp: chat_identity_set_server_url_def config_at_def open_stream_def snprintf_fits_def Let_def)
qed

lemma valid_url: "chat_server_url_is_valid (Some url) \<Longrightarrow> list_all url_char_ok url \<and> length url < 256"
  by (auto simp: chat_server_url_is_valid_def Let_def split: if_splits)

text \<open>
  C17. Changing the server address: on a configuration file of ordinary text lines, setting a
  valid address succeeds, loading it afterwards yields exactly that address, every other key
  keeps its value, and no other file has changed or been left behind.
\<close>

theorem set_server_url_roundtrip:
  assumes "rewrite_ok io" "config_at io p" "length p < 4084" "fi_mkstemp io = Some unique"
    and "fs (path_key p) = Some (Fs_file t m)" "short_lines 511 t" "chat_server_url_is_valid (Some url)"
    and "fs_lookup fs (path_key (temp_of p unique)) = None" "parent_at fs (path_key (temp_of p unique))"
  shows "\<exists>fs'. chat_identity_set_server_url io (Some url) fs = (CHAT_IDENTITY_OK, fs')
    \<and> chat_identity_load_server_url io CHAT_IDENTITY_SERVER_URL_MAX fs' = Inr url
    \<and> (\<forall>key n. config_key key \<longrightarrow>
         chat_identity_load_config_value io key n fs' = chat_identity_load_config_value io key n fs)
    \<and> (\<forall>k. k \<noteq> path_key p \<longrightarrow> fs' k = fs k)"
proof -
  let ?t = "concat (new_lines url (config_lines t))"
  let ?fs = "fs(path_key p \<mapsto> Fs_file ?t mode_0600, path_key (temp_of p unique) := None)"
  note url = conjunct1 [OF valid_url [OF assms(7)]] conjunct2 [OF valid_url [OF assms(7)]]
  have short: "short_lines 512 t" "short_lines 512 ?t" "nul \<notin> set t"
    using assms(6) new_text_short [OF url assms(6)] by (auto simp: short_lines_def)
  have io: "\<not> fi_open_fails io p" "\<not> fi_stream_error io p" using assms(1) by (auto simp: rewrite_ok_def files_ok_def)
  have files: "fs_lookup fs (path_key p) = Some (Fs_file t m)" "fs_lookup ?fs (path_key p) = Some (Fs_file ?t mode_0600)"
    using assms(5) config_key_nonempty [OF assms(2)] temp_key [OF assms(2), of unique] by (auto simp: fs_lookup_def)
  note old = load_value_at [OF assms(2) io files(1) short(1)]
  note new = load_value_at [OF assms(2) io files(2) short(2), unfolded config_lines_concat [OF new_lines_list [OF url(1) config_lines_list]]]
  have "fs (path_key (temp_of p unique)) = None" using assms(8) by (auto simp: fs_lookup_def split: if_splits)
  then have rest: "\<forall>k. k \<noteq> path_key p \<longrightarrow> ?fs k = fs k" by auto
  have "chat_identity_load_server_url io 256 ?fs = Inr url"
    using url_value [OF url, of False "config_lines t"] by (simp add: chat_identity_load_server_url_def new)
  moreover have "chat_identity_load_config_value io key n ?fs = chat_identity_load_config_value io key n fs" if "config_key key" for key n
    by (simp add: old new new_lines_other [OF that])
  ultimately show ?thesis
    using set_url_ok [OF assms(1-5) short(3) assms(7-9)] rest by simp
qed

text \<open>A file system and a configuration.\<close>

definition plain_io :: file_io where
  "plain_io =
     \<lparr>fi_getenv = (\<lambda>name. if name = ''CHAT_CONFIG_DIR'' then Some ''/home/chat'' else None),
      fi_mkdir_fails = (\<lambda>p. False), fi_stat_fails = (\<lambda>p. False), fi_access_fails = (\<lambda>p. False),
      fi_open_fails = (\<lambda>p. False), fi_read = (\<lambda>p. [Io_count 5]), fi_write = (\<lambda>p. [Io_eintr, Io_count 5]),
      fi_stream_error = (\<lambda>p. False), fi_fsync_fails = (\<lambda>p. False), fi_close_fails = (\<lambda>p. False),
      fi_mkstemp = Some ''abcdef'', fi_fchmod_fails = False, fi_fdopen_fails = False,
      fi_print_fails = (\<lambda>out. False), fi_fflush_fails = False, fi_rename_fails = False, fi_unlink_fails = False\<rparr>"

definition plain_fs :: fs where
  "plain_fs =
     [(True, [''home'']) \<mapsto> Fs_dir mode_0700, (True, [''home'', ''chat'']) \<mapsto> Fs_dir mode_0700,
      (True, [''home'', ''chat'', ''config.toml'']) \<mapsto>
        Fs_file (''server_url=x'' @ [CHR 0x0A] @ ''stun_port = '' @ [CHR 0x22] @ ''3478'' @ [CHR 0x22]) mode_0600]"

lemma plain_io_ok: "files_ok plain_io" "rewrite_ok plain_io" "config_at plain_io ''/home/chat/config.toml''"
proof -
  have [simp]: "nonempty_env (fi_getenv plain_io) ''CHAT_CONFIG_DIR'' = Some ''/home/chat''"
    by (simp add: nonempty_env_def plain_io_def)
  show files: "files_ok plain_io" by (simp add: files_ok_def dirs_ok_def plain_io_def)
  then show "rewrite_ok plain_io" by (simp add: rewrite_ok_def plain_io_def)
  show "config_at plain_io ''/home/chat/config.toml''"
    by (simp add: config_at_def chat_identity_config_dir_def chat_copy_string_def chat_join_path_def snprintf_fits_def
        CHAT_CONFIG_FILE_def)
qed

lemma plain_keys:
  "path_key ''/home/chat/config.toml'' = (True, [''home'', ''chat'', ''config.toml''])"
  "path_key (temp_of ''/home/chat/config.toml'' ''abcdef'') = (True, [''home'', ''chat'', ''config.toml.tmp.abcdef''])"
  by (simp_all add: path_key_def path_names_def temp_of_def)

theorem set_server_url_roundtrip_witness:
  "\<exists>fs'. chat_identity_set_server_url plain_io (Some ''ws://h:1'') plain_fs = (CHAT_IDENTITY_OK, fs')
    \<and> chat_identity_load_server_url plain_io 256 fs' = Inr ''ws://h:1''"
proof -
  have url: "chat_server_url_is_valid (Some ''ws://h:1'')"
    by (simp add: chat_server_url_is_valid_def url_char_ok_def char_code_def)
  let ?t = "''server_url=x'' @ [CHR 0x0A] @ ''stun_port = '' @ [CHR 0x22] @ ''3478'' @ [CHR 0x22]"
  have lines: "config_lines ?t = [''server_url=x'' @ [CHR 0x0A], ''stun_port = '' @ [CHR 0x22] @ ''3478'' @ [CHR 0x22]]"
    using config_lines_concat [of "[''server_url=x'' @ [CHR 0x0A], ''stun_port = '' @ [CHR 0x22] @ ''3478'' @ [CHR 0x22]]"]
    by simp
  have short: "short_lines 511 ?t" unfolding short_lines_def lines by (simp add: nul_def)
  have "plain_fs (path_key ''/home/chat/config.toml'') = Some (Fs_file ?t mode_0600)" by (simp add: plain_keys plain_fs_def)
  note rt = set_server_url_roundtrip [OF plain_io_ok(2,3), where fs = plain_fs and unique = "''abcdef''", OF _ _ this short url]
  show ?thesis using rt by (auto simp: plain_keys plain_fs_def fs_lookup_def parent_at_def dir_at_def plain_io_def)
qed

lemma unlink_temp_other: "k \<noteq> q \<Longrightarrow> unlink_temp io q fs k = fs k"
  by (simp add: unlink_temp_def)

lemma rewrite_config_effect:
  assumes "rewrite_config io url p q t e fs = (r, fs')" "path_key p \<noteq> path_key q" "k \<noteq> path_key q"
  shows "r \<noteq> CHAT_IDENTITY_OK \<Longrightarrow> fs' k = fs k" "r = CHAT_IDENTITY_OK \<Longrightarrow> k \<noteq> path_key p \<Longrightarrow> fs' k = fs k"
    "r = CHAT_IDENTITY_OK \<Longrightarrow> \<exists>t'. fs' (path_key p) = Some (Fs_file t' mode_0600)"
  using assms unlink_temp_other [OF assms(3), of io]
  by (auto simp: rewrite_config_def Let_def case_prod_unfold split: if_splits)

text \<open>
  C18. The address change is atomic: whatever the file system answers, when it fails no file but
  the temporary one differs from before, so the configuration is unchanged; when it succeeds the
  configuration is a file readable by its owner only and no other file has changed.
\<close>

theorem set_server_url_atomic:
  assumes "config_at io p" "chat_identity_set_server_url io server_url fs = (r, fs')"
  shows "(r \<noteq> CHAT_IDENTITY_OK \<longrightarrow> fs' (path_key p) = fs (path_key p))
    \<and> (r = CHAT_IDENTITY_OK \<longrightarrow> (\<exists>t. fs' (path_key p) = Some (Fs_file t mode_0600)))
    \<and> (\<forall>k. k \<noteq> path_key p \<longrightarrow> (\<forall>unique. fi_mkstemp io = Some unique \<longrightarrow> k \<noteq> path_key (temp_of p unique)) \<longrightarrow> fs' k = fs k)"
proof -
  obtain d where d: "chat_identity_config_dir (fi_getenv io) PATH_MAX = Inr d" "chat_join_path PATH_MAX d CHAT_CONFIG_FILE = Inr p"
    using assms(1) by (auto simp: config_at_def)
  show ?thesis
  proof (cases "fi_mkstemp io")
    case None
    then show ?thesis using assms(2) d
      by (auto simp: chat_identity_set_server_url_def open_stream_def split: if_splits sum.splits option.splits fs_node.splits)
  next
    case (Some unique)
    let ?q = "temp_of p unique"
    have ne: "path_key p \<noteq> path_key ?q" using temp_key [OF assms(1), of unique] by simp
    consider "fs' = fs" "r \<noteq> CHAT_IDENTITY_OK"
      | m where "fs' = unlink_temp io (path_key ?q) (fs(path_key ?q \<mapsto> Fs_file [] m))" "r \<noteq> CHAT_IDENTITY_OK"
      | url t e m where "rewrite_config io url p ?q t e (fs(path_key ?q \<mapsto> Fs_file [] m)) = (r, fs')"
      using assms(2) d Some
      by (auto simp: chat_identity_set_server_url_def open_stream_def Let_def
          split: if_splits sum.splits option.splits fs_node.splits)
    then show ?thesis
    proof cases
      case 2
      then show ?thesis using unlink_temp_other [of _ "path_key ?q" io] ne Some by auto
    next
      case 3
      note effect = rewrite_config_effect [OF 3 ne]
      show ?thesis using effect(1) effect(2) effect(3) [OF _] ne Some by (cases "r = CHAT_IDENTITY_OK") auto
    qed simp
  qed
qed

theorem set_server_url_atomic_witness:
  "let io = plain_io\<lparr>fi_fchmod_fails := True\<rparr>; (r, fs') = chat_identity_set_server_url io (Some ''ws://h:1'') plain_fs
   in r = CHAT_IDENTITY_ERR_IO
      \<and> fs' (path_key ''/home/chat/config.toml'') = plain_fs (path_key ''/home/chat/config.toml'')"
proof -
  let ?io = "plain_io\<lparr>fi_fchmod_fails := True\<rparr>"
  obtain r fs' where s: "chat_identity_set_server_url ?io (Some ''ws://h:1'') plain_fs = (r, fs')" by force
  have at: "config_at ?io ''/home/chat/config.toml''" using plain_io_ok(3) by (simp add: config_at_def)
  have url: "chat_server_url_is_valid (Some ''ws://h:1'')"
    by (simp add: chat_server_url_is_valid_def url_char_ok_def char_code_def)
  have "r = CHAT_IDENTITY_ERR_IO"
  proof -
    obtain d where "chat_identity_config_dir (fi_getenv ?io) 4096 = Inr d" "chat_join_path 4096 d CHAT_CONFIG_FILE = Inr ''/home/chat/config.toml''"
      using at by (auto simp: config_at_def)
    moreover have "\<not> fi_open_fails ?io p" "fi_mkstemp ?io = Some ''abcdef''" for p by (simp_all add: plain_io_def)
    moreover have "fs_lookup plain_fs (path_key ''/home/chat/config.toml'') \<noteq> None"
      "fs_lookup plain_fs (path_key (temp_of ''/home/chat/config.toml'' ''abcdef'')) = None"
      by (simp_all add: plain_keys fs_lookup_def plain_fs_def)
    ultimately show ?thesis
      using s url by (auto simp: chat_identity_set_server_url_def open_stream_def snprintf_fits_def Let_def split: if_splits fs_node.splits)
  qed
  then show ?thesis using set_server_url_atomic [OF at s] s by simp
qed

end
