(* ===== verification/Identity_Create.thy ===== *)
theory Identity_Create
  imports Identity_Config Contacts
begin

text \<open>
  Creating and loading an identity: the round trip, what a creation leaves alone, and what a
  failed one leaves behind.
\<close>

section \<open>Creating an identity\<close>

fun fingerprint_text :: "bytes \<Rightarrow> string" where
  "fingerprint_text [] = []"
| "fingerprint_text (b # bs) = hex_byte_upper b @ concat (map (\<lambda>b. '':'' @ hex_byte_upper b) bs)"

lemma fingerprint_rest:
  "length out + 3 * length bs < n \<Longrightarrow>
   fingerprint_loop n out False bs = Inr (out @ concat (map (\<lambda>b. '':'' @ hex_byte_upper b) bs))"
  by (induction bs arbitrary: out) (simp_all add: snprintf_fits_def hex_byte_upper_def Let_def)

lemma fingerprint_loop_text:
  "3 * length bs \<le> n \<Longrightarrow> fingerprint_loop n [] True bs = Inr (fingerprint_text bs)"
  by (cases bs) (simp_all add: snprintf_fits_def hex_byte_upper_def fingerprint_rest Let_def)

lemma config_dir_ne: "chat_identity_config_dir getenv n = Inr d \<Longrightarrow> d \<noteq> []"
  by (auto simp: chat_identity_config_dir_def chat_copy_string_def nonempty_env_def split: option.splits list.splits if_splits)

definition identity_file :: "string \<Rightarrow> bool" where
  "identity_file f \<longleftrightarrow> f \<in> {CHAT_IDENTITY_KEY_FILE, CHAT_IDENTITY_PUB_FILE, CHAT_CONFIG_FILE}"

lemmas identity_names = CHAT_IDENTITY_KEY_FILE_def CHAT_IDENTITY_PUB_FILE_def CHAT_CONFIG_FILE_def

abbreviation in_dir :: "string \<Rightarrow> string \<Rightarrow> string" where
  "in_dir d f \<equiv> d @ ''/'' @ f"

lemma in_dir_key:
  assumes "d \<noteq> []" "identity_file f"
  shows "path_key (in_dir d f) = (fst (path_key d), snd (path_key d) @ [f])"
  using path_key_join [OF assms(1), of f] assms(2) by (auto simp: identity_file_def identity_names)

lemma identity_paths_ok:
  assumes "length d < 4083"
  shows "identity_paths d = Inr (in_dir d CHAT_IDENTITY_KEY_FILE, in_dir d CHAT_IDENTITY_PUB_FILE, in_dir d CHAT_CONFIG_FILE)"
  using assms by (simp add: identity_paths_def chat_join_path_def snprintf_fits_def identity_names)

lemma write_child:
  assumes "files_ok io" "path_key p = (b, ns @ [f])" "dir_at fs (b, ns)" "fs (b, ns @ [f]) = None"
  shows "chat_write_new_file io p buf m fs = (CHAT_IDENTITY_OK, fs((b, ns @ [f]) \<mapsto> Fs_file buf m))"
    "dir_at (fs((b, ns @ [f]) \<mapsto> Fs_file buf m)) (b, ns)"
proof -
  show "chat_write_new_file io p buf m fs = (CHAT_IDENTITY_OK, fs((b, ns @ [f]) \<mapsto> Fs_file buf m))"
    using write_new_ok [OF assms(1), of fs p buf m] assms(2-4) by (simp add: fs_lookup_def parent_at_def)
  show "dir_at (fs((b, ns @ [f]) \<mapsto> Fs_file buf m)) (b, ns)" using assms(3) by (simp add: dir_at_def fs_lookup_def split: if_splits)
qed

definition identity_fs :: "string \<Rightarrow> chat_identity_t \<Rightarrow> fs \<Rightarrow> fs" where
  "identity_fs d identity fs =
     fs(path_key (in_dir d CHAT_IDENTITY_KEY_FILE) \<mapsto> Fs_file (map char_of_byte (id_secret_key identity)) mode_0600,
        path_key (in_dir d CHAT_IDENTITY_PUB_FILE) \<mapsto> Fs_file (map char_of_byte (id_public_key identity)) mode_0644,
        path_key (in_dir d CHAT_CONFIG_FILE) \<mapsto> Fs_file (config_text (id_username identity)) mode_0600)"

lemma write_identity_ok:
  assumes "files_ok io" "d \<noteq> []" "dir_at fs (path_key d)" "valid_username (id_username identity)"
    and "\<forall>f. identity_file f \<longrightarrow> fs (path_key (in_dir d f)) = None"
  shows "write_identity_files io (in_dir d CHAT_IDENTITY_KEY_FILE, in_dir d CHAT_IDENTITY_PUB_FILE, in_dir d CHAT_CONFIG_FILE)
     identity (id_username identity) fs = (CHAT_IDENTITY_OK, identity_fs d identity fs)"
proof -
  obtain b ns where k: "path_key d = (b, ns)" by force
  have files: "identity_file CHAT_IDENTITY_KEY_FILE" "identity_file CHAT_IDENTITY_PUB_FILE" "identity_file CHAT_CONFIG_FILE"
    by (simp_all add: identity_file_def)
  note keys = files [THEN in_dir_key [OF assms(2)], unfolded k fst_conv snd_conv]
  have none: "fs (b, ns @ [f]) = None" if "identity_file f" for f
    using spec [OF assms(5), of f] that unfolding in_dir_key [OF assms(2) that] k by simp
  note dir = assms(3) [unfolded k]
  note w1 = write_child [OF assms(1) keys(1) dir none [OF files(1)], of "map char_of_byte (id_secret_key identity)" mode_0600]
  let ?fs1 = "fs((b, ns @ [CHAT_IDENTITY_KEY_FILE]) \<mapsto> Fs_file (map char_of_byte (id_secret_key identity)) mode_0600)"
  have n2: "?fs1 (b, ns @ [CHAT_IDENTITY_PUB_FILE]) = None" using none [OF files(2)] by (simp add: identity_names)
  note w2 = write_child [OF assms(1) keys(2) w1(2) n2, of "map char_of_byte (id_public_key identity)" mode_0644]
  let ?fs2 = "?fs1((b, ns @ [CHAT_IDENTITY_PUB_FILE]) \<mapsto> Fs_file (map char_of_byte (id_public_key identity)) mode_0644)"
  have n3: "?fs2 (b, ns @ [CHAT_CONFIG_FILE]) = None" using none [OF files(3)] by (simp add: identity_names)
  note w3 = write_child [OF assms(1) keys(3) w2(2) n3, of "config_text (id_username identity)" mode_0600]
  have "length (id_username identity) \<le> 32" using assms(4) by (simp add: valid_username_iff)
  then have "snprintf_fits 512 (config_text (id_username identity))"
    by (simp add: snprintf_fits_def config_text_def server_url_line_def CHAT_DEFAULT_SERVER_URL_def)
  then show ?thesis
    unfolding write_identity_files_def Let_def prod.case w1(1) w2(1) identity_fs_def keys chat_write_config_file_def w3(1)
    by simp
qed

lemma identity_fs_lookup:
  assumes "d \<noteq> []"
  shows "fs_lookup (identity_fs d identity fs) (path_key (in_dir d CHAT_IDENTITY_KEY_FILE)) = Some (Fs_file (map char_of_byte (id_secret_key identity)) mode_0600)"
    "fs_lookup (identity_fs d identity fs) (path_key (in_dir d CHAT_IDENTITY_PUB_FILE)) = Some (Fs_file (map char_of_byte (id_public_key identity)) mode_0644)"
    "fs_lookup (identity_fs d identity fs) (path_key (in_dir d CHAT_CONFIG_FILE)) = Some (Fs_file (config_text (id_username identity)) mode_0600)"
proof -
  have files: "identity_file CHAT_IDENTITY_KEY_FILE" "identity_file CHAT_IDENTITY_PUB_FILE" "identity_file CHAT_CONFIG_FILE"
    by (simp_all add: identity_file_def)
  note keys = files [THEN in_dir_key [OF assms]]
  show "fs_lookup (identity_fs d identity fs) (path_key (in_dir d CHAT_IDENTITY_KEY_FILE)) = Some (Fs_file (map char_of_byte (id_secret_key identity)) mode_0600)"
    "fs_lookup (identity_fs d identity fs) (path_key (in_dir d CHAT_IDENTITY_PUB_FILE)) = Some (Fs_file (map char_of_byte (id_public_key identity)) mode_0644)"
    "fs_lookup (identity_fs d identity fs) (path_key (in_dir d CHAT_CONFIG_FILE)) = Some (Fs_file (config_text (id_username identity)) mode_0600)"
    unfolding identity_fs_def keys by (simp_all add: fs_lookup_def identity_names)
qed

lemma load_identity_fs:
  assumes "files_ok io" "0 \<le> sodium_init sod" "chat_identity_config_dir (fi_getenv io) PATH_MAX = Inr d" "length d < 4083"
    and "valid_username (id_username identity)" "length (id_public_key identity) = 32" "length (id_secret_key identity) = 64"
  shows "chat_identity_load sod io (identity_fs d identity fs) = Inr identity"
    "chat_identity_load_server_url io 256 (identity_fs d identity fs) = Inr CHAT_DEFAULT_SERVER_URL"
proof -
  have io: "\<not> fi_open_fails io p" "\<not> fi_stream_error io p" for p using assms(1) by (auto simp: files_ok_def)
  have d: "d \<noteq> []" using config_dir_ne [OF assms(3)] .
  note l = identity_fs_lookup [OF d, of identity fs]
  have name: "chat_load_username io (in_dir d CHAT_CONFIG_FILE) (identity_fs d identity fs) = Inr (id_username identity)"
    using io l(3) load_username_text [OF assms(5)] by (simp add: chat_load_username_def open_stream_def config_text_lines)
  have key: "chat_read_exact_file io (in_dir d CHAT_IDENTITY_KEY_FILE) 64 (identity_fs d identity fs) = Inr (map char_of_byte (id_secret_key identity))"
    using read_file_ok [OF assms(1) l(1)] assms(7) by simp
  have pub: "chat_read_exact_file io (in_dir d CHAT_IDENTITY_PUB_FILE) 32 (identity_fs d identity fs) = Inr (map char_of_byte (id_public_key identity))"
    using read_file_ok [OF assms(1) l(2)] assms(6) by simp
  have same: "map byte_of_char (map char_of_byte bs) = bs" for bs by (simp add: comp_def)
  show "chat_identity_load sod io (identity_fs d identity fs) = Inr identity"
    unfolding chat_identity_load_def using assms(2,3) name key pub
    by (simp add: identity_paths_ok [OF assms(4)] same comp_def)
  have at: "config_at io (in_dir d CHAT_CONFIG_FILE)"
    using assms(3,4) by (simp add: config_at_def chat_join_path_def snprintf_fits_def CHAT_CONFIG_FILE_def)
  have lines: "line_list [username_line (id_username identity) @ [CHR 0x0A], server_url_line CHAT_DEFAULT_SERVER_URL]"
    using username_line_chars(1) [OF assms(5)]
    by (simp add: server_url_line_def CHAT_DEFAULT_SERVER_URL_def)
  have cfg: "config_text (id_username identity) = concat [username_line (id_username identity) @ [CHR 0x0A], server_url_line CHAT_DEFAULT_SERVER_URL]"
    by (simp add: config_text_lines)
  have short: "short_lines 512 (config_text (id_username identity))"
    unfolding cfg short_lines_def config_lines_concat [OF lines]
    using username_line_chars [OF assms(5)] by (auto simp: server_url_line_def CHAT_DEFAULT_SERVER_URL_def nul_def)
  show "chat_identity_load_server_url io 256 (identity_fs d identity fs) = Inr CHAT_DEFAULT_SERVER_URL"
    unfolding chat_identity_load_server_url_def load_value_at [OF at io l(3) short] cfg config_lines_concat [OF lines]
    by (simp add: lookup_lines_def line_value_def value_prefix_def username_line_def server_url_line_def
        CHAT_DEFAULT_SERVER_URL_def chat_copy_string_def snprintf_fits_def)
qed

text \<open>The configuration directory is made and holds none of the files yet.\<close>

definition can_create :: "file_io \<Rightarrow> string \<Rightarrow> fs \<Rightarrow> bool" where
  "can_create io d fs \<longleftrightarrow> chat_identity_config_dir (fi_getenv io) PATH_MAX = Inr d \<and> length d < 4083
     \<and> way_clear (path_key d) fs \<and> (\<forall>f. identity_file f \<longrightarrow> fs (path_key (in_dir d f)) = None)"

lemma can_create_dir:
  assumes "dirs_ok io" "can_create io d fs"
  shows "\<exists>fs1. chat_mkdir_p io d mode_0700 fs = (CHAT_IDENTITY_OK, fs1) \<and> dir_at fs1 (path_key d)
    \<and> way_clear (path_key d) fs1
    \<and> (\<forall>f. identity_file f \<longrightarrow> fs1 (path_key (in_dir d f)) = None)"
proof -
  have d: "d \<noteq> []" "length d < 4096" using assms(2) config_dir_ne by (auto simp: can_create_def)
  have way: "way_clear (path_key d) fs" using assms by (auto simp: can_create_def)
  from mkdir_p_ok [OF assms(1) way d, of mode_0700] obtain fs1 where
    1: "chat_mkdir_p io d mode_0700 fs = (CHAT_IDENTITY_OK, fs1)" "dirs_added (path_key d) fs fs1" "dir_at fs1 (path_key d)" by blast
  have "fs1 (path_key (in_dir d f)) = None" if f: "identity_file f" for f
  proof -
    have "\<not> prefix (snd (path_key d) @ [f]) (snd (path_key d))" by (auto dest: prefix_length_le)
    then show ?thesis
      using 1(2) assms(2) f unfolding dirs_added_def can_create_def in_dir_key [OF d(1) f]
      by (metis in_dir_key [OF d(1) f] snd_conv)
  qed
  then show ?thesis using 1 dirs_added_way [OF way] by blast
qed

text \<open>The digest of a key.\<close>

definition digest_laws :: "('h, 's) sodium \<Rightarrow> bool" where
  "digest_laws sod \<longleftrightarrow> (\<forall>m. \<exists>digest. crypto_generichash_once sod m = Some digest \<and> length digest = crypto_generichash_BYTES)"

lemma create_ok:
  assumes "files_ok io" "can_create io d fs" "valid_username u" "0 \<le> sodium_init sod" "digest_laws sod"
    and "crypto_sign_keypair sod seed = (pk, sk)"
  shows "\<exists>fs1 digest. chat_identity_create sod io seed u True (Some CHAT_IDENTITY_FINGERPRINT_LEN) fs =
      (CHAT_IDENTITY_OK, identity_fs d \<lparr>id_username = u, id_public_key = pk, id_secret_key = sk\<rparr> fs1,
       Some \<lparr>id_username = u, id_public_key = pk, id_secret_key = sk\<rparr>, Some (fingerprint_text digest))
    \<and> crypto_generichash_once sod pk = Some digest"
proof -
  let ?id = "\<lparr>id_username = u, id_public_key = pk, id_secret_key = sk\<rparr>"
  have d: "chat_identity_config_dir (fi_getenv io) 4096 = Inr d" "d \<noteq> []" "length d < 4083"
    using assms(2) config_dir_ne by (auto simp: can_create_def)
  obtain fs1 where 1: "chat_mkdir_p io d mode_0700 fs = (CHAT_IDENTITY_OK, fs1)" "dir_at fs1 (path_key d)"
    "\<forall>f. identity_file f \<longrightarrow> fs1 (path_key (in_dir d f)) = None"
    using can_create_dir [OF _ assms(2)] assms(1) by (auto simp: files_ok_def)
  obtain digest where h: "crypto_generichash_once sod pk = Some digest" "length digest = 32"
    using assms(5) by (auto simp: digest_laws_def)
  have "fs_lookup fs1 (path_key (in_dir d f)) = None" if "identity_file f" for f
    using spec [OF 1(3), of f] that in_dir_key [OF d(2) that] unfolding fs_lookup_def by simp
  then have none: "\<not> file_access io fs1 (in_dir d f)" if "identity_file f" for f
    using that by (simp add: file_access_def)
  have files: "identity_file CHAT_IDENTITY_KEY_FILE" "identity_file CHAT_IDENTITY_PUB_FILE" "identity_file CHAT_CONFIG_FILE"
    by (simp_all add: identity_file_def)
  note free = files [THEN none]
  have stored: "snprintf_store 33 u = u" using assms(3) by (simp add: valid_username_iff snprintf_store_def)
  have "fingerprint_loop 96 [] True digest = Inr (fingerprint_text digest)" using fingerprint_loop_text [of digest 96] h(2) by simp
  then have "chat_identity_create sod io seed u True (Some 96) fs =
      (CHAT_IDENTITY_OK, identity_fs d ?id fs1, Some ?id, Some (fingerprint_text digest))"
    using free assms(3,4,6) d(1) h stored 1(1) write_identity_ok [OF assms(1) d(2) 1(2), of ?id] 1(3)
    unfolding chat_identity_create_def by (simp add: identity_paths_ok [OF d(3)] chat_identity_fingerprint_def Let_def)
  then show ?thesis using h(1) by auto
qed

text \<open>
  C16. An identity that was created is loaded again: with a file system that refuses nothing
  (short and interrupted writes included), creating an identity for a valid name succeeds, makes
  missing directories, reports the fingerprint of the new public key, and a later load yields
  exactly the created identity; the key file is readable by its owner only, and the server
  address is the default one.
\<close>

theorem identity_create_load:
  assumes "files_ok io" "can_create io d fs" "valid_username u" "0 \<le> sodium_init sod" "digest_laws sod" "sign_laws sod"
  shows "\<exists>fs' identity digest.
      chat_identity_create sod io seed u True (Some CHAT_IDENTITY_FINGERPRINT_LEN) fs =
        (CHAT_IDENTITY_OK, fs', Some identity, Some (fingerprint_text digest))
    \<and> id_username identity = u \<and> (id_public_key identity, id_secret_key identity) = crypto_sign_keypair sod seed
    \<and> crypto_generichash_once sod (id_public_key identity) = Some digest
    \<and> chat_identity_load sod io fs' = Inr identity
    \<and> chat_identity_load_server_url io CHAT_IDENTITY_SERVER_URL_MAX fs' = Inr CHAT_DEFAULT_SERVER_URL
    \<and> fs' (path_key (in_dir d CHAT_IDENTITY_KEY_FILE)) =
        Some (Fs_file (map char_of_byte (id_secret_key identity)) mode_0600)"
proof -
  obtain pk sk where key: "crypto_sign_keypair sod seed = (pk, sk)" by force
  then have len: "length pk = 32" "length sk = 64" using assms(6) by (auto simp: sign_laws_def)
  let ?id = "\<lparr>id_username = u, id_public_key = pk, id_secret_key = sk\<rparr>"
  obtain fs1 digest where c: "chat_identity_create sod io seed u True (Some CHAT_IDENTITY_FINGERPRINT_LEN) fs =
      (CHAT_IDENTITY_OK, identity_fs d ?id fs1, Some ?id, Some (fingerprint_text digest))" "crypto_generichash_once sod pk = Some digest"
    using create_ok [OF assms(1-5) key] by blast
  have d: "chat_identity_config_dir (fi_getenv io) PATH_MAX = Inr d" "length d < 4083" "d \<noteq> []"
    using assms(2) config_dir_ne by (auto simp: can_create_def)
  have "identity_file CHAT_IDENTITY_KEY_FILE" by (simp add: identity_file_def)
  then have "identity_fs d ?id fs1 (path_key (in_dir d CHAT_IDENTITY_KEY_FILE)) = Some (Fs_file (map char_of_byte sk) mode_0600)"
    using identity_fs_lookup(1) [OF d(3), of ?id fs1] in_dir_key [OF d(3)] by (simp add: fs_lookup_def)
  then show ?thesis
    using c load_identity_fs [OF assms(1,4) d(1,2), of ?id fs1] assms(3) len key by simp
qed

definition fresh_fs :: fs where
  "fresh_fs = [(True, [''home'']) \<mapsto> Fs_dir mode_0700]"

lemma plain_dir: "chat_identity_config_dir (fi_getenv plain_io) 4096 = Inr ''/home/chat''"
  by (simp add: chat_identity_config_dir_def nonempty_env_def plain_io_def chat_copy_string_def snprintf_fits_def)

lemma fresh_can_create: "can_create plain_io ''/home/chat'' fresh_fs"
proof -
  have "path_key ''/home/chat'' = (True, [''home'', ''chat''])" by (simp add: path_key_def path_names_def)
  moreover have "fresh_fs (path_key (in_dir ''/home/chat'' f)) = None" if "identity_file f" for f
    using in_dir_key [of "''/home/chat''" f] that calculation by (simp add: fresh_fs_def)
  ultimately show ?thesis
    using plain_dir by (auto simp: can_create_def way_clear_def fresh_fs_def)
qed

lemma demo_digest: "digest_laws demo" "0 \<le> sodium_init demo"
  by (simp_all add: digest_laws_def demo_def)

theorem identity_create_load_witness:
  "\<exists>fs' identity digest.
      chat_identity_create demo plain_io [1] ''alice'' True (Some 96) fresh_fs =
        (CHAT_IDENTITY_OK, fs', Some identity, Some (fingerprint_text digest))
    \<and> id_username identity = ''alice'' \<and> chat_identity_load demo plain_io fs' = Inr identity"
proof -
  have "valid_username ''alice''" using contacts_names by simp
  from identity_create_load [OF plain_io_ok(1) fresh_can_create this demo_digest(2,1) demo_sign_laws, of "[1]"]
  show ?thesis by auto
qed

section \<open>What creating an identity leaves alone\<close>

lemma map_le_Some: "f \<subseteq>\<^sub>m g \<Longrightarrow> f k = Some x \<Longrightarrow> g k = Some x"
  by (metis domI map_le_def)

lemma map_le_None: "f \<subseteq>\<^sub>m g \<Longrightarrow> g k = None \<Longrightarrow> f k = None"
  by (metis domI map_le_def option.exhaust)

lemma mkdir_one_le: "chat_mkdir_one io p m fs = (r, fs') \<Longrightarrow> fs \<subseteq>\<^sub>m fs'"
  by (auto simp: chat_mkdir_one_def fs_lookup_def Let_def map_le_def split: if_splits)

lemma mkdir_loop_le: "mkdir_loop io m seen rest fs = (r, fs') \<Longrightarrow> fs \<subseteq>\<^sub>m fs'"
proof (induction rest arbitrary: seen fs)
  case (Cons c cs)
  then show ?case
    by (auto split: if_splits prod.splits dest!: mkdir_one_le intro: map_le_trans)
qed simp

lemma mkdir_p_le:
  assumes "chat_mkdir_p io p m fs = (r, fs')"
  shows "fs \<subseteq>\<^sub>m fs'"
  using assms
  by (auto simp: chat_mkdir_p_def Let_def split: if_splits sum.splits prod.splits
      dest!: mkdir_loop_le mkdir_one_le intro: map_le_trans)

lemma write_new_le:
  assumes "chat_write_new_file io p buf m fs = (r, fs')"
  shows "fs \<subseteq>\<^sub>m fs'"
    "r = CHAT_IDENTITY_OK \<Longrightarrow> fs (path_key p) = None \<and> fs' (path_key p) = Some (Fs_file buf m)"
  using assms write_loop_prefix [of "fi_write io p" buf]
  by (auto simp: chat_write_new_file_def fs_lookup_def Let_def map_le_def split: if_splits prod.splits)

lemma write_identity_le:
  assumes "write_identity_files io (a, b, c) identity u fs = (r, fs')"
  shows "fs \<subseteq>\<^sub>m fs'"
    "r = CHAT_IDENTITY_OK \<Longrightarrow> fs (path_key a) = None \<and> fs (path_key b) = None \<and> fs (path_key c) = None
       \<and> fs' (path_key a) = Some (Fs_file (map char_of_byte (id_secret_key identity)) mode_0600)"
proof -
  obtain r1 fs1 where 1: "chat_write_new_file io a (map char_of_byte (id_secret_key identity)) mode_0600 fs = (r1, fs1)" by force
  obtain r2 fs2 where 2: "chat_write_new_file io b (map char_of_byte (id_public_key identity)) mode_0644 fs1 = (r2, fs2)" by force
  obtain r3 fs3 where 3: "chat_write_config_file io c u fs2 = (r3, fs3)" by force
  have c: "fs2 \<subseteq>\<^sub>m fs3" "r3 = CHAT_IDENTITY_OK \<Longrightarrow> fs2 (path_key c) = None"
    using 3 by (auto simp: chat_write_config_file_def dest: write_new_le split: if_splits)
  note le = write_new_le(1) [OF 1] write_new_le(1) [OF 2] c(1)
  note le2 = map_le_trans [OF le(1,2)] map_le_trans [OF map_le_trans [OF le(1,2)] le(3)] map_le_trans [OF le(2,3)]
  show "fs \<subseteq>\<^sub>m fs'" using assms 1 2 3 le le2 by (auto simp: write_identity_files_def split: if_splits)
  show "r = CHAT_IDENTITY_OK \<Longrightarrow> fs (path_key a) = None \<and> fs (path_key b) = None \<and> fs (path_key c) = None
       \<and> fs' (path_key a) = Some (Fs_file (map char_of_byte (id_secret_key identity)) mode_0600)"
    using assms 1 2 3 write_new_le(2) [OF 1] write_new_le(2) [OF 2] c(2) map_le_None [OF le(1)] map_le_None [OF le2(1)] map_le_Some [OF le2(3)]
    by (auto simp: write_identity_files_def split: if_splits)
qed

text \<open>
  C19. Creating an identity never destroys anything: whatever the file system answers, every file
  and directory that existed is still there unchanged; and it succeeds only when neither key file
  nor configuration existed, leaving the new secret key in a file readable by its owner only.
\<close>

theorem identity_create_preserves:
  assumes "chat_identity_create sod io seed u want fp fs = (r, fs', out, text_out)"
  shows "fs \<subseteq>\<^sub>m fs' \<and> (r = CHAT_IDENTITY_OK \<longrightarrow> (\<exists>d. chat_identity_config_dir (fi_getenv io) PATH_MAX = Inr d
    \<and> (\<forall>f. identity_file f \<longrightarrow> fs (path_key (in_dir d f)) = None)
    \<and> fs' (path_key (in_dir d CHAT_IDENTITY_KEY_FILE)) =
        Some (Fs_file (map char_of_byte (snd (crypto_sign_keypair sod seed))) mode_0600)))"
proof (cases "chat_identity_config_dir (fi_getenv io) PATH_MAX")
  case (Inl err)
  then show ?thesis using assms
    by (auto simp: chat_identity_create_def chat_identity_config_dir_def chat_copy_string_def split: if_splits option.splits)
next
  case (Inr d)
  obtain r1 fs1 where 1: "chat_mkdir_p io d mode_0700 fs = (r1, fs1)" by force
  note le1 = mkdir_p_le [OF 1]
  obtain pk sk where key: "crypto_sign_keypair sod seed = (pk, sk)" by force
  show ?thesis
  proof (cases "identity_paths d")
    case (Inl err)
    then have "err = CHAT_IDENTITY_ERR_BUFFER"
      by (auto simp: identity_paths_def chat_join_path_def split: sum.splits if_splits)
    then show ?thesis using assms Inr Inl 1 le1
      by (auto simp: chat_identity_create_def split: if_splits)
  next
    case (Inr paths)
    then have paths: "paths = (in_dir d CHAT_IDENTITY_KEY_FILE, in_dir d CHAT_IDENTITY_PUB_FILE, in_dir d CHAT_CONFIG_FILE)"
      by (auto simp: identity_paths_def chat_join_path_def split: sum.splits if_splits)
    define ident where "ident = \<lparr>id_username = snprintf_store 33 u, id_public_key = pk, id_secret_key = sk\<rparr>"
    obtain r2 fs2 where 2: "write_identity_files io paths ident u fs1 = (r2, fs2)" by force
    note w = write_identity_le [OF 2 [unfolded paths]]
    have le2: "fs \<subseteq>\<^sub>m fs2" using map_le_trans [OF le1 w(1)] .
    consider "fs' = fs \<or> fs' = fs1" "r \<noteq> CHAT_IDENTITY_OK" | "fs' = fs2" "r = CHAT_IDENTITY_OK \<longrightarrow> r2 = CHAT_IDENTITY_OK"
      using assms \<open>chat_identity_config_dir (fi_getenv io) PATH_MAX = Inr d\<close> Inr 1 2 key
      by (auto simp: chat_identity_create_def paths ident_def Let_def split: if_splits option.splits sum.splits)
    then show ?thesis
    proof cases
      case 1
      then show ?thesis using le1 by auto
    next
      case 2
      then show ?thesis
        using le2 w(2) map_le_None [OF le1] \<open>chat_identity_config_dir (fi_getenv io) PATH_MAX = Inr d\<close> key
        by (auto simp: identity_file_def ident_def)
    qed
  qed
qed

theorem identity_create_preserves_witness:
  "\<exists>fs' out text_out. chat_identity_create demo plain_io [1] ''alice'' False (Some 96) plain_fs =
      (CHAT_IDENTITY_ERR_ALREADY_EXISTS, fs', out, text_out) \<and> plain_fs \<subseteq>\<^sub>m fs'"
proof -
  obtain r fs' out text_out where c: "chat_identity_create demo plain_io [1] ''alice'' False (Some 96) plain_fs = (r, fs', out, text_out)"
    using prod_cases4 by blast
  have dir: "path_key ''/home/chat'' = (True, [''home'', ''chat''])" by (simp add: path_key_def path_names_def)
  have "dirs_ok plain_io" "way_clear (path_key ''/home/chat'') plain_fs"
    using plain_io_ok(1) by (auto simp: files_ok_def dir way_clear_def plain_fs_def prefix_def)
  from mkdir_p_ok [OF this] obtain fs1 where 1: "chat_mkdir_p plain_io ''/home/chat'' mode_0700 plain_fs = (CHAT_IDENTITY_OK, fs1)"
    by auto
  obtain node where "plain_fs (path_key ''/home/chat/config.toml'') = Some node" by (simp add: plain_keys plain_fs_def)
  from map_le_Some [OF mkdir_p_le [OF 1], OF this]
  have "fs_lookup fs1 (path_key ''/home/chat/config.toml'') \<noteq> None" by (simp add: fs_lookup_def)
  then have "file_access plain_io fs1 ''/home/chat/config.toml''" by (simp add: file_access_def plain_io_def)
  moreover have "identity_paths ''/home/chat'' = Inr (''/home/chat/identity.key'', ''/home/chat/identity.pub'', ''/home/chat/config.toml'')"
    using identity_paths_ok [of "''/home/chat''"] by (simp add: identity_names)
  moreover have "valid_username ''alice''" using contacts_names by simp
  ultimately have "r = CHAT_IDENTITY_ERR_ALREADY_EXISTS"
    using c 1 plain_dir demo_digest(2) by (simp add: chat_identity_create_def)
  then show ?thesis using identity_create_preserves [OF c] c by blast
qed

text \<open>The state a creation leaves behind when the public key file cannot be opened.\<close>

lemma creation_interrupted:
  assumes "files_ok io" "can_create io d fs" "valid_username u" "0 \<le> sodium_init sod"
  obtains fs' sk where
    "chat_identity_create sod (io\<lparr>fi_open_fails := (\<lambda>p. p = in_dir d CHAT_IDENTITY_PUB_FILE)\<rparr>) seed u want fp fs =
       (CHAT_IDENTITY_ERR_IO, fs', None, None)"
    "way_clear (path_key d) fs'" "fs' (path_key (in_dir d CHAT_IDENTITY_KEY_FILE)) = Some (Fs_file sk mode_0600)"
    "fs_lookup fs' (path_key (in_dir d CHAT_CONFIG_FILE)) = None"
proof -
  let ?io = "io\<lparr>fi_open_fails := (\<lambda>p. p = in_dir d CHAT_IDENTITY_PUB_FILE)\<rparr>"
  have d: "chat_identity_config_dir (fi_getenv io) 4096 = Inr d" "d \<noteq> []" "length d < 4083"
    using assms(2) config_dir_ne by (auto simp: can_create_def)
  obtain b ns where k: "path_key d = (b, ns)" by force
  have files: "identity_file CHAT_IDENTITY_KEY_FILE" "identity_file CHAT_IDENTITY_PUB_FILE" "identity_file CHAT_CONFIG_FILE"
    by (simp_all add: identity_file_def)
  note keys = files [THEN in_dir_key [OF d(2)], unfolded k fst_conv snd_conv]
  have dirs: "dirs_ok io" "dirs_ok ?io" "can_create ?io d fs" using assms(1,2) by (auto simp: files_ok_def dirs_ok_def can_create_def)
  obtain fs1 where 1: "chat_mkdir_p ?io d mode_0700 fs = (CHAT_IDENTITY_OK, fs1)" "dir_at fs1 (path_key d)" "way_clear (path_key d) fs1"
    "\<forall>f. identity_file f \<longrightarrow> fs1 (path_key (in_dir d f)) = None"
    using can_create_dir [OF dirs(2,3)] by blast
  have none: "fs1 (b, ns @ [f]) = None" if "identity_file f" for f
    using spec [OF 1(4), of f] that unfolding in_dir_key [OF d(2) that] k by simp
  have free: "\<not> file_access ?io fs1 (in_dir d f)" if "identity_file f" for f
    using none [OF that] unfolding file_access_def in_dir_key [OF d(2) that] k by (simp add: fs_lookup_def)
  obtain pk sk where key: "crypto_sign_keypair sod seed = (pk, sk)" by force
  define fs2 where "fs2 = fs1((b, ns @ [CHAT_IDENTITY_KEY_FILE]) \<mapsto> Fs_file (map char_of_byte sk) mode_0600)"
  have wrote: "chat_write_new_file ?io (in_dir d CHAT_IDENTITY_KEY_FILE) (map char_of_byte sk) mode_0600 fs1 = (CHAT_IDENTITY_OK, fs2)"
    using assms(1) none [OF files(1)] 1(2) write_loop_ok [of "fi_write io (in_dir d CHAT_IDENTITY_KEY_FILE)"]
    unfolding chat_write_new_file_def keys k fs2_def
    by (simp add: files_ok_def fs_lookup_def parent_at_def CHAT_IDENTITY_KEY_FILE_def CHAT_IDENTITY_PUB_FILE_def)
  have "chat_write_new_file ?io (in_dir d CHAT_IDENTITY_PUB_FILE) (map char_of_byte pk) mode_0644 fs2 = (CHAT_IDENTITY_ERR_IO, fs2)"
    by (simp add: chat_write_new_file_def)
  then have first: "chat_identity_create sod ?io seed u want fp fs = (CHAT_IDENTITY_ERR_IO, fs2, None, None)"
    using assms(3,4) d(1) 1(1) free [OF files(1)] free [OF files(2)] free [OF files(3)] key wrote
    by (simp add: chat_identity_create_def identity_paths_ok [OF d(3)] write_identity_files_def Let_def)
  have "way_clear (path_key d) fs2"
    using 1(3) by (auto simp: way_clear_def k fs2_def dest: prefix_length_le)
  moreover have "fs2 (path_key (in_dir d CHAT_IDENTITY_KEY_FILE)) = Some (Fs_file (map char_of_byte sk) mode_0600)" unfolding keys fs2_def by simp
  moreover have "fs_lookup fs2 (path_key (in_dir d CHAT_CONFIG_FILE)) = None"
    using none [OF files(3)] unfolding keys fs2_def by (simp add: fs_lookup_def identity_names)
  ultimately show thesis by (rule that [OF first])
qed

text \<open>
  C38. A creation that fails half-way cannot be repeated: when the public key file cannot be
  opened after the secret key was written, creation fails with an I/O error, and from then on
  every further creation reports that the identity already exists while every load reports that
  there is none, even when the file system works again.
\<close>

theorem identity_create_stuck:
  assumes "files_ok io" "can_create io d fs" "valid_username u" "valid_username u'" "0 \<le> sodium_init sod"
    and "\<forall>p. \<not> fi_access_fails io p"
  shows "\<exists>fs'. chat_identity_create sod (io\<lparr>fi_open_fails := (\<lambda>p. p = in_dir d CHAT_IDENTITY_PUB_FILE)\<rparr>) seed u want fp fs =
        (CHAT_IDENTITY_ERR_IO, fs', None, None)
    \<and> fst (chat_identity_create sod io seed' u' want' fp' fs') = CHAT_IDENTITY_ERR_ALREADY_EXISTS
    \<and> chat_identity_load sod io fs' = Inl CHAT_IDENTITY_ERR_NOT_FOUND"
proof -
  have d: "chat_identity_config_dir (fi_getenv io) 4096 = Inr d" "d \<noteq> []" "length d < 4083" "dirs_ok io"
    using assms(1,2) config_dir_ne by (auto simp: can_create_def files_ok_def dirs_ok_def)
  obtain fs2 sk where first: "chat_identity_create sod (io\<lparr>fi_open_fails := (\<lambda>p. p = in_dir d CHAT_IDENTITY_PUB_FILE)\<rparr>) seed u want fp fs =
       (CHAT_IDENTITY_ERR_IO, fs2, None, None)"
    and way: "way_clear (path_key d) fs2" and left: "fs2 (path_key (in_dir d CHAT_IDENTITY_KEY_FILE)) = Some (Fs_file sk mode_0600)"
    and config: "fs_lookup fs2 (path_key (in_dir d CHAT_CONFIG_FILE)) = None"
    by (rule creation_interrupted [OF assms(1-3,5)])
  from mkdir_p_ok [OF d(4) way d(2)] obtain fs3 where 3: "chat_mkdir_p io d mode_0700 fs2 = (CHAT_IDENTITY_OK, fs3)"
    using d(3) by fastforce
  from map_le_Some [OF mkdir_p_le [OF 3], OF left] have "file_access io fs3 (in_dir d CHAT_IDENTITY_KEY_FILE)"
    using assms(6) by (simp add: file_access_def fs_lookup_def)
  then have second: "fst (chat_identity_create sod io seed' u' want' fp' fs2) = CHAT_IDENTITY_ERR_ALREADY_EXISTS"
    using assms(4,5) d(1) 3 by (simp add: chat_identity_create_def identity_paths_ok [OF d(3)])
  have "chat_load_username io (in_dir d CHAT_CONFIG_FILE) fs2 = Inl CHAT_IDENTITY_ERR_NOT_FOUND"
    using assms(1) config by (simp add: chat_load_username_def open_stream_def files_ok_def)
  then have "chat_identity_load sod io fs2 = Inl CHAT_IDENTITY_ERR_NOT_FOUND"
    using assms(5) d(1) by (simp add: chat_identity_load_def identity_paths_ok [OF d(3)])
  then show ?thesis using first second by blast
qed

theorem identity_create_stuck_witness:
  "\<exists>fs'. fst (chat_identity_create demo plain_io [2] ''alice'' True None fs') = CHAT_IDENTITY_ERR_ALREADY_EXISTS
    \<and> chat_identity_load demo plain_io fs' = Inl CHAT_IDENTITY_ERR_NOT_FOUND"
proof -
  have name: "valid_username ''alice''" using contacts_names by simp
  have "\<forall>p. \<not> fi_access_fails plain_io p" by (simp add: plain_io_def)
  from identity_create_stuck [OF plain_io_ok(1) fresh_can_create name name demo_digest(2) this]
  show ?thesis by blast
qed

end
