(* ===== verification/Client.thy ===== *)
theory Client
  imports Identity_Create Ipc Daemon_State
begin

text \<open>
  \<open>client/main.c\<close>: the command-line client. A command yields its exit code and the record of what
  it did: the text on its two output streams, the bytes it wrote to the daemon, and the
  descriptors it opened and closed. What the system answers is passed as arguments. The chat
  loop runs over the list of what its rounds find.
\<close>

section \<open>State\<close>

datatype fd_call = Fd_open int | Fd_close int

record cli =
  cli_stdout :: string
  cli_stderr :: string
  cli_sent :: string
  cli_fds :: "fd_call list"

definition cli_start :: cli where
  "cli_start = \<lparr>cli_stdout = [], cli_stderr = [], cli_sent = [], cli_fds = []\<rparr>"

definition say :: "string \<Rightarrow> cli \<Rightarrow> cli" where
  "say text_line c = c\<lparr>cli_stdout := cli_stdout c @ text_line @ [newline]\<rparr>"

definition complain :: "string \<Rightarrow> cli \<Rightarrow> cli" where
  "complain text_line c = c\<lparr>cli_stderr := cli_stderr c @ text_line @ [newline]\<rparr>"

definition close_fd :: "int \<Rightarrow> cli \<Rightarrow> cli" where
  "close_fd fd c = c\<lparr>cli_fds := cli_fds c @ [Fd_close fd]\<rparr>"

text \<open>\<open>so_write n\<close> is what \<open>write\<close> returns with \<open>n\<close> bytes left, \<open>so_read\<close> what \<open>read\<close> delivers
  (\<open>None\<close> for the end and for errors), \<open>so_error\<close> the text of \<open>strerror\<close>.\<close>

record sock =
  so_getenv :: "string \<Rightarrow> string option"
  so_socket :: int
  so_error :: string
  so_connect_ok :: bool
  so_write :: "nat \<Rightarrow> int"
  so_poll :: int
  so_read :: "string option"

section \<open>Commands on files\<close>

definition usage_lines :: "string list" where
  "usage_lines = [''Usage:'', ''  chat init <username>'', ''  chat config server <ws:// or wss:// URL>'', ''  chat status'',
     ''  chat fingerprint <username>'', ''  chat <username>'']"

definition print_usage :: "cli \<Rightarrow> cli" where
  "print_usage c = foldl (\<lambda>c l. complain l c) c usage_lines"

definition bad_username_text :: string where
  "bad_username_text = ''Invalid username. Use 3..32 characters: [a-zA-Z0-9_-].''"

definition command_init ::
  "('h, 's) sodium \<Rightarrow> file_io \<Rightarrow> bytes \<Rightarrow> string \<Rightarrow> fs \<Rightarrow> cli \<Rightarrow> chat_exit_code_t \<times> fs \<times> cli" where
  "command_init sod io seed username fs c =
     (let (result, fs', out_identity, fingerprint) =
            chat_identity_create sod io seed username False (Some CHAT_IDENTITY_FINGERPRINT_LEN) fs
      in if result = CHAT_IDENTITY_ERR_INVALID_USERNAME then (CHAT_EXIT_GENERIC_ERROR, fs', complain bad_username_text c)
         else if result = CHAT_IDENTITY_ERR_ALREADY_EXISTS
           then (CHAT_EXIT_GENERIC_ERROR, fs', complain ''Identity already exists.'' c)
         else if result \<noteq> CHAT_IDENTITY_OK
           then (CHAT_EXIT_GENERIC_ERROR, fs',
                 complain (''Could not create identity: '' @ chat_identity_result_name result @ ''.'') c)
         else (CHAT_EXIT_SUCCESS, fs',
               say (''Fingerprint: '' @ (case fingerprint of None \<Rightarrow> [] | Some f \<Rightarrow> f))
                 (say (''Created identity: '' @ username) c)))"

definition command_config_server ::
  "file_io \<Rightarrow> string \<Rightarrow> fs \<Rightarrow> cli \<Rightarrow> chat_exit_code_t \<times> fs \<times> cli" where
  "command_config_server io server_url fs c =
     (let (result, fs') = chat_identity_set_server_url io (Some server_url) fs in
      if result = CHAT_IDENTITY_ERR_NOT_FOUND
        then (CHAT_EXIT_GENERIC_ERROR, fs', complain ''Identity not initialized. Run chat init <username> first.'' c)
      else if result = CHAT_IDENTITY_ERR_INVALID_SERVER_URL
        then (CHAT_EXIT_GENERIC_ERROR, fs', complain ''Invalid server URL. Use ws:// or wss:// followed by a host.'' c)
      else if result \<noteq> CHAT_IDENTITY_OK
        then (CHAT_EXIT_GENERIC_ERROR, fs',
              complain (''Could not update server URL: '' @ chat_identity_result_name result @ ''.'') c)
      else (CHAT_EXIT_SUCCESS, fs',
            say ''Restart chatd to apply the change.'' (say (''Server URL updated: '' @ server_url) c)))"

definition command_fingerprint ::
  "('h, 's) sodium \<Rightarrow> contacts_io \<Rightarrow> contacts_file \<Rightarrow> string \<Rightarrow> cli \<Rightarrow> chat_exit_code_t \<times> cli" where
  "command_fingerprint sod io contacts username c =
     (case chat_contacts_load_public_key sod io (Some username) contacts of
        Inl CHAT_CONTACTS_ERR_INVALID \<Rightarrow> (CHAT_EXIT_GENERIC_ERROR, complain bad_username_text c)
      | Inl CHAT_CONTACTS_ERR_NOT_FOUND \<Rightarrow> (CHAT_EXIT_GENERIC_ERROR, complain (''Unknown contact: '' @ username @ ''.'') c)
      | Inl result \<Rightarrow> (CHAT_EXIT_GENERIC_ERROR,
                       complain (''Could not read contact: '' @ chat_contacts_result_name result @ ''.'') c)
      | Inr identity_pk \<Rightarrow>
          (case chat_identity_fingerprint sod identity_pk CHAT_IDENTITY_FINGERPRINT_LEN of
             Inl err \<Rightarrow> (CHAT_EXIT_GENERIC_ERROR,
                         complain (''Could not compute fingerprint: '' @ chat_identity_result_name err @ ''.'') c)
           | Inr fingerprint \<Rightarrow> (CHAT_EXIT_SUCCESS, say (''Fingerprint: '' @ fingerprint) (say username c))))"

section \<open>Talking to the daemon\<close>

definition open_ipc_socket :: "sock \<Rightarrow> cli \<Rightarrow> int \<times> cli" where
  "open_ipc_socket so c =
     (case chat_ipc_socket_path (so_getenv so) 108 of
        Inl err \<Rightarrow> (-1, complain ''Could not resolve chatd socket path.'' c)
      | Inr socket_path \<Rightarrow>
          (let fd = so_socket so; c1 = c\<lparr>cli_fds := cli_fds c @ [Fd_open fd]\<rparr> in
           if fd < 0 then (-1, complain (''Could not create IPC socket: '' @ so_error so @ ''.'') c)
           else if \<not> snprintf_fits 108 socket_path
             then (-1, close_fd fd (complain ''chatd socket path is too long.'' c1))
           else if \<not> so_connect_ok so then (-1, close_fd fd (complain ''chatd unavailable.'' c1))
           else (fd, c1)))"

text \<open>\<open>command_status\<close> opens the socket with the same statements as \<open>open_ipc_socket\<close>.\<close>

definition command_status :: "sock \<Rightarrow> cli \<Rightarrow> chat_exit_code_t \<times> cli" where
  "command_status so c =
     (let (fd, c1) = open_ipc_socket so c; command = ''STATUS'' @ [newline]; written = so_write so (length command) in
      if fd < 0 then (CHAT_EXIT_DAEMON_UNAVAILABLE, c1)
      else
        (let c2 = c1\<lparr>cli_sent := cli_sent c1 @ take (nat written) command\<rparr> in
         if written \<noteq> int (length command)
           then (CHAT_EXIT_DAEMON_UNAVAILABLE, close_fd fd (complain ''Could not write to chatd.'' c2))
         else if so_poll so \<le> 0
           then (CHAT_EXIT_DAEMON_UNAVAILABLE, close_fd fd (complain ''chatd did not respond.'' c2))
         else case so_read so of
                None \<Rightarrow> (CHAT_EXIT_DAEMON_UNAVAILABLE, close_fd fd (complain ''Could not read from chatd.'' c2))
              | Some data \<Rightarrow>
                  (CHAT_EXIT_SUCCESS,
                   close_fd fd (c2\<lparr>cli_stdout := cli_stdout c2 @ cstr (take (CHAT_IPC_MAX_RESPONSE - 1) data)\<rparr>))))"

function cli_write_all :: "(nat \<Rightarrow> int) \<Rightarrow> string \<Rightarrow> int \<times> string" where
  "cli_write_all wr data =
     (if data = [] then (0, [])
      else let written = wr (length data) in
           if written \<le> 0 then (-1, [])
           else let (rc, sent) = cli_write_all wr (drop (nat written) data) in (rc, take (nat written) data @ sent))"
  by pat_completeness auto
termination by (relation "measure (\<lambda>(wr, data). length data)") auto

declare cli_write_all.simps [simp del]

definition send_text :: "(nat \<Rightarrow> int) \<Rightarrow> string \<Rightarrow> cli \<Rightarrow> int \<times> cli" where
  "send_text wr data c = (let (rc, sent) = cli_write_all wr data in (rc, c\<lparr>cli_sent := cli_sent c @ sent\<rparr>))"

text \<open>The buffer for the answer has \<open>response_size\<close> bytes.\<close>

definition read_ipc_response :: "sock \<Rightarrow> nat \<Rightarrow> string option" where
  "read_ipc_response so response_size =
     (if so_poll so \<le> 0 then None
      else map_option (\<lambda>data. cstr (take (response_size - 1) data)) (so_read so))"

definition send_cli_chat_message :: "(nat \<Rightarrow> int) \<Rightarrow> string \<Rightarrow> cli \<Rightarrow> int \<times> cli" where
  "send_cli_chat_message wr line c =
     (let command = ''SEND_MESSAGE '' @ line @ [newline] in
      if \<not> snprintf_fits CHAT_IPC_MAX_COMMAND command then (-1, complain ''Message too long.'' c)
      else send_text wr command c)"

definition network_mode_label :: "string \<Rightarrow> string" where
  "network_mode_label response =
     (case Option.bind (scan_word 31 response) (\<lambda>(status, r1).
           Option.bind (scan_word 32 r1) (\<lambda>(username, r2). scan_word 15 r2)) of
        Some (mode, rest) \<Rightarrow> if mode = ''relay'' then ''TURN relay'' else ''direct P2P''
      | None \<Rightarrow> ''direct P2P'')"

section \<open>The chat loop\<close>

text \<open>What one round finds: whether the signal handler ran before it, what \<open>poll\<close> returned, and
  the answers of \<open>write\<close>. A ready descriptor comes with what reading it delivers: the outer
  option tells whether it is ready, the inner one is \<open>None\<close> at the end of the input.\<close>

datatype poll_outcome =
    Poll_eintr bool
  | Poll_failed string
  | Poll_ready "string option option" "string option option"

record chat_turn =
  ct_interrupted :: bool
  ct_poll :: poll_outcome
  ct_write :: "nat \<Rightarrow> int"

definition cut_line :: "string \<Rightarrow> string" where
  "cut_line s = takeWhile (\<lambda>c. c \<noteq> CHR 0x0D \<and> c \<noteq> newline) s"

definition pad6 :: "string \<Rightarrow> string" where
  "pad6 s = s @ replicate (6 - length s) (CHR '' '')"

definition close_chat :: "(nat \<Rightarrow> int) \<Rightarrow> cli \<Rightarrow> cli" where
  "close_chat wr c = snd (send_text wr (''CLOSE_CHAT'' @ [newline]) c)"

text \<open>A response of the daemon: an exit, or the state and whether the round is over.\<close>

definition show_message :: "string \<Rightarrow> cli \<Rightarrow> cli" where
  "show_message response c =
     (let tail = drop 8 response; name = takeWhile (\<lambda>c. c \<noteq> CHR '' '') tail in
      if length name = length tail then c
      else say (pad6 name @ '' > '' @ cut_line (drop (length name + 1) tail)) c)"

definition chat_response :: "string \<Rightarrow> string option \<Rightarrow> cli \<Rightarrow> chat_exit_code_t option \<times> bool \<times> cli" where
  "chat_response peer data c =
     (case data of
        None \<Rightarrow> (Some CHAT_EXIT_SUCCESS, True, say ''Chat closed.'' c)
      | Some bytes_read \<Rightarrow>
          (let response = cstr (take (CHAT_IPC_MAX_RESPONSE - 1) bytes_read) in
           if prefix ''MESSAGE '' response then (None, True, show_message response c)
           else if prefix ''CHAT_CLOSED '' response
             then (Some CHAT_EXIT_SUCCESS, True, say (''Chat closed by '' @ peer @ ''.'') c)
           else if prefix ''ERROR '' response
             then (Some CHAT_EXIT_GENERIC_ERROR, True, c\<lparr>cli_stderr := cli_stderr c @ response\<rparr>)
           else (None, False, c)))"

definition chat_input :: "(nat \<Rightarrow> int) \<Rightarrow> string option \<Rightarrow> cli \<Rightarrow> chat_exit_code_t option \<times> cli" where
  "chat_input wr data c =
     (case data of
        None \<Rightarrow> (Some CHAT_EXIT_SUCCESS, close_chat wr c)
      | Some stdin_line \<Rightarrow>
          (let line = cut_line (cstr stdin_line) in
           if line = [] then (None, c)
           else
             (let (rc, c1) = send_cli_chat_message wr line c in
              if rc \<noteq> 0 then (Some CHAT_EXIT_GENERIC_ERROR, complain ''Could not send message.'' c1)
              else (None, say (''you    > '' @ line) c1))))"

text \<open>One round of the loop, and the loop: \<open>None\<close> while it runs.\<close>

definition chat_turn_step :: "string \<Rightarrow> chat_turn \<Rightarrow> cli \<Rightarrow> chat_exit_code_t option \<times> cli" where
  "chat_turn_step peer turn c =
     (if ct_interrupted turn then (Some CHAT_EXIT_SUCCESS, close_chat (ct_write turn) c)
      else case ct_poll turn of
             Poll_eintr interrupted \<Rightarrow>
               if interrupted then (Some CHAT_EXIT_SUCCESS, close_chat (ct_write turn) c) else (None, c)
           | Poll_failed err \<Rightarrow> (Some CHAT_EXIT_GENERIC_ERROR, complain (''Chat interrupted: '' @ err @ ''.'') c)
           | Poll_ready daemon_data stdin_data \<Rightarrow>
               (let (exit_code, over, c1) =
                      (case daemon_data of None \<Rightarrow> (None, False, c) | Some data \<Rightarrow> chat_response peer data c)
                in if over then (exit_code, c1)
                   else case stdin_data of None \<Rightarrow> (None, c1) | Some data \<Rightarrow> chat_input (ct_write turn) data c1))"

fun run_chat_loop :: "string \<Rightarrow> chat_turn list \<Rightarrow> cli \<Rightarrow> chat_exit_code_t option \<times> cli" where
  "run_chat_loop peer [] c = (None, c)"
| "run_chat_loop peer (turn # turns) c =
     (case chat_turn_step peer turn c of
        (Some code, c1) \<Rightarrow> (Some code, c1)
      | (None, c1) \<Rightarrow> run_chat_loop peer turns c1)"

section \<open>Opening a chat\<close>

text \<open>The answers of the daemon other than an established session.\<close>

definition refuse_chat :: "string \<Rightarrow> string \<Rightarrow> cli \<Rightarrow> chat_exit_code_t \<times> cli" where
  "refuse_chat peer response c =
     (if prefix ''USER_OFFLINE '' response then (CHAT_EXIT_USER_OFFLINE, say (peer @ '' is offline.'') c)
      else if prefix ''USER_ONLINE '' response
        then (CHAT_EXIT_CONNECTION_FAILED, say (peer @ '' is online, but the connection could not be established.'') c)
      else if prefix ''ICE_CONNECTED '' response
        then (CHAT_EXIT_CONNECTION_FAILED,
              say ''Encrypted session is not fully established.'' (say (''Connected to '' @ peer @ '' [direct P2P]'') c))
      else if prefix ''ICE_FAILED '' response
        then (CHAT_EXIT_CONNECTION_FAILED, say (peer @ '' is online, but the connection could not be established.'') c)
      else if prefix ''IDENTITY_MISMATCH '' response
        then (CHAT_EXIT_IDENTITY_MISMATCH,
              complain ''Connection refused.''
                (complain (peer @ [CHR 0x27] @ ''s identity key changed.'') (complain ''SECURITY ERROR:'' c)))
      else if prefix ''ERROR '' response
        then (CHAT_EXIT_GENERIC_ERROR, c\<lparr>cli_stderr := cli_stderr c @ response\<rparr>)
      else (CHAT_EXIT_GENERIC_ERROR, complain ''Unexpected response from chatd.'' c))"

text \<open>What follows the first answer. The result is \<open>None\<close> while the chat goes on.\<close>

definition open_answer :: "string \<Rightarrow> chat_turn list \<Rightarrow> int \<Rightarrow> string \<Rightarrow> cli \<Rightarrow> chat_exit_code_t option \<times> cli" where
  "open_answer peer turns fd response c =
     (if prefix ''ENCRYPTED_SESSION '' response then
        (case run_chat_loop peer turns
                (say ''Encrypted session established.''
                  (say (''Connected to '' @ peer @ '' ['' @ network_mode_label response @ '']'') c)) of
           (None, c4) \<Rightarrow> (None, c4)
         | (Some code, c4) \<Rightarrow> (Some code, close_fd fd c4))
      else (case refuse_chat peer response c of (code, c4) \<Rightarrow> (Some code, close_fd fd c4)))"

definition command_open_chat ::
  "sock \<Rightarrow> chat_turn list \<Rightarrow> string \<Rightarrow> cli \<Rightarrow> chat_exit_code_t option \<times> cli" where
  "command_open_chat so turns peer c =
     (if \<not> valid_username peer then (Some CHAT_EXIT_GENERIC_ERROR, complain bad_username_text c)
      else
        (let c1 = say (''Connecting to '' @ peer @ ''...'') c; command = ''OPEN_CHAT '' @ peer @ [newline] in
         if \<not> snprintf_fits CHAT_IPC_MAX_COMMAND command then (Some CHAT_EXIT_GENERIC_ERROR, c1)
         else
           (let (fd, c2) = open_ipc_socket so c1 in
            if fd < 0 then (Some CHAT_EXIT_DAEMON_UNAVAILABLE, c2)
            else
              (let (rc, c3) = send_text (so_write so) command c2 in
               if rc \<noteq> 0
                 then (Some CHAT_EXIT_DAEMON_UNAVAILABLE, close_fd fd (complain ''Could not write to chatd.'' c3))
               else case read_ipc_response so CHAT_IPC_MAX_RESPONSE of
                      None \<Rightarrow> (Some CHAT_EXIT_DAEMON_UNAVAILABLE, close_fd fd (complain ''chatd did not respond.'' c3))
                    | Some response \<Rightarrow> open_answer peer turns fd response c3))))"

text \<open>\<open>main\<close>: the world the commands run in, and the dispatch on the arguments.\<close>

record ('h, 's) cli_world =
  cw_sod :: "('h, 's) sodium"
  cw_files :: file_io
  cw_seed :: bytes
  cw_contacts_io :: contacts_io
  cw_contacts :: contacts_file
  cw_sock :: sock
  cw_turns :: "chat_turn list"

definition chat_main :: "('h, 's) cli_world \<Rightarrow> string list \<Rightarrow> fs \<Rightarrow> chat_exit_code_t option \<times> fs \<times> cli" where
  "chat_main w args fs =
     (let usage = (Some CHAT_EXIT_GENERIC_ERROR, fs, print_usage cli_start) in
      case args of
        [] \<Rightarrow> usage
      | command # rest \<Rightarrow>
          if command = ''init'' then
            if length rest \<noteq> 1 then usage
            else (case command_init (cw_sod w) (cw_files w) (cw_seed w) (hd rest) fs cli_start of
                    (code, fs', c) \<Rightarrow> (Some code, fs', c))
          else if command = ''status'' then
            if rest \<noteq> [] then usage
            else (case command_status (cw_sock w) cli_start of (code, c) \<Rightarrow> (Some code, fs, c))
          else if command = ''config'' then
            if length rest \<noteq> 2 \<or> hd rest \<noteq> ''server'' then usage
            else (case command_config_server (cw_files w) (rest ! 1) fs cli_start of
                    (code, fs', c) \<Rightarrow> (Some code, fs', c))
          else if command = ''fingerprint'' then
            if length rest \<noteq> 1 then usage
            else (case command_fingerprint (cw_sod w) (cw_contacts_io w) (cw_contacts w) (hd rest) cli_start of
                    (code, c) \<Rightarrow> (Some code, fs, c))
          else if rest \<noteq> [] then usage
          else (case command_open_chat (cw_sock w) (cw_turns w) command cli_start of (code, c) \<Rightarrow> (code, fs, c)))"

end
