(* ===== verification/Client_Chat.thy ===== *)
theory Client_Chat
  imports Client Daemon_Loops Daemon_Properties
begin

text \<open>
  The client and the daemon together: a line typed at one client, through both daemons, to the
  screen of the other; what the client loses when lines arrive together; and what the exit
  codes and descriptors of a finished chat command tell.
\<close>

section \<open>The client\<close>

lemma cli_write_ok: "\<forall>n>0. 0 < wr n \<Longrightarrow> cli_write_all wr data = (0, data)"
proof (induction wr data rule: cli_write_all.induct)
  case (1 wr data)
  then show ?case by (subst cli_write_all.simps) (auto simp: Let_def not_le)
qed

lemma cli_write_result:
  "cli_write_all wr data = (rc, sent) \<Longrightarrow> prefix sent data \<and> (rc = 0 \<longrightarrow> sent = data)"
proof (induction wr data arbitrary: rc sent rule: cli_write_all.induct)
  case (1 wr data)
  show ?case
  proof (cases "data = [] \<or> wr (length data) \<le> 0")
    case True
    then show ?thesis using "1.prems" by (subst (asm) cli_write_all.simps) (auto simp: Let_def split: if_splits)
  next
    case False
    let ?n = "nat (wr (length data))"
    obtain rc' sent' where rec: "cli_write_all wr (drop ?n data) = (rc', sent')" by force
    have "rc = rc'" "sent = take ?n data @ sent'"
      using "1.prems" False rec by (subst (asm) cli_write_all.simps, simp add: Let_def)+
    moreover have "prefix sent' (drop ?n data) \<and> (rc' = 0 \<longrightarrow> sent' = drop ?n data)"
      using "1.IH" False rec by (auto simp: Let_def)
    ultimately show ?thesis by (metis append_take_drop_id same_prefix_prefix)
  qed
qed

lemma cut_line_id:
  assumes "\<forall>c \<in> set t. c \<noteq> nul \<and> c \<noteq> CHR 0x0D \<and> c \<noteq> newline"
  shows "cut_line (cstr (t @ [newline])) = t" "cut_line (t @ [newline]) = t"
proof -
  have "cstr (t @ [newline]) = t @ [newline]" using assms by (intro cstr_id) (auto simp: nul_def newline_def)
  moreover show "cut_line (t @ [newline]) = t" unfolding cut_line_def by (rule takeWhile_stop) (use assms in auto)
  ultimately show "cut_line (cstr (t @ [newline])) = t" by simp
qed

text \<open>A turn in which only the keyboard, or only the daemon, has something.\<close>

definition typed :: "(nat \<Rightarrow> int) \<Rightarrow> string \<Rightarrow> chat_turn" where
  "typed wr t = \<lparr>ct_interrupted = False, ct_poll = Poll_ready None (Some (Some (t @ [newline]))), ct_write = wr\<rparr>"

definition received :: "(nat \<Rightarrow> int) \<Rightarrow> string \<Rightarrow> chat_turn" where
  "received wr data = \<lparr>ct_interrupted = False, ct_poll = Poll_ready (Some (Some data)) None, ct_write = wr\<rparr>"

definition you_line :: "string \<Rightarrow> string" where
  "you_line t = ''you    > '' @ t @ [newline]"

definition shown_line :: "string \<Rightarrow> string \<Rightarrow> string" where
  "shown_line name t = pad6 name @ '' > '' @ t @ [newline]"

definition send_command :: "string \<Rightarrow> string" where
  "send_command t = ''SEND_MESSAGE '' @ t @ [newline]"

lemma typed_turn:
  assumes "chat_text_is_valid t" "length t \<le> 4073" "\<forall>n>0. 0 < wr n"
  shows "chat_turn_step peer (typed wr t) c =
    (None, c\<lparr>cli_sent := cli_sent c @ send_command t, cli_stdout := cli_stdout c @ you_line t\<rparr>)"
proof -
  have cut: "cut_line (cstr (t @ [newline])) = t" using assms(1) by (intro cut_line_id) (simp add: chat_text_is_valid_def)
  have "t \<noteq> []" using assms(1) by (auto simp: chat_text_is_valid_def)
  then show ?thesis
    using cut assms(2) cli_write_ok [OF assms(3)]
    by (simp add: chat_turn_step_def typed_def chat_input_def send_cli_chat_message_def send_text_def snprintf_fits_def
        say_def you_line_def send_command_def)
qed

lemma received_turn:
  assumes "\<forall>c \<in> set t. c \<noteq> nul \<and> c \<noteq> CHR 0x0D \<and> c \<noteq> newline" "\<forall>c \<in> set name. c \<noteq> nul \<and> c \<noteq> CHR '' ''"
    and "length t + length name + 11 \<le> 4096"
  shows "chat_turn_step peer (received wr (message_line name t)) c = (None, c\<lparr>cli_stdout := cli_stdout c @ shown_line name t\<rparr>)"
proof -
  have "nul \<notin> set (message_line name t)" using assms(1,2) by (auto simp: message_line_def nul_def newline_def)
  then have buf: "cstr (take 4095 (message_line name t)) = ''MESSAGE '' @ name @ CHR '' '' # t @ [newline]"
    using assms(3) by (simp add: message_line_def cstr_id)
  have name: "takeWhile (\<lambda>c. c \<noteq> CHR '' '') (name @ CHR '' '' # t @ [newline]) = name"
    by (rule takeWhile_stop) (use assms(2) in auto)
  show ?thesis
    using cut_line_id(2) [OF assms(1)] name
    by (simp add: chat_turn_step_def received_def chat_response_def buf show_message_def say_def shown_line_def Let_def)
qed

section \<open>From keyboard to screen\<close>

lemma send_command_lines:
  assumes "chat_text_is_valid t"
  shows "text_lines (cstr (send_command t)) = [''SEND_MESSAGE '' @ t]"
proof -
  have ok: "line_char c" "c \<noteq> nul" if "c \<in> set (''SEND_MESSAGE '' @ t)" for c
    using assms that by (auto simp: chat_text_is_valid_def line_char_def newline_def nul_def)
  have "nul \<notin> set ((''SEND_MESSAGE '' @ t) @ [newline])" using ok(2) [of nul] by (auto simp: newline_def nul_def)
  then have cs: "cstr (send_command t) = (''SEND_MESSAGE '' @ t) @ [newline]" by (simp add: cstr_id send_command_def)
  have end1: "\<not> line_char newline" by (simp add: line_char_def)
  have tw: "takeWhile line_char ((''SEND_MESSAGE '' @ t) @ [newline]) = ''SEND_MESSAGE '' @ t"
    by (rule takeWhile_stop) (use ok(1) end1 in auto)
  show ?thesis
    unfolding cs by (subst text_lines_split) (simp only: tw, simp add: text_lines.simps [of "[]"])
qed

text \<open>One line typed at the client of \<open>A\<close>, carried to the screen of the client of \<open>B\<close>.\<close>

definition typed_line ::
  "('h, 's) denv \<Rightarrow> ('h, 's) denv \<Rightarrow> (nat \<Rightarrow> int) \<Rightarrow> cli \<times> 's chatd_state_t \<times> 's chatd_state_t \<times> cli \<Rightarrow> string \<Rightarrow>
   cli \<times> 's chatd_state_t \<times> 's chatd_state_t \<times> cli" where
  "typed_line envA envB wr s t =
     (let (cA, stA, stB, cB) = s;
          cA1 = snd (chat_turn_step (cd_ice_peer stA) (typed wr t) cA);
          command = drop (length (cli_sent cA)) (cli_sent cA1);
          stA1 = service_active_chat_client (envA\<lparr>de_ipc_read := (\<lambda>fd. Read_data command)\<rparr>) stA;
          stB1 = service_with envB (sent_since stA stA1) stB;
          lines = map snd (drop (length (cd_ipc_out stB)) (cd_ipc_out stB1))
      in (cA1, stA1, stB1, snd (run_chat_loop (cd_ice_peer stB) (map (received wr) lines) cB)))"

lemma send_read_env:
  "send_encrypted_chat_message t (env\<lparr>de_ipc_read := r\<rparr>) st = send_encrypted_chat_message t env st"
proof -
  have "send_ice_packet ty p (env\<lparr>de_ipc_read := r\<rparr>) s = send_ice_packet ty p env s" for ty p s
    by (simp add: send_ice_packet_def Let_def split: prod.split option.split)
  then show ?thesis by (simp add: send_encrypted_chat_message_def send_encrypted_chat_payload_def Let_def split: prod.split)
qed

lemma client_sends:
  assumes "chat_text_is_valid t" "secure st" "connected st" "0 \<le> cd_lookup_client_fd st"
    and "send_encrypted_chat_message t env st = (0, st1)"
  shows "service_active_chat_client (env\<lparr>de_ipc_read := (\<lambda>fd. Read_data (send_command t))\<rparr>) st = st1"
  using assms send_command_lines [OF assms(1)]
  by (simp add: service_active_chat_client_def client_loop_lines run_line_def send_read_env secure_def connected_def)

lemma typed_line_shown:
  assumes laws: "stream_laws sod sync" and sod: "de_sod envA = sod" "de_sod envB = sod"
    and A: "chatting envA stA" "0 \<le> cd_lookup_client_fd stA"
    and B: "chatting envB stB" "0 \<le> cd_lookup_client_fd stB" "valid_username (cd_ice_peer stB)"
    and match: "streams_match sync stA stB" and t: "deliverable envB stB t" and wr: "\<forall>n>0. 0 < wr n"
  shows "\<exists>stA1 stB1. typed_line envA envB wr (cA, stA, stB, cB) t =
      (cA\<lparr>cli_sent := cli_sent cA @ send_command t, cli_stdout := cli_stdout cA @ you_line t\<rparr>, stA1, stB1,
       cB\<lparr>cli_stdout := cli_stdout cB @ shown_line (cd_ice_peer stB) t\<rparr>)
    \<and> chatting envA stA1 \<and> chatting envB stB1 \<and> streams_match sync stA1 stB1
    \<and> cd_lookup_client_fd stA1 = cd_lookup_client_fd stA \<and> cd_lookup_client_fd stB1 = cd_lookup_client_fd stB
    \<and> cd_ice_peer stB1 = cd_ice_peer stB"
proof -
  obtain push packet pull ice where
    send: "send_encrypted_chat_message t envA stA =
       (0, stA\<lparr>cd_crypto_stream := (cd_crypto_stream stA)\<lparr>st_push := push\<rparr>, cd_ice_out := cd_ice_out stA @ [packet]\<rparr>)" (is "_ = (0, ?stA1)")
    and recv: "service_with envB [packet] stB =
       stB\<lparr>cd_ice := ice, cd_crypto_stream := (cd_crypto_stream stB)\<lparr>st_pull := pull\<rparr>,
          cd_ipc_out := cd_ipc_out stB @ [(cd_lookup_client_fd stB, message_line (cd_ice_peer stB) t)]\<rparr>" (is "_ = ?stB1")
    and kept: "quiet_link (cd_ice stB) ice" "sync push pull"
    by (rule message_step [OF laws sod A(1) B(1,2) match t])
  have valid: "chat_text_is_valid t" "length t \<le> 4073" "length t + length (cd_ice_peer stB) + 11 \<le> 4096"
    using t by (simp_all add: deliverable_def)
  have chars: "\<forall>c \<in> set t. c \<noteq> nul \<and> c \<noteq> CHR 0x0D \<and> c \<noteq> newline" using valid(1) by (simp add: chat_text_is_valid_def)
  have no: "\<not> username_char_ok nul" "\<not> username_char_ok (CHR '' '')"
    by (simp_all add: username_char_ok_def is_alnum_def char_code_def nul_def Let_def)
  have name: "\<forall>c \<in> set (cd_ice_peer stB). c \<noteq> nul \<and> c \<noteq> CHR '' ''"
  proof (intro ballI)
    fix c assume "c \<in> set (cd_ice_peer stB)"
    then have "username_char_ok c" using valid_username_chars [OF B(3)] by simp
    then show "c \<noteq> nul \<and> c \<noteq> CHR '' ''" using no by auto
  qed
  have client: "service_active_chat_client (envA\<lparr>de_ipc_read := (\<lambda>fd. Read_data (send_command t))\<rparr>) stA = ?stA1"
    using client_sends [OF valid(1) _ _ A(2) send] A(1) by (simp add: chatting_def)
  have since: "sent_since stA ?stA1 = [packet]" by (simp add: sent_since_def)
  have "typed_line envA envB wr (cA, stA, stB, cB) t =
      (cA\<lparr>cli_sent := cli_sent cA @ send_command t, cli_stdout := cli_stdout cA @ you_line t\<rparr>, ?stA1, ?stB1,
       cB\<lparr>cli_stdout := cli_stdout cB @ shown_line (cd_ice_peer stB) t\<rparr>)"
    using client since recv received_turn [OF chars name] valid(3)
    by (simp add: typed_line_def typed_turn [OF valid(1,2) wr])
  then show ?thesis
    using message_step_kept [OF A(1) B(1) match kept] by auto
qed

lemma typed_lines_shown:
  assumes laws: "stream_laws sod sync" and sod: "de_sod envA = sod" "de_sod envB = sod" and wr: "\<forall>n>0. 0 < wr n"
  shows "chatting envA stA \<Longrightarrow> 0 \<le> cd_lookup_client_fd stA \<Longrightarrow> chatting envB stB \<Longrightarrow> 0 \<le> cd_lookup_client_fd stB \<Longrightarrow>
    valid_username (cd_ice_peer stB) \<Longrightarrow> streams_match sync stA stB \<Longrightarrow> \<forall>t \<in> set ts. deliverable envB stB t \<Longrightarrow>
    foldl (typed_line envA envB wr) (cA, stA, stB, cB) ts = (cA', stA', stB', cB') \<Longrightarrow>
    cli_stdout cA' = cli_stdout cA @ concat (map you_line ts)
    \<and> cli_stdout cB' = cli_stdout cB @ concat (map (shown_line (cd_ice_peer stB)) ts)
    \<and> chatting envA stA' \<and> chatting envB stB' \<and> streams_match sync stA' stB'"
proof (induction ts arbitrary: cA stA stB cB)
  case (Cons t ts)
  have t: "deliverable envB stB t" using Cons.prems(7) by simp
  obtain stA1 stB1 where step: "typed_line envA envB wr (cA, stA, stB, cB) t =
      (cA\<lparr>cli_sent := cli_sent cA @ send_command t, cli_stdout := cli_stdout cA @ you_line t\<rparr>, stA1, stB1,
       cB\<lparr>cli_stdout := cli_stdout cB @ shown_line (cd_ice_peer stB) t\<rparr>)"
    and next1: "chatting envA stA1" "chatting envB stB1" "streams_match sync stA1 stB1"
    "cd_lookup_client_fd stA1 = cd_lookup_client_fd stA" "cd_lookup_client_fd stB1 = cd_lookup_client_fd stB"
    "cd_ice_peer stB1 = cd_ice_peer stB"
    using typed_line_shown [OF laws sod Cons.prems(1-6) t wr, of cA cB] by blast
  have rest: "foldl (typed_line envA envB wr) (cA\<lparr>cli_sent := cli_sent cA @ send_command t, cli_stdout := cli_stdout cA @ you_line t\<rparr>,
      stA1, stB1, cB\<lparr>cli_stdout := cli_stdout cB @ shown_line (cd_ice_peer stB) t\<rparr>) ts = (cA', stA', stB', cB')"
    using Cons.prems(8) by (simp add: step)
  have "\<forall>t \<in> set ts. deliverable envB stB1 t" using Cons.prems(7) next1 by (simp add: deliverable_def)
  from Cons.IH [OF next1(1) _ next1(2) _ _ next1(3) this rest] show ?case using Cons.prems next1 by simp
qed simp

section \<open>Properties\<close>

text \<open>
  From keyboard to screen: with two connected clients and daemons in matching encrypted
  sessions, every line typed at one client (a valid text that fits) is echoed there, sent to its
  daemon as a command, encrypted, delivered and shown on the other screen with the sender's name,
  all lines in order; afterwards the sessions still match.
\<close>

theorem typed_text_displayed:
  assumes "stream_laws sod sync" and "de_sod envA = sod" and "de_sod envB = sod" and "\<forall>n>0. 0 < wr n"
    and "chatting envA stA" and "0 \<le> cd_lookup_client_fd stA"
    and "chatting envB stB" and "0 \<le> cd_lookup_client_fd stB" and "valid_username (cd_ice_peer stB)"
    and "streams_match sync stA stB" and "\<forall>t \<in> set ts. deliverable envB stB t"
    and "foldl (typed_line envA envB wr) (cA, stA, stB, cB) ts = (cA', stA', stB', cB')"
  shows "cli_stdout cA' = cli_stdout cA @ concat (map you_line ts)
    \<and> cli_stdout cB' = cli_stdout cB @ concat (map (shown_line (cd_ice_peer stB)) ts)
    \<and> chatting envA stA' \<and> chatting envB stB' \<and> streams_match sync stA' stB'"
  using typed_lines_shown [OF assms] .

theorem typed_text_displayed_witness:
  "case foldl (typed_line demo_env demo_env int)
       (cli_start, demo_secure (sample_identity ''alice'' 7) (sample_identity ''bob'' 8),
        demo_secure (sample_identity ''bob'' 8) (sample_identity ''alice'' 7), cli_start) [''hi'', ''bye''] of
     (cA, stA, stB, cB) \<Rightarrow>
       cli_stdout cB = ''alice  > hi'' @ [newline] @ ''alice  > bye'' @ [newline]"
proof -
  let ?A = "demo_secure (sample_identity ''alice'' 7) (sample_identity ''bob'' 8)"
  let ?B = "demo_secure (sample_identity ''bob'' 8) (sample_identity ''alice'' 7)"
  obtain cA stA stB cB where f: "foldl (typed_line demo_env demo_env int) (cli_start, ?A, ?B, cli_start) [''hi'', ''bye''] = (cA, stA, stB, cB)"
    using prod_cases4 by blast
  have b: "cd_lookup_client_fd ?A = 7" "cd_lookup_client_fd ?B = 7" "cd_ice_peer ?B = ''alice''" "de_sod demo_env = demo"
    by (simp_all add: demo_secure_def demo_session_def sample_identity_def chatd_initial_def demo_env_def)
  have d: "\<forall>t \<in> set [''hi'', ''bye'']. deliverable demo_env ?B t"
    by (simp add: deliverable_def b chat_text_is_valid_def newline_def nul_def demo_env_def)
  have n: "valid_username (cd_ice_peer ?B)" "\<forall>n>0. 0 < int n" using contacts_names by (simp_all add: b)
  from typed_text_displayed [OF demo_stream_laws b(4) b(4) n(2) demo_secure_ok(1) _ demo_secure_ok(1) _ n(1) demo_secure_ok(2) d f]
  show ?thesis unfolding f by (simp add: b cli_start_def shown_line_def pad6_def)
qed

text \<open>
  C37. Lost messages: the client treats whatever one \<open>read\<close> delivers as a single response, so when
  the daemon has written more than one message line before the client reads, only the first is
  shown and everything after it is dropped.
\<close>

theorem coalesced_messages_lost:
  assumes "\<forall>c \<in> set t. c \<noteq> nul \<and> c \<noteq> CHR 0x0D \<and> c \<noteq> newline" "\<forall>c \<in> set name. c \<noteq> nul \<and> c \<noteq> CHR '' ''"
    and "nul \<notin> set more_lines" "length (message_line name t @ more_lines) < CHAT_IPC_MAX_RESPONSE"
  shows "chat_turn_step peer (received wr (message_line name t @ more_lines)) c =
    (None, c\<lparr>cli_stdout := cli_stdout c @ shown_line name t\<rparr>)"
proof -
  have "nul \<notin> set (message_line name t @ more_lines)" using assms(1-3) by (auto simp: message_line_def nul_def newline_def)
  then have "cstr (take (CHAT_IPC_MAX_RESPONSE - 1) (message_line name t @ more_lines)) = message_line name t @ more_lines"
    using cstr_id assms(4) by (subst take_all) simp_all
  then have buf: "cstr (take (CHAT_IPC_MAX_RESPONSE - 1) (message_line name t @ more_lines)) =
      ''MESSAGE '' @ name @ CHR '' '' # t @ newline # more_lines"
    by (simp add: message_line_def)
  have name: "takeWhile (\<lambda>c. c \<noteq> CHR '' '') (name @ CHR '' '' # t @ newline # more_lines) = name"
    by (rule takeWhile_stop) (use assms(2) in auto)
  have cut: "cut_line (t @ newline # more_lines) = t" unfolding cut_line_def by (rule takeWhile_stop) (use assms(1) in auto)
  have "chat_response peer (Some (message_line name t @ more_lines)) c = (None, True, c\<lparr>cli_stdout := cli_stdout c @ shown_line name t\<rparr>)"
    unfolding chat_response_def option.case Let_def buf
    by (simp add: show_message_def say_def shown_line_def Let_def name cut)
  then show ?thesis by (simp add: chat_turn_step_def received_def)
qed

theorem coalesced_messages_lost_witness:
  "chat_turn_step ''bob'' (received int (message_line ''bob'' ''one'' @ message_line ''bob'' ''two'')) cli_start =
    (None, cli_start\<lparr>cli_stdout := ''bob    > one'' @ [newline]\<rparr>)"
proof -
  have "nul \<notin> set (message_line ''bob'' ''two'')" by (simp add: message_line_def nul_def newline_def)
  from coalesced_messages_lost [OF _ _ this, of "''one''" "''bob''" "''bob''" int cli_start] show ?thesis
    by (simp add: message_line_def nul_def newline_def cli_start_def shown_line_def pad6_def numeral_3_eq_3)
qed

section \<open>Exit codes and descriptors\<close>

lemma cli_fds_kept [simp]:
  "cli_fds (say l c) = cli_fds c" "cli_fds (complain l c) = cli_fds c" "cli_fds (snd (send_text wr d c)) = cli_fds c"
  "cli_fds (snd (send_cli_chat_message wr l c)) = cli_fds c" "cli_fds (close_chat wr c) = cli_fds c"
  "cli_fds (show_message r c) = cli_fds c"
  by (simp_all add: say_def complain_def send_text_def send_cli_chat_message_def close_chat_def show_message_def Let_def
      case_prod_unfold)

abbreviation chat_codes :: "chat_exit_code_t option set" where
  "chat_codes \<equiv> {None, Some CHAT_EXIT_SUCCESS, Some CHAT_EXIT_GENERIC_ERROR}"

lemma turn_effect:
  "cli_fds (snd (chat_turn_step peer turn c)) = cli_fds c" "fst (chat_turn_step peer turn c) \<in> chat_codes"
proof -
  have resp: "cli_fds (snd (snd (chat_response peer d c))) = cli_fds c" "fst (chat_response peer d c) \<in> chat_codes" for d c
    by (auto simp: chat_response_def Let_def split: option.split)
  have inp: "cli_fds (snd (chat_input wr d c)) = cli_fds c" "fst (chat_input wr d c) \<in> chat_codes" for wr d c
    by (auto simp: chat_input_def Let_def case_prod_unfold split: option.split)
  show "cli_fds (snd (chat_turn_step peer turn c)) = cli_fds c"
    by (simp add: chat_turn_step_def Let_def case_prod_unfold resp inp split: poll_outcome.split option.split)
  show "fst (chat_turn_step peer turn c) \<in> chat_codes"
    using resp(2) inp(2) by (simp add: chat_turn_step_def Let_def case_prod_unfold split: poll_outcome.split option.split)
qed

lemma loop_effect:
  "cli_fds (snd (run_chat_loop peer turns c)) = cli_fds c" "fst (run_chat_loop peer turns c) \<in> chat_codes"
proof (induction turns arbitrary: c)
  case (Cons turn turns)
  {
    case 1
    then show ?case using turn_effect(1) [of peer turn c] Cons.IH(1) by (auto split: prod.split option.split)
  next
    case 2
    then show ?case using turn_effect(2) [of peer turn c] Cons.IH(2) by (auto split: prod.split option.split)
  }
qed simp_all

lemma open_socket_effect:
  assumes "open_ipc_socket so c = (fd, c1)"
  shows "fd < 0 \<Longrightarrow> cli_fds c1 = cli_fds c \<or> (\<exists>fd'\<ge>0. cli_fds c1 = cli_fds c @ [Fd_open fd', Fd_close fd'])"
    "0 \<le> fd \<Longrightarrow> cli_fds c1 = cli_fds c @ [Fd_open fd]"
  using assms by (auto simp: open_ipc_socket_def close_fd_def complain_def Let_def split: sum.splits if_splits)

lemma refuse_effect:
  "cli_fds (snd (refuse_chat peer r c)) = cli_fds c" "fst (refuse_chat peer r c) \<noteq> CHAT_EXIT_SUCCESS"
  "fst (refuse_chat peer r c) = CHAT_EXIT_IDENTITY_MISMATCH \<longleftrightarrow> prefix ''IDENTITY_MISMATCH '' r"
  by (auto simp: refuse_chat_def prefix_def)

lemma open_answer_effect:
  assumes "open_answer peer turns fd response c = (Some code, c')"
  shows "cli_fds c' = cli_fds c @ [Fd_close fd] \<and> (code = CHAT_EXIT_SUCCESS \<longrightarrow> prefix ''ENCRYPTED_SESSION '' response)
    \<and> (code = CHAT_EXIT_IDENTITY_MISMATCH \<longleftrightarrow> prefix ''IDENTITY_MISMATCH '' response)"
proof (cases "prefix ''ENCRYPTED_SESSION '' response")
  case True
  let ?c = "say ''Encrypted session established.'' (say (''Connected to '' @ peer @ '' ['' @ network_mode_label response @ '']'') c)"
  obtain k c4 where k: "run_chat_loop peer turns ?c = (k, c4)" by force
  have "k = Some code" "c' = close_fd fd c4" using assms True k by (auto simp: open_answer_def split: option.splits)
  moreover have "cli_fds c4 = cli_fds c" "k \<in> chat_codes" using loop_effect [of peer turns ?c, unfolded k] by simp_all
  moreover have "\<not> prefix ''IDENTITY_MISMATCH '' response" using True by (auto simp: prefix_def)
  ultimately show ?thesis using True by (auto simp: close_fd_def)
next
  case False
  then show ?thesis using assms refuse_effect [of peer response c] by (auto simp: open_answer_def close_fd_def split: prod.splits)
qed

text \<open>
  C29. What a finished chat command tells: every descriptor it opened is closed exactly once, it
  exits with success only after the daemon reported an encrypted session, and with the code for a
  changed identity key only when the daemon reported one.
\<close>

theorem client_exit_sound:
  assumes "command_open_chat so turns peer c = (Some code, c')"
  shows "(cli_fds c' = cli_fds c \<or> (\<exists>fd\<ge>0. cli_fds c' = cli_fds c @ [Fd_open fd, Fd_close fd]))
    \<and> (code = CHAT_EXIT_SUCCESS \<longrightarrow> (\<exists>r. read_ipc_response so CHAT_IPC_MAX_RESPONSE = Some r \<and> prefix ''ENCRYPTED_SESSION '' r))
    \<and> (code = CHAT_EXIT_IDENTITY_MISMATCH \<longrightarrow> (\<exists>r. read_ipc_response so CHAT_IPC_MAX_RESPONSE = Some r \<and> prefix ''IDENTITY_MISMATCH '' r))"
proof (cases "valid_username peer")
  case False
  then show ?thesis using assms by (auto simp: command_open_chat_def)
next
  case True
  define c1 where "c1 = say (''Connecting to '' @ peer @ ''...'') c"
  obtain fd c2 where o: "open_ipc_socket so c1 = (fd, c2)" by force
  obtain rc c3 where s: "send_text (so_write so) (''OPEN_CHAT '' @ peer @ [newline]) c2 = (rc, c3)" by force
  have fds: "cli_fds c1 = cli_fds c" "cli_fds c3 = cli_fds c2"
    using cli_fds_kept(3) [of "so_write so" "''OPEN_CHAT '' @ peer @ [newline]" c2] unfolding s by (simp_all add: c1_def)
  have fits: "snprintf_fits CHAT_IPC_MAX_COMMAND (''OPEN_CHAT '' @ peer @ [newline])"
    using True by (simp add: snprintf_fits_def valid_username_iff)
  have eq: "(Some code, c') =
      (if fd < 0 then (Some CHAT_EXIT_DAEMON_UNAVAILABLE, c2)
       else if rc \<noteq> 0 then (Some CHAT_EXIT_DAEMON_UNAVAILABLE, close_fd fd (complain ''Could not write to chatd.'' c3))
       else case read_ipc_response so CHAT_IPC_MAX_RESPONSE of
              None \<Rightarrow> (Some CHAT_EXIT_DAEMON_UNAVAILABLE, close_fd fd (complain ''chatd did not respond.'' c3))
            | Some r \<Rightarrow> open_answer peer turns fd r c3)"
    using assms True fits
    by (simp only: command_open_chat_def o s c1_def [symmetric] Let_def prod.case not_True_eq_False if_False)
  note opened = open_socket_effect [OF o]
  show ?thesis
  proof (cases "fd < 0 \<or> rc \<noteq> 0 \<or> read_ipc_response so CHAT_IPC_MAX_RESPONSE = None")
    case True
    then show ?thesis using eq opened fds by (auto simp: close_fd_def complain_def not_less split: if_splits option.splits)
  next
    case False
    then obtain r where r: "read_ipc_response so CHAT_IPC_MAX_RESPONSE = Some r" "open_answer peer turns fd r c3 = (Some code, c')"
      using eq by (auto split: if_splits)
    then show ?thesis using open_answer_effect [OF r(2)] opened(2) fds False by (simp add: not_less)
  qed
qed

definition mismatch_sock :: sock where
  "mismatch_sock =
     \<lparr>so_getenv = (\<lambda>k. if k = ''XDG_RUNTIME_DIR'' then Some ''/run'' else None), so_socket = 3, so_error = [],
       so_connect_ok = True, so_write = int, so_poll = 1, so_read = Some (''IDENTITY_MISMATCH bob'' @ [newline])\<rparr>"

theorem client_exit_sound_witness:
  "fst (command_open_chat mismatch_sock [] ''bob'' cli_start) = Some CHAT_EXIT_IDENTITY_MISMATCH
   \<and> (\<exists>r. read_ipc_response mismatch_sock CHAT_IPC_MAX_RESPONSE = Some r \<and> prefix ''IDENTITY_MISMATCH '' r)"
proof -
  obtain code c' where run: "command_open_chat mismatch_sock [] ''bob'' cli_start = (code, c')" by force
  have "fst (command_open_chat mismatch_sock [] ''bob'' cli_start) = Some CHAT_EXIT_IDENTITY_MISMATCH" by code_simp
  then have "code = Some CHAT_EXIT_IDENTITY_MISMATCH" by (simp add: run)
  then show ?thesis using client_exit_sound [of mismatch_sock "[]" "''bob''" cli_start CHAT_EXIT_IDENTITY_MISMATCH c'] run by simp
qed

end
