(* ===== verification/System_Session.thy ===== *)
theory System_Session
  imports System_Chat Client_Chat
begin

text \<open>
  The whole way of two daemons to an encrypted session: login, the chat request and its answer,
  the exchange of session descriptions through the server, the connection and the key exchange.
\<close>

section \<open>Session descriptions through the server\<close>

lemma ice_forwarded:
  assumes "base64_laws sod" "link_name u" "link_name v" "signal_id sid" "sdp_ok sdp" "online_at s u pk w"
  shows "server_callback sod (Ev_receive w (ice_msg sod u v sid sdp) 0 True rnd) s = forward_to_target w v (ice_msg sod u v sid sdp) s"
proof -
  note msg = ice_msg_fields [OF assms(1-5)]
  obtain x sess where on: "reg_lookup (sv_users s) u = Some x" "sv_sessions s w = Some sess" "ss_authenticated sess" "ss_username sess = u"
    using assms(6) by (auto simp: online_at_def)
  have sid: "json_get_string (ice_msg sod u v sid sdp) ''session_id'' 128 = Some sid"
    by (rule json_get_string_larger [OF msg(4)]) simp
  have valid: "valid_username u" "valid_username v" using assms(2,3) by (simp_all add: link_name_def signal_name_def)
  have "handle_signaling_forward sod w (ice_msg sod u v sid sdp) ''ice_credentials'' s = forward_to_target w v (ice_msg sod u v sid sdp) s"
    using on valid assms(4) by (simp add: handle_signaling_forward_def msg(2,3) sid signal_id_def)
  then show ?thesis
    by (simp only: receive_whole [OF msg(6,7)]) (simp add: handle_message_def msg(1) signaling_type_is_supported_def)
qed

definition describe_via ::
  "bytes \<Rightarrow> nat \<Rightarrow> nat \<Rightarrow> ('h, 's) denv \<Rightarrow> ('h, 's) denv \<Rightarrow> 's chatd_state_t \<Rightarrow> 's chatd_state_t \<Rightarrow> server \<Rightarrow>
   ('s chatd_state_t \<times> 's chatd_state_t \<times> server) option" where
  "describe_via rnd wA wB envA envB stA stB s =
     (let stA1 = flush envA (service_events envA [gathered stA] stA) in
      Option.bind (relay (de_sod envA) rnd wA wB (last (cd_control_out stA1)) s) (\<lambda>(inB, s1).
        let stB1 = fold (receive_text envB) inB stB;
            stB2 = flush envB (service_events envB [gathered stB1] stB1) in
        map_option (\<lambda>(inA, s2). (fold (receive_text envA) inA stA1, stB2, s2))
          (relay (de_sod envA) rnd wB wA (last (cd_control_out stB2)) s1)))"

lemma describe_via_server:
  assumes "base64_laws (de_sod envA)" "link_name (id_username A)" "link_name (id_username B)" "signal_id sid" "sdp_ok sdpA" "sdp_ok sdpB"
    and "length rnd = 32" "id_username B \<noteq> id_username A"
    and "online_at s (id_username A) pkA wA" "online_at s (id_username B) pkB wB" "idle_at wA s" "idle_at wB s"
    and texts: "last (cd_control_out (flush envA (service_events envA [gathered stA] stA))) = ice_msg (de_sod envA) (id_username A) (id_username B) sid sdpA"
      "last (cd_control_out stB') = ice_msg (de_sod envA) (id_username B) (id_username A) sid sdpB"
    and "describe_both envA envB stA stB = (stA', stB')"
  obtains s' where "describe_via rnd wA wB envA envB stA stB s = Some (stA', stB', s')"
    "online_at s' (id_username A) pkA wA" "online_at s' (id_username B) pkB wB"
proof -
  let ?msgA = "ice_msg (de_sod envA) (id_username A) (id_username B) sid sdpA"
  let ?msgB = "ice_msg (de_sod envA) (id_username B) (id_username A) sid sdpB"
  note mA = ice_msg_fields(7,8) [OF assms(1,2,3,4,5)] and mB = ice_msg_fields(7,8) [OF assms(1,3,2,4,6)]
  obtain s1 where s1: "relay (de_sod envA) rnd wA wB ?msgA s = Some ([?msgA], s1)" "online_at s1 (id_username A) pkA wA"
    "online_at s1 (id_username B) pkB wB" "idle_at wA s1"
    using relay_forwarded [OF ice_forwarded [OF assms(1-5,9)] mA assms(7,9,10,12)] assms(8,11) by metis
  obtain s2 where s2: "relay (de_sod envA) rnd wB wA ?msgB s1 = Some ([?msgB], s2)" "online_at s2 (id_username B) pkB wB"
    "online_at s2 (id_username A) pkA wA"
    using relay_forwarded [OF ice_forwarded [OF assms(1,3,2,4,6) s1(3)] mB assms(7) s1(3,2,4)] assms(8) by metis
  have st: "stB' = flush envB (service_events envB [gathered (receive_text envB ?msgA stB)] (receive_text envB ?msgA stB))"
    "stA' = receive_text envA ?msgB (flush envA (service_events envA [gathered stA] stA))"
    using assms(15) texts by (auto simp: describe_both_def Let_def)
  have "describe_via rnd wA wB envA envB stA stB s = Some (stA', stB', s2)"
    using texts s1(1) s2(1) by (simp add: describe_via_def Let_def st)
  then show thesis using s2(2,3) that by blast
qed

section \<open>From two fresh daemons to an encrypted session\<close>

definition establish ::
  "bytes \<Rightarrow> ('h, 's) denv \<Rightarrow> nat \<Rightarrow> nat \<Rightarrow> 's chatd_state_t \<Rightarrow> ('h, 's) denv \<Rightarrow> nat \<Rightarrow> nat \<Rightarrow> 's chatd_state_t \<Rightarrow>
   int \<Rightarrow> string \<Rightarrow> server \<Rightarrow> ('s chatd_state_t \<times> 's chatd_state_t \<times> server) option" where
  "establish rnd envA wsiA wA stA envB wsiB wB stB fd v s =
     Option.bind (meet rnd envA wsiA wA stA envB wsiB wB stB fd v s) (\<lambda>(stA1, stB1, s1).
     map_option (\<lambda>(stA2, stB2, s2). let (stA3, stB3) = connect_both envA envB stA2 stB2 in (stA3, stB3, s2))
       (describe_via rnd wA wB envA envB stA1 stB1 s1))"

text \<open>The agents of both daemons run, describe themselves and accept each other's description.\<close>

definition reachable_peers :: "('h, 's) denv \<Rightarrow> ('h, 's) denv \<Rightarrow> nat \<Rightarrow> bool" where
  "reachable_peers envA envB t \<longleftrightarrow> de_time envA = (\<lambda>_. t) \<and> de_time envB = (\<lambda>_. t) \<and>
     (\<exists>sdpA sdpB. sdp_ok sdpA \<and> sdp_ok sdpB \<and> agent_links (de_nice envA) sdpA sdpB \<and> agent_links (de_nice envB) sdpB sdpA)"

text \<open>Two daemons that have just started, with different names that are free at the server and that
  are none of the protocol's keys, no other key pinned for each other, and ICE agents that reach
  each other; and a server in any reachable state with two unused connections.\<close>

definition can_meet ::
  "('h, 's) sodium \<Rightarrow> nat \<Rightarrow> bytes \<Rightarrow> ('h, 's) denv \<Rightarrow> chat_identity_t \<Rightarrow> nat \<Rightarrow> 's chatd_state_t \<Rightarrow>
   ('h, 's) denv \<Rightarrow> chat_identity_t \<Rightarrow> nat \<Rightarrow> 's chatd_state_t \<Rightarrow> server \<Rightarrow> bool" where
  "can_meet sod t rnd envA A wA stA envB B wB stB s \<longleftrightarrow> de_sod envA = sod \<and> de_sod envB = sod
     \<and> fresh_daemon envA A stA \<and> fresh_daemon envB B stB \<and> id_username B \<noteq> id_username A
     \<and> id_username A \<noteq> ''sdp'' \<and> id_username B \<noteq> ''sdp''
     \<and> trusted sod (cd_contacts_db stA) (id_username B) (id_public_key B)
     \<and> trusted sod (cd_contacts_db stB) (id_username A) (id_public_key A)
     \<and> can_gather envA True stA \<and> can_gather envB False stB \<and> reachable_peers envA envB t
     \<and> length rnd = CHAT_SERVER_CHALLENGE_BYTES \<and> length (de_session_id envA) = CHATD_SESSION_ID_BYTES
     \<and> server_reachable sod s \<and> sv_sessions s wA = None \<and> sv_sessions s wB = None \<and> wA \<noteq> wB
     \<and> Suc (reg_count (sv_users s)) < CHAT_SERVER_MAX_USERS \<and> name_free s A \<and> name_free s B"

lemma can_meetD:
  assumes "can_meet sod t rnd envA A wA stA envB B wB stB s"
  shows "de_sod envA = sod" "de_sod envB = sod"
    "fresh_daemon envA A stA" "fresh_daemon envB B stB" "id_username B \<noteq> id_username A"
    "length rnd = CHAT_SERVER_CHALLENGE_BYTES" "length (de_session_id envA) = CHATD_SESSION_ID_BYTES"
    "server_reachable sod s" "sv_sessions s wA = None" "sv_sessions s wB = None" "wA \<noteq> wB"
    "Suc (reg_count (sv_users s)) < CHAT_SERVER_MAX_USERS" "name_free s A" "name_free s B"
    "trusted sod (cd_contacts_db stA) (id_username B) (id_public_key B)" "trusted sod (cd_contacts_db stB) (id_username A) (id_public_key A)"
    "can_gather envA True stA" "can_gather envB False stB"
  using assms by (simp_all add: can_meet_def)

lemma session_established:
  assumes "crypto_laws sod sync" "hex_laws sod" "base64_laws sod" "can_meet sod t rnd envA A wA stA envB B wB stB s" "0 \<le> fd"
  obtains stA' stB' s' sid where "establish rnd envA wsiA wA stA envB wsiB wB stB fd (id_username B) s = Some (stA', stB', s')"
    "chatting envA stA'" "chatting envB stB'" "streams_match sync stA' stB'" "streams_match sync stB' stA'"
    "chat_between sod A B sid CHAT_CRYPTO_ROLE_INITIATOR stA'" "chat_between sod B A sid CHAT_CRYPTO_ROLE_RESPONDER stB'"
    "cd_lookup_client_fd stA' = fd" "cd_phase stB' = CHATD_PHASE_ONLINE" "cd_control_wsi stB' \<noteq> None" "cd_lookup_client_fd stB' < 0"
proof -
  note c = assms(4) [unfolded can_meet_def]
  have sod: "de_sod envA = sod" "de_sod envB = sod" and sign: "sign_laws sod" using c assms(1) by (simp_all add: crypto_laws_def)
  obtain sdpA sdpB where sdp: "sdp_ok sdpA" "sdp_ok sdpB" "agent_links (de_nice envA) sdpA sdpB" "agent_links (de_nice envB) sdpB sdpA"
    and time: "de_time envA = (\<lambda>_. t)" "de_time envB = (\<lambda>_. t)"
    using c by (auto simp: reachable_peers_def)
  obtain stA1 stB1 s1 sid where m: "meet rnd envA wsiA wA stA envB wsiB wB stB fd (id_username B) s = Some (stA1, stB1, s1)" "signal_id sid"
    and a: "negotiating sod A B sid CHAT_CRYPTO_ROLE_INITIATOR stA1" "linking envA t stA1" "ungathered stA1" "cd_lookup_client_fd stA1 = fd"
    and b: "negotiating sod B A sid CHAT_CRYPTO_ROLE_RESPONDER stB1" "linking envB t stB1" "ungathered stB1"
      "cd_phase stB1 = CHATD_PHASE_ONLINE" "cd_lookup_client_fd stB1 < 0"
    and s1: "online_at s1 (id_username A) (id_public_key A) wA" "online_at s1 (id_username B) (id_public_key B) wB" "idle_at wA s1" "idle_at wB s1"
    using chat_opens_through_server [OF assms(2) sign sod can_meetD(3-14) [OF assms(4)] assms(5) can_meetD(15-18) [OF assms(4)] time] by blast
  have names: "link_name (id_username A)" "link_name (id_username B)" using c by (simp_all add: fresh_daemon_def link_name_def)
  have ins: "in_session A (id_username B) sid stA1" "in_session B (id_username A) sid stB1"
    using a(1) b(1) names m(2) by (simp_all add: in_session_def negotiating_def chat_between_def)
  obtain stA2 stB2 where d: "describe_both envA envB stA1 stB1 = (stA2, stB2)" by force
  note dd = describe_both_ok [OF sod assms(3) sdp(1,2) a(2,3) sdp(3) ins(1) time(1) b(2,3) sdp(4) ins(2) time(2) d]
  have rnd: "length rnd = 32" using c by simp
  obtain s2 where via: "describe_via rnd wA wB envA envB stA1 stB1 s1 = Some (stA2, stB2, s2)"
    using describe_via_server [of envA A B sid sdpA sdpB rnd s1 _ wA _ wB stA1 stB2 envB stB1 stA2]
      assms(3) sod c names m(2) sdp(1,2) rnd s1 dd d by metis
  have bt: "chat_between sod A B sid CHAT_CRYPTO_ROLE_INITIATOR stA2" "chat_between sod B A sid CHAT_CRYPTO_ROLE_RESPONDER stB2"
    using a(1) b(1) dd by (auto simp: negotiating_def intro: chat_between_same)
  obtain seedA seedB where seeds: "crypto_sign_keypair sod seedA = (id_public_key A, id_secret_key A)"
    "crypto_sign_keypair sod seedB = (id_public_key B, id_secret_key B)"
    using c by (auto simp: fresh_daemon_def)
  obtain stA3 stB3 where run: "connect_both envA envB stA2 stB2 = (stA3, stB3)" by force
  have res: "chatting envA stA3" "chatting envB stB3" "streams_match sync stA3 stB3" "streams_match sync stB3 stA3"
    "same_chat stA2 stA3" "same_chat stB2 stB3"
    using connect_both_secure [OF assms(1) sod seeds _ _ sdp(3) time(1) _ _ sdp(4) time(2) bt m(2) run] dd by blast+
  have "same_chat stA1 stA3" "same_chat stB1 stB3" using res(5,6) dd same_chat_trans by blast+
  then have fields: "cd_lookup_client_fd stA3 = fd" "cd_phase stB3 = CHATD_PHASE_ONLINE" "cd_control_wsi stB3 \<noteq> None" "cd_lookup_client_fd stB3 < 0"
    using a(4) b(2,4,5) by (simp_all add: same_chat_def linking_def)
  have "establish rnd envA wsiA wA stA envB wsiB wB stB fd (id_username B) s = Some (stA3, stB3, s2)"
    by (simp add: establish_def m(1) via run)
  from that [OF this res(1-4) chat_between_same [OF res(5) bt(1)] chat_between_same [OF res(6) bt(2)] fields] show thesis .
qed

lemma second_client_attaches:
  assumes "chatting env st" "valid_username u" "cd_ice_peer st = u" "u \<noteq> id_username (cd_identity st)"
    and "cd_phase st = CHATD_PHASE_ONLINE" "cd_control_wsi st \<noteq> None" "cd_lookup_client_fd st < 0"
  shows "\<exists>out. handle_open_chat_command fd u env st = (1, st\<lparr>cd_lookup_client_fd := fd, cd_ipc_out := out\<rparr>)"
  using assms announce_secure_out [of env "st\<lparr>cd_lookup_client_fd := fd\<rparr>"]
  by (auto simp: handle_open_chat_command_def chatting_def secure_def connected_def)

section \<open>Properties\<close>

text \<open>
  C2. From login to encryption: two daemons connect to the server and log in, the client of one
  opens a chat with the user of the other, the server carries the request, the answer and the two
  session descriptions, libnice connects the daemons and they exchange keys. When neither has
  another key pinned for its peer, both end in an encrypted session with each other's name and
  pinned identity key, the same session id and opposite roles, streams that match in both
  directions and nothing left in the receive rings.
\<close>

theorem session_through_server:
  assumes "crypto_laws sod sync" and "hex_laws sod" and "base64_laws sod"
    and "can_meet sod t rnd envA A wA stA envB B wB stB s" and "0 \<le> fd"
  shows "\<exists>stA' stB' s' sid. establish rnd envA wsiA wA stA envB wsiB wB stB fd (id_username B) s = Some (stA', stB', s')
     \<and> chatting envA stA' \<and> chatting envB stB' \<and> streams_match sync stA' stB' \<and> streams_match sync stB' stA'
     \<and> chat_between sod A B sid CHAT_CRYPTO_ROLE_INITIATOR stA' \<and> chat_between sod B A sid CHAT_CRYPTO_ROLE_RESPONDER stB'"
  by (rule session_established [OF assms]) blast

definition alice_start :: "(bytes \<times> nat) chatd_state_t" where
  "alice_start = chatd_initial demo (sample_identity ''alice'' 7) chat_ice_config_init None"

lemma demo_can_meet:
  "can_meet demo 100 sample_challenge demo_env (sample_identity ''alice'' 7) 1 alice_start demo_env (sample_identity ''bob'' 8) 2 bob_daemon idle_server"
proof -
  let ?A = "sample_identity ''alice'' 7" and ?B = "sample_identity ''bob'' 8"
  have sod: "de_sod demo_env = demo" "length (de_session_id demo_env) = CHATD_SESSION_ID_BYTES" by (simp_all add: demo_env_def)
  have inv: "contacts_inv demo None" by (auto simp: contacts_inv_def demo_hex_laws)
  have key: "\<exists>seed. crypto_sign_keypair (de_sod demo_env) seed = (id_public_key ?A, id_secret_key ?A)"
    "\<exists>seed. crypto_sign_keypair (de_sod demo_env) seed = (id_public_key ?B, id_secret_key ?B)"
    using sample_identity_keys unfolding sod by blast+
  have A: "fresh_daemon demo_env ?A alice_start" and B: "fresh_daemon demo_env ?B bob_daemon"
    unfolding fresh_daemon_def using key inv contacts_names
    by (simp_all add: alice_start_def bob_daemon_def chatd_initial_def sod good_io_ok sample_identity_def signal_name_def)
      (simp_all add: demo_env_def good_io_ok)
  have st: "id_username ?B \<noteq> id_username ?A" "name_free idle_server ?A" "name_free idle_server ?B" "(0::int) \<le> 7"
    "Suc (reg_count (sv_users idle_server)) < CHAT_SERVER_MAX_USERS" "length sample_challenge = CHAT_SERVER_CHALLENGE_BYTES" "(1::nat) \<noteq> 2"
    "trusted demo (cd_contacts_db alice_start) (id_username ?B) (id_public_key ?B)"
    "trusted demo (cd_contacts_db bob_daemon) (id_username ?A) (id_public_key ?A)" "id_username ?A \<noteq> ''sdp''" "id_username ?B \<noteq> ''sdp''"
    by (simp_all add: sample_identity_def name_free_def idle_server_facts CHAT_SERVER_MAX_USERS_def alice_start_def bob_daemon_def
        chatd_initial_def trusted_def pinned_def)
  have gather: "can_gather demo_env True alice_start" "can_gather demo_env False bob_daemon"
    using demo_start by (simp_all add: can_gather_def alice_start_def bob_daemon_def chatd_initial_def demo_env_def)
  have peers: "reachable_peers demo_env demo_env 100"
    using demo_links by (auto simp: reachable_peers_def demo_env_def)
  show ?thesis using sod A B st gather peers idle_server_facts unfolding can_meet_def by simp
qed

theorem session_through_server_witness:
  "\<exists>stA' stB' s'. establish sample_challenge demo_env 1 1 alice_start demo_env 1 2 bob_daemon 7 ''bob'' idle_server = Some (stA', stB', s')
     \<and> secure stA' \<and> secure stB' \<and> cd_ice_peer stA' = ''bob'' \<and> cd_ice_peer stB' = ''alice''"
proof -
  have names: "id_username (sample_identity ''alice'' 7) = ''alice''" "id_username (sample_identity ''bob'' 8) = ''bob''"
    by (simp_all add: sample_identity_def)
  have "(0::int) \<le> 7" by simp
  from session_through_server [OF demo_crypto_laws demo_hex_laws demo_base64_laws demo_can_meet this, of 1 1] show ?thesis
    unfolding chatting_def chat_between_def names by metis
qed

text \<open>
  C3. From login to the screen: after the same run the user of the second daemon opens the chat
  too, whose client is attached to the session, and every valid text typed at the first client
  (of at most 4053 bytes, so that it fits the line to the client) is echoed there and shown on the
  second screen with the sender's name, all texts in order.
\<close>

theorem typed_texts_reach_peer:
  assumes "crypto_laws sod sync" and "hex_laws sod" and "base64_laws sod"
    and "can_meet sod t rnd envA A wA stA envB B wB stB s" and "0 \<le> fdA" and "0 \<le> fdB"
    and "\<forall>line. de_ipc_write envB fdB line" and "\<forall>n>0. 0 < wr n" and "\<forall>x \<in> set ts. chat_text_is_valid x \<and> length x \<le> 4053"
  shows "\<exists>stA' stB' s' stB'' cA' stA2 stB2 cB'.
     establish rnd envA wsiA wA stA envB wsiB wB stB fdA (id_username B) s = Some (stA', stB', s')
     \<and> handle_open_chat_command fdB (id_username A) envB stB' = (1, stB'')
     \<and> foldl (typed_line envA envB wr) (cA, stA', stB'', cB) ts = (cA', stA2, stB2, cB')
     \<and> cli_stdout cA' = cli_stdout cA @ concat (map you_line ts)
     \<and> cli_stdout cB' = cli_stdout cB @ concat (map (shown_line (id_username A)) ts)"
proof -
  have laws: "stream_laws sod sync" and sod: "de_sod envA = sod" "de_sod envB = sod" and name: "valid_username (id_username A)" "id_username A \<noteq> id_username B"
    using assms(1,4) by (auto simp: crypto_laws_def can_meet_def fresh_daemon_def signal_name_def)
  obtain stA' stB' s' sid where e: "establish rnd envA wsiA wA stA envB wsiB wB stB fdA (id_username B) s = Some (stA', stB', s')"
    and c: "chatting envA stA'" "chatting envB stB'" "streams_match sync stA' stB'" "chat_between sod B A sid CHAT_CRYPTO_ROLE_RESPONDER stB'"
    and f: "cd_lookup_client_fd stA' = fdA" "cd_phase stB' = CHATD_PHASE_ONLINE" "cd_control_wsi stB' \<noteq> None" "cd_lookup_client_fd stB' < 0"
    by (rule session_established [OF assms(1-5)])
  have peer: "cd_ice_peer stB' = id_username A" "cd_identity stB' = B" using c(4) by (simp_all add: chat_between_def)
  obtain out where o: "handle_open_chat_command fdB (id_username A) envB stB' = (1, stB'\<lparr>cd_lookup_client_fd := fdB, cd_ipc_out := out\<rparr>)"
    using second_client_attaches [OF c(2) name(1) peer(1) _ f(2-4)] name(2) peer(2) by blast
  let ?B = "stB'\<lparr>cd_lookup_client_fd := fdB, cd_ipc_out := out\<rparr>"
  have B: "chatting envB ?B" "streams_match sync stA' ?B" "cd_ice_peer ?B = id_username A" "cd_lookup_client_fd ?B = fdB"
    using c(2,3) peer by (simp_all add: chatting_def secure_def connected_def link_up_def streams_match_def)
  have "length (id_username A) \<le> 32" using name(1) by (auto simp: valid_username_iff)
  then have d: "\<forall>x \<in> set ts. deliverable envB ?B x" using assms(7,9) B(3,4) by (auto simp: deliverable_def)
  obtain cA' stA2 stB2 cB' where run: "foldl (typed_line envA envB wr) (cA, stA', ?B, cB) ts = (cA', stA2, stB2, cB')"
    using prod_cases4 by blast
  have "cli_stdout cA' = cli_stdout cA @ concat (map you_line ts)" "cli_stdout cB' = cli_stdout cB @ concat (map (shown_line (id_username A)) ts)"
    using typed_lines_shown [OF laws sod assms(8) c(1) _ B(1) _ _ B(2) d run] B(3,4) f(1) assms(5,6) name(1) by simp_all
  then show ?thesis using e o run by blast
qed

theorem typed_texts_reach_peer_witness:
  "\<exists>cB stA stB cA stA' stB' s' stB''. establish sample_challenge demo_env 1 1 alice_start demo_env 1 2 bob_daemon 7 ''bob'' idle_server = Some (stA', stB', s')
     \<and> handle_open_chat_command 8 ''alice'' demo_env stB' = (1, stB'')
     \<and> foldl (typed_line demo_env demo_env int) (cli_start, stA', stB'', cli_start) [''hi''] = (cA, stA, stB, cB)
     \<and> cli_stdout cB = ''alice  > hi'' @ [newline]"
proof -
  have facts: "(0::int) \<le> 7" "(0::int) \<le> 8" "\<forall>line. de_ipc_write demo_env 8 line" "\<forall>n>0. 0 < int n"
    "\<forall>x \<in> set [''hi'']. chat_text_is_valid x \<and> length x \<le> 4053" "id_username (sample_identity ''alice'' 7) = ''alice''"
    "id_username (sample_identity ''bob'' 8) = ''bob''"
    by (simp_all add: demo_env_def chat_text_is_valid_def newline_def nul_def sample_identity_def)
  have shown: "cli_stdout cli_start @ concat (map (shown_line ''alice'') [''hi'']) = ''alice  > hi'' @ [newline]"
    by (simp add: cli_start_def shown_line_def pad6_def)
  from typed_texts_reach_peer [OF demo_crypto_laws demo_hex_laws demo_base64_laws demo_can_meet facts(1-5), of 1 1 cli_start cli_start]
  show ?thesis unfolding facts(6,7) shown by metis
qed

end
