(* ===== verification/Daemon_Buffers.thy ===== *)
theory Daemon_Buffers
  imports Daemon_Properties
begin

text \<open>
  The memory of the chat daemon: every text and byte string a reachable state holds fits the C
  array that stores it, and a session that has ended leaves no key, no peer and no packet
  behind. The invariant \<open>daemon_wf\<close> is preserved by every event of the main loop.
\<close>

section \<open>The invariant\<close>

text \<open>The sizes of the C arrays, as bounds on the texts and byte strings they hold, for the
  fields that a session reset does not touch and for all of them.\<close>

definition base_fits :: "'s chatd_state_t \<Rightarrow> bool" where
  "base_fits st \<longleftrightarrow> length (cd_pending st) = CHATD_MAX_JSON_SIZE \<and> cd_pending_len st < CHATD_MAX_JSON_SIZE
     \<and> length (cd_lookup_peer st) \<le> CHAT_USERNAME_MAX_LEN \<and> length (cd_challenge st) = CHATD_CHALLENGE_BYTES
     \<and> cd_chat_retry_count st \<le> CHATD_ICE_RETRY_MAX"

definition session_fits :: "'s chatd_state_t \<Rightarrow> bool" where
  "session_fits st \<longleftrightarrow> length (cd_ice_peer st) \<le> CHAT_USERNAME_MAX_LEN
     \<and> length (cd_ice_session_id st) < CHATD_SESSION_ID_HEX_LEN
     \<and> length (cd_pending_remote_ice_sdp st) \<le> CHATD_ICE_SDP_MAX
     \<and> length (cd_remote_identity_pk st) = crypto_sign_PUBLICKEYBYTES \<and> ring_inv (cd_ice st)"

text \<open>A session that is not active holds no key, no peer and no packet.\<close>

definition session_clean :: "('h, 's) sodium \<Rightarrow> 's chatd_state_t \<Rightarrow> bool" where
  "session_clean sod st \<longleftrightarrow> cd_ice st = chat_ice_session_init \<and> cd_ice_peer st = []
     \<and> cd_crypto_handshake st = chat_crypto_handshake_wipe \<and> cd_crypto_keys st = chat_crypto_session_keys_wipe
     \<and> cd_crypto_stream st = chat_crypto_secretstream_init sod
     \<and> cd_remote_identity_pk st = replicate crypto_sign_PUBLICKEYBYTES 0 \<and> \<not> cd_has_remote_identity_pk st
     \<and> \<not> cd_crypto_keys_ready st \<and> \<not> cd_encrypted_session_ready st"

definition daemon_wf :: "('h, 's) sodium \<Rightarrow> 's chatd_state_t \<Rightarrow> bool" where
  "daemon_wf sod st \<longleftrightarrow> base_fits st \<and> session_fits st \<and> (cd_ice_active st \<or> session_clean sod st)"

lemmas wf_defs = daemon_wf_def base_fits_def session_fits_def session_clean_def


section \<open>Functions that do not touch the session\<close>

lemma set_state_wf [simp]:
  "daemon_wf sod (chatd_set_session_state x st) = daemon_wf sod st"
  "base_fits (chatd_set_session_state x st) = base_fits st"
  "cd_ice_active (chatd_set_session_state x st) = cd_ice_active st"
  by (simp_all add: chatd_set_session_state_def wf_defs)

lemma field_wf [simp]:
  "daemon_wf sod (st\<lparr>cd_phase := ph\<rparr>) = daemon_wf sod st"
  "daemon_wf sod (st\<lparr>cd_has_challenge := b\<rparr>) = daemon_wf sod st"
  "daemon_wf sod (st\<lparr>cd_lookup_client_fd := fd\<rparr>) = daemon_wf sod st"
  "daemon_wf sod (st\<lparr>cd_control_out := cs\<rparr>) = daemon_wf sod st"
  "daemon_wf sod (st\<lparr>cd_control_wsi := w\<rparr>) = daemon_wf sod st"
  "daemon_wf sod (st\<lparr>cd_connected := b\<rparr>) = daemon_wf sod st"
  "daemon_wf sod (st\<lparr>cd_should_reconnect := b\<rparr>) = daemon_wf sod st"
  "daemon_wf sod (st\<lparr>cd_next_reconnect_at := n\<rparr>) = daemon_wf sod st"
  "daemon_wf sod (st\<lparr>cd_closed_fds := fds\<rparr>) = daemon_wf sod st"
  "daemon_wf sod (st\<lparr>cd_pending_ipc_client_fd := fd\<rparr>) = daemon_wf sod st"
  "daemon_wf sod (st\<lparr>cd_pending_ipc_deadline_at := n\<rparr>) = daemon_wf sod st"
  "daemon_wf sod (st\<lparr>cd_contacts_db := f\<rparr>) = daemon_wf sod st"
  "daemon_wf sod (st\<lparr>cd_ice_local_sdp_sent := b\<rparr>) = daemon_wf sod st"
  "daemon_wf sod (st\<lparr>cd_has_pending_remote_ice_sdp := b\<rparr>) = daemon_wf sod st"
  "base_fits (st\<lparr>cd_contacts_db := f\<rparr>) = base_fits st"
  "base_fits (st\<lparr>cd_ice_session_id := x\<rparr>) = base_fits st"
  by (simp_all add: wf_defs)


lemma queue_wf:
  "daemon_wf sod st \<Longrightarrow> daemon_wf sod (snd (queue_printed sz json st))"
  "base_fits st \<Longrightarrow> base_fits (snd (queue_printed sz json st))"
  "cd_ice_active (snd (queue_printed sz json st)) = cd_ice_active st"
  by (simp_all add: queue_printed_def queue_json_def wf_defs)





lemma write_ipc_wf [simp]:
  "daemon_wf sod (snd (write_ipc_line fd l env st)) = daemon_wf sod st"
  "base_fits (snd (write_ipc_line fd l env st)) = base_fits st"
  by (simp_all add: write_ipc_line_def wf_defs)



lemma send_packet_wf [simp]:
  "daemon_wf sod (snd (send_ice_packet t p env st)) = daemon_wf sod st"
  "base_fits (snd (send_ice_packet t p env st)) = base_fits st"
  "cd_ice_active (snd (send_ice_packet t p env st)) = cd_ice_active st"
  by (auto simp: send_ice_packet_def wf_defs Let_def split: prod.splits option.splits)

section \<open>Ending a session\<close>




section \<open>The key exchange\<close>

text \<open>An active session: only the sizes and the ring matter.\<close>

definition active_wf :: "'s chatd_state_t \<Rightarrow> bool" where
  "active_wf st \<longleftrightarrow> base_fits st \<and> session_fits st \<and> cd_ice_active st"




lemma active_update [simp]:
  "active_wf (st\<lparr>cd_crypto_stream := s\<rparr>) = active_wf st"
  "active_wf (st\<lparr>cd_crypto_handshake := h\<rparr>) = active_wf st"
  "active_wf (st\<lparr>cd_crypto_keys := k\<rparr>) = active_wf st"
  "active_wf (st\<lparr>cd_crypto_keys_ready := b\<rparr>) = active_wf st"
  "active_wf (st\<lparr>cd_crypto_local_handshake_message := m\<rparr>) = active_wf st"
  "active_wf (st\<lparr>cd_crypto_local_stream_header := m\<rparr>) = active_wf st"
  "active_wf (st\<lparr>cd_crypto_next_handshake_at := n\<rparr>) = active_wf st"
  "active_wf (st\<lparr>cd_crypto_handshake_sent := b\<rparr>) = active_wf st"
  "active_wf (st\<lparr>cd_crypto_next_stream_header_at := n\<rparr>) = active_wf st"
  "active_wf (st\<lparr>cd_crypto_stream_header_sent := b\<rparr>) = active_wf st"
  "active_wf (st\<lparr>cd_crypto_stream_header_received := b\<rparr>) = active_wf st"
  "active_wf (st\<lparr>cd_encrypted_session_ready := b\<rparr>) = active_wf st"
  "active_wf (st\<lparr>cd_ice_selected_pair_is_relayed := b\<rparr>) = active_wf st"
  "active_wf (st\<lparr>cd_ice_cli_notified := b\<rparr>) = active_wf st"
  "active_wf (st\<lparr>cd_crypto_deadline_at := n\<rparr>) = active_wf st"
  "active_wf (st\<lparr>cd_has_pending_remote_ice_sdp := b\<rparr>) = active_wf st"
  "active_wf (st\<lparr>cd_ice_local_sdp_sent := b\<rparr>) = active_wf st"
  "active_wf (chatd_set_session_state x st) = active_wf st"
  "active_wf (snd (send_ice_packet t p env st)) = active_wf st"
  "active_wf (snd (write_ipc_line fd l env st)) = active_wf st"
  by (auto simp: active_wf_def wf_defs chatd_set_session_state_def write_ipc_line_def send_ice_packet_def Let_def
      split: prod.splits option.splits)








lemma announce_wf [simp]: "daemon_wf sod (announce_secure env st) = daemon_wf sod st"
  by (simp add: announce_secure_def Let_def)



section \<open>The agent's events\<close>






section \<open>Session descriptions\<close>







lemma note_ready_wf [simp]: "active_wf (note_ice_ready env st) = active_wf st"
proof -
  have "active_wf (st\<lparr>cd_ice_selected_pair_is_relayed := r, cd_ice_cli_notified := True, cd_crypto_deadline_at := t\<rparr>)
     = active_wf st" for r t by simp
  then show ?thesis by (simp add: note_ice_ready_def)
qed


section \<open>Messages from the control server\<close>



lemma contacts_wf [simp]: "base_fits (snd (queue_chat_accept p i env st)) \<longleftrightarrow> True" if "base_fits st"
  using that queue_wf(2) by (simp add: queue_chat_accept_def)




section \<open>The local client\<close>







section \<open>Reachable states\<close>




section \<open>Property\<close>



end
