(* ===== verification/Daemon_Config.thy ===== *)
theory Daemon_Config
  imports Ice Identity_Config
begin

text \<open>
  \<open>daemon/main.c\<close>: the ICE configuration that \<open>main\<close> reads from the configuration file, and that every
  accepted configuration is consistent.
\<close>

section \<open>ICE configuration\<close>

definition parse_config_uint :: "string \<Rightarrow> nat option" where
  "parse_config_uint value =
     (if value = [] then None
      else let (parsed, out_of_range, end_text) = strtoul10 value in
           if end_text = value \<or> end_text \<noteq> [] \<or> parsed = 0 \<or> parsed > 65535 then None else Some parsed)"

text \<open>The code, and the text in the buffer unless the code is negative.\<close>

definition load_optional_config_value :: "file_io \<Rightarrow> fs \<Rightarrow> string \<Rightarrow> nat \<Rightarrow> int \<times> string" where
  "load_optional_config_value io fs key out_size =
     (case chat_identity_load_config_value io key out_size fs of
        Inr value \<Rightarrow> (1, value)
      | Inl err \<Rightarrow> if err = CHAT_IDENTITY_ERR_NOT_FOUND then (0, []) else (-1, []))"

definition CHAT_ICE_HOST_MAX :: nat where "CHAT_ICE_HOST_MAX = 256"
definition CHAT_ICE_TURN_USERNAME_MAX :: nat where "CHAT_ICE_TURN_USERNAME_MAX = 128"
definition CHAT_ICE_TURN_PASSWORD_MAX :: nat where "CHAT_ICE_TURN_PASSWORD_MAX = 256"

lemmas ice_config_consts [simp] =
  CHAT_ICE_HOST_MAX_def CHAT_ICE_TURN_USERNAME_MAX_def CHAT_ICE_TURN_PASSWORD_MAX_def

text \<open>The four parts of \<open>load_ice_config\<close>, each \<open>None\<close> for the return of -1.\<close>

definition load_local_address :: "file_io \<Rightarrow> fs \<Rightarrow> chat_ice_config_t \<Rightarrow> chat_ice_config_t option" where
  "load_local_address io fs config =
     (let (has, value) = load_optional_config_value io fs ''ice_local_address'' CHAT_ICE_HOST_MAX in
      if has < 0 then None
      else if has = 1 then
        if value = [] then None
        else Some (config\<lparr>ic_local_address := value, ic_has_local_address := True\<rparr>)
      else Some config)"

definition load_stun :: "file_io \<Rightarrow> fs \<Rightarrow> chat_ice_config_t \<Rightarrow> chat_ice_config_t option" where
  "load_stun io fs config =
     (let (has_host, host) = load_optional_config_value io fs ''stun_server'' CHAT_ICE_HOST_MAX;
          (has_port, port_value) = load_optional_config_value io fs ''stun_port'' 16
      in if has_host < 0 \<or> has_port < 0 then None
         else if has_host = 1 \<or> has_port = 1 then
           if has_host \<noteq> 1 \<or> has_port \<noteq> 1 then None
           else map_option (\<lambda>port. config\<lparr>ic_stun_host := host, ic_stun_port := port, ic_has_stun := True\<rparr>)
                  (parse_config_uint port_value)
         else Some config)"

definition load_turn :: "file_io \<Rightarrow> fs \<Rightarrow> chat_ice_config_t \<Rightarrow> chat_ice_config_t option" where
  "load_turn io fs config =
     (let (has_host, host) = load_optional_config_value io fs ''turn_server'' CHAT_ICE_HOST_MAX;
          (has_port, port_value) = load_optional_config_value io fs ''turn_port'' 16;
          (has_username, username) = load_optional_config_value io fs ''turn_username'' CHAT_ICE_TURN_USERNAME_MAX;
          (has_password, password) = load_optional_config_value io fs ''turn_password'' CHAT_ICE_TURN_PASSWORD_MAX
      in if has_host < 0 \<or> has_port < 0 \<or> has_username < 0 \<or> has_password < 0 then None
         else if has_host = 1 \<or> has_port = 1 \<or> has_username = 1 \<or> has_password = 1 then
           if has_host \<noteq> 1 \<or> has_port \<noteq> 1 \<or> has_username \<noteq> 1 \<or> has_password \<noteq> 1 \<or> username = [] \<or> password = []
           then None
           else map_option (\<lambda>port. config\<lparr>ic_turn_host := host, ic_turn_port := port, ic_turn_username := username,
                                          ic_turn_password := password, ic_has_turn := True\<rparr>)
                  (parse_config_uint port_value)
         else Some config)"

definition load_force_relay :: "file_io \<Rightarrow> fs \<Rightarrow> chat_ice_config_t \<Rightarrow> chat_ice_config_t option" where
  "load_force_relay io fs config =
     (let (has, value) = load_optional_config_value io fs ''ice_force_relay'' 8 in
      if has < 0 then None
      else if has = 1 then
        if value = ''true'' then if \<not> ic_has_turn config then None else Some (config\<lparr>ic_force_relay := True\<rparr>)
        else if value \<noteq> ''false'' then None else Some config
      else Some config)"

definition load_ice_config :: "file_io \<Rightarrow> fs \<Rightarrow> chat_ice_config_t option" where
  "load_ice_config io fs =
     Option.bind (load_local_address io fs chat_ice_config_init) (\<lambda>c1.
     Option.bind (load_stun io fs c1) (\<lambda>c2.
     Option.bind (load_turn io fs c2) (load_force_relay io fs)))"

definition wipe_ice_config :: "chat_ice_config_t \<Rightarrow> chat_ice_config_t" where
  "wipe_ice_config config = chat_ice_config_init"

section \<open>The accepted configurations\<close>

definition port_ok :: "nat \<Rightarrow> bool" where
  "port_ok port \<longleftrightarrow> 1 \<le> port \<and> port \<le> 65535"

lemma parse_uint_range: "parse_config_uint v = Some port \<Longrightarrow> port_ok port"
  by (auto simp: parse_config_uint_def port_ok_def Let_def split: if_splits prod.splits)

lemma optional_fits: "load_optional_config_value io fs key n = (h, v) \<Longrightarrow> v = [] \<or> length v < n"
proof -
  have copy: "chat_copy_string k x = Inr y \<Longrightarrow> length y < k" for k x y
    by (auto simp: chat_copy_string_def snprintf_fits_def split: if_splits)
  have loop: "load_value_loop e p n t = Inr y \<Longrightarrow> length y < n" for e p t y
  proof (induction e p n t arbitrary: y rule: load_value_loop.induct)
    case (1 e p n t)
    show ?case
      using copy "1.IH" "1.prems" [unfolded load_value_loop.simps [of e p n t]]
      by (auto simp: Let_def split: option.splits if_splits dest: copy)
  qed
  assume "load_optional_config_value io fs key n = (h, v)"
  then show ?thesis
    by (auto simp: load_optional_config_value_def chat_identity_load_config_value_def chat_load_quoted_config_value_def Let_def
        split: sum.splits if_splits dest!: loop)
qed

text \<open>What the ICE code relies on.\<close>

definition ice_config_ok :: "chat_ice_config_t \<Rightarrow> bool" where
  "ice_config_ok c \<longleftrightarrow> length (ic_local_address c) < CHAT_ICE_HOST_MAX \<and> length (ic_stun_host c) < CHAT_ICE_HOST_MAX
     \<and> length (ic_turn_host c) < CHAT_ICE_HOST_MAX \<and> length (ic_turn_username c) < CHAT_ICE_TURN_USERNAME_MAX
     \<and> length (ic_turn_password c) < CHAT_ICE_TURN_PASSWORD_MAX
     \<and> (ic_has_local_address c \<longrightarrow> ic_local_address c \<noteq> []) \<and> (ic_has_stun c \<longrightarrow> port_ok (ic_stun_port c))
     \<and> (ic_has_turn c \<longrightarrow> port_ok (ic_turn_port c) \<and> ic_turn_username c \<noteq> [] \<and> ic_turn_password c \<noteq> [])
     \<and> (ic_force_relay c \<longrightarrow> ic_has_turn c)"

lemma ice_config_parts:
  assumes "ice_config_ok c"
  shows "load_local_address io fs c = Some c' \<Longrightarrow> ice_config_ok c'"
    "load_stun io fs c = Some c' \<Longrightarrow> ice_config_ok c'"
    "load_turn io fs c = Some c' \<Longrightarrow> ice_config_ok c'"
    "load_force_relay io fs c = Some c' \<Longrightarrow> ice_config_ok c'"
proof -
  show "load_local_address io fs c = Some c' \<Longrightarrow> ice_config_ok c'"
    using assms by (auto simp: load_local_address_def ice_config_ok_def split: prod.splits if_splits dest!: optional_fits)
  show "load_stun io fs c = Some c' \<Longrightarrow> ice_config_ok c'"
    using assms by (auto simp: load_stun_def ice_config_ok_def split: prod.splits if_splits dest!: optional_fits parse_uint_range)
  show "ice_config_ok c'" if load: "load_turn io fs c = Some c'"
  proof -
    obtain h1 host where 1: "load_optional_config_value io fs ''turn_server'' 256 = (h1, host)" by force
    obtain h2 port_text where 2: "load_optional_config_value io fs ''turn_port'' 16 = (h2, port_text)" by force
    obtain h3 user where 3: "load_optional_config_value io fs ''turn_username'' 128 = (h3, user)" by force
    obtain h4 pass where 4: "load_optional_config_value io fs ''turn_password'' 256 = (h4, pass)" by force
    have fits: "length host < 256" "length user < 128" "length pass < 256"
      using optional_fits [OF 1] optional_fits [OF 3] optional_fits [OF 4] by auto
    have "c' = c \<or> (\<exists>port. parse_config_uint port_text = Some port \<and> user \<noteq> [] \<and> pass \<noteq> []
      \<and> c' = c\<lparr>ic_turn_host := host, ic_turn_port := port, ic_turn_username := user, ic_turn_password := pass, ic_has_turn := True\<rparr>)"
      using load by (auto simp: load_turn_def 1 2 3 4 split: if_splits)
    then show ?thesis using assms fits parse_uint_range by (auto simp: ice_config_ok_def)
  qed
  show "load_force_relay io fs c = Some c' \<Longrightarrow> ice_config_ok c'"
    using assms by (auto simp: load_force_relay_def ice_config_ok_def split: prod.splits if_splits)
qed

lemma load_ice_config_ok:
  assumes "load_ice_config io fs = Some c"
  shows "ice_config_ok c"
proof -
  obtain c1 c2 c3 where parts: "load_local_address io fs chat_ice_config_init = Some c1" "load_stun io fs c1 = Some c2"
    "load_turn io fs c2 = Some c3" "load_force_relay io fs c3 = Some c"
    using assms by (auto simp: load_ice_config_def bind_eq_Some_conv)
  have "ice_config_ok chat_ice_config_init" by (simp add: ice_config_ok_def chat_ice_config_init_def)
  from ice_config_parts(1) [OF this parts(1)] have "ice_config_ok c1" .
  from ice_config_parts(2) [OF this parts(2)] have "ice_config_ok c2" .
  from ice_config_parts(3) [OF this parts(3)] have "ice_config_ok c3" .
  from ice_config_parts(4) [OF this parts(4)] show ?thesis .
qed

section \<open>Property\<close>

text \<open>
  C30. Every ICE configuration the daemon starts with is consistent: the texts fit their buffers,
  the ports are in range, a relay has credentials, and relaying is forced only with a relay.
\<close>

theorem ice_config_consistent:
  assumes "load_ice_config io fs = Some c"
  shows "ice_config_ok c"
  using load_ice_config_ok [OF assms] .

definition stun_text :: string where
  "stun_text = ''stun_server = '' @ [CHR 0x22] @ ''stun.example'' @ [CHR 0x22, CHR 0x0A]
     @ ''stun_port = '' @ [CHR 0x22] @ ''3478'' @ [CHR 0x22, CHR 0x0A]"

definition stun_fs :: fs where
  "stun_fs = [(True, [''home'', ''chat'', ''config.toml'']) \<mapsto> Fs_file stun_text mode_0600]"

lemma stun_lines:
  "config_lines stun_text = [''stun_server = '' @ [CHR 0x22] @ ''stun.example'' @ [CHR 0x22, CHR 0x0A],
     ''stun_port = '' @ [CHR 0x22] @ ''3478'' @ [CHR 0x22, CHR 0x0A]]"
  using config_lines_concat [of "[''stun_server = '' @ [CHR 0x22] @ ''stun.example'' @ [CHR 0x22, CHR 0x0A],
     ''stun_port = '' @ [CHR 0x22] @ ''3478'' @ [CHR 0x22, CHR 0x0A]]"] by (simp add: stun_text_def)

lemma stun_values:
  "load_optional_config_value plain_io stun_fs key n =
     (if length key < 60 then
        (case lookup_lines False (value_prefix key) n (config_lines stun_text) of
           Inr v \<Rightarrow> (1, v) | Inl err \<Rightarrow> if err = CHAT_IDENTITY_ERR_NOT_FOUND then (0, []) else (-1, []))
      else (-1, []))"
proof -
  have short: "short_lines 512 stun_text" unfolding short_lines_def stun_lines by (simp add: stun_text_def nul_def)
  have io: "\<not> fi_open_fails plain_io p" "\<not> fi_stream_error plain_io p" for p by (simp_all add: plain_io_def)
  have "fs_lookup stun_fs (path_key ''/home/chat/config.toml'') = Some (Fs_file stun_text mode_0600)"
    by (simp add: plain_keys fs_lookup_def stun_fs_def)
  from load_value_at [OF plain_io_ok(3) io this short, of key n] show ?thesis
    by (simp add: load_optional_config_value_def)
qed

theorem ice_config_consistent_witness:
  "\<exists>c. load_ice_config plain_io stun_fs = Some c \<and> ic_has_stun c \<and> ic_stun_port c = 3478 \<and> ice_config_ok c"
proof -
  have "load_ice_config plain_io stun_fs = Some (chat_ice_config_init\<lparr>ic_stun_host := ''stun.example'', ic_stun_port := 3478, ic_has_stun := True\<rparr>)"
    by (simp add: load_ice_config_def load_local_address_def load_stun_def load_turn_def load_force_relay_def stun_values
        stun_lines lookup_lines_def line_value_def value_prefix_def chat_copy_string_def snprintf_fits_def parse_config_uint_def
        strtoul10_def scan_number_def scan_ws_def is_space_def is_digit_def digits_value_def char_code_def)
  from ice_config_consistent [OF this] this show ?thesis by auto
qed

end
