(* ===== verification/Daemon_Main.thy ===== *)
theory Daemon_Main
  imports Daemon_Buffers Daemon_Config Identity_Create
begin

text \<open>
  \<open>daemon/main.c\<close>, the rest: the start-up of \<open>main\<close> with everything it acquires, its loop
  with the signal handler and the wakeup thread, and its end.
\<close>

section \<open>Start and end\<close>









text \<open>One round of the main loop; \<open>flushed\<close> and \<open>due\<close> are the callbacks libwebsockets makes from
  the two calls of \<open>lws_service\<close>.\<close>

definition chatd_round ::
  "('h, 's) denv \<Rightarrow> client_callback list \<Rightarrow> client_callback list \<Rightarrow> 's chatd_state_t \<Rightarrow> 's chatd_state_t" where
  "chatd_round env flushed due st =
     (let st1 = chatd_event_step Service_ice_session env
                  (chatd_event_step Service_active_chat_client env (chatd_event_step Service_ipc env st));
          callbacks = foldl (\<lambda>s c. chatd_event_step (Control_callback c) env s);
          st2 = (if has_pending_control_message st1 \<and> cd_control_wsi st1 \<noteq> None then callbacks st1 flushed else st1)
      in chatd_event_step Reconnect env (callbacks st2 due))"

text \<open>The handler of SIGINT and SIGTERM gives the new value of \<open>g_interrupted\<close>.\<close>

definition handle_signal :: "int \<Rightarrow> bool \<Rightarrow> bool" where
  "handle_signal signal_number g_interrupted = True"

text \<open>The loop. A round comes with the answers of the environment, the callbacks of its two
  \<open>lws_service\<close> calls and the signals that arrive during it. The result is the state when the loop
  is left, \<open>None\<close> when it still runs after the given rounds.\<close>

record ('h, 's) main_round =
  mr_env :: "('h, 's) denv"
  mr_flushed :: "client_callback list"
  mr_due :: "client_callback list"
  mr_signals :: "int list"

definition run_round :: "('h, 's) main_round \<Rightarrow> 's chatd_state_t \<Rightarrow> 's chatd_state_t" where
  "run_round r = chatd_round (mr_env r) (mr_flushed r) (mr_due r)"

fun chatd_loop :: "('h, 's) main_round list \<Rightarrow> bool \<Rightarrow> 's chatd_state_t \<Rightarrow> 's chatd_state_t option" where
  "chatd_loop [] g_interrupted st =
     (if \<not> g_interrupted \<and> cd_phase st \<noteq> CHATD_PHASE_FAILED then None else Some st)"
| "chatd_loop (r # rounds) g_interrupted st =
     (if \<not> g_interrupted \<and> cd_phase st \<noteq> CHATD_PHASE_FAILED
      then chatd_loop rounds (fold handle_signal (mr_signals r) g_interrupted) (run_round r st)
      else Some st)"




section \<open>Resources\<close>






lemma clean_update [simp]:
  "session_clean sod (st\<lparr>cd_identity := i, cd_ice_config := c\<rparr>) = session_clean sod st"
  by (simp add: session_clean_def)








text \<open>A signal ends the loop at its next test.\<close>

lemma loop_interrupted [simp]: "chatd_loop rounds True st = Some st"
  by (cases rounds) simp_all




context daemon_invariant
begin

lemma round_keeps:
  assumes "good env" "inv st"
  shows "inv (chatd_round env flushed due st)"
  using assms by (simp add: chatd_round_def Let_def event_keeps callbacks_keep del: chatd_event_step.simps)

lemma rounds_keep:
  "\<forall>r \<in> set rounds. good (mr_env r) \<Longrightarrow> inv st \<Longrightarrow> inv (fold run_round rounds st)"
  by (induction rounds arbitrary: st) (auto simp: round_keeps run_round_def)

end

section \<open>Properties\<close>












end
