(* ===== verification/Client_Close.thy ===== *)
theory Client_Close
  imports Client_Chat Daemon_Buffers
begin

text \<open>
  The end of a chat: a client that leaves, its daemon, the daemon of the peer and the peer's client.
\<close>

section \<open>The daemon that closes\<close>

definition chat_ended :: "('h, 's) sodium \<Rightarrow> 's chatd_state_t \<Rightarrow> bool" where
  "chat_ended sod st \<longleftrightarrow> session_clean sod st \<and> \<not> cd_ice_active st \<and> cd_session_state st = CHATD_SESSION_CLOSED
     \<and> cd_lookup_client_fd st < 0"

lemma closed_lookup [simp]:
  "cd_lookup_client_fd (close_lookup_client st) < 0" "cd_ice_out (close_lookup_client st) = cd_ice_out st"
  "cd_ipc_out (close_lookup_client st) = cd_ipc_out st"
  by (simp_all add: close_lookup_client_def)

lemma end_chat_ended: "chat_ended (de_sod env) (end_chat CHATD_SESSION_CLOSED env st)" "cd_ice_out (end_chat x env st) = cd_ice_out st"
  by (simp_all add: chat_ended_def end_chat_def set_state_update session_clean_def)
     (simp add: reset_ice_session_def chat_ice_session_close_def chat_crypto_secretstream_wipe_def)

lemma close_sent:
  assumes "chatting env st" "st_push_initialized (cd_crypto_stream st)"
    and "secretstream_push (de_sod env) (st_push (cd_crypto_stream st)) [] secretstream_TAG_FINAL = Some (push, c)" "length c = 17"
  shows "send_encrypted_chat_close env st =
    (0, st\<lparr>cd_session_state := CHATD_SESSION_CLOSING, cd_crypto_stream := (cd_crypto_stream st)\<lparr>st_push := push\<rparr>,
           cd_ice_out := cd_ice_out st @ [wire_packet CHAT_PKT_CLOSE c]\<rparr>)"
proof -
  let ?st = "st\<lparr>cd_session_state := CHATD_SESSION_CLOSING, cd_crypto_stream := (cd_crypto_stream st)\<lparr>st_push := push\<rparr>\<rparr>"
  have "link_up env ?st" using assms(1) by (simp add: chatting_def link_up_def)
  then have "send_ice_packet CHAT_PKT_CLOSE c env ?st = (0, ?st\<lparr>cd_ice_out := cd_ice_out ?st @ [wire_packet CHAT_PKT_CLOSE c]\<rparr>)"
    using assms(4) by (intro send_ice_packet_ok) simp_all
  then show ?thesis
    using assms by (simp add: send_encrypted_chat_close_def send_encrypted_chat_payload_def chatting_def secure_def set_state_update
        chat_crypto_secretstream_encrypt_def)
qed

text \<open>The client says that it leaves, or its connection ends.\<close>

definition close_command :: string where
  "close_command = ''CLOSE_CHAT'' @ [newline]"

definition leaving :: "read_result \<Rightarrow> bool" where
  "leaving r \<longleftrightarrow> r = Read_data close_command \<or> r = Read_eof"

lemma close_command_lines: "text_lines (cstr close_command) = [''CLOSE_CHAT'']"
proof -
  have cs: "cstr close_command = ''CLOSE_CHAT'' @ [newline]" by (simp add: close_command_def cstr_id nul_def newline_def)
  have "takeWhile line_char (''CLOSE_CHAT'' @ [newline]) = ''CLOSE_CHAT''" by (simp add: line_char_def newline_def)
  then show ?thesis unfolding cs by (subst text_lines_split) (simp add: text_lines.simps [of "[]"])
qed

lemma close_read_env: "send_encrypted_chat_close (env\<lparr>de_ipc_read := r\<rparr>) st = send_encrypted_chat_close env st"
proof -
  have "send_ice_packet ty p (env\<lparr>de_ipc_read := r\<rparr>) s = send_ice_packet ty p env s" for ty p s
    by (simp add: send_ice_packet_def Let_def split: prod.split option.split)
  then show ?thesis by (simp add: send_encrypted_chat_close_def send_encrypted_chat_payload_def Let_def split: prod.split)
qed

lemma client_leaves:
  assumes "chatting env st" "0 \<le> cd_lookup_client_fd st" "leaving r"
  shows "service_active_chat_client (env\<lparr>de_ipc_read := (\<lambda>fd. r)\<rparr>) st =
    end_chat CHATD_SESSION_CLOSED (env\<lparr>de_ipc_read := (\<lambda>fd. r)\<rparr>) (snd (send_encrypted_chat_close env st))"
  using assms close_command_lines
  by (auto simp: service_active_chat_client_def leaving_def client_loop_lines close_read_env chatting_def secure_def connected_def)

section \<open>The daemon of the peer\<close>

definition closed_line :: "string \<Rightarrow> string" where
  "closed_line peer = ''CHAT_CLOSED '' @ peer @ [newline]"

lemma close_received:
  assumes "chatting env st" "st_pull_initialized (cd_crypto_stream st)" "0 \<le> cd_lookup_client_fd st" "length (cd_ice_peer st) \<le> 32"
    and "secretstream_pull (de_sod env) (st_pull (cd_crypto_stream st)) c = Some (pull, [], secretstream_TAG_FINAL)" "length c = 17"
    and "de_ipc_write env (cd_lookup_client_fd st) (closed_line (cd_ice_peer st))"
  defines "st' \<equiv> service_with env [wire_packet CHAT_PKT_CLOSE c] st"
  shows "chat_ended (de_sod env) st'" "cd_ipc_out st' = cd_ipc_out st @ [(cd_lookup_client_fd st, closed_line (cd_ice_peer st))]"
proof -
  let ?ps = "[wire_packet CHAT_PKT_CLOSE c]"
  let ?env = "env\<lparr>de_ice_events := map (\<lambda>p. Ice_received (Some p)) ?ps\<rparr>"
  let ?ice = "receive_all ?ps (cd_ice st)"
  let ?st1 = "st\<lparr>cd_ice := drop_head ?ice\<rparr>"
  let ?st2 = "?st1\<lparr>cd_crypto_stream := (cd_crypto_stream st)\<lparr>st_pull := pull\<rparr>, cd_session_state := CHATD_SESSION_CLOSING,
     cd_ipc_out := cd_ipc_out st @ [(cd_lookup_client_fd st, closed_line (cd_ice_peer st))]\<rparr>"
  let ?st3 = "end_chat CHATD_SESSION_CLOSED ?env ?st2"
  note ch = assms(1) [unfolded chatting_def secure_def]
  have ps: "\<forall>p \<in> set ?ps. length p \<le> 4096" "length (ring_packets (cd_ice st)) + length ?ps \<le> 8"
    using ch assms(6) by simp_all
  have "crypto_in_time env st" using ch by (simp add: crypto_in_time_def)
  then have svc: "st' = service_crypto_session ?env (st\<lparr>cd_ice := ?ice\<rparr>)"
    using service_with_crypto [OF _ _ _ _ ps] ch unfolding st'_def by blast
  have ring: "ring_inv ?ice" "ring_packets ?ice = wire_packet CHAT_PKT_CLOSE c # []" and ready: "is_ready ?ice"
    using receive_all_props [OF _ ps] ch by (auto simp: link_up_def)
  have "handle_ice_app_packet (wire_packet CHAT_PKT_CLOSE c) ?env ?st1 = (0, ?st3)"
    using ch assms(2-7)
    by (simp add: handle_chat_packet decrypt_chat_payload_def chat_crypto_secretstream_decrypt_def set_state_update end_chat_def
        snprintf_fits_def closed_line_def write_ipc_line_def)
  then have "process_received_ice_packet ?env (st\<lparr>cd_ice := ?ice\<rparr>) = (0, ?st3)"
    using process_packet [of "st\<lparr>cd_ice := ?ice\<rparr>" "wire_packet CHAT_PKT_CLOSE c" "[]" ?env] ring by simp
  moreover have "cd_ice ?st3 = chat_ice_session_init" by (simp add: end_chat_def set_state_update)
  then have "drain_secure 7 ?env ?st3 = ?st3" using session_init_ring by (intro drain_none) simp_all
  ultimately have "drain_secure 8 ?env (st\<lparr>cd_ice := ?ice\<rparr>) = ?st3"
    using drain_secure.simps(2) [of 7 ?env "st\<lparr>cd_ice := ?ice\<rparr>"] by (simp add: eval_nat_numeral)
  then have "st' = ?st3" using svc ready ch by (simp add: service_crypto_session_def)
  then show "chat_ended (de_sod env) st'" "cd_ipc_out st' = cd_ipc_out st @ [(cd_lookup_client_fd st, closed_line (cd_ice_peer st))]"
    using end_chat_ended(1) [of ?env ?st2] by (simp_all add: end_chat_def set_state_update)
qed

section \<open>The clients\<close>

text \<open>A turn in which the client leaves: the keyboard input ends, or it was interrupted.\<close>

definition leaving_turn :: "chat_turn \<Rightarrow> bool" where
  "leaving_turn turn \<longleftrightarrow> ct_interrupted turn \<or> ct_poll turn = Poll_eintr True \<or> ct_poll turn = Poll_ready None (Some None)"

lemma leaving_turn_step:
  assumes "leaving_turn turn" "\<forall>n>0. 0 < ct_write turn n"
  shows "chat_turn_step peer turn c = (Some CHAT_EXIT_SUCCESS, c\<lparr>cli_sent := cli_sent c @ close_command\<rparr>)"
  using assms(1) cli_write_ok [OF assms(2)]
  by (auto simp: leaving_turn_def chat_turn_step_def chat_input_def close_chat_def send_text_def close_command_def)

lemma closed_turn:
  assumes "nul \<notin> set name" "length name \<le> 32"
  shows "chat_turn_step peer (received wr (closed_line name)) c = (Some CHAT_EXIT_SUCCESS, say (''Chat closed by '' @ peer @ ''.'') c)"
proof -
  have "cstr (take 4095 (closed_line name)) = closed_line name"
    using assms by (simp add: closed_line_def cstr_id nul_def newline_def)
  then show ?thesis by (simp add: chat_turn_step_def received_def chat_response_def) (simp add: closed_line_def)
qed

section \<open>Property\<close>

text \<open>
  C4. Leaving a chat ends it on both sides: when the client of one daemon leaves (its input ends, it
  is interrupted, or its connection is lost) while both daemons are in matching encrypted sessions,
  its daemon sends the close packet, both daemons wipe all keys and streams of the session, detach
  their clients and count the session as closed, and the other client says so and exits with success.
\<close>

theorem leaving_ends_chat:
  assumes "stream_laws sod sync" and "de_sod envA = sod" and "de_sod envB = sod"
    and "chatting envA stA" and "0 \<le> cd_lookup_client_fd stA" and "chatting envB stB" and "0 \<le> cd_lookup_client_fd stB"
    and "streams_match sync stA stB" and "valid_username (cd_ice_peer stB)" and "leaving_turn turn" and "\<forall>n>0. 0 < ct_write turn n"
    and "de_ipc_write envB (cd_lookup_client_fd stB) (closed_line (cd_ice_peer stB))"
    and "chat_turn_step (cd_ice_peer stA) turn cA = (code, cA')"
    and "r = Read_data (drop (length (cli_sent cA)) (cli_sent cA')) \<or> r = Read_eof"
    and "stA' = service_active_chat_client (envA\<lparr>de_ipc_read := (\<lambda>fd. r)\<rparr>) stA"
    and "stB' = service_with envB (sent_since stA stA') stB"
  shows "code = Some CHAT_EXIT_SUCCESS \<and> chat_ended sod stA' \<and> chat_ended sod stB'
    \<and> (\<exists>line. cd_ipc_out stB' = cd_ipc_out stB @ [(cd_lookup_client_fd stB, line)]
         \<and> chat_turn_step (cd_ice_peer stB) (received wr line) cB =
           (Some CHAT_EXIT_SUCCESS, say (''Chat closed by '' @ cd_ice_peer stB @ ''.'') cB))"
proof -
  note m = assms(8) [unfolded streams_match_def]
  obtain push c pull where s:
    "secretstream_push sod (st_push (cd_crypto_stream stA)) [] secretstream_TAG_FINAL = Some (push, c)" "length c = 17"
    "secretstream_pull sod (st_pull (cd_crypto_stream stB)) c = Some (pull, [], secretstream_TAG_FINAL)"
    using assms(1) m by (fastforce simp: stream_laws_def)
  note left = leaving_turn_step [OF assms(10,11), of "cd_ice_peer stA" cA]
  have leaving: "leaving r" and code: "code = Some CHAT_EXIT_SUCCESS" using assms(13,14) left by (auto simp: leaving_def)
  have stA': "stA' = end_chat CHATD_SESSION_CLOSED (envA\<lparr>de_ipc_read := (\<lambda>fd. r)\<rparr>) (snd (send_encrypted_chat_close envA stA))"
    using assms(15) client_leaves [OF assms(4,5) leaving] by simp
  then have A: "chat_ended sod stA'" using end_chat_ended(1) [of "envA\<lparr>de_ipc_read := (\<lambda>fd. r)\<rparr>"] assms(2) by simp
  have "sent_since stA stA' = [wire_packet CHAT_PKT_CLOSE c]"
    using close_sent [OF assms(4), of push c] m s(1,2) assms(2) by (simp add: stA' sent_since_def end_chat_ended(2))
  then have stB': "stB' = service_with envB [wire_packet CHAT_PKT_CLOSE c] stB" using assms(16) by simp
  have name: "length (cd_ice_peer stB) \<le> 32" "nul \<notin> set (cd_ice_peer stB)"
    using assms(9) plain_nul plain_username by (auto simp: valid_username_iff)
  have B: "chat_ended sod stB'" "cd_ipc_out stB' = cd_ipc_out stB @ [(cd_lookup_client_fd stB, closed_line (cd_ice_peer stB))]"
    using close_received [OF assms(6) _ assms(7) name(1) _ s(2) assms(12), of pull] m s(3) assms(3) by (simp_all add: stB')
  show ?thesis using code A B closed_turn [OF name(2,1)] by blast
qed

theorem leaving_ends_chat_witness:
  "\<exists>stA' stB' line. chat_ended demo stA' \<and> chat_ended demo stB'
     \<and> cd_ipc_out stB' = cd_ipc_out (demo_secure (sample_identity ''bob'' 8) (sample_identity ''alice'' 7)) @ [(7, line)]
     \<and> fst (chat_turn_step ''alice'' (received int line) cli_start) = Some CHAT_EXIT_SUCCESS"
proof -
  let ?A = "demo_secure (sample_identity ''alice'' 7) (sample_identity ''bob'' 8)"
  let ?B = "demo_secure (sample_identity ''bob'' 8) (sample_identity ''alice'' 7)"
  let ?turn = "\<lparr>ct_interrupted = True, ct_poll = Poll_eintr True, ct_write = int\<rparr>"
  have b: "cd_lookup_client_fd ?A = 7" "cd_lookup_client_fd ?B = 7" "cd_ice_peer ?B = ''alice''" "de_sod demo_env = demo"
    by (simp_all add: demo_secure_def demo_session_def sample_identity_def chatd_initial_def demo_env_def)
  have n: "valid_username (cd_ice_peer ?B)" "leaving_turn ?turn" "\<forall>n>0. 0 < ct_write ?turn n"
    "de_ipc_write demo_env (cd_lookup_client_fd ?B) (closed_line (cd_ice_peer ?B))" "0 \<le> cd_lookup_client_fd ?A" "0 \<le> cd_lookup_client_fd ?B"
    using contacts_names by (simp_all add: b leaving_turn_def demo_env_def)
  obtain code cA' where t: "chat_turn_step (cd_ice_peer ?A) ?turn cli_start = (code, cA')" by force
  from leaving_ends_chat [OF demo_stream_laws b(4) b(4) demo_secure_ok(1) n(5) demo_secure_ok(1) n(6) demo_secure_ok(2) n(1-4) t disjI2,
      OF refl refl refl, of int cli_start] show ?thesis unfolding b(2,3) by fastforce
qed

end
