(* ===== verification/Spec2Isabelle.thy ===== *)
theory Spec2Isabelle
  imports Server_Main System_Session Daemon_Main Client_Close
begin

text \<open>
  \<^bold>\<open>ProntoChat\<close>: end-to-end encrypted chat between users who know each other's names.

  \<^bold>\<open>The program.\<close> A control server (\<open>src/server\<close>) keeps a registry of names and identity keys, lets
  a daemon prove its identity by signing a challenge, answers who is online and forwards signaling
  messages. A daemon per user (\<open>src/daemon\<close>) holds the websocket to the server, negotiates a
  peer-to-peer connection by ICE, runs an authenticated key exchange over it and encrypts the
  messages. A command-line client (\<open>src/client\<close>) creates the identity, edits the configuration and
  talks to the daemon over a local socket. \<open>src/common\<close> has what they share: packet headers,
  cryptography, identity files, the contacts file with pinned keys, the socket path and the log.
  The daemons and the server exchange JSON texts, the daemons exchange packets, and the daemon and
  its client exchange lines.

  \<^bold>\<open>Foundations.\<close> \<open>Prelude\<close> has the shared types and generic lemmas; \<open>Libc\<close> models what the
  source uses of the C library (strings up to their zero byte, \<open>snprintf\<close> into a buffer, \<open>strstr\<close>,
  \<open>sscanf\<close> of words, \<open>fgets\<close>, \<open>atoi\<close>); \<open>Sodium\<close> is libsodium as a record of functions with its
  documented laws as named predicates, and the instance \<open>demo\<close> that satisfies all of them; \<open>Files\<close>
  is a file system as a map from normalised paths to directories and files, with the outcome of
  each call as a parameter.

  \<^bold>\<open>Components and their theories.\<close>
  \<^item> \<open>common/protocole.c\<close>: \<open>Protocole\<close>. Packet headers on 8 bytes with 32-bit words.
  \<^item> \<open>common/log.c\<close>: \<open>Log\<close>. Levels as a linear order, the two streams as texts.
  \<^item> \<open>common/crypto.c\<close>: \<open>Crypto\<close>. The handshake and secret stream records, one function per
    operation, results as in the source.
  \<^item> \<open>common/contacts.c\<close>: \<open>Contacts\<close>. The text of \<open>contacts.db\<close>, parsed line by line. The locale
    \<open>pin_store\<close> is the contract of a trust-on-first-use store.
  \<^item> \<open>common/identity.c\<close>: \<open>Identity\<close> (paths, names of results), \<open>Identity_Files\<close> (all operations on
    files), \<open>Identity_Config\<close> (changing the server address), \<open>Identity_Create\<close> (creating and loading).
  \<^item> \<open>common/ipc.c\<close>: \<open>Ipc\<close>.
  \<^item> \<open>server/users.c\<close>: \<open>Users\<close>. The 256 slots with the search loops. The locale \<open>user_directory\<close> is
    the contract of the registry.
  \<^item> \<open>server/main.c\<close>: \<open>Json\<close> (the extractors, which the daemon has a copy of), \<open>Server\<close> (sessions,
    all handlers, the websocket callback, the step relation and the invariant), \<open>Server_Login\<close>
    (runs and login messages), \<open>Server_Safety\<close> (properties), \<open>Server_Main\<close> (\<open>main\<close>).
  \<^item> \<open>daemon/ice.c\<close>: \<open>Ice\<close>. The session record with the receive ring, the callbacks of libnice, the
    start with the sequence of library calls it makes. The locale \<open>lossy_queue\<close> is the contract of
    the ring.
  \<^item> \<open>daemon/main.c\<close>: \<open>Daemon_State\<close> (\<open>chatd_state_t\<close>, the queue of control messages, lines to the
    client), \<open>Daemon_Session\<close> (ICE session, packets, key exchange, messages), \<open>Daemon_Control\<close>
    (\<open>service_crypto_session\<close>, \<open>service_ice_session\<close>, \<open>handle_receive\<close> and the websocket callback),
    \<open>Daemon_Ipc\<close> (client commands, the events of the main loop and the reachable states),
    \<open>Daemon_Config\<close> (the ICE configuration) and \<open>Daemon_Main\<close> (\<open>main\<close> from set-up over its loop to
    shutdown, with the signal handler and the wakeup thread). The proofs are in
    \<open>Daemon_Safety\<close> (the security invariant), \<open>Daemon_Buffers\<close> (the memory invariant),
    \<open>Daemon_Loops\<close> (loops on the client's socket; the locale \<open>daemon_invariant\<close> is the contract of
    an invariant of the events, met by both invariants), \<open>Daemon_Exchange\<close> (two daemons exchange packets),
    \<open>Daemon_Signaling\<close> (two daemons agree on a session), \<open>Daemon_Negotiation\<close> (they exchange session
    descriptions and connect) and \<open>Daemon_Properties\<close>.
  \<^item> \<open>client/main.c\<close>: \<open>Client\<close>. Every command, the chat loop as a fold over what its rounds find, and
    \<open>main\<close>; \<open>Client_Chat\<close> has its properties and the way of a text from keyboard to screen,
    \<open>Client_Close\<close> the end of a chat.
  \<^item> Composition: \<open>System_Login\<close> (a daemon logs in at the server), \<open>System_Chat\<close> (two daemons log in
    and open a chat through the server) and \<open>System_Session\<close> (the whole way from two daemons that
    have just started to an encrypted session and to the texts on the screens of both clients).

  \<^bold>\<open>How state and effects correspond.\<close> Each C struct is a record with one field per member; each
  function is a definition that takes the record and returns its result code and the new record.
  Output that leaves the process is appended to a list in the state (texts to the server, packets
  to the peer, lines to the client, closed descriptors, library calls). What the environment
  answers (libsodium, libwebsockets, libnice, the system calls, the clock, random bytes) is a
  parameter: a field of \<open>sodium\<close>, \<open>denv\<close>, \<open>file_io\<close>, \<open>contacts_io\<close>, \<open>main_env\<close>, \<open>sock\<close> or an event.
  The server and the daemon are transition systems: \<open>server_step\<close> and \<open>chatd_event_step\<close> with
  \<open>server_reachable\<close> and \<open>chatd_reachable\<close>. Reading freed session memory in the server is the
  value \<open>Use_after_free\<close>, so its absence is a theorem.

  \<^bold>\<open>What the theorems show.\<close>
  \<^item> Secrecy and authenticity: a secure session of a reachable daemon is with the holder of the key
    pinned for its peer (C1); both sides of the handshake derive matching keys and a completed
    handshake was signed by the peer (C8, C11); encryption and decryption invert each other (C20);
    a pinned key never changes and the store refines a partial map (C9, C22).
  \<^item> The system works: from login over the request, the answer and the session descriptions that the
    server carries to an encrypted session (C2), on to the texts typed at one client and shown at the
    other (C3); a client that leaves ends the chat on both sides, which keep no secret of it (C4);
    login (C5).
  \<^item> The server: who is authenticated signed a fresh challenge (C6, C23), presence is earned (C10),
    forwarded messages name their sender (C7), the invariant (C13), memory safety of runs in which
    no connection greets again (C15), registered keys are immutable and the registry refines a
    directory (C24, C32).
  \<^item> The daemon: every buffer and index stays in bounds in every reachable state (C12), also in the
    main loop (C14); a signal ends the daemon and everything acquired is released on every path of
    \<open>main\<close> (C28) and of the ICE start (C33); accepted ICE configurations are consistent (C30); the receive ring delivers the
    latest packets in order (C21); its socket loops end and agree with a reference (C25, C26).
  \<^item> Files: an identity that was created is the one loaded (C16), nothing else is touched (C19); the
    server address set is the one read, and a failed change leaves the configuration as it was
    (C17, C18).
  \<^item> Texts and packets: headers round trip (C27), the extractor finds what was printed (C31).
  \<^item> The client: descriptors and exit codes (C29).
  \<^item> Behaviour that was not intended: C34 to C40, each with the state that shows it.

  \<^bold>\<open>Bounds and fuel.\<close> No definition has fuel. Loops are structural recursions or have a
  termination proof. The loops that run until a signal (the main loops, the client's chat loop, the
  server's service loop) run over the list of what their rounds find, of any length. Loops that a
  system call can repeat for ever (\<open>EINTR\<close>, a full socket) run over the list of its answers; C26
  shows when they end. Buffer sizes are those of the source.

  \<^bold>\<open>Not modelled.\<close> libsodium, libwebsockets, libnice and GLib are parameters. The two threads of the
  daemon do not interleave in the model: \<open>service_wakeup_thread_main\<close> only reads \<open>g_interrupted\<close> and
  wakes up libwebsockets, so the daemon's state is changed by one thread only, and of the mutex only
  its creation and destruction are modelled. A signal takes effect at the next test of the loop.
  Formatting of log messages, tests and build files are left out, and the empty files of
  \<open>src/client\<close> and \<open>src/server/presence.c\<close> have nothing to model.
\<close>

end
